(* ===== verification/Prelude.thy ===== *)
theory Prelude
  imports Main "HOL-Library.AList" "HOL-Library.List_Lexorder" "HOL-Library.Char_ord"
    "HOL-Library.Word" "HOL-Library.Multiset" "HOL-Library.Sublist"
begin

text \<open>
  Shared vocabulary of the development: Go maps as association lists, Go slices with their
  nil value, machine integers, results of fallible functions, and the lemma collections the
  components extend.

  A Go \<open>map[K]V\<close> is an association list read with \<open>map_of\<close>, written with \<open>AList.update\<close>
  and shrunk with \<open>AList.delete\<close>; the nil map is the empty list (reading either gives no
  binding).  A Go slice whose nil value is observable (it is compared with
  \<open>reflect.DeepEqual\<close>, or sent to an API) is an \<open>option\<close>: \<open>None\<close> is the nil slice.
\<close>

section \<open>Lemma collections\<close>

named_theorems go_defs \<open>definitions of small Go library functions, unfolded for evaluation\<close>
named_theorems res_simps \<open>equations of the result combinators\<close>
named_theorems act_simps \<open>equations of the API action combinators\<close>

section \<open>Machine integers, maps, slices\<close>

type_synonym int32 = "32 word"
type_synonym uint32 = "32 word"
type_synonym ('k, 'v) gomap = "('k \<times> 'v) list"
type_synonym 'a slice = "'a list option"

abbreviation gm_keys :: "('k, 'v) gomap \<Rightarrow> 'k list" where
  "gm_keys m \<equiv> map fst m"

text \<open>The elements of a slice: a nil slice ranges over nothing.\<close>

definition elems :: "'a slice \<Rightarrow> 'a list" where
  "elems s = (case s of None \<Rightarrow> [] | Some xs \<Rightarrow> xs)"

lemma elems_simps [simp]: "elems None = []" "elems (Some xs) = xs"
  by (simp_all add: elems_def)

text \<open>Go's \<open>append(s, xs...)\<close>: appending nothing to nil leaves nil.\<close>

definition sappend :: "'a slice \<Rightarrow> 'a list \<Rightarrow> 'a slice" where
  "sappend s xs = (if xs = [] then s else Some (elems s @ xs))"

lemma elems_sappend [simp]: "elems (sappend s xs) = elems s @ xs"
  by (simp add: sappend_def)

text \<open>Reading a Go map without the \<open>ok\<close> flag gives the zero value for a missing key.\<close>

definition getOrZero :: "('k, string) gomap \<Rightarrow> 'k \<Rightarrow> string" where
  "getOrZero m k = (case map_of m k of None \<Rightarrow> '''' | Some v \<Rightarrow> v)"

lemma map_of_update [simp]: "map_of (AList.update k v m) = (map_of m)(k \<mapsto> v)"
  by (rule ext) (simp add: update_conv')

lemma map_of_delete [simp]: "map_of (AList.delete k m) = (map_of m)(k := None)"
  by (rule ext) (simp add: delete_conv')

lemma distinct_gm_update [simp]:
  "distinct (gm_keys m) \<Longrightarrow> distinct (gm_keys (AList.update k v m))"
  by (rule distinct_update)

lemma distinct_gm_delete [simp]:
  "distinct (gm_keys m) \<Longrightarrow> distinct (gm_keys (AList.delete k m))"
  by (rule distinct_delete)

lemma set_gm_keys_update [simp]: "set (gm_keys (AList.update k v m)) = insert k (set (gm_keys m))"
  by (metis dom_map_of_conv_image_fst dom_fun_upd map_of_update option.distinct(1) set_map)

section \<open>Results of fallible functions\<close>

text \<open>
  A function returning \<open>(T, error)\<close> gives \<open>Inl e\<close> for an error and \<open>Inr x\<close> for a value.
  \<open>rbind r f\<close> is the Go idiom "\<open>x, err := r; if err != nil { return err }; f(x)\<close>";
  \<open>rwrap w r\<close> replaces the error \<open>e\<close> by \<open>w e\<close>, for "\<open>return fmt.Errorf(..., err)\<close>".
\<close>

definition rbind :: "'e + 'a \<Rightarrow> ('a \<Rightarrow> 'e + 'b) \<Rightarrow> 'e + 'b" where
  "rbind r f = (case r of Inl e \<Rightarrow> Inl e | Inr x \<Rightarrow> f x)"

definition rwrap :: "('e \<Rightarrow> 'f) \<Rightarrow> 'e + 'a \<Rightarrow> 'f + 'a" where
  "rwrap w r = (case r of Inl e \<Rightarrow> Inl (w e) | Inr x \<Rightarrow> Inr x)"

lemma rbind_simps [simp, res_simps]:
  "rbind (Inl e) f = Inl e" "rbind (Inr x) f = f x"
  by (simp_all add: rbind_def)

lemma rwrap_simps [simp, res_simps]:
  "rwrap w (Inl e) = Inl (w e)" "rwrap w (Inr x) = Inr x"
  by (simp_all add: rwrap_def)

lemma rbind_Inr_iff: "rbind r f = Inr y \<longleftrightarrow> (\<exists>x. r = Inr x \<and> f x = Inr y)"
  by (cases r) simp_all

lemma rbind_Inl_iff: "rbind r f = Inl e \<longleftrightarrow> r = Inl e \<or> (\<exists>x. r = Inr x \<and> f x = Inl e)"
  by (cases r) simp_all

lemma rwrap_Inr_iff [simp]: "rwrap w r = Inr y \<longleftrightarrow> r = Inr y"
  by (cases r) simp_all

lemma rbind_InrE:
  assumes "rbind r f = Inr y"
  obtains x where "r = Inr x" "f x = Inr y"
  using assms by (auto simp: rbind_Inr_iff)

lemma rbind_split: "P (rbind r f) \<longleftrightarrow> (\<forall>e. r = Inl e \<longrightarrow> P (Inl e)) \<and> (\<forall>x. r = Inr x \<longrightarrow> P (f x))"
  by (cases r) simp_all

section \<open>Lists\<close>

lemma find_Some_iff_split:
  "find P xs = Some x \<longleftrightarrow> (\<exists>ys zs. xs = ys @ x # zs \<and> P x \<and> (\<forall>y\<in>set ys. \<not> P y))"
proof (induction xs)
  case Nil
  then show ?case by simp
next
  case (Cons a xs)
  show ?case
  proof (cases "P a")
    case True
    then show ?thesis
      by (auto simp: Cons_eq_append_conv)
  next
    case False
    have "(\<exists>ys zs. a # xs = ys @ x # zs \<and> P x \<and> (\<forall>y\<in>set ys. \<not> P y)) \<longleftrightarrow>
          (\<exists>ys zs. xs = ys @ x # zs \<and> P x \<and> (\<forall>y\<in>set ys. \<not> P y))" (is "?L \<longleftrightarrow> ?R")
    proof
      assume ?L
      with False show ?R by (auto simp: Cons_eq_append_conv)
    next
      assume ?R
      then obtain ys zs where "xs = ys @ x # zs" "P x" "\<forall>y\<in>set ys. \<not> P y" by blast
      with False show ?L by (intro exI [of _ "a # ys"] exI [of _ zs]) simp
    qed
    with False Cons.IH show ?thesis by simp
  qed
qed

lemma sort_eq_iff_mset:
  fixes xs ys :: "'a::linorder list"
  shows "sort xs = sort ys \<longleftrightarrow> mset xs = mset ys"
  by (metis mset_sort properties_for_sort sorted_sort)

end
