(* ===== verification/GoStrings.thy ===== *)
theory GoStrings
  imports Prelude
begin

text \<open>
  The functions of Go's \<open>strings\<close> package and of \<open>fmt\<close>'s \<open>%d\<close> verb that the controller
  uses.  A Go string is its list of bytes.  Case mapping and white space are those of ASCII:
  bytes from 0x80 on are kept as they are, which is what Go does on the ASCII names, zones
  and numbers found in annotations.
\<close>

section \<open>Characters\<close>

definition is_digit :: "char \<Rightarrow> bool" where
  "is_digit c = (CHR ''0'' \<le> c \<and> c \<le> CHR ''9'')"

definition is_upper :: "char \<Rightarrow> bool" where
  "is_upper c = (CHR ''A'' \<le> c \<and> c \<le> CHR ''Z'')"

definition is_lower :: "char \<Rightarrow> bool" where
  "is_lower c = (CHR ''a'' \<le> c \<and> c \<le> CHR ''z'')"

definition is_space :: "char \<Rightarrow> bool" where
  "is_space c = (c = CHR '' '' \<or> (CHR 0x09 \<le> c \<and> c \<le> CHR 0x0D))"

definition digit_val :: "char \<Rightarrow> nat" where
  "digit_val c = of_char c - 48"

definition lower_char :: "char \<Rightarrow> char" where
  "lower_char c = (if is_upper c then char_of ((of_char c :: nat) + 32) else c)"

section \<open>Searching and splitting\<close>

definition strings_ToLower :: "string \<Rightarrow> string" where
  "strings_ToLower s = map lower_char s"

definition strings_HasPrefix :: "string \<Rightarrow> string \<Rightarrow> bool" where
  "strings_HasPrefix s p = prefix p s"

definition strings_HasSuffix :: "string \<Rightarrow> string \<Rightarrow> bool" where
  "strings_HasSuffix s p = suffix p s"

definition strings_TrimPrefix :: "string \<Rightarrow> string \<Rightarrow> string" where
  "strings_TrimPrefix s p = (if prefix p s then drop (length p) s else s)"

definition strings_TrimSuffix :: "string \<Rightarrow> string \<Rightarrow> string" where
  "strings_TrimSuffix s p = (if suffix p s then take (length s - length p) s else s)"

definition strings_TrimSpace :: "string \<Rightarrow> string" where
  "strings_TrimSpace s = rev (dropWhile is_space (rev (dropWhile is_space s)))"

text \<open>\<open>strings.ReplaceAll(s, c, "")\<close> for a single character \<open>c\<close>.\<close>

definition strings_RemoveAll :: "string \<Rightarrow> char \<Rightarrow> string" where
  "strings_RemoveAll s c = filter (\<lambda>x. x \<noteq> c) s"

text \<open>\<open>strings.Cut\<close>: the text before and after the first occurrence of \<open>sep\<close>.\<close>

fun strings_Cut :: "string \<Rightarrow> string \<Rightarrow> (string \<times> string) option" where
  "strings_Cut [] sep = (if sep = [] then Some ([], []) else None)"
| "strings_Cut (c # cs) sep =
     (if prefix sep (c # cs) then Some ([], drop (length sep) (c # cs))
      else map_option (\<lambda>(a, b). (c # a, b)) (strings_Cut cs sep))"

definition strings_Contains :: "string \<Rightarrow> string \<Rightarrow> bool" where
  "strings_Contains s sub = (strings_Cut s sub \<noteq> None)"

lemma strings_Cut_Some:
  "strings_Cut s sep = Some (a, b) \<Longrightarrow> s = a @ sep @ b"
proof (induction s arbitrary: a)
  case Nil
  then show ?case by (simp split: if_splits)
next
  case (Cons c cs)
  show ?case
  proof (cases "prefix sep (c # cs)")
    case True
    with Cons.prems show ?thesis by (auto simp: prefix_def)
  next
    case False
    with Cons.prems obtain a' where "strings_Cut cs sep = Some (a', b)" "a = c # a'"
      by (auto split: option.splits)
    with Cons.IH show ?thesis by simp
  qed
qed

lemma strings_Cut_length:
  "sep \<noteq> [] \<Longrightarrow> strings_Cut s sep = Some (a, b) \<Longrightarrow> length b < length s"
  by (drule strings_Cut_Some) (cases sep; simp)

text \<open>\<open>strings.Split\<close>; an empty separator explodes the string into its characters.\<close>

function strings_Split :: "string \<Rightarrow> string \<Rightarrow> string list" where
  "strings_Split s sep =
     (if sep = [] then map (\<lambda>c. [c]) s
      else (case strings_Cut s sep of None \<Rightarrow> [s] | Some (a, b) \<Rightarrow> a # strings_Split b sep))"
  by pat_completeness auto
termination
  by (relation "measure (\<lambda>(s, sep). length s)") (auto intro: strings_Cut_length)

declare strings_Split.simps [simp del]

fun strings_Join :: "string list \<Rightarrow> string \<Rightarrow> string" where
  "strings_Join [] sep = ''''"
| "strings_Join [x] sep = x"
| "strings_Join (x # y # ys) sep = x @ sep @ strings_Join (y # ys) sep"

lemma strings_Split_not_Nil: "sep \<noteq> [] \<Longrightarrow> strings_Split s sep \<noteq> []"
  by (subst strings_Split.simps) (simp split: option.split)

lemma strings_Join_Cons: "xs \<noteq> [] \<Longrightarrow> strings_Join (x # xs) sep = x @ sep @ strings_Join xs sep"
  by (cases xs) simp_all

lemma strings_Join_Split: "sep \<noteq> [] \<Longrightarrow> strings_Join (strings_Split s sep) sep = s"
proof (induction s sep rule: strings_Split.induct)
  case (1 s sep)
  show ?case
  proof (cases "strings_Cut s sep")
    case None
    with "1.prems" show ?thesis by (simp add: strings_Split.simps [of s sep])
  next
    case (Some ab)
    then obtain a b where ab: "strings_Cut s sep = Some (a, b)" by (cases ab) simp
    from "1.IH" [OF "1.prems" ab refl "1.prems"]
    have "strings_Join (strings_Split b sep) sep = b" .
    with ab "1.prems" show ?thesis
      by (simp add: strings_Split.simps [of s sep] strings_Join_Cons strings_Split_not_Nil
          strings_Cut_Some [symmetric])
  qed
qed

text \<open>Splitting at a single character, as a structural recursion.\<close>

fun splitc :: "char \<Rightarrow> string \<Rightarrow> string list" where
  "splitc c [] = [[]]"
| "splitc c (x # xs) =
     (if x = c then [] # splitc c xs
      else (case splitc c xs of [] \<Rightarrow> [[x]] | y # ys \<Rightarrow> (x # y) # ys))"

lemma splitc_not_Nil [simp]: "splitc c s \<noteq> []"
  by (cases s) (auto split: list.split)

lemma strings_Cut_char:
  "strings_Cut s [c] =
     (if c \<in> set s then Some (takeWhile (\<lambda>x. x \<noteq> c) s, tl (dropWhile (\<lambda>x. x \<noteq> c) s)) else None)"
  by (induction s) auto

lemma splitc_takeWhile:
  "splitc c s = (if c \<in> set s
     then takeWhile (\<lambda>x. x \<noteq> c) s # splitc c (tl (dropWhile (\<lambda>x. x \<noteq> c) s)) else [s])"
  by (induction s) auto

lemma strings_Split_char [go_defs]: "strings_Split s [c] = splitc c s"
proof (induction s "[c]" rule: strings_Split.induct)
  case (1 s)
  show ?case
  proof (cases "c \<in> set s")
    case True
    then have cut: "strings_Cut s [c] =
        Some (takeWhile (\<lambda>x. x \<noteq> c) s, tl (dropWhile (\<lambda>x. x \<noteq> c) s))"
      by (simp add: strings_Cut_char)
    from "1.hyps" [OF _ cut refl]
    have "strings_Split (tl (dropWhile (\<lambda>x. x \<noteq> c) s)) [c] =
        splitc c (tl (dropWhile (\<lambda>x. x \<noteq> c) s))"
      by simp
    with True cut show ?thesis
      by (subst strings_Split.simps, subst splitc_takeWhile) simp
  next
    case False
    then show ?thesis
      by (subst strings_Split.simps, subst splitc_takeWhile) (simp add: strings_Cut_char)
  qed
qed

lemma splitc_no_sep: "c \<notin> set s \<Longrightarrow> splitc c s = [s]"
  by (simp add: splitc_takeWhile)

lemma splitc_append_sep: "c \<notin> set a \<Longrightarrow> splitc c (a @ c # b) = a # splitc c b"
  by (induction a) auto

lemma splitc_pieces: "p \<in> set (splitc c s) \<Longrightarrow> c \<notin> set p \<and> set p \<subseteq> set s"
proof (induction s arbitrary: p)
  case Nil
  then show ?case by simp
next
  case (Cons x xs)
  obtain y ys where y: "splitc c xs = y # ys"
    by (cases "splitc c xs") simp_all
  show ?case
  proof (cases "x = c")
    case True
    with Cons show ?thesis by auto
  next
    case False
    with Cons.prems y have "p = x # y \<or> p \<in> set ys" by auto
    with Cons.IH [of y] Cons.IH [of p] y False show ?thesis by auto
  qed
qed

lemma splitc_Join: "strings_Join (splitc c s) [c] = s"
  using strings_Join_Split [of "[c]" s] by (simp add: strings_Split_char)

lemma length_splitc: "length (splitc c s) = Suc (count_list s c)"
  by (induction s) (auto split: list.split)

lemma splitc_eq_two: "splitc c s = [a, b] \<longleftrightarrow> s = a @ c # b \<and> c \<notin> set a \<and> c \<notin> set b"
proof
  assume h: "splitc c s = [a, b]"
  have "strings_Join (splitc c s) [c] = s" by (rule splitc_Join)
  with h have "s = a @ c # b" by simp
  moreover have "c \<notin> set a" "c \<notin> set b"
    using splitc_pieces [of a c s] splitc_pieces [of b c s] h by auto
  ultimately show "s = a @ c # b \<and> c \<notin> set a \<and> c \<notin> set b" by simp
next
  assume "s = a @ c # b \<and> c \<notin> set a \<and> c \<notin> set b"
  then show "splitc c s = [a, b]" by (simp add: splitc_append_sep splitc_no_sep)
qed

section \<open>Lower case\<close>

lemma lower_char_fix: "\<not> is_upper c \<Longrightarrow> lower_char c = c"
  by (simp add: lower_char_def)

lemma strings_ToLower_fix: "(\<forall>c\<in>set s. \<not> is_upper c) \<Longrightarrow> strings_ToLower s = s"
  unfolding strings_ToLower_def by (rule map_idI) (simp add: lower_char_fix)

lemma is_upper_lower_char: "\<not> is_upper (lower_char c)"
proof (cases "is_upper c")
  case True
  then have b: "65 \<le> (of_char c :: nat)" "(of_char c :: nat) \<le> 90"
    by (simp_all add: is_upper_def less_eq_char_def)
  then have "(of_char (lower_char c) :: nat) = of_char c + 32"
    using True by (simp add: lower_char_def)
  with b show ?thesis by (simp add: is_upper_def less_eq_char_def)
next
  case False
  then show ?thesis by (simp add: lower_char_def)
qed

lemma strings_ToLower_idem [simp]: "strings_ToLower (strings_ToLower s) = strings_ToLower s"
  by (rule strings_ToLower_fix) (auto simp: strings_ToLower_def is_upper_lower_char)

lemma strings_ToLower_append: "strings_ToLower (a @ b) = strings_ToLower a @ strings_ToLower b"
  by (simp add: strings_ToLower_def)

section \<open>Formatting integers with \<open>%d\<close>\<close>

fun nat_dec :: "nat \<Rightarrow> string" where
  "nat_dec n = (if n < 10 then [char_of (48 + n)]
                else nat_dec (n div 10) @ [char_of (48 + n mod 10)])"

declare nat_dec.simps [simp del]

definition fmt_d :: "int \<Rightarrow> string" where
  "fmt_d i = (if i < 0 then CHR ''-'' # nat_dec (nat (- i)) else nat_dec (nat i))"

lemma of_char_digit: "n < 10 \<Longrightarrow> (of_char (char_of (48 + n)) :: nat) = 48 + n"
  by simp

lemma nat_dec_digits: "c \<in> set (nat_dec n) \<Longrightarrow> is_digit c"
proof (induction n rule: nat_dec.induct)
  case (1 n)
  have d: "is_digit (char_of (48 + k))" if "k < 10" for k :: nat
    using that by (simp add: is_digit_def less_eq_char_def)
  show ?case
    using "1.prems" "1.IH" d [of n] d [of "n mod 10"]
    by (subst (asm) nat_dec.simps) (auto split: if_splits)
qed

lemma nat_dec_not_Nil [simp]: "nat_dec n \<noteq> []"
  by (subst nat_dec.simps) simp

text \<open>Reading the digits back: decimal printing is injective.\<close>

definition dec_val :: "string \<Rightarrow> nat" where
  "dec_val s = foldl (\<lambda>n c. n * 10 + digit_val c) 0 s"

lemma dec_val_nat_dec: "dec_val (nat_dec n) = n"
proof (induction n rule: nat_dec.induct)
  case (1 n)
  show ?case
  proof (cases "n < 10")
    case True
    then show ?thesis
      by (subst nat_dec.simps) (simp add: dec_val_def digit_val_def of_char_digit)
  next
    case False
    with "1.IH" have "dec_val (nat_dec (n div 10)) = n div 10" by simp
    then have "dec_val (nat_dec n) = n div 10 * 10 + (48 + n mod 10 - 48)"
      using False
      by (subst nat_dec.simps) (simp add: dec_val_def digit_val_def)
    then show ?thesis by simp
  qed
qed

lemma fmt_d_inj: "fmt_d i = fmt_d j \<Longrightarrow> i = j"
proof -
  assume h: "fmt_d i = fmt_d j"
  have nd: "CHR ''-'' \<notin> set (nat_dec n)" for n
    using nat_dec_digits [of "CHR ''-''" n] by (auto simp: is_digit_def)
  have neq: "CHR ''-'' # xs \<noteq> nat_dec n" for xs n
    using nd [of n] by (metis list.set_intros(1))
  have "nat_dec m = nat_dec n \<Longrightarrow> m = n" for m n
    by (metis dec_val_nat_dec)
  with h neq [symmetric] neq show "i = j"
    by (fastforce simp: fmt_d_def split: if_splits)
qed

end
