(* ===== verification/Errors.thy ===== *)
theory Errors
  imports Prelude
begin

text \<open>
  Error values (\<open>scaleway/errors.go\<close>, \<open>scaleway/utils.go\<close>).  The sentinel errors of the
  package and of \<open>k8s.io/cloud-provider\<close> are constructors, so \<open>err == Sentinel\<close> is equality.
  \<open>Errorf f w\<close> is the result of \<open>fmt.Errorf\<close> with format \<open>f\<close>; \<open>w\<close> is the error wrapped
  with \<open>%w\<close>, if any.  The text of the other arguments is not kept.  \<open>GoPanic\<close> stands for a
  run-time panic, such as reading through a nil pointer.  An error of an API call
  is a value of its own type, so it is never one of the sentinels.
\<close>

datatype api_error =
    ResourceNotFoundError
  | ResponseError int
  | OtherApiError string

datatype err =
    BadProviderID
  | InstanceDuplicated
  | IPAddressNotFound
  | IPAddressInUse
  | LoadBalancerNotFound
  | LoadBalancerDuplicated
  | LoadBalancerNotReady
  | ErrLoadBalancerInvalidAnnotation
  | ErrLoadBalancerInvalidLoadBalancerID
  | AnnotationError string string
  | InstanceNotFound
  | NotImplemented
  | NumErrorSyntax string
  | NumErrorRange string
  | DurationError string
  | ApiErr api_error
  | LibErr string
  | GoPanic string
  | Errorf string "err option"

text \<open>\<open>NewAnnorationError\<close> and \<open>AnnotationError.Error\<close>.\<close>

definition NewAnnorationError :: "string \<Rightarrow> string \<Rightarrow> err" where
  "NewAnnorationError key value = AnnotationError key value"

definition AnnotationError_Error :: "string \<Rightarrow> string \<Rightarrow> string" where
  "AnnotationError_Error key value =
     ''annotation '' @ [CHR 0x27] @ key @ [CHR 0x27] @
     '' is missing or has invalid value '' @ [CHR 0x27] @ value"

text \<open>\<open>errors.Is(err, target)\<close>: follow the chain of wrapped errors.\<close>

fun errors_Is :: "err \<Rightarrow> err \<Rightarrow> bool" where
  "errors_Is (Errorf f w) target =
     (Errorf f w = target \<or> (case w of None \<Rightarrow> False | Some e \<Rightarrow> errors_Is e target))"
| "errors_Is e target = (e = target)"

lemma errors_Is_refl [simp]: "errors_Is e e"
  by (cases e) simp_all

text \<open>\<open>is404Error\<close> is a type switch on the error itself; it does not unwrap.\<close>

definition is404Error :: "err \<Rightarrow> bool" where
  "is404Error e = (case e of
      ApiErr ResourceNotFoundError \<Rightarrow> True
    | ApiErr (ResponseError code) \<Rightarrow> code = 404
    | _ \<Rightarrow> False)"

lemma is404Error_iff:
  "is404Error e \<longleftrightarrow> e = ApiErr ResourceNotFoundError \<or> e = ApiErr (ResponseError 404)"
  by (auto simp: is404Error_def split: err.splits api_error.splits)

lemma is404Error_simps [simp]:
  "is404Error (ApiErr ResourceNotFoundError)"
  "is404Error (ApiErr (ResponseError code)) \<longleftrightarrow> code = 404"
  "\<not> is404Error (ApiErr (OtherApiError m))"
  "\<not> is404Error InstanceNotFound"
  "\<not> is404Error (Errorf f w)"
  by (simp_all add: is404Error_def)

end
