(* ===== verification/GoTime.thy ===== *)
theory GoTime
  imports GoStrings Errors
begin

text \<open>
  Go's \<open>time.ParseDuration\<close> and \<open>Duration.String\<close>.  A \<open>time.Duration\<close> is a number of nanoseconds, an \<open>int\<close> here;
  \<open>ParseDuration_bound\<close> shows that a parsed one fits in 64 bits.  The fractional part is
  computed by Go in float64 arithmetic; \<open>f64_round\<close> is rounding of a positive rational to
  the nearest double (ties to even), in the range the function uses, where no subnormal
  and no overflow occurs.
\<close>

type_synonym duration = int

section \<open>Rounding to float64\<close>

fun bit_length :: "nat \<Rightarrow> nat" where
  "bit_length n = (if n = 0 then 0 else Suc (bit_length (n div 2)))"

declare bit_length.simps [simp del]

text \<open>The double nearest to \<open>n / d\<close>, as a numerator and a denominator.\<close>

definition f64_round :: "nat \<Rightarrow> nat \<Rightarrow> nat \<times> nat" where
  "f64_round n d =
     (if n = 0 then (0, 1)
      else
        let e0 = int (bit_length n) - int (bit_length d) - 53;
            up = (\<lambda>e. if 0 \<le> e then n else n * 2 ^ nat (- e));
            dn = (\<lambda>e. if 0 \<le> e then d * 2 ^ nat e else d);
            e = (if 2 ^ 53 \<le> up e0 div dn e0 then e0 + 1 else e0);
            m = up e div dn e;
            r = up e mod dn e;
            m' = (if dn e < 2 * r \<or> (2 * r = dn e \<and> odd m) then m + 1 else m)
        in if 0 \<le> e then (m' * 2 ^ nat e, 1) else (m', 2 ^ nat (- e)))"

text \<open>\<open>uint64(float64(f) * (float64(unit) / scale))\<close>\<close>

definition duration_frac :: "nat \<Rightarrow> nat \<Rightarrow> nat \<Rightarrow> nat" where
  "duration_frac f unit scale =
     (let (a, b) = f64_round f 1;
          (c, d) = f64_round unit scale;
          (p, q) = f64_round (a * c) (b * d)
      in p div q)"

section \<open>Reading the digits\<close>

fun leadingInt :: "nat \<Rightarrow> string \<Rightarrow> nat option" where
  "leadingInt x [] = Some x"
| "leadingInt x (c # cs) =
     (if 2 ^ 63 div 10 < x then None
      else let y = x * 10 + digit_val c in if 2 ^ 63 < y then None else leadingInt y cs)"

fun leadingFraction :: "nat \<Rightarrow> nat \<Rightarrow> string \<Rightarrow> nat \<times> nat" where
  "leadingFraction x scale [] = (x, scale)"
| "leadingFraction x scale (c # cs) =
     (if (2 ^ 63 - 1) div 10 < x then (x, scale)
      else let y = x * 10 + digit_val c in
        if 2 ^ 63 < y then (x, scale) else leadingFraction y (scale * 10) cs)"

definition unitMap :: "string \<Rightarrow> nat option" where
  "unitMap = map_of
     [(''ns'', 1),
      (''us'', 1000),
      ([CHR 0xC2, CHR 0xB5, CHR ''s''], 1000),
      ([CHR 0xCE, CHR 0xBC, CHR ''s''], 1000),
      (''ms'', 1000000),
      (''s'', 1000000000),
      (''m'', 60000000000),
      (''h'', 3600000000000)]"

definition not_unit_char :: "char \<Rightarrow> bool" where
  "not_unit_char c = (c = CHR ''.'' \<or> is_digit c)"

section \<open>The loop\<close>

text \<open>
  The digits before the point, the digits after it, and what follows the number.
\<close>

definition split_number :: "string \<Rightarrow> string \<times> string \<times> string" where
  "split_number s =
     (let s1 = dropWhile is_digit s
      in if s1 \<noteq> [] \<and> hd s1 = CHR ''.''
         then (takeWhile is_digit s, takeWhile is_digit (tl s1), dropWhile is_digit (tl s1))
         else (takeWhile is_digit s, [], s1))"

text \<open>
  One round of the loop: a number, an optional fraction and a unit are read off \<open>s\<close>, and
  the accumulated nanoseconds \<open>d\<close> and the rest of the string are returned.
\<close>

definition duration_step :: "string \<Rightarrow> nat \<Rightarrow> string \<Rightarrow> err + nat \<times> string" where
  "duration_step orig d s =
     (if \<not> not_unit_char (hd s) then Inl (DurationError orig)
      else case split_number s of (pre, fr, s2) \<Rightarrow>
      case leadingInt 0 pre of
        None \<Rightarrow> Inl (DurationError orig)
      | Some v \<Rightarrow>
          let (f, scale) = leadingFraction 0 1 fr;
              u = takeWhile (\<lambda>c. \<not> not_unit_char c) s2
          in if pre = [] \<and> fr = [] then Inl (DurationError orig)
             else if u = [] then Inl (DurationError orig)
             else case unitMap u of
               None \<Rightarrow> Inl (DurationError orig)
             | Some unit \<Rightarrow>
                 if 2 ^ 63 div unit < v then Inl (DurationError orig)
                 else
                   let v1 = v * unit;
                       v2 = (if 0 < f then (v1 + duration_frac f unit scale) mod 2 ^ 64 else v1)
                   in if 0 < f \<and> 2 ^ 63 < v2 then Inl (DurationError orig)
                      else
                        let d1 = (d + v2) mod 2 ^ 64
                        in if 2 ^ 63 < d1 then Inl (DurationError orig)
                           else Inr (d1, dropWhile (\<lambda>c. \<not> not_unit_char c) s2))"

lemma length_dropWhile_takeWhile:
  assumes "takeWhile P xs \<noteq> []"
  shows "length (dropWhile P xs) < length xs"
proof -
  have "length xs = length (takeWhile P xs) + length (dropWhile P xs)"
    by (metis length_append takeWhile_dropWhile_id)
  with assms show ?thesis by simp
qed

lemma split_number_length: "split_number s = (pre, fr, s2) \<Longrightarrow> length s2 \<le> length s"
proof -
  assume h: "split_number s = (pre, fr, s2)"
  let ?s1 = "dropWhile is_digit s"
  have 1: "length ?s1 \<le> length s" by (rule length_dropWhile_le)
  have 2: "length (dropWhile is_digit (tl ?s1)) \<le> length (tl ?s1)" by (rule length_dropWhile_le)
  have 3: "length (tl ?s1) \<le> length ?s1" by simp
  show ?thesis
  proof (cases "?s1 \<noteq> [] \<and> hd ?s1 = CHR ''.''")
    case True
    with h have "s2 = dropWhile is_digit (tl ?s1)" by (simp add: split_number_def Let_def)
    with 2 have "length s2 \<le> length (tl ?s1)" by simp
    with 1 3 show ?thesis by linarith
  next
    case False
    with h have "s2 = ?s1" by (auto simp: split_number_def Let_def split: if_splits)
    with 1 show ?thesis by simp
  qed
qed

lemma duration_step_rest:
  assumes "duration_step orig d s = Inr (d', s')"
  obtains pre fr s2 where "split_number s = (pre, fr, s2)"
    "s' = dropWhile (\<lambda>c. \<not> not_unit_char c) s2"
    "takeWhile (\<lambda>c. \<not> not_unit_char c) s2 \<noteq> []" "d' \<le> 2 ^ 63"
proof -
  obtain pre fr s2 where sn: "split_number s = (pre, fr, s2)" by (metis prod_cases3)
  moreover from assms have "s' = dropWhile (\<lambda>c. \<not> not_unit_char c) s2 \<and>
      takeWhile (\<lambda>c. \<not> not_unit_char c) s2 \<noteq> [] \<and> d' \<le> 2 ^ 63"
    by (simp add: duration_step_def sn Let_def not_less
        del: takeWhile_eq_Nil_iff split: if_splits option.splits prod.splits)
  ultimately show ?thesis using that by blast
qed

lemma duration_step_shorter:
  assumes "duration_step orig d s = Inr (d', s')"
  shows "length s' < length s"
  using assms
proof (rule duration_step_rest)
  fix pre fr s2
  assume sn: "split_number s = (pre, fr, s2)"
    and s': "s' = dropWhile (\<lambda>c. \<not> not_unit_char c) s2"
    and ne: "takeWhile (\<lambda>c. \<not> not_unit_char c) s2 \<noteq> []"
  have "length s' < length s2" using length_dropWhile_takeWhile [OF ne] s' by simp
  with split_number_length [OF sn] show ?thesis by simp
qed

lemma duration_step_bound:
  "duration_step orig d s = Inr (d', s') \<Longrightarrow> d' \<le> 2 ^ 63"
  by (erule duration_step_rest)

function duration_loop :: "string \<Rightarrow> nat \<Rightarrow> string \<Rightarrow> err + nat" where
  "duration_loop orig d s =
     (if s = [] then Inr d
      else case duration_step orig d s of
        Inl e \<Rightarrow> Inl e
      | Inr (d', s') \<Rightarrow> duration_loop orig d' s')"
  by pat_completeness auto
termination
  by (relation "measure (\<lambda>(orig, d, s). length s)") (auto dest: duration_step_shorter)

declare duration_loop.simps [simp del]

definition time_ParseDuration :: "string \<Rightarrow> err + duration" where
  "time_ParseDuration s =
     (let neg = (s \<noteq> [] \<and> hd s = CHR ''-'');
          t = (if s \<noteq> [] \<and> (hd s = CHR ''-'' \<or> hd s = CHR ''+'') then tl s else s)
      in if t = ''0'' then Inr 0
         else if t = [] then Inl (DurationError s)
         else rbind (duration_loop s 0 t) (\<lambda>d.
           if neg then Inr (- int d)
           else if 2 ^ 63 - 1 < d then Inl (DurationError s)
           else Inr (int d)))"

section \<open>Bounds\<close>

lemma duration_loop_bound:
  "duration_loop orig d s = Inr e \<Longrightarrow> d \<le> 2 ^ 63 \<Longrightarrow> e \<le> 2 ^ 63"
proof (induction orig d s rule: duration_loop.induct)
  case (1 orig d s)
  show ?case
  proof (cases "s = []")
    case True
    with "1.prems" show ?thesis by (simp add: duration_loop.simps)
  next
    case False
    with "1.prems"(1) obtain d' s' where st: "duration_step orig d s = Inr (d', s')"
      and rec: "duration_loop orig d' s' = Inr e"
      by (subst (asm) duration_loop.simps) (auto split: sum.splits)
    from "1.IH" [OF False st refl rec duration_step_bound [OF st]] show ?thesis .
  qed
qed

lemma ParseDuration_bound:
  assumes "time_ParseDuration s = Inr d"
  shows "- (2 ^ 63) \<le> d \<and> d < 2 ^ 63"
proof -
  have key: "int e \<le> 2 ^ 63" if "duration_loop s 0 t = Inr e" for t e
  proof -
    have "e \<le> 2 ^ 63" using duration_loop_bound [OF that] by simp
    then show ?thesis by (metis of_nat_le_iff of_nat_numeral of_nat_power)
  qed
  from assms show ?thesis
    by (fastforce simp: time_ParseDuration_def Let_def rbind_Inr_iff split: if_splits dest!: key)
qed

section \<open>Printing\<close>

text \<open>
  \<open>Duration.String\<close>: the fraction without trailing zeros, and the units that are needed.
\<close>

definition fmtFrac :: "nat \<Rightarrow> nat \<Rightarrow> string \<times> nat" where
  "fmtFrac v prec =
     (let ds = nat_dec (v mod 10 ^ prec);
          padded = replicate (prec - length ds) (CHR ''0'') @ ds;
          frac = rev (dropWhile (\<lambda>c. c = CHR ''0'') (rev padded))
      in (if frac = [] then [] else CHR ''.'' # frac, v div 10 ^ prec))"

definition duration_String :: "duration \<Rightarrow> string" where
  "duration_String d =
     (let u = nat \<bar>d\<bar>; sign = (if d < 0 then ''-'' else '''') in
      if u = 0 then ''0s''
      else if u < 1000000000 then
        (let (unit, prec) = (if u < 1000 then (''ns'', 0)
                             else if u < 1000000 then ([CHR 0xC2, CHR 0xB5, CHR ''s''], 3)
                             else (''ms'', 6));
             (frac, v) = fmtFrac u prec
         in sign @ nat_dec v @ frac @ unit)
      else
        (let (frac, seconds) = fmtFrac u 9;
             minutes = seconds div 60;
             s = nat_dec (seconds mod 60) @ frac @ ''s'';
             ms = (if minutes = 0 then s else nat_dec (minutes mod 60) @ ''m'' @ s);
             hours = minutes div 60
         in sign @ (if hours = 0 then ms else nat_dec hours @ ''h'' @ ms)))"

end
