(* ===== verification/Types.thy ===== *)
theory Types
  imports GoStrings GoTime Errors
begin

text \<open>
  The data of the controller: the Kubernetes objects it reads, the resources of the
  Scaleway API it manages, and the third-party functions it calls.  Of each struct the
  fields that the code reads or writes are kept, under the code's field names with a prefix
  per type.  A pointer that may be nil is an \<open>option\<close>.  Where the code only compares an API
  enumeration with constants, the constants are constructors and every other value is
  \<open>...Other s\<close>; where it converts a string to the enumeration, the value is the string.
\<close>

section \<open>Kubernetes objects\<close>

datatype NodeAddressType =
    NodeHostName | NodeInternalIP | NodeExternalIP | NodeInternalDNS | NodeExternalDNS
  | NodeAddressOther string

record NodeAddress =
  addr_Type :: NodeAddressType
  addr_Address :: string

record Taint =
  taint_Key :: string
  taint_Value :: string
  taint_Effect :: string
  taint_TimeAdded :: "int option"

record Node =
  node_Name :: string
  node_Labels :: "(string, string) gomap"
  node_CreationTimestamp :: int
  node_ProviderID :: string
  node_Taints :: "Taint list"
  node_Addresses :: "NodeAddress list"

record ServicePort =
  port_Protocol :: string
  port_Port :: int32
  port_NodePort :: int32

record LoadBalancerIngress =
  ing_IP :: string
  ing_Hostname :: string
  ing_IPMode :: "string option"

record Service =
  svc_Namespace :: string
  svc_Name :: string
  svc_UID :: string
  svc_Labels :: "(string, string) gomap"
  svc_Annotations :: "(string, string) gomap"
  svc_DeletionTimestamp :: "int option"
  svc_Ports :: "ServicePort list"
  svc_LoadBalancerClass :: "string option"
  svc_LoadBalancerIP :: string
  svc_LoadBalancerSourceRanges :: "string list"
  svc_HealthCheckNodePort :: int32
  svc_StatusIngress :: "LoadBalancerIngress list"

definition v1_ProtocolTCP :: string where
  "v1_ProtocolTCP = ''TCP''"

definition v1_LoadBalancerIPModeVIP :: string where
  "v1_LoadBalancerIPModeVIP = ''VIP''"

definition v1_LoadBalancerIPModeProxy :: string where
  "v1_LoadBalancerIPModeProxy = ''Proxy''"

definition v1_TaintEffectNoExecute :: string where
  "v1_TaintEffectNoExecute = ''NoExecute''"

definition v1_TaintEffectNoSchedule :: string where
  "v1_TaintEffectNoSchedule = ''NoSchedule''"

definition v1_TaintEffectPreferNoSchedule :: string where
  "v1_TaintEffectPreferNoSchedule = ''PreferNoSchedule''"

definition api_TaintExternalCloudProvider :: string where
  "api_TaintExternalCloudProvider = ''node.cloudprovider.kubernetes.io/uninitialized''"

section \<open>Load balancer resources\<close>

record scw_duration =
  sd_Seconds :: int
  sd_Nanos :: int

datatype Protocol = ProtocolTCP | ProtocolHTTP | ProtocolOther string

datatype ProxyProtocol =
    ProxyProtocolNone | ProxyProtocolV1 | ProxyProtocolV2 | ProxyProtocolOther string

datatype LBStatus = LBStatusReady | LBStatusOther string

datatype ACLActionType = ACLActionTypeAllow | ACLActionTypeDeny | ACLActionTypeOther string

record HealthCheckHTTPConfig =
  http_URI :: string
  http_Method :: string
  http_Code :: "int32 option"
  http_HostHeader :: string

record HealthCheckHTTPSConfig =
  https_URI :: string
  https_Method :: string
  https_Code :: "int32 option"
  https_HostHeader :: string
  https_Sni :: string

record HealthCheck =
  hc_Port :: int32
  hc_CheckDelay :: "duration option"
  hc_CheckTimeout :: "duration option"
  hc_CheckMaxRetries :: int32
  hc_TCPConfig :: "unit option"
  hc_MysqlConfig :: "string option"
  hc_PgsqlConfig :: "string option"
  hc_LdapConfig :: "unit option"
  hc_RedisConfig :: "unit option"
  hc_HTTPConfig :: "HealthCheckHTTPConfig option"
  hc_HTTPSConfig :: "HealthCheckHTTPSConfig option"
  hc_CheckSendProxy :: bool
  hc_TransientCheckDelay :: "scw_duration option"

definition zero_HealthCheck :: HealthCheck where
  "zero_HealthCheck = \<lparr>hc_Port = 0, hc_CheckDelay = None, hc_CheckTimeout = None,
     hc_CheckMaxRetries = 0, hc_TCPConfig = None, hc_MysqlConfig = None, hc_PgsqlConfig = None,
     hc_LdapConfig = None, hc_RedisConfig = None, hc_HTTPConfig = None, hc_HTTPSConfig = None,
     hc_CheckSendProxy = False, hc_TransientCheckDelay = None\<rparr>"

record Backend =
  be_ID :: string
  be_Name :: string
  be_Pool :: "string slice"
  be_ForwardProtocol :: Protocol
  be_SslBridging :: "bool option"
  be_IgnoreSslServerVerify :: "bool option"
  be_ForwardPort :: int32
  be_ForwardPortAlgorithm :: string
  be_StickySessions :: string
  be_StickySessionsCookieName :: string
  be_ProxyProtocol :: ProxyProtocol
  be_TimeoutServer :: "duration option"
  be_TimeoutConnect :: "duration option"
  be_TimeoutTunnel :: "duration option"
  be_TimeoutQueue :: "scw_duration option"
  be_OnMarkedDownAction :: string
  be_HealthCheck :: "HealthCheck option"
  be_RedispatchAttemptCount :: "int32 option"
  be_MaxConnections :: "int32 option"
  be_MaxRetries :: "int32 option"
  be_FailoverHost :: "string option"

definition zero_Backend :: Backend where
  "zero_Backend = \<lparr>be_ID = '''', be_Name = '''', be_Pool = None,
     be_ForwardProtocol = ProtocolOther '''', be_SslBridging = None,
     be_IgnoreSslServerVerify = None, be_ForwardPort = 0, be_ForwardPortAlgorithm = '''',
     be_StickySessions = '''', be_StickySessionsCookieName = '''',
     be_ProxyProtocol = ProxyProtocolOther '''', be_TimeoutServer = None,
     be_TimeoutConnect = None, be_TimeoutTunnel = None, be_TimeoutQueue = None,
     be_OnMarkedDownAction = '''', be_HealthCheck = None, be_RedispatchAttemptCount = None,
     be_MaxConnections = None, be_MaxRetries = None, be_FailoverHost = None\<rparr>"

record Frontend =
  fe_ID :: string
  fe_Name :: string
  fe_InboundPort :: int32
  fe_Backend :: "Backend option"
  fe_TimeoutClient :: "duration option"
  fe_CertificateIDs :: "string slice"
  fe_ConnectionRateLimit :: "uint32 option"
  fe_EnableAccessLogs :: bool
  fe_EnableHTTP3 :: bool

record LBIP =
  lbip_ID :: string
  lbip_IPAddress :: string
  lbip_LBID :: "string option"
  lbip_Reverse :: string

record LB =
  lb_ID :: string
  lb_Name :: string
  lb_Description :: string
  lb_Tags :: "string list"
  lb_Status :: LBStatus
  lb_IP :: "LBIP list"
  lb_Type :: string
  lb_Zone :: string
  lb_ProjectID :: string
  lb_SslCompatibilityLevel :: string

record LBPrivateNetwork =
  lbpn_PrivateNetworkID :: string
  lbpn_IpamIDs :: "string list"

record IPAMIP =
  ipam_ID :: string
  ipam_Address :: string

record ACLMatch =
  match_IPSubnet :: "string slice"
  match_Invert :: bool

record ACLSpec =
  spec_Name :: string
  spec_Action :: "ACLActionType option"
  spec_Match :: "ACLMatch option"
  spec_Index :: int32

record ACL =
  acl_Name :: string
  acl_Action :: "ACLActionType option"
  acl_Match :: "ACLMatch option"
  acl_Index :: int32

section \<open>Third-party functions\<close>

record url =
  url_Path :: string
  url_Host :: string
  url_RawPath :: string
  url_RawQuery :: string
  url_ForceQuery :: bool

text \<open>
  The functions of the Scaleway SDK, of apimachinery, of protobuf and the URL parser that the
  code calls: parameters of the model.  \<open>sdk_IsRegion\<close> is \<open>validation.IsRegion\<close>,
  \<open>sdk_ZoneRegion\<close> is \<open>scw.Zone.Region\<close>, \<open>sdk_SSLLevels\<close> the values of the enumeration
  \<open>SSLCompatibilityLevel\<close>, \<open>sdk_ToTimeDuration\<close> the method on a possibly nil duration, and
  \<open>sdk_IsDNS1123Subdomain\<close> and \<open>sdk_IsValidLabelValue\<close> hold when the validators report no
  error.  \<open>sdk_StringSlicePtr\<close> turns a slice of strings into one of string pointers, which the
  model reads through.
\<close>

record sdk =
  sdk_IsRegion :: "string \<Rightarrow> bool"
  sdk_ZoneRegion :: "string \<Rightarrow> err + string"
  sdk_ParseZone :: "string \<Rightarrow> err + string"
  sdk_SSLLevels :: "string list"
  sdk_NewDurationFromTimeDuration :: "duration \<Rightarrow> scw_duration"
  sdk_ToTimeDuration :: "scw_duration option \<Rightarrow> duration option"
  sdk_durationpb_New :: "duration \<Rightarrow> scw_duration"
  sdk_url_Parse :: "string \<Rightarrow> err + url"
  sdk_url_RequestURI :: "url \<Rightarrow> string"
  sdk_IsDNS1123Subdomain :: "string \<Rightarrow> bool"
  sdk_IsValidLabelValue :: "string \<Rightarrow> bool"
  sdk_StringSlicePtr :: "string list \<Rightarrow> string slice"

section \<open>The environment\<close>

text \<open>The environment variables that the load balancer code reads when it runs.\<close>

record env =
  env_SCW_CCM_PREFIX :: string
  env_SCW_CCM_TAGS :: string
  env_SCW_CCM_TAGS_DELIMITER :: string

section \<open>A concrete library\<close>

text \<open>
  One instance of the third-party functions, on which the properties that take them as a
  parameter are evaluated.
\<close>

definition sample_sdk :: sdk where
  "sample_sdk = \<lparr>
     sdk_IsRegion = (\<lambda>r. r \<in> set [''fr-par'', ''nl-ams'', ''pl-waw'']),
     sdk_ZoneRegion = (\<lambda>z. if z = '''' then Inl (LibErr ''bad zone'') else Inr (take (length z - 2) z)),
     sdk_ParseZone = (\<lambda>z. if z = '''' then Inl (LibErr ''bad zone'') else Inr z),
     sdk_SSLLevels = [''ssl_compatibility_level_intermediate'', ''ssl_compatibility_level_modern''],
     sdk_NewDurationFromTimeDuration = (\<lambda>d. \<lparr>sd_Seconds = d div 1000000000, sd_Nanos = d mod 1000000000\<rparr>),
     sdk_ToTimeDuration = map_option (\<lambda>d. sd_Seconds d * 1000000000 + sd_Nanos d),
     sdk_durationpb_New = (\<lambda>d. \<lparr>sd_Seconds = d div 1000000000, sd_Nanos = d mod 1000000000\<rparr>),
     sdk_url_Parse = (\<lambda>s. Inr \<lparr>url_Path = ''/'', url_Host = '''', url_RawPath = '''',
                           url_RawQuery = '''', url_ForceQuery = False\<rparr>),
     sdk_url_RequestURI = url_Path,
     sdk_IsDNS1123Subdomain = (\<lambda>s. s \<noteq> ''''),
     sdk_IsValidLabelValue = (\<lambda>s. True),
     sdk_StringSlicePtr = Some\<rparr>"

end
