(* ===== verification/Equality.thy ===== *)
theory Equality
  imports Types
begin

text \<open>
  The comparison helpers at the end of \<open>scaleway/loadbalancers.go\<close>: equality of pointers and
  of string arrays up to order, and the comparison of the managed fields of a frontend and of
  a backend (\<open>frontendEquals\<close>, \<open>backendEquals\<close>).

  \<open>stringArrayEqual\<close> sorts both of its arguments in place before it compares them, so it
  returns the two arrays as they are afterwards, and so does \<open>frontendEquals\<close> with the two
  frontends.
\<close>

section \<open>Pointers\<close>

fun ptrStringEqual :: "string option \<Rightarrow> string option \<Rightarrow> bool" where
  "ptrStringEqual None None = True"
| "ptrStringEqual (Some a) (Some b) = (a = b)"
| "ptrStringEqual _ _ = False"

fun durationPtrEqual :: "duration option \<Rightarrow> duration option \<Rightarrow> bool" where
  "durationPtrEqual None None = True"
| "durationPtrEqual (Some a) (Some b) = (a = b)"
| "durationPtrEqual _ _ = False"

fun scwDurationPtrEqual :: "scw_duration option \<Rightarrow> scw_duration option \<Rightarrow> bool" where
  "scwDurationPtrEqual None None = True"
| "scwDurationPtrEqual (Some a) (Some b) = (a = b)"
| "scwDurationPtrEqual _ _ = False"

fun int32PtrEqual :: "int32 option \<Rightarrow> int32 option \<Rightarrow> bool" where
  "int32PtrEqual None None = True"
| "int32PtrEqual (Some a) (Some b) = (a = b)"
| "int32PtrEqual _ _ = False"

fun uint32PtrEqual :: "uint32 option \<Rightarrow> uint32 option \<Rightarrow> bool" where
  "uint32PtrEqual None None = True"
| "uint32PtrEqual (Some a) (Some b) = (a = b)"
| "uint32PtrEqual _ _ = False"

fun backendForwardPortEqual :: "Backend option \<Rightarrow> Backend option \<Rightarrow> bool" where
  "backendForwardPortEqual None None = True"
| "backendForwardPortEqual (Some a) (Some b) = (be_ForwardPort a = be_ForwardPort b)"
| "backendForwardPortEqual _ _ = False"

text \<open>
  What these functions share: nil equals only nil, and two pointers are equal when a
  projection of what they point to is.
\<close>

locale pointer_equality =
  fixes peq :: "'a option \<Rightarrow> 'a option \<Rightarrow> bool" and proj :: "'a \<Rightarrow> 'b"
  assumes nil_nil: "peq None None"
    and nil_some: "\<not> peq None (Some b)"
    and some_nil: "\<not> peq (Some a) None"
    and some_some: "peq (Some a) (Some b) \<longleftrightarrow> proj a = proj b"
begin

lemma peq_iff: "peq x y \<longleftrightarrow> map_option proj x = map_option proj y"
  by (cases x; cases y) (simp_all add: nil_nil nil_some some_nil some_some)

lemma peq_refl: "peq x x"
  by (simp add: peq_iff)

lemma peq_sym: "peq x y = peq y x"
  by (auto simp: peq_iff)

lemma peq_trans: "peq x y \<Longrightarrow> peq y z \<Longrightarrow> peq x z"
  by (simp add: peq_iff)

end

interpretation string_ptr: pointer_equality ptrStringEqual "\<lambda>x. x"
  by unfold_locales simp_all

interpretation duration_ptr: pointer_equality durationPtrEqual "\<lambda>x. x"
  by unfold_locales simp_all

interpretation scw_duration_ptr: pointer_equality scwDurationPtrEqual "\<lambda>x. x"
  by unfold_locales simp_all

interpretation int32_ptr: pointer_equality int32PtrEqual "\<lambda>x. x"
  by unfold_locales simp_all

interpretation uint32_ptr: pointer_equality uint32PtrEqual "\<lambda>x. x"
  by unfold_locales simp_all

interpretation backend_ptr: pointer_equality backendForwardPortEqual be_ForwardPort
  by unfold_locales simp_all

lemmas ptr_eq_simps = string_ptr.peq_iff duration_ptr.peq_iff scw_duration_ptr.peq_iff
  int32_ptr.peq_iff uint32_ptr.peq_iff backend_ptr.peq_iff

section \<open>Pointers as text, for log messages\<close>

definition ptrInt32ToString :: "int32 option \<Rightarrow> string" where
  "ptrInt32ToString i = (case i of None \<Rightarrow> ''<nil>'' | Some v \<Rightarrow> fmt_d (sint v))"

definition ptrUint32ToString :: "uint32 option \<Rightarrow> string" where
  "ptrUint32ToString i = (case i of None \<Rightarrow> ''<nil>'' | Some v \<Rightarrow> fmt_d (uint v))"

definition ptrBoolToString :: "bool option \<Rightarrow> string" where
  "ptrBoolToString b =
     (case b of None \<Rightarrow> ''<nil>'' | Some v \<Rightarrow> if v then ''true'' else ''false'')"

definition ptrStringToString :: "string option \<Rightarrow> string" where
  "ptrStringToString s = (case s of None \<Rightarrow> ''<nil>'' | Some v \<Rightarrow> v)"

definition ptrScwDurationToString :: "sdk \<Rightarrow> scw_duration option \<Rightarrow> err + string" where
  "ptrScwDurationToString X i =
     (case i of
        None \<Rightarrow> Inr ''<nil>''
      | Some d \<Rightarrow>
          (case sdk_ToTimeDuration X (Some d) of
             None \<Rightarrow> Inl (GoPanic ''nil pointer dereference'')
           | Some t \<Rightarrow> Inr (duration_String t)))"

section \<open>String arrays\<close>

definition sort_slice :: "string slice \<Rightarrow> string slice" where
  "sort_slice s = map_option sort s"

text \<open>The result, and the two arrays after the call.\<close>

definition stringArrayEqual :: "string slice \<Rightarrow> string slice \<Rightarrow> bool \<times> string slice \<times> string slice" where
  "stringArrayEqual got want =
     (let got' = sort_slice got; want' = sort_slice want in (got' = want', got', want'))"

text \<open>The same for arrays of (non-nil) string pointers, compared by what they point to.\<close>

definition stringPtrArrayEqual :: "string slice \<Rightarrow> string slice \<Rightarrow> bool \<times> string slice \<times> string slice" where
  "stringPtrArrayEqual got want =
     (let got' = sort_slice got; want' = sort_slice want in (got' = want', got', want'))"

lemma elems_sort_slice [simp]: "elems (sort_slice s) = sort (elems s)"
  by (cases s) (simp_all add: sort_slice_def)

lemma sort_slice_eq_iff:
  "sort_slice a = sort_slice b \<longleftrightarrow> (a = None \<longleftrightarrow> b = None) \<and> mset (elems a) = mset (elems b)"
  by (cases a; cases b) (simp_all add: sort_slice_def sort_eq_iff_mset)

lemma stringArrayEqual_iff:
  "fst (stringArrayEqual a b) \<longleftrightarrow> (a = None \<longleftrightarrow> b = None) \<and> mset (elems a) = mset (elems b)"
  by (simp add: stringArrayEqual_def sort_slice_eq_iff Let_def)

section \<open>Frontends\<close>

definition frontend_fields_equal :: "Frontend \<Rightarrow> Frontend \<Rightarrow> bool \<times> Frontend \<times> Frontend" where
  "frontend_fields_equal got want =
     (if fe_Name got \<noteq> fe_Name want then (False, got, want)
      else if fe_InboundPort got \<noteq> fe_InboundPort want then (False, got, want)
      else if \<not> backendForwardPortEqual (fe_Backend got) (fe_Backend want) then (False, got, want)
      else if \<not> durationPtrEqual (fe_TimeoutClient got) (fe_TimeoutClient want)
      then (False, got, want)
      else case stringArrayEqual (fe_CertificateIDs got) (fe_CertificateIDs want) of
        (eq, gotIDs, wantIDs) \<Rightarrow>
          let got' = got\<lparr>fe_CertificateIDs := gotIDs\<rparr>;
              want' = want\<lparr>fe_CertificateIDs := wantIDs\<rparr>
          in if \<not> eq then (False, got', want')
             else if \<not> uint32PtrEqual (fe_ConnectionRateLimit got') (fe_ConnectionRateLimit want')
             then (False, got', want')
             else if fe_EnableAccessLogs got' \<noteq> fe_EnableAccessLogs want' then (False, got', want')
             else if fe_EnableHTTP3 got' \<noteq> fe_EnableHTTP3 want' then (False, got', want')
             else (True, got', want'))"

fun frontendEquals :: "Frontend option \<Rightarrow> Frontend option \<Rightarrow> bool \<times> Frontend option \<times> Frontend option" where
  "frontendEquals (Some got) (Some want) =
     (case frontend_fields_equal got want of (b, g, w) \<Rightarrow> (b, Some g, Some w))"
| "frontendEquals got want = (got = want, got, want)"

text \<open>
  The configuration of a frontend that the controller manages, independent of the order of
  its certificates.
\<close>

definition frontend_config where
  "frontend_config f =
     (fe_Name f, fe_InboundPort f, map_option be_ForwardPort (fe_Backend f), fe_TimeoutClient f,
      fe_CertificateIDs f = None, mset (elems (fe_CertificateIDs f)),
      fe_ConnectionRateLimit f, fe_EnableAccessLogs f, fe_EnableHTTP3 f)"

lemma frontend_fields_equal_config:
  "fst (frontend_fields_equal got want) \<longleftrightarrow> frontend_config got = frontend_config want"
  by (auto simp: frontend_fields_equal_def frontend_config_def ptr_eq_simps stringArrayEqual_def
      sort_slice_eq_iff Let_def option.map_id [unfolded id_def])

text \<open>What \<open>frontendEquals\<close> may change in its arguments is the order of the certificates.\<close>

lemma frontend_fields_equal_effect:
  assumes "frontend_fields_equal got want = (b, got', want')"
  shows "got' = got \<or> got' = got\<lparr>fe_CertificateIDs := sort_slice (fe_CertificateIDs got)\<rparr>"
    and "want' = want \<or> want' = want\<lparr>fe_CertificateIDs := sort_slice (fe_CertificateIDs want)\<rparr>"
  using assms
  by (auto simp: frontend_fields_equal_def stringArrayEqual_def Let_def split: if_splits)

lemma frontend_config_sort [simp]:
  "frontend_config (f\<lparr>fe_CertificateIDs := sort_slice (fe_CertificateIDs f)\<rparr>) = frontend_config f"
  by (cases "fe_CertificateIDs f") (simp_all add: frontend_config_def sort_slice_def)

lemma frontend_fields_equal_preserves:
  assumes "frontend_fields_equal got want = (b, got', want')"
  shows "frontend_config got' = frontend_config got" "frontend_config want' = frontend_config want"
    "fe_ID got' = fe_ID got" "fe_ID want' = fe_ID want"
    "fe_InboundPort got' = fe_InboundPort got" "fe_InboundPort want' = fe_InboundPort want"
    "fe_Name got' = fe_Name got" "fe_Name want' = fe_Name want"
  using frontend_fields_equal_effect [OF assms] by auto

section \<open>Backends\<close>

definition backend_fields_equal :: "sdk \<Rightarrow> Backend \<Rightarrow> Backend \<Rightarrow> bool" where
  "backend_fields_equal X got want =
     (if be_Name got \<noteq> be_Name want then False
      else if be_ForwardProtocol got \<noteq> be_ForwardProtocol want then False
      else if be_SslBridging got \<noteq> be_SslBridging want then False
      else if be_IgnoreSslServerVerify got \<noteq> be_IgnoreSslServerVerify want then False
      else if be_ForwardPort got \<noteq> be_ForwardPort want then False
      else if be_ForwardPortAlgorithm got \<noteq> be_ForwardPortAlgorithm want then False
      else if be_StickySessions got \<noteq> be_StickySessions want then False
      else if be_ProxyProtocol got \<noteq> be_ProxyProtocol want then False
      else if \<not> durationPtrEqual (be_TimeoutServer got) (be_TimeoutServer want) then False
      else if \<not> durationPtrEqual (be_TimeoutConnect got) (be_TimeoutConnect want) then False
      else if \<not> durationPtrEqual (be_TimeoutTunnel got) (be_TimeoutTunnel want) then False
      else if \<not> durationPtrEqual (sdk_ToTimeDuration X (be_TimeoutQueue got))
                 (sdk_ToTimeDuration X (be_TimeoutQueue want)) then False
      else if be_OnMarkedDownAction got \<noteq> be_OnMarkedDownAction want then False
      else if \<not> int32PtrEqual (be_RedispatchAttemptCount got) (be_RedispatchAttemptCount want) then False
      else if \<not> int32PtrEqual (be_MaxConnections got) (be_MaxConnections want) then False
      else if \<not> int32PtrEqual (be_MaxRetries got) (be_MaxRetries want) then False
      else if be_StickySessionsCookieName got \<noteq> be_StickySessionsCookieName want then False
      else if \<not> ptrStringEqual (be_FailoverHost got) (be_FailoverHost want) then False
      else if be_HealthCheck got \<noteq> be_HealthCheck want then False
      else True)"

fun backendEquals :: "sdk \<Rightarrow> Backend option \<Rightarrow> Backend option \<Rightarrow> bool" where
  "backendEquals X (Some got) (Some want) = backend_fields_equal X got want"
| "backendEquals X got want = (got = want)"

text \<open>
  The configuration of a backend that the controller manages: every field but the identifier
  and the pool, with the queue timeout read as a duration.
\<close>

definition backend_config where
  "backend_config X b =
     (be_Name b, be_ForwardProtocol b, be_SslBridging b, be_IgnoreSslServerVerify b,
      be_ForwardPort b, be_ForwardPortAlgorithm b, be_StickySessions b, be_ProxyProtocol b,
      (be_TimeoutServer b, be_TimeoutConnect b, be_TimeoutTunnel b,
       sdk_ToTimeDuration X (be_TimeoutQueue b)),
      be_OnMarkedDownAction b, be_RedispatchAttemptCount b, be_MaxConnections b,
      be_MaxRetries b, be_StickySessionsCookieName b, be_FailoverHost b, be_HealthCheck b)"

lemma backend_fields_equal_config:
  "backend_fields_equal X got want \<longleftrightarrow> backend_config X got = backend_config X want"
  by (simp add: backend_fields_equal_def backend_config_def ptr_eq_simps
      option.map_id [unfolded id_def])

section \<open>Properties\<close>

text \<open>
  C39: \<open>frontendEquals\<close> decides whether two frontends have the same managed configuration: name,
  inbound port, forward port of the backend, client timeout, certificates up to order, rate
  limit, access logs and HTTP/3.  Nil equals only nil.
\<close>

theorem frontendEquals_iff_config:
  "fst (frontendEquals got want) \<longleftrightarrow> map_option frontend_config got = map_option frontend_config want"
  by (cases got; cases want)
    (simp_all add: frontend_fields_equal_config [symmetric] case_prod_beta)

text \<open>
  C38: \<open>backendEquals\<close> decides whether two backends have the same managed configuration: every
  field but the identifier and the server pool.
\<close>

theorem backendEquals_iff_config:
  "backendEquals X got want \<longleftrightarrow> map_option (backend_config X) got = map_option (backend_config X) want"
  by (cases got; cases want) (simp_all add: backend_fields_equal_config)

text \<open>
  C40: comparing two frontends may only reorder the certificate lists of the two; all that
  \<open>frontendEquals\<close> reads is preserved, so comparing again gives the same answer.
\<close>

theorem frontendEquals_effect:
  "case frontendEquals got want of (b, got', want') \<Rightarrow>
     map_option frontend_config got' = map_option frontend_config got
   \<and> map_option frontend_config want' = map_option frontend_config want
   \<and> map_option fe_ID got' = map_option fe_ID got
   \<and> map_option fe_ID want' = map_option fe_ID want
   \<and> fst (frontendEquals got' want') = b"
proof (cases got; cases want)
  fix g w
  assume gw: "got = Some g" "want = Some w"
  obtain b g' w' where e: "frontend_fields_equal g w = (b, g', w')" by (metis surj_pair)
  have b: "b = (frontend_config g = frontend_config w)"
    using frontend_fields_equal_config [of g w] e by simp
  show ?thesis
    using frontend_fields_equal_preserves [OF e] frontend_fields_equal_config [of g' w']
    by (simp add: gw e b case_prod_beta)
qed simp_all

end
