(* ===== verification/Compare.thy ===== *)
theory Compare
  imports Equality
begin

text \<open>
  \<open>compareFrontends\<close> and \<open>compareBackends\<close> of \<open>scaleway/loadbalancers.go\<close>: what has to be
  removed, updated, created and kept on the load balancer.  Both are one algorithm over
  resources with a port and a name; the locale \<open>resource_diff\<close> states its laws, and both
  loops are shown to satisfy them, so their specification is proved once.
\<close>

section \<open>The operations to do\<close>

record 'r ops =
  ops_remove :: "'r list"
  ops_update :: "(int32, 'r) gomap"
  ops_create :: "(int32, 'r) gomap"
  ops_keep :: "(int32, 'r) gomap"

text \<open>
  The variables of the loop: the results so far, the map of the ports already evaluated and
  the wanted resources, which the loop changes through their pointers.
\<close>

record 'r cmp =
  cmp_remove :: "'r list"
  cmp_update :: "(int32, 'r) gomap"
  cmp_keep :: "(int32, 'r) gomap"
  cmp_seen :: "(int32, 'r) gomap"
  cmp_want :: "(int32, 'r) gomap"

definition cmp_init :: "(int32, 'r) gomap \<Rightarrow> 'r cmp" where
  "cmp_init want = \<lparr>cmp_remove = [], cmp_update = [], cmp_keep = [], cmp_seen = [],
     cmp_want = want\<rparr>"

section \<open>Frontends\<close>

fun frontends_loop :: "string \<Rightarrow> Frontend list \<Rightarrow> Frontend cmp \<Rightarrow> Frontend cmp" where
  "frontends_loop filterPrefix [] st = st"
| "frontends_loop filterPrefix (current # got) st =
     (if \<not> strings_HasPrefix (fe_Name current) filterPrefix then frontends_loop filterPrefix got st
      else if map_of (cmp_seen st) (fe_InboundPort current) \<noteq> None
      then frontends_loop filterPrefix got (st\<lparr>cmp_remove := cmp_remove st @ [current]\<rparr>)
      else
        let st = st\<lparr>cmp_seen := AList.update (fe_InboundPort current) current (cmp_seen st)\<rparr> in
        frontends_loop filterPrefix got
          (case map_of (cmp_want st) (fe_InboundPort current) of
             None \<Rightarrow> st\<lparr>cmp_remove := cmp_remove st @ [current]\<rparr>
           | Some target \<Rightarrow>
               (case frontend_fields_equal current target of
                  (True, current', target') \<Rightarrow>
                    st\<lparr>cmp_keep := AList.update (fe_InboundPort target) current' (cmp_keep st),
                       cmp_want := AList.update (fe_InboundPort current) target' (cmp_want st)\<rparr>
                | (False, current', target') \<Rightarrow>
                    let target'' = target'\<lparr>fe_ID := fe_ID current\<rparr> in
                    st\<lparr>cmp_update := AList.update (fe_InboundPort target) target'' (cmp_update st),
                       cmp_want := AList.update (fe_InboundPort current) target'' (cmp_want st)\<rparr>)))"

fun frontends_create :: "(int32, Frontend) gomap \<Rightarrow> (int32, Frontend) gomap \<Rightarrow>
    (int32, Frontend) gomap \<Rightarrow> (int32, Frontend) gomap" where
  "frontends_create seen [] create = create"
| "frontends_create seen ((k, target) # want) create =
     frontends_create seen want
       (if map_of seen (fe_InboundPort target) = None
        then AList.update (fe_InboundPort target) target create else create)"

definition compareFrontends :: "Frontend list \<Rightarrow> (int32, Frontend) gomap \<Rightarrow> string \<Rightarrow> Frontend ops" where
  "compareFrontends got want filterPrefix =
     (let st = frontends_loop filterPrefix got (cmp_init want)
      in \<lparr>ops_remove = cmp_remove st, ops_update = cmp_update st,
          ops_create = frontends_create (cmp_seen st) (cmp_want st) [],
          ops_keep = cmp_keep st\<rparr>)"

section \<open>Backends\<close>

fun backends_loop :: "sdk \<Rightarrow> string \<Rightarrow> Backend list \<Rightarrow> Backend cmp \<Rightarrow> Backend cmp" where
  "backends_loop X filterPrefix [] st = st"
| "backends_loop X filterPrefix (current # got) st =
     (if \<not> strings_HasPrefix (be_Name current) filterPrefix then backends_loop X filterPrefix got st
      else if map_of (cmp_seen st) (be_ForwardPort current) \<noteq> None
      then backends_loop X filterPrefix got (st\<lparr>cmp_remove := cmp_remove st @ [current]\<rparr>)
      else
        let st = st\<lparr>cmp_seen := AList.update (be_ForwardPort current) current (cmp_seen st)\<rparr> in
        backends_loop X filterPrefix got
          (case map_of (cmp_want st) (be_ForwardPort current) of
             None \<Rightarrow> st\<lparr>cmp_remove := cmp_remove st @ [current]\<rparr>
           | Some target \<Rightarrow>
               if backend_fields_equal X current target
               then st\<lparr>cmp_keep := AList.update (be_ForwardPort target) current (cmp_keep st)\<rparr>
               else let target' = target\<lparr>be_ID := be_ID current\<rparr> in
                 st\<lparr>cmp_update := AList.update (be_ForwardPort target) target' (cmp_update st),
                    cmp_want := AList.update (be_ForwardPort current) target' (cmp_want st)\<rparr>))"

fun backends_create :: "(int32, Backend) gomap \<Rightarrow> (int32, Backend) gomap \<Rightarrow>
    (int32, Backend) gomap \<Rightarrow> (int32, Backend) gomap" where
  "backends_create seen [] create = create"
| "backends_create seen ((k, target) # want) create =
     backends_create seen want
       (if map_of seen (be_ForwardPort target) = None
        then AList.update (be_ForwardPort target) target create else create)"

definition compareBackends :: "sdk \<Rightarrow> Backend list \<Rightarrow> (int32, Backend) gomap \<Rightarrow> string \<Rightarrow> Backend ops" where
  "compareBackends X got want filterPrefix =
     (let st = backends_loop X filterPrefix got (cmp_init want)
      in \<lparr>ops_remove = cmp_remove st, ops_update = cmp_update st,
          ops_create = backends_create (cmp_seen st) (cmp_want st) [],
          ops_keep = cmp_keep st\<rparr>)"

section \<open>The algorithm\<close>

text \<open>
  A wanted map is well formed when every resource is stored under its own port, as
  \<open>serviceToLB\<close> builds it.  \<open>managed_on\<close> lists the resources of a port whose name has the
  filter prefix; the first one is the current resource of the port.
\<close>

definition wf_want :: "('r \<Rightarrow> int32) \<Rightarrow> (int32, 'r) gomap \<Rightarrow> bool" where
  "wf_want port want \<longleftrightarrow> distinct (gm_keys want) \<and> (\<forall>(k, r)\<in>set want. port r = k)"

definition managed_on :: "('r \<Rightarrow> int32) \<Rightarrow> ('r \<Rightarrow> string) \<Rightarrow> string \<Rightarrow> 'r list \<Rightarrow> int32 \<Rightarrow> 'r list" where
  "managed_on port name pre got p = filter (\<lambda>c. strings_HasPrefix (name c) pre \<and> port c = p) got"

definition first_on :: "('r \<Rightarrow> int32) \<Rightarrow> ('r \<Rightarrow> string) \<Rightarrow> string \<Rightarrow> 'r list \<Rightarrow> int32 \<Rightarrow> 'r option" where
  "first_on port name pre got p =
     (case managed_on port name pre got p of [] \<Rightarrow> None | c # _ \<Rightarrow> Some c)"

lemma wf_want_Nil [simp]: "wf_want port []"
  by (simp add: wf_want_def)

lemma wf_wantD: "wf_want port want \<Longrightarrow> map_of want p = Some r \<Longrightarrow> port r = p"
  by (auto simp: wf_want_def dest!: map_of_SomeD)

lemma set_AList_update_subset: "set (AList.update k v m) \<subseteq> insert (k, v) (set m)"
  by (induction m) auto

lemma wf_want_update:
  "wf_want port want \<Longrightarrow> port r = k \<Longrightarrow> wf_want port (AList.update k r want)"
  using set_AList_update_subset [of k r want] by (fastforce simp: wf_want_def)

lemma AList_update_same: "map_of m k = Some v \<Longrightarrow> AList.update k v m = m"
  by (induction m) (auto split: if_splits)

lemma managed_on_Nil [simp]: "managed_on port name pre [] p = []"
  by (simp add: managed_on_def)

lemma managed_on_snoc:
  "managed_on port name pre (xs @ [c]) p =
     managed_on port name pre xs p
       @ (if strings_HasPrefix (name c) pre \<and> port c = p then [c] else [])"
  by (simp add: managed_on_def)

lemma first_on_Nil [simp]: "first_on port name pre [] p = None"
  by (simp add: first_on_def)

lemma first_on_snoc:
  "first_on port name pre (xs @ [c]) p =
     (if first_on port name pre xs p = None \<and> strings_HasPrefix (name c) pre \<and> port c = p
      then Some c else first_on port name pre xs p)"
  by (auto simp: first_on_def managed_on_snoc split: list.split)

lemma first_on_SomeD:
  "first_on port name pre xs p = Some c \<Longrightarrow>
     c \<in> set xs \<and> strings_HasPrefix (name c) pre \<and> port c = p"
proof -
  assume "first_on port name pre xs p = Some c"
  then have "c \<in> set (managed_on port name pre xs p)"
    by (simp add: first_on_def split: list.splits)
  then show ?thesis by (simp add: managed_on_def)
qed

lemma first_on_None: "first_on port name pre xs p = None \<longleftrightarrow> managed_on port name pre xs p = []"
  by (simp add: first_on_def split: list.split)

text \<open>One round of the loop, over an abstract resource.\<close>

definition diff_step where
  "diff_step port name eq setid pre current st =
     (if \<not> strings_HasPrefix (name current) pre then st
      else if map_of (cmp_seen st) (port current) \<noteq> None
      then st\<lparr>cmp_remove := cmp_remove st @ [current]\<rparr>
      else
        let st = st\<lparr>cmp_seen := AList.update (port current) current (cmp_seen st)\<rparr> in
        (case map_of (cmp_want st) (port current) of
           None \<Rightarrow> st\<lparr>cmp_remove := cmp_remove st @ [current]\<rparr>
         | Some target \<Rightarrow>
             (case eq current target of (same, current', target') \<Rightarrow>
                if same
                then st\<lparr>cmp_keep := AList.update (port target) current' (cmp_keep st),
                        cmp_want := AList.update (port current) target' (cmp_want st)\<rparr>
                else st\<lparr>cmp_update :=
                          AList.update (port target) (setid current target') (cmp_update st),
                        cmp_want :=
                          AList.update (port current) (setid current target') (cmp_want st)\<rparr>)))"

text \<open>
  The specification of the comparison for one port: \<open>c\<close> is the current resource of the port
  (if any) and \<open>t\<close> the wanted one (if any).
\<close>

definition diff_keep where
  "diff_keep eq c t = (case (c, t) of
     (Some c, Some t) \<Rightarrow> (case eq c t of (same, c', t') \<Rightarrow> if same then Some c' else None)
   | _ \<Rightarrow> None)"

definition diff_update where
  "diff_update eq setid c t = (case (c, t) of
     (Some c, Some t) \<Rightarrow> (case eq c t of (same, c', t') \<Rightarrow> if same then None else Some (setid c t'))
   | _ \<Rightarrow> None)"

definition diff_create where
  "diff_create c t = (case c of None \<Rightarrow> t | Some _ \<Rightarrow> None)"

definition diff_want where
  "diff_want eq setid c t = (case (c, t) of
     (Some c, Some t) \<Rightarrow> (case eq c t of (same, c', t') \<Rightarrow> Some (if same then t' else setid c t'))
   | _ \<Rightarrow> t)"

lemmas diff_specs = diff_keep_def diff_update_def diff_create_def diff_want_def

locale resource_diff =
  fixes port :: "'r \<Rightarrow> int32" and name :: "'r \<Rightarrow> string"
    and eq :: "'r \<Rightarrow> 'r \<Rightarrow> bool \<times> 'r \<times> 'r"
    and setid :: "'r \<Rightarrow> 'r \<Rightarrow> 'r"
    and loop :: "string \<Rightarrow> 'r list \<Rightarrow> 'r cmp \<Rightarrow> 'r cmp"
    and create :: "(int32, 'r) gomap \<Rightarrow> (int32, 'r) gomap \<Rightarrow> (int32, 'r) gomap \<Rightarrow> (int32, 'r) gomap"
  assumes eq_port: "eq c t = (b, c', t') \<Longrightarrow> port t' = port t"
    and setid_port: "port (setid c t) = port t"
    and loop_Nil: "loop pre [] st = st"
    and loop_Cons: "loop pre (c # got) st = loop pre got (diff_step port name eq setid pre c st)"
    and create_Nil: "create seen [] m = m"
    and create_Cons: "create seen ((k, t) # want) m =
      create seen want (if map_of seen (port t) = None then AList.update (port t) t m else m)"
begin

lemma loop_snoc: "loop pre (xs @ [c]) st = diff_step port name eq setid pre c (loop pre xs st)"
  by (induction xs arbitrary: st) (simp_all add: loop_Nil loop_Cons)

lemma loop_seen:
  "map_of (cmp_seen (loop pre got (cmp_init want))) p = first_on port name pre got p"
proof (induction got arbitrary: p rule: rev_induct)
  case Nil
  then show ?case by (simp add: loop_Nil cmp_init_def)
next
  case (snoc c got)
  then show ?case
    by (auto simp: loop_snoc diff_step_def Let_def first_on_snoc split: option.splits prod.splits)
qed

lemma loop_want:
  assumes "wf_want port want"
  shows "map_of (cmp_want (loop pre got (cmp_init want))) p =
    diff_want eq setid (first_on port name pre got p) (map_of want p)"
proof (induction got arbitrary: p rule: rev_induct)
  case Nil
  then show ?case by (simp add: loop_Nil cmp_init_def diff_want_def)
next
  case (snoc c got)
  have seen: "map_of (cmp_seen (loop pre got (cmp_init want))) p = first_on port name pre got p"
    for p by (rule loop_seen)
  show ?case
    by (auto simp: loop_snoc diff_step_def Let_def first_on_snoc snoc seen diff_want_def
        split: option.splits prod.splits if_splits)
qed

lemma loop_want_wf:
  assumes "wf_want port want"
  shows "wf_want port (cmp_want (loop pre got (cmp_init want)))"
proof (induction got rule: rev_induct)
  case Nil
  with assms show ?case by (simp add: loop_Nil cmp_init_def)
next
  case (snoc c got)
  let ?st = "loop pre got (cmp_init want)"
  have upd: "wf_want port (AList.update (port c) r (cmp_want ?st))"
    if "map_of (cmp_want ?st) (port c) = Some t" "port r = port t" for r t
    using wf_wantD [OF snoc that(1)] that(2) by (intro wf_want_update snoc) simp
  show ?case
    using snoc
    by (auto simp: loop_snoc diff_step_def Let_def setid_port
        intro!: upd dest!: eq_port split: option.splits prod.splits)
qed

lemma loop_keep:
  assumes "wf_want port want"
  shows "map_of (cmp_keep (loop pre got (cmp_init want))) p =
    diff_keep eq (first_on port name pre got p) (map_of want p)"
proof (induction got arbitrary: p rule: rev_induct)
  case Nil
  then show ?case by (simp add: loop_Nil cmp_init_def diff_keep_def)
next
  case (snoc c got)
  show ?case
    using wf_wantD [OF assms]
    by (auto simp: loop_snoc diff_step_def Let_def first_on_snoc snoc loop_seen loop_want [OF assms]
        diff_keep_def diff_want_def split: option.splits prod.splits if_splits)
qed

lemma loop_update:
  assumes "wf_want port want"
  shows "map_of (cmp_update (loop pre got (cmp_init want))) p =
    diff_update eq setid (first_on port name pre got p) (map_of want p)"
proof (induction got arbitrary: p rule: rev_induct)
  case Nil
  then show ?case by (simp add: loop_Nil cmp_init_def diff_update_def)
next
  case (snoc c got)
  show ?case
    using wf_wantD [OF assms]
    by (auto simp: loop_snoc diff_step_def Let_def first_on_snoc snoc loop_seen loop_want [OF assms]
        diff_update_def diff_want_def split: option.splits prod.splits if_splits)
qed

text \<open>
  What is removed, port by port: every managed resource but the first when the port is
  wanted, all of them when it is not.
\<close>

lemma loop_remove:
  assumes "wf_want port want"
  shows "filter (\<lambda>c. port c = p) (cmp_remove (loop pre got (cmp_init want))) =
    (if map_of want p = None then managed_on port name pre got p
     else tl (managed_on port name pre got p))"
proof (induction got arbitrary: p rule: rev_induct)
  case Nil
  then show ?case by (simp add: loop_Nil cmp_init_def)
next
  case (snoc c got)
  have w: "map_of (cmp_want (loop pre got (cmp_init want))) p = None \<longleftrightarrow> map_of want p = None" for p
    by (simp add: loop_want [OF assms] diff_want_def split: option.split prod.split)
  show ?case
  proof (cases "strings_HasPrefix (name c) pre")
    case False
    then show ?thesis by (simp add: loop_snoc diff_step_def managed_on_snoc snoc)
  next
    case pre: True
    show ?thesis
    proof (cases "first_on port name pre got (port c)")
      case (Some f)
      then have "managed_on port name pre got (port c) \<noteq> []" by (simp flip: first_on_None)
      with pre Some show ?thesis
        by (auto simp: loop_snoc diff_step_def managed_on_snoc snoc loop_seen)
    next
      case None
      then have "managed_on port name pre got (port c) = []" by (simp flip: first_on_None)
      with pre None w [of "port c"] show ?thesis
        by (auto simp: loop_snoc diff_step_def managed_on_snoc snoc loop_seen Let_def
            split: option.split prod.split)
    qed
  qed
qed

lemma loop_remove_managed:
  "c \<in> set (cmp_remove (loop pre got (cmp_init want))) \<Longrightarrow>
    c \<in> set got \<and> strings_HasPrefix (name c) pre"
proof (induction got rule: rev_induct)
  case Nil
  then show ?case by (simp add: loop_Nil cmp_init_def)
next
  case (snoc x got)
  then show ?case
    by (auto simp: loop_snoc diff_step_def Let_def split: if_splits option.splits prod.splits)
qed

lemma create_spec:
  "wf_want port want \<Longrightarrow> (\<forall>k. map_of want k \<noteq> None \<longrightarrow> map_of m k = None) \<Longrightarrow>
    map_of (create seen want m) p =
      (if map_of seen p = None \<and> map_of want p \<noteq> None then map_of want p else map_of m p)"
proof (induction want arbitrary: m)
  case Nil
  then show ?case by (simp add: create_Nil)
next
  case (Cons kt want)
  obtain k t where kt: "kt = (k, t)" by (cases kt)
  from Cons.prems kt have wf: "wf_want port want" and pt: "port t = k"
    by (auto simp: wf_want_def)
  from Cons.prems kt have k: "map_of want k = None"
    by (simp add: wf_want_def map_of_eq_None_iff)
  have fresh: "\<forall>k'. map_of want k' \<noteq> None \<longrightarrow>
      map_of (if map_of seen k = None then AList.update k t m else m) k' = None"
    using Cons.prems(2) kt k by auto
  have mk: "map_of m k = None" using Cons.prems(2) kt by simp
  show ?case
    using Cons.IH [OF wf fresh] kt pt k mk by (auto simp: create_Cons)
qed

text \<open>The comparison as a whole.\<close>

lemma diff_spec:
  fixes pre :: string and got :: "'r list"
  assumes wf: "wf_want port want"
  defines "st \<equiv> loop pre got (cmp_init want)"
  shows "map_of (cmp_keep st) p = diff_keep eq (first_on port name pre got p) (map_of want p)"
    and "map_of (cmp_update st) p = diff_update eq setid (first_on port name pre got p) (map_of want p)"
    and "map_of (create (cmp_seen st) (cmp_want st) []) p =
      diff_create (first_on port name pre got p) (map_of want p)"
    and "filter (\<lambda>c. port c = p) (cmp_remove st) =
      (if map_of want p = None then managed_on port name pre got p
       else tl (managed_on port name pre got p))"
    and "c \<in> set (cmp_remove st) \<Longrightarrow> c \<in> set got \<and> strings_HasPrefix (name c) pre"
proof -
  have wf': "wf_want port (cmp_want st)" unfolding st_def by (rule loop_want_wf [OF wf])
  have "map_of (create (cmp_seen st) (cmp_want st) []) p =
    (if map_of (cmp_seen st) p = None \<and> map_of (cmp_want st) p \<noteq> None
     then map_of (cmp_want st) p else None)"
    using create_spec [OF wf', of "[]"] by simp
  then show "map_of (create (cmp_seen st) (cmp_want st) []) p =
      diff_create (first_on port name pre got p) (map_of want p)"
    by (auto simp: diff_create_def loop_seen st_def loop_want [OF wf] diff_want_def
        split: option.splits)
qed (simp_all add: st_def loop_keep [OF wf] loop_update [OF wf] loop_remove [OF wf] loop_remove_managed)

end

section \<open>Both comparisons are instances\<close>

abbreviation frontend_setid :: "Frontend \<Rightarrow> Frontend \<Rightarrow> Frontend" where
  "frontend_setid current target \<equiv> target\<lparr>fe_ID := fe_ID current\<rparr>"

abbreviation backend_setid :: "Backend \<Rightarrow> Backend \<Rightarrow> Backend" where
  "backend_setid current target \<equiv> target\<lparr>be_ID := be_ID current\<rparr>"

abbreviation backend_eq :: "sdk \<Rightarrow> Backend \<Rightarrow> Backend \<Rightarrow> bool \<times> Backend \<times> Backend" where
  "backend_eq X current target \<equiv> (backend_fields_equal X current target, current, target)"

interpretation fdiff: resource_diff fe_InboundPort fe_Name frontend_fields_equal frontend_setid
  frontends_loop frontends_create
proof unfold_locales
  show "fe_InboundPort t' = fe_InboundPort t"
    if "frontend_fields_equal c t = (b, c', t')" for c t b c' t'
    using frontend_fields_equal_preserves [OF that] by simp
  show "frontends_loop pre (c # got) st =
      frontends_loop pre got
        (diff_step fe_InboundPort fe_Name frontend_fields_equal frontend_setid pre c st)"
    for pre c got st
    by (auto simp: diff_step_def Let_def split: option.split bool.split prod.split)
qed simp_all

interpretation bdiff: resource_diff be_ForwardPort be_Name "backend_eq X" backend_setid
  "backends_loop X" backends_create for X
proof unfold_locales
  show "backends_loop X pre (c # got) st =
      backends_loop X pre got
        (diff_step be_ForwardPort be_Name (backend_eq X) backend_setid pre c st)"
    for pre c got st
    by (auto simp: diff_step_def Let_def AList_update_same split: option.split)
qed simp_all

section \<open>Properties\<close>

text \<open>
  C13: what \<open>compareFrontends\<close> plans for a port \<open>p\<close> is decided by the first managed frontend
  of the port and by the wanted one: equal configurations are kept, different ones are updated
  under the identifier of the current frontend, a missing one is created, and every other
  managed frontend of the port is removed.  Nothing without the filter prefix is removed.
\<close>

theorem compareFrontends_spec:
  assumes "wf_want fe_InboundPort want"
  shows "map_of (ops_keep (compareFrontends got want pre)) p =
      diff_keep frontend_fields_equal (first_on fe_InboundPort fe_Name pre got p) (map_of want p)
    \<and> map_of (ops_update (compareFrontends got want pre)) p =
      diff_update frontend_fields_equal frontend_setid
        (first_on fe_InboundPort fe_Name pre got p) (map_of want p)
    \<and> map_of (ops_create (compareFrontends got want pre)) p =
      diff_create (first_on fe_InboundPort fe_Name pre got p) (map_of want p)
    \<and> filter (\<lambda>c. fe_InboundPort c = p) (ops_remove (compareFrontends got want pre)) =
      (if map_of want p = None then managed_on fe_InboundPort fe_Name pre got p
       else tl (managed_on fe_InboundPort fe_Name pre got p))
    \<and> (\<forall>c\<in>set (ops_remove (compareFrontends got want pre)).
         c \<in> set got \<and> strings_HasPrefix (fe_Name c) pre)"
  using fdiff.diff_spec [OF assms, where pre = pre and got = got] by (simp add: compareFrontends_def Let_def)

definition sample_frontend :: "string \<Rightarrow> string \<Rightarrow> int32 \<Rightarrow> int32 \<Rightarrow> Frontend" where
  "sample_frontend i n p q = \<lparr>fe_ID = i, fe_Name = n, fe_InboundPort = p,
     fe_Backend = Some (zero_Backend\<lparr>be_ForwardPort := q\<rparr>), fe_TimeoutClient = None,
     fe_CertificateIDs = Some [], fe_ConnectionRateLimit = None, fe_EnableAccessLogs = False,
     fe_EnableHTTP3 = False\<rparr>"

theorem compareFrontends_spec_witness:
  "let got = [sample_frontend ''a'' ''u_tcp_80'' 80 30000, sample_frontend ''b'' ''u_tcp_80'' 80 30001];
       want = [(80, sample_frontend '''' ''u_tcp_80'' 80 30002)]
   in map_of (ops_update (compareFrontends got want ''u_'')) 80 =
        Some (sample_frontend ''a'' ''u_tcp_80'' 80 30002)
    \<and> filter (\<lambda>c. fe_InboundPort c = 80) (ops_remove (compareFrontends got want ''u_'')) =
        [sample_frontend ''b'' ''u_tcp_80'' 80 30001]"
  using compareFrontends_spec [of "[(80, sample_frontend '''' ''u_tcp_80'' 80 30002)]"
      "[sample_frontend ''a'' ''u_tcp_80'' 80 30000, sample_frontend ''b'' ''u_tcp_80'' 80 30001]"
      "''u_''" 80]
  by (simp add: wf_want_def sample_frontend_def first_on_def managed_on_def diff_update_def
      strings_HasPrefix_def frontend_fields_equal_def zero_Backend_def)

text \<open>
  C14: the same for \<open>compareBackends\<close>, by forward port.
\<close>

theorem compareBackends_spec:
  assumes "wf_want be_ForwardPort want"
  shows "map_of (ops_keep (compareBackends X got want pre)) p =
      diff_keep (backend_eq X) (first_on be_ForwardPort be_Name pre got p) (map_of want p)
    \<and> map_of (ops_update (compareBackends X got want pre)) p =
      diff_update (backend_eq X) backend_setid
        (first_on be_ForwardPort be_Name pre got p) (map_of want p)
    \<and> map_of (ops_create (compareBackends X got want pre)) p =
      diff_create (first_on be_ForwardPort be_Name pre got p) (map_of want p)
    \<and> filter (\<lambda>c. be_ForwardPort c = p) (ops_remove (compareBackends X got want pre)) =
      (if map_of want p = None then managed_on be_ForwardPort be_Name pre got p
       else tl (managed_on be_ForwardPort be_Name pre got p))
    \<and> (\<forall>c\<in>set (ops_remove (compareBackends X got want pre)).
         c \<in> set got \<and> strings_HasPrefix (be_Name c) pre)"
  using bdiff.diff_spec [OF assms, where X = X and pre = pre and got = got] by (simp add: compareBackends_def Let_def)

definition sample_backend :: "string \<Rightarrow> string \<Rightarrow> int32 \<Rightarrow> Backend" where
  "sample_backend i n p = zero_Backend\<lparr>be_ID := i, be_Name := n, be_ForwardPort := p\<rparr>"

theorem compareBackends_spec_witness:
  "let got = [sample_backend ''a'' ''x'' 30000, sample_backend ''b'' ''u_tcp_30001'' 30001];
       want = [(30000, sample_backend '''' ''u_tcp_30000'' 30000)]
   in map_of (ops_create (compareBackends sample_sdk got want ''u_'')) 30000 =
        Some (sample_backend '''' ''u_tcp_30000'' 30000)
    \<and> map_of (ops_create (compareBackends sample_sdk got want ''u_'')) 30001 = None"
  using compareBackends_spec [of "[(30000, sample_backend '''' ''u_tcp_30000'' 30000)]" sample_sdk
      "[sample_backend ''a'' ''x'' 30000, sample_backend ''b'' ''u_tcp_30001'' 30001]"
      "''u_''" 30000]
    compareBackends_spec [of "[(30000, sample_backend '''' ''u_tcp_30000'' 30000)]" sample_sdk
      "[sample_backend ''a'' ''x'' 30000, sample_backend ''b'' ''u_tcp_30001'' 30001]"
      "''u_''" 30001]
  by (simp add: wf_want_def sample_backend_def zero_Backend_def first_on_def managed_on_def
      diff_create_def strings_HasPrefix_def)

end
