(* ===== verification/GoStrconv.thy ===== *)
theory GoStrconv
  imports GoStrings Errors
begin

text \<open>
  Go's \<open>strconv\<close>: \<open>ParseBool\<close>, \<open>ParseInt(s, base, 64)\<close> for base 0 (with the 0b, 0o, 0x and
  0 prefixes and underscores) and base 10, \<open>Atoi\<close> (the same as base 10 on a 64-bit
  platform), and the conversions \<open>int32(x)\<close> and \<open>uint32(x)\<close> that keep the low 32 bits.
\<close>

section \<open>Booleans\<close>

definition strconv_ParseBool :: "string \<Rightarrow> err + bool" where
  "strconv_ParseBool s =
     (if s \<in> set [''1'', ''t'', ''T'', ''true'', ''TRUE'', ''True''] then Inr True
      else if s \<in> set [''0'', ''f'', ''F'', ''false'', ''FALSE'', ''False''] then Inr False
      else Inl (NumErrorSyntax s))"

section \<open>Integers\<close>

text \<open>The digit value of a byte: decimal digits, then letters of either case.\<close>

definition digit_of :: "char \<Rightarrow> nat option" where
  "digit_of c =
     (if is_digit c then Some (digit_val c)
      else let l = lower_char c in
        if is_lower l then Some (of_char l - 97 + 10) else None)"

text \<open>
  The loop of \<open>ParseUint\<close> with accumulator \<open>n\<close>.  The code's test \<open>n >= cutoff\<close> and the test
  of the wrapped sum say that \<open>n * base + d\<close> does not fit in 64 bits.
\<close>

fun parse_digits :: "string \<Rightarrow> bool \<Rightarrow> nat \<Rightarrow> nat \<Rightarrow> string \<Rightarrow> err + nat" where
  "parse_digits s0 base0 base n [] = Inr n"
| "parse_digits s0 base0 base n (c # cs) =
     (if c = CHR ''_'' \<and> base0 then parse_digits s0 base0 base n cs
      else case digit_of c of
        None \<Rightarrow> Inl (NumErrorSyntax s0)
      | Some d \<Rightarrow>
          if base \<le> d then Inl (NumErrorSyntax s0)
          else if 2 ^ 64 \<le> n * base + d then Inl (NumErrorRange s0)
          else parse_digits s0 base0 base (n * base + d) cs)"

text \<open>\<open>underscoreOK\<close>: the second argument is the class of the previous byte.\<close>

fun underscore_scan :: "bool \<Rightarrow> char \<Rightarrow> string \<Rightarrow> bool" where
  "underscore_scan hex saw [] = (saw \<noteq> CHR ''_'')"
| "underscore_scan hex saw (c # cs) =
     (if is_digit c \<or> (hex \<and> CHR ''a'' \<le> lower_char c \<and> lower_char c \<le> CHR ''f'')
      then underscore_scan hex (CHR ''0'') cs
      else if c = CHR ''_'' then (saw = CHR ''0'' \<and> underscore_scan hex (CHR ''_'') cs)
      else (saw \<noteq> CHR ''_'' \<and> underscore_scan hex (CHR ''!'') cs))"

definition strip_sign :: "string \<Rightarrow> string" where
  "strip_sign s = (case s of c # cs \<Rightarrow> if c = CHR ''-'' \<or> c = CHR ''+'' then cs else s | [] \<Rightarrow> [])"

definition underscoreOK :: "string \<Rightarrow> bool" where
  "underscoreOK s0 =
     (case strip_sign s0 of
        a # b # s \<Rightarrow>
          if a = CHR ''0'' \<and> lower_char b \<in> {CHR ''b'', CHR ''o'', CHR ''x''}
          then underscore_scan (lower_char b = CHR ''x'') (CHR ''0'') s
          else underscore_scan False (CHR ''^'') (a # b # s)
      | s \<Rightarrow> underscore_scan False (CHR ''^'') s)"

text \<open>The base and the digits that remain after the prefix of a base-0 literal.\<close>

fun base_prefix :: "string \<Rightarrow> nat \<times> string" where
  "base_prefix (a # b # c # s) =
     (if a = CHR ''0'' then
        (if lower_char b = CHR ''b'' then (2, c # s)
         else if lower_char b = CHR ''o'' then (8, c # s)
         else if lower_char b = CHR ''x'' then (16, c # s)
         else (8, b # c # s))
      else (10, a # b # c # s))"
| "base_prefix (a # s) = (if a = CHR ''0'' then (8, s) else (10, a # s))"
| "base_prefix [] = (10, [])"

definition strconv_ParseUint :: "string \<Rightarrow> nat \<Rightarrow> err + nat" where
  "strconv_ParseUint s base =
     (if s = [] then Inl (NumErrorSyntax s)
      else
        let base0 = (base = 0);
            (b, ds) = (if base0 then base_prefix s else (base, s))
        in rbind (parse_digits s base0 b 0 ds) (\<lambda>n.
          if base0 \<and> CHR ''_'' \<in> set ds \<and> \<not> underscoreOK s then Inl (NumErrorSyntax s) else Inr n))"

definition strconv_ParseInt :: "string \<Rightarrow> nat \<Rightarrow> err + int" where
  "strconv_ParseInt s base =
     (if s = [] then Inl (NumErrorSyntax s)
      else
        let neg = (hd s = CHR ''-'') in
        rbind (strconv_ParseUint (strip_sign s) base) (\<lambda>un.
          if \<not> neg \<and> 2 ^ 63 \<le> un then Inl (NumErrorRange s)
          else if neg \<and> 2 ^ 63 < un then Inl (NumErrorRange s)
          else Inr (if neg then - int un else int un)))"

definition strconv_Atoi :: "string \<Rightarrow> err + int" where
  "strconv_Atoi s = strconv_ParseInt s 10"

text \<open>The conversions \<open>int32(i)\<close> and \<open>uint32(i)\<close> of Go keep the low 32 bits.\<close>

definition go_int32 :: "int \<Rightarrow> int32" where
  "go_int32 i = word_of_int i"

definition go_uint32 :: "int \<Rightarrow> uint32" where
  "go_uint32 i = word_of_int i"

section \<open>Facts\<close>

lemma parse_digits_bound: "parse_digits s0 b0 base n cs = Inr m \<Longrightarrow> n < 2 ^ 64 \<Longrightarrow> m < 2 ^ 64"
  by (induction s0 b0 base n cs rule: parse_digits.induct)
     (auto split: if_splits option.splits)

lemma strconv_ParseUint_bound: "strconv_ParseUint s base = Inr n \<Longrightarrow> n < 2 ^ 64"
  by (auto simp: strconv_ParseUint_def Let_def rbind_Inr_iff split: if_splits prod.splits
      dest!: parse_digits_bound)

lemma strconv_ParseInt_bound:
  assumes "strconv_ParseInt s base = Inr i"
  shows "- (2 ^ 63) \<le> i \<and> i < 2 ^ 63"
proof -
  from assms obtain un where
    "strconv_ParseUint (strip_sign s) base = Inr un" and
    i: "i = (if hd s = CHR ''-'' then - int un else int un)" and
    c: "\<not> (hd s \<noteq> CHR ''-'' \<and> 2 ^ 63 \<le> un)" "\<not> (hd s = CHR ''-'' \<and> 2 ^ 63 < un)"
    by (auto simp: strconv_ParseInt_def Let_def rbind_Inr_iff split: if_splits)
  show ?thesis
  proof (cases "hd s = CHR ''-''")
    case True
    with c have "un \<le> 2 ^ 63" by simp
    then have "int un \<le> 2 ^ 63" by (metis of_nat_le_iff of_nat_numeral of_nat_power)
    with True i show ?thesis by simp
  next
    case False
    with c have "un < 2 ^ 63" by simp
    then have "int un < 2 ^ 63" by (metis of_nat_less_iff of_nat_numeral of_nat_power)
    with False i show ?thesis by simp
  qed
qed

text \<open>A decimal numeral without sign or leading zero is read back by \<open>Atoi\<close> and by base 0.\<close>

lemma digit_of_digit: "is_digit c \<Longrightarrow> digit_of c = Some (digit_val c) \<and> digit_val c < 10"
  by (auto simp: digit_of_def digit_val_def is_digit_def less_eq_char_def)

lemma underscore_not_digit: "is_digit c \<Longrightarrow> c \<noteq> CHR ''_''"
  by (auto simp: is_digit_def)

lemma foldl_dec_mono:
  "n \<le> foldl (\<lambda>n c. n * 10 + digit_val c) n cs"
proof (induction cs arbitrary: n)
  case Nil
  then show ?case by simp
next
  case (Cons c cs)
  have "n \<le> n * 10 + digit_val c" by simp
  also have "\<dots> \<le> foldl (\<lambda>n c. n * 10 + digit_val c) (n * 10 + digit_val c) cs"
    by (rule Cons.IH)
  finally show ?case by simp
qed

lemma parse_digits_dec:
  assumes "\<forall>c\<in>set cs. is_digit c"
    and "foldl (\<lambda>n c. n * 10 + digit_val c) n cs < 2 ^ 64"
  shows "parse_digits s0 b0 10 n cs = Inr (foldl (\<lambda>n c. n * 10 + digit_val c) n cs)"
  using assms
proof (induction cs arbitrary: n)
  case Nil
  then show ?case by simp
next
  case (Cons c cs)
  have d: "is_digit c" using Cons.prems(1) by simp
  have "n * 10 + digit_val c < 2 ^ 64"
    using Cons.prems(2) foldl_dec_mono [of "n * 10 + digit_val c" cs] by simp
  with Cons d show ?case
    using digit_of_digit [OF d] underscore_not_digit [OF d] by auto
qed

lemma ParseInt_nat_dec:
  assumes n: "0 < n" "n < 2 ^ 63" and b: "base = 0 \<or> base = 10"
  shows "strconv_ParseInt (nat_dec n) base = Inr (int n)"
proof -
  define s where "s = nat_dec n"
  have dig: "\<forall>c\<in>set s. is_digit c" using nat_dec_digits by (auto simp: s_def)
  have ne: "s \<noteq> []" by (simp add: s_def)
  have val: "foldl (\<lambda>n c. n * 10 + digit_val c) 0 s = n"
    using dec_val_nat_dec [of n] by (simp add: dec_val_def s_def)
  have hd0: "hd (nat_dec n) \<noteq> CHR ''0''" using n(1)
  proof (induction n rule: nat_dec.induct)
    case (1 n)
    then show ?case
    proof (cases "n < 10")
      case True
      have "char_of (48 + n) \<noteq> CHR ''0''"
      proof
        assume "char_of (48 + n) = CHR ''0''"
        then have "(of_char (char_of (48 + n) :: char) :: nat) = of_char (CHR ''0'')" by simp
        with True "1.prems" show False by simp
      qed
      with True show ?thesis by (subst nat_dec.simps) simp
    next
      case False
      with "1.IH" show ?thesis by (subst nat_dec.simps) simp
    qed
  qed
  have hdd: "is_digit (hd s)" using dig ne by simp
  then have sgn: "hd s \<noteq> CHR ''-''" "strip_sign s = s"
    using ne by (auto simp: strip_sign_def is_digit_def split: list.split)
  have us: "CHR ''_'' \<notin> set s" using dig underscore_not_digit by blast
  have bp: "base_prefix s = (10, s)"
    using hd0 ne unfolding s_def [symmetric] by (cases s rule: base_prefix.cases) auto
  have pd: "parse_digits s0 b0 10 0 s = Inr n" for s0 b0
    using parse_digits_dec [OF dig, of 0 s0 b0] val n(2) by simp
  have "strconv_ParseUint s base = Inr n"
    using b ne us bp pd by (auto simp: strconv_ParseUint_def)
  with ne sgn n(2) show ?thesis
    by (simp add: strconv_ParseInt_def s_def)
qed

lemma go_int32_small: "- (2 ^ 31) \<le> i \<Longrightarrow> i < 2 ^ 31 \<Longrightarrow> sint (go_int32 i) = i"
  by (simp add: go_int32_def sint_sbintrunc' signed_take_bit_int_eq_self)

lemma go_int32_wraps: "go_int32 (i + 2 ^ 32) = go_int32 i"
  by (simp add: go_int32_def)

end
