(* ===== verification/Annotations.thy ===== *)
theory Annotations
  imports Types GoStrconv GoTime
begin

text \<open>
  \<open>scaleway/loadbalancers_annotations.go\<close>, first part: the annotation keys and the getters
  that read one annotation of a service, with its default and its validation.  The getters
  with a value per port are in \<open>PortAnnotations\<close>.
\<close>

named_theorems anno_keys \<open>the annotation keys, as the common prefix and a suffix\<close>

section \<open>Keys\<close>

text \<open>Every key starts with the same text; two keys differ in what follows it.\<close>

definition annoPrefix :: string where
  "annoPrefix = ''service.beta.kubernetes.io/scw-loadbalancer-''"

definition serviceAnnotationLoadBalancerID :: string where
  [anno_keys]: "serviceAnnotationLoadBalancerID = annoPrefix @ ''id''"

definition serviceAnnotationLoadBalancerForwardPortAlgorithm :: string where
  [anno_keys]: "serviceAnnotationLoadBalancerForwardPortAlgorithm = annoPrefix @ ''forward-port-algorithm''"

definition serviceAnnotationLoadBalancerStickySessions :: string where
  [anno_keys]: "serviceAnnotationLoadBalancerStickySessions = annoPrefix @ ''sticky-sessions''"

definition serviceAnnotationLoadBalancerStickySessionsCookieName :: string where
  [anno_keys]: "serviceAnnotationLoadBalancerStickySessionsCookieName = annoPrefix @ ''sticky-sessions-cookie-name''"

definition serviceAnnotationLoadBalancerHealthCheckType :: string where
  [anno_keys]: "serviceAnnotationLoadBalancerHealthCheckType = annoPrefix @ ''health-check-type''"

definition serviceAnnotationLoadBalancerHealthCheckDelay :: string where
  [anno_keys]: "serviceAnnotationLoadBalancerHealthCheckDelay = annoPrefix @ ''health-check-delay''"

definition serviceAnnotationLoadBalancerHealthCheckSendProxy :: string where
  [anno_keys]: "serviceAnnotationLoadBalancerHealthCheckSendProxy = annoPrefix @ ''health-check-send-proxy''"

definition serviceAnnotationLoadBalancerHealthTransientCheckDelay :: string where
  [anno_keys]: "serviceAnnotationLoadBalancerHealthTransientCheckDelay = annoPrefix @ ''health-transient-check-delay''"

definition serviceAnnotationLoadBalancerHealthCheckTimeout :: string where
  [anno_keys]: "serviceAnnotationLoadBalancerHealthCheckTimeout = annoPrefix @ ''health-check-timeout''"

definition serviceAnnotationLoadBalancerHealthCheckMaxRetries :: string where
  [anno_keys]: "serviceAnnotationLoadBalancerHealthCheckMaxRetries = annoPrefix @ ''health-check-max-retries''"

definition serviceAnnotationLoadBalancerHealthCheckHTTPURI :: string where
  [anno_keys]: "serviceAnnotationLoadBalancerHealthCheckHTTPURI = annoPrefix @ ''health-check-http-uri''"

definition serviceAnnotationLoadBalancerHealthCheckHTTPMethod :: string where
  [anno_keys]: "serviceAnnotationLoadBalancerHealthCheckHTTPMethod = annoPrefix @ ''health-check-http-method''"

definition serviceAnnotationLoadBalancerHealthCheckHTTPCode :: string where
  [anno_keys]: "serviceAnnotationLoadBalancerHealthCheckHTTPCode = annoPrefix @ ''health-check-http-code''"

definition serviceAnnotationLoadBalancerHealthCheckMysqlUser :: string where
  [anno_keys]: "serviceAnnotationLoadBalancerHealthCheckMysqlUser = annoPrefix @ ''health-check-mysql-user''"

definition serviceAnnotationLoadBalancerHealthCheckPgsqlUser :: string where
  [anno_keys]: "serviceAnnotationLoadBalancerHealthCheckPgsqlUser = annoPrefix @ ''health-check-pgsql-user''"

definition serviceAnnotationLoadBalancerSendProxyV2 :: string where
  [anno_keys]: "serviceAnnotationLoadBalancerSendProxyV2 = annoPrefix @ ''send-proxy-v2''"

definition serviceAnnotationLoadBalancerProxyProtocolV1 :: string where
  [anno_keys]: "serviceAnnotationLoadBalancerProxyProtocolV1 = annoPrefix @ ''proxy-protocol-v1''"

definition serviceAnnotationLoadBalancerProxyProtocolV2 :: string where
  [anno_keys]: "serviceAnnotationLoadBalancerProxyProtocolV2 = annoPrefix @ ''proxy-protocol-v2''"

definition serviceAnnotationLoadBalancerType :: string where
  [anno_keys]: "serviceAnnotationLoadBalancerType = annoPrefix @ ''type''"

definition serviceAnnotationLoadBalancerZone :: string where
  [anno_keys]: "serviceAnnotationLoadBalancerZone = annoPrefix @ ''zone''"

definition serviceAnnotationLoadBalancerConnectionRateLimit :: string where
  [anno_keys]: "serviceAnnotationLoadBalancerConnectionRateLimit = annoPrefix @ ''connection-rate-limit''"

definition serviceAnnotationLoadBalancerEnableAccessLogs :: string where
  [anno_keys]: "serviceAnnotationLoadBalancerEnableAccessLogs = annoPrefix @ ''enable-access-logs''"

definition serviceAnnotationLoadBalancerEnableHTTP3 :: string where
  [anno_keys]: "serviceAnnotationLoadBalancerEnableHTTP3 = annoPrefix @ ''enable-http3''"

definition serviceAnnotationLoadBalancerSSLCompatibilityLevel :: string where
  [anno_keys]: "serviceAnnotationLoadBalancerSSLCompatibilityLevel = annoPrefix @ ''ssl-compatibility-level''"

definition serviceAnnotationLoadBalancerTimeoutClient :: string where
  [anno_keys]: "serviceAnnotationLoadBalancerTimeoutClient = annoPrefix @ ''timeout-client''"

definition serviceAnnotationLoadBalancerTimeoutServer :: string where
  [anno_keys]: "serviceAnnotationLoadBalancerTimeoutServer = annoPrefix @ ''timeout-server''"

definition serviceAnnotationLoadBalancerTimeoutConnect :: string where
  [anno_keys]: "serviceAnnotationLoadBalancerTimeoutConnect = annoPrefix @ ''timeout-connect''"

definition serviceAnnotationLoadBalancerTimeoutTunnel :: string where
  [anno_keys]: "serviceAnnotationLoadBalancerTimeoutTunnel = annoPrefix @ ''timeout-tunnel''"

definition serviceAnnotationLoadBalancerTimeoutQueue :: string where
  [anno_keys]: "serviceAnnotationLoadBalancerTimeoutQueue = annoPrefix @ ''timeout-queue''"

definition serviceAnnotationLoadBalancerOnMarkedDownAction :: string where
  [anno_keys]: "serviceAnnotationLoadBalancerOnMarkedDownAction = annoPrefix @ ''on-marked-down-action''"

definition serviceAnnotationLoadBalancerForceInternalIP :: string where
  [anno_keys]: "serviceAnnotationLoadBalancerForceInternalIP = annoPrefix @ ''force-internal-ip''"

definition serviceAnnotationLoadBalancerUseHostname :: string where
  [anno_keys]: "serviceAnnotationLoadBalancerUseHostname = annoPrefix @ ''use-hostname''"

definition serviceAnnotationLoadBalancerProtocolHTTP :: string where
  [anno_keys]: "serviceAnnotationLoadBalancerProtocolHTTP = annoPrefix @ ''protocol-http''"

definition serviceAnnotationLoadBalancerHTTPBackendTLS :: string where
  [anno_keys]: "serviceAnnotationLoadBalancerHTTPBackendTLS = annoPrefix @ ''http-backend-tls''"

definition serviceAnnotationLoadBalancerHTTPBackendTLSSkipVerify :: string where
  [anno_keys]: "serviceAnnotationLoadBalancerHTTPBackendTLSSkipVerify = annoPrefix @ ''http-backend-tls-skip-verify''"

definition serviceAnnotationLoadBalancerCertificateIDs :: string where
  [anno_keys]: "serviceAnnotationLoadBalancerCertificateIDs = annoPrefix @ ''certificate-ids''"

definition serviceAnnotationLoadBalancerTargetNodeLabels :: string where
  [anno_keys]: "serviceAnnotationLoadBalancerTargetNodeLabels = annoPrefix @ ''target-node-labels''"

definition serviceAnnotationLoadBalancerRedispatchAttemptCount :: string where
  [anno_keys]: "serviceAnnotationLoadBalancerRedispatchAttemptCount = annoPrefix @ ''redispatch-attempt-count''"

definition serviceAnnotationLoadBalancerMaxConnections :: string where
  [anno_keys]: "serviceAnnotationLoadBalancerMaxConnections = annoPrefix @ ''max-connections''"

definition serviceAnnotationLoadBalancerMaxRetries :: string where
  [anno_keys]: "serviceAnnotationLoadBalancerMaxRetries = annoPrefix @ ''max-retries''"

definition serviceAnnotationLoadBalancerFailoverHost :: string where
  [anno_keys]: "serviceAnnotationLoadBalancerFailoverHost = annoPrefix @ ''failover-host''"

definition serviceAnnotationLoadBalancerPrivate :: string where
  [anno_keys]: "serviceAnnotationLoadBalancerPrivate = annoPrefix @ ''private''"

definition serviceAnnotationLoadBalancerExternallyManaged :: string where
  [anno_keys]: "serviceAnnotationLoadBalancerExternallyManaged = annoPrefix @ ''externally-managed''"

definition serviceAnnotationLoadBalancerIPIDs :: string where
  [anno_keys]: "serviceAnnotationLoadBalancerIPIDs = annoPrefix @ ''ip-ids''"

definition serviceAnnotationLoadBalancerPrivateIPIDs :: string where
  [anno_keys]: "serviceAnnotationLoadBalancerPrivateIPIDs = annoPrefix @ ''private-ip-ids''"

definition serviceAnnotationLoadBalancerIPMode :: string where
  [anno_keys]: "serviceAnnotationLoadBalancerIPMode = annoPrefix @ ''ip-mode''"

definition serviceAnnotationPrivateNetworkIDs :: string where
  [anno_keys]: "serviceAnnotationPrivateNetworkIDs = annoPrefix @ ''pn-ids''"

definition serviceAnnotationLoadBalancerFlexibleIPTypes :: string where
  [anno_keys]: "serviceAnnotationLoadBalancerFlexibleIPTypes = annoPrefix @ ''flexible-ip-types''"

definition serviceAnnotationLoadBalancerHealthCheckFromService :: string where
  [anno_keys]: "serviceAnnotationLoadBalancerHealthCheckFromService = annoPrefix @ ''health-check-from-service''"

abbreviation anno :: "Service \<Rightarrow> string \<Rightarrow> string option" where
  "anno service key \<equiv> map_of (svc_Annotations service) key"

text \<open>Reading an annotation without the \<open>ok\<close> flag: a missing one reads as the empty string.\<close>

abbreviation annoOrEmpty :: "Service \<Rightarrow> string \<Rightarrow> string" where
  "annoOrEmpty service key \<equiv> getOrZero (svc_Annotations service) key"

section \<open>Identifiers\<close>

definition getLoadBalancerID :: "sdk \<Rightarrow> Service \<Rightarrow> err + string \<times> string" where
  "getLoadBalancerID X service =
     (case anno service serviceAnnotationLoadBalancerID of
        None \<Rightarrow> Inl ErrLoadBalancerInvalidAnnotation
      | Some annoLoadBalancerID \<Rightarrow>
          (case strings_Split (strings_ToLower annoLoadBalancerID) ''/'' of
             [a, b] \<Rightarrow> if sdk_IsRegion X a then Inr (a @ ''-1'', b) else Inr (a, b)
           | _ \<Rightarrow> Inl ErrLoadBalancerInvalidLoadBalancerID))"

definition getLoadBalancerType :: "Service \<Rightarrow> string" where
  "getLoadBalancerType service =
     strings_ToLower (annoOrEmpty service serviceAnnotationLoadBalancerType)"

definition getLoadBalancerZone :: "Service \<Rightarrow> string" where
  "getLoadBalancerZone service =
     strings_ToLower (annoOrEmpty service serviceAnnotationLoadBalancerZone)"

text \<open>A comma-separated list; the code gives nil for a missing or empty annotation.\<close>

definition getIPIDs :: "Service \<Rightarrow> string list" where
  "getIPIDs service =
     (let ipIDs = annoOrEmpty service serviceAnnotationLoadBalancerIPIDs
      in if ipIDs = '''' then [] else strings_Split ipIDs '','')"

definition getPrivateIPIDs :: "Service \<Rightarrow> string list" where
  "getPrivateIPIDs service =
     (let ids = annoOrEmpty service serviceAnnotationLoadBalancerPrivateIPIDs
      in if ids = '''' then [] else remdups (strings_Split ids '',''))"

definition getPrivateNetworkIDs :: "Service \<Rightarrow> string list" where
  "getPrivateNetworkIDs service =
     (let pnIDs = annoOrEmpty service serviceAnnotationPrivateNetworkIDs
      in if pnIDs = '''' then [] else strings_Split pnIDs '','')"

section \<open>Enumerations\<close>

definition ForwardPortAlgorithmRoundrobin :: string where
  "ForwardPortAlgorithmRoundrobin = ''roundrobin''"

definition ForwardPortAlgorithmLeastconn :: string where
  "ForwardPortAlgorithmLeastconn = ''leastconn''"

definition ForwardPortAlgorithmFirst :: string where
  "ForwardPortAlgorithmFirst = ''first''"

definition StickySessionsTypeNone :: string where
  "StickySessionsTypeNone = ''none''"

definition StickySessionsTypeCookie :: string where
  "StickySessionsTypeCookie = ''cookie''"

definition StickySessionsTypeTable :: string where
  "StickySessionsTypeTable = ''table''"

definition OnMarkedDownActionNone :: string where
  "OnMarkedDownActionNone = ''on_marked_down_action_none''"

definition OnMarkedDownActionShutdownSessions :: string where
  "OnMarkedDownActionShutdownSessions = ''shutdown_sessions''"

definition SSLCompatibilityLevelIntermediate :: string where
  "SSLCompatibilityLevelIntermediate = ''ssl_compatibility_level_intermediate''"

definition getForwardPortAlgorithm :: "Service \<Rightarrow> err + string" where
  "getForwardPortAlgorithm service =
     (case anno service serviceAnnotationLoadBalancerForwardPortAlgorithm of
        None \<Rightarrow> Inr ForwardPortAlgorithmRoundrobin
      | Some v \<Rightarrow>
          if v \<noteq> ForwardPortAlgorithmRoundrobin \<and> v \<noteq> ForwardPortAlgorithmLeastconn
             \<and> v \<noteq> ForwardPortAlgorithmFirst
          then Inl ErrLoadBalancerInvalidAnnotation else Inr v)"

definition getStickySessions :: "Service \<Rightarrow> err + string" where
  "getStickySessions service =
     (case anno service serviceAnnotationLoadBalancerStickySessions of
        None \<Rightarrow> Inr StickySessionsTypeNone
      | Some v \<Rightarrow>
          if v \<noteq> StickySessionsTypeNone \<and> v \<noteq> StickySessionsTypeCookie
             \<and> v \<noteq> StickySessionsTypeTable
          then Inl ErrLoadBalancerInvalidAnnotation else Inr v)"

definition getStickySessionsCookieName :: "Service \<Rightarrow> err + string" where
  "getStickySessionsCookieName service =
     (case anno service serviceAnnotationLoadBalancerStickySessionsCookieName of
        None \<Rightarrow> Inr ''''
      | Some v \<Rightarrow> Inr v)"

definition getOnMarkedDownAction :: "Service \<Rightarrow> err + string" where
  "getOnMarkedDownAction service =
     (case anno service serviceAnnotationLoadBalancerOnMarkedDownAction of
        None \<Rightarrow> Inr OnMarkedDownActionNone
      | Some v \<Rightarrow>
          if v \<noteq> OnMarkedDownActionNone \<and> v \<noteq> OnMarkedDownActionShutdownSessions
          then Inl ErrLoadBalancerInvalidAnnotation else Inr v)"

definition getSSLCompatibilityLevel :: "sdk \<Rightarrow> Service \<Rightarrow> err + string" where
  "getSSLCompatibilityLevel X service =
     (let v = annoOrEmpty service serviceAnnotationLoadBalancerSSLCompatibilityLevel
      in if v = '''' then Inr SSLCompatibilityLevelIntermediate
         else if v \<notin> set (sdk_SSLLevels X) then Inl ErrLoadBalancerInvalidAnnotation
         else Inr v)"

text \<open>The loop over the requested address families keeps two flags.\<close>

fun flexible_ip_loop :: "bool \<Rightarrow> bool \<Rightarrow> string list \<Rightarrow> err + bool \<times> bool" where
  "flexible_ip_loop v4 v6 [] = Inr (v4, v6)"
| "flexible_ip_loop v4 v6 (t # ts) =
     (let ipType = strings_ToLower (strings_TrimSpace t) in
      if ipType = ''ipv4'' then flexible_ip_loop True v6 ts
      else if ipType = ''ipv6'' then flexible_ip_loop v4 True ts
      else Inl (Errorf ''unsupported value %q'' None))"

definition getFlexibleIPTypes :: "Service \<Rightarrow> err + bool \<times> bool" where
  "getFlexibleIPTypes service =
     (let flexibleIPTypes = annoOrEmpty service serviceAnnotationLoadBalancerFlexibleIPTypes
      in if flexibleIPTypes = '''' then Inr (True, False)
         else rbind (flexible_ip_loop False False (strings_Split flexibleIPTypes '','')) (\<lambda>(v4, v6).
           if \<not> v4 then Inl (Errorf ''an IPv4 is always required'' None) else Inr (v4, v6)))"

section \<open>Durations, integers, booleans\<close>

text \<open>
  Three bodies that the getters repeat: a duration with a default text, an integer narrowed
  to 32 bits, and a boolean.  A value that does not parse is the invalid-annotation error.
\<close>

definition durationAnno :: "Service \<Rightarrow> string \<Rightarrow> string \<Rightarrow> err + duration" where
  "durationAnno service key dflt =
     (case anno service key of
        None \<Rightarrow> time_ParseDuration dflt
      | Some v \<Rightarrow>
          (case time_ParseDuration v of
             Inl e \<Rightarrow> Inl ErrLoadBalancerInvalidAnnotation
           | Inr d \<Rightarrow> Inr d))"

definition int32Anno :: "Service \<Rightarrow> string \<Rightarrow> 'a \<Rightarrow> (int32 \<Rightarrow> 'a) \<Rightarrow> err + 'a" where
  "int32Anno service key dflt conv =
     (case anno service key of
        None \<Rightarrow> Inr dflt
      | Some v \<Rightarrow>
          (case strconv_Atoi v of
             Inl e \<Rightarrow> Inl ErrLoadBalancerInvalidAnnotation
           | Inr i \<Rightarrow> Inr (conv (go_int32 i))))"

definition getTimeoutClient :: "Service \<Rightarrow> err + duration" where
  "getTimeoutClient service = durationAnno service serviceAnnotationLoadBalancerTimeoutClient ''10m''"

definition getTimeoutServer :: "Service \<Rightarrow> err + duration" where
  "getTimeoutServer service = durationAnno service serviceAnnotationLoadBalancerTimeoutServer ''10s''"

definition getTimeoutConnect :: "Service \<Rightarrow> err + duration" where
  "getTimeoutConnect service = durationAnno service serviceAnnotationLoadBalancerTimeoutConnect ''10m''"

definition getTimeoutTunnel :: "Service \<Rightarrow> err + duration" where
  "getTimeoutTunnel service = durationAnno service serviceAnnotationLoadBalancerTimeoutTunnel ''10m''"

definition getTimeoutQueue :: "sdk \<Rightarrow> Service \<Rightarrow> err + scw_duration option" where
  "getTimeoutQueue X service =
     (case anno service serviceAnnotationLoadBalancerTimeoutQueue of
        None \<Rightarrow> Inr None
      | Some v \<Rightarrow>
          (case time_ParseDuration v of
             Inl e \<Rightarrow> Inl ErrLoadBalancerInvalidAnnotation
           | Inr d \<Rightarrow> Inr (Some (sdk_NewDurationFromTimeDuration X d))))"

definition getRedisatchAttemptCount :: "Service \<Rightarrow> err + int32 option" where
  "getRedisatchAttemptCount service =
     int32Anno service serviceAnnotationLoadBalancerRedispatchAttemptCount (Some 0) Some"

definition getMaxConnections :: "Service \<Rightarrow> err + int32 option" where
  "getMaxConnections service =
     int32Anno service serviceAnnotationLoadBalancerMaxConnections None Some"

definition getMaxRetries :: "Service \<Rightarrow> err + int32 option" where
  "getMaxRetries service =
     int32Anno service serviceAnnotationLoadBalancerMaxRetries (Some 3) Some"

definition getFailoverHost :: "Service \<Rightarrow> err + string option" where
  "getFailoverHost service = Inr (anno service serviceAnnotationLoadBalancerFailoverHost)"

definition getHealthCheckDelay :: "Service \<Rightarrow> err + duration" where
  "getHealthCheckDelay service = durationAnno service serviceAnnotationLoadBalancerHealthCheckDelay ''5s''"

definition getHealthCheckTimeout :: "Service \<Rightarrow> err + duration" where
  "getHealthCheckTimeout service =
     durationAnno service serviceAnnotationLoadBalancerHealthCheckTimeout ''5s''"

definition getHealthCheckMaxRetries :: "Service \<Rightarrow> err + int32" where
  "getHealthCheckMaxRetries service =
     int32Anno service serviceAnnotationLoadBalancerHealthCheckMaxRetries 5 id"

definition getHealthCheckSendProxy :: "Service \<Rightarrow> err + bool" where
  "getHealthCheckSendProxy service =
     (case anno service serviceAnnotationLoadBalancerHealthCheckSendProxy of
        None \<Rightarrow> Inr False
      | Some v \<Rightarrow>
          (case strconv_ParseBool v of
             Inl e \<Rightarrow> Inl ErrLoadBalancerInvalidAnnotation
           | Inr b \<Rightarrow> Inr b))"

definition getHealthCheckTransientCheckDelay :: "sdk \<Rightarrow> Service \<Rightarrow> err + scw_duration option" where
  "getHealthCheckTransientCheckDelay X service =
     (case anno service serviceAnnotationLoadBalancerHealthTransientCheckDelay of
        None \<Rightarrow> Inr None
      | Some v \<Rightarrow>
          (case time_ParseDuration v of
             Inl e \<Rightarrow> Inl ErrLoadBalancerInvalidAnnotation
           | Inr d \<Rightarrow>
               let p = sdk_durationpb_New X d
               in Inr (Some \<lparr>sd_Seconds = sd_Seconds p, sd_Nanos = sd_Nanos p\<rparr>)))"

text \<open>Two flags whose unparsable values count as false.\<close>

definition getForceInternalIP :: "Service \<Rightarrow> bool" where
  "getForceInternalIP service =
     (case anno service serviceAnnotationLoadBalancerForceInternalIP of
        None \<Rightarrow> False
      | Some v \<Rightarrow> (case strconv_ParseBool v of Inl e \<Rightarrow> False | Inr b \<Rightarrow> b))"

definition getUseHostname :: "Service \<Rightarrow> bool" where
  "getUseHostname service =
     (case anno service serviceAnnotationLoadBalancerUseHostname of
        None \<Rightarrow> False
      | Some v \<Rightarrow> (case strconv_ParseBool v of Inl e \<Rightarrow> False | Inr b \<Rightarrow> b))"

text \<open>Four flags whose parse error is returned as it is.\<close>

definition boolAnno :: "Service \<Rightarrow> string \<Rightarrow> err + bool" where
  "boolAnno service key =
     (case anno service key of None \<Rightarrow> Inr False | Some v \<Rightarrow> strconv_ParseBool v)"

definition svcPrivate :: "Service \<Rightarrow> err + bool" where
  "svcPrivate service = boolAnno service serviceAnnotationLoadBalancerPrivate"

definition svcExternallyManaged :: "Service \<Rightarrow> err + bool" where
  "svcExternallyManaged service = boolAnno service serviceAnnotationLoadBalancerExternallyManaged"

definition getEnableAccessLogs :: "Service \<Rightarrow> err + bool" where
  "getEnableAccessLogs service = boolAnno service serviceAnnotationLoadBalancerEnableAccessLogs"

definition getEnableHTTP3 :: "Service \<Rightarrow> err + bool" where
  "getEnableHTTP3 service = boolAnno service serviceAnnotationLoadBalancerEnableHTTP3"

definition getLoadBalancerIPMode :: "Service \<Rightarrow> string option" where
  "getLoadBalancerIPMode service = anno service serviceAnnotationLoadBalancerIPMode"

definition getConnectionRateLimit :: "Service \<Rightarrow> err + uint32 option" where
  "getConnectionRateLimit service =
     (case anno service serviceAnnotationLoadBalancerConnectionRateLimit of
        None \<Rightarrow> Inr None
      | Some v \<Rightarrow>
          (case strconv_Atoi v of
             Inl e \<Rightarrow> Inl ErrLoadBalancerInvalidAnnotation
           | Inr i \<Rightarrow> Inr (Some (go_uint32 i))))"

section \<open>Key=value lists\<close>

definition kv_step :: "string \<Rightarrow> (string, string) gomap \<Rightarrow> (string, string) gomap" where
  "kv_step tagSet tags =
     (case strings_Split (strings_TrimSpace tagSet) ''='' of
        [] \<Rightarrow> tags
      | [k] \<Rightarrow> if k \<noteq> '''' then AList.update k '''' tags else tags
      | k # v # _ \<Rightarrow> if k \<noteq> '''' then AList.update k v tags else tags)"

definition getKeyValueFromAnnotation :: "string \<Rightarrow> (string, string) gomap" where
  "getKeyValueFromAnnotation annotation =
     fold kv_step (strings_Split (strings_TrimSpace annotation) '','') []"

end
