(* ===== verification/PortAnnotations.thy ===== *)
theory PortAnnotations
  imports Annotations
begin

text \<open>
  \<open>scaleway/loadbalancers_annotations.go\<close>, second part, with \<open>isPortInRange\<close> of
  \<open>scaleway/loadbalancers.go\<close>: annotations whose value depends on a port of the service, the
  health check configurations, and the certificates of a frontend.
\<close>

section \<open>Ports in an annotation\<close>

text \<open>
  The loop over the ports of the service that recurs in the getters: the port of the last
  entry with this node port, -1 when there is none.
\<close>

definition svcPort :: "Service \<Rightarrow> int32 \<Rightarrow> int32" where
  "svcPort service nodePort =
     fold (\<lambda>p acc. if port_NodePort p = nodePort then port_Port p else acc) (svc_Ports service) (-1)"

text \<open>
  The loop of \<open>isPortInRange\<close>: entries are read and checked one by one until one is the port.
\<close>

fun port_list_scan :: "int \<Rightarrow> string list \<Rightarrow> err + bool" where
  "port_list_scan p [] = Inr False"
| "port_list_scan p (e # es) =
     (case strconv_ParseInt e 0 of
        Inl err \<Rightarrow> Inl err
      | Inr intPort \<Rightarrow>
          if intPort < 1 \<or> 65535 < intPort
          then Inl (Errorf ''port %d is outside valid range (1-65535)'' None)
          else if p = intPort then Inr True
          else port_list_scan p es)"

definition port_entries :: "string \<Rightarrow> string list" where
  "port_entries r = strings_Split (strings_RemoveAll r (CHR '' '')) '',''"

definition isPortInRange :: "string \<Rightarrow> int32 \<Rightarrow> err + bool" where
  "isPortInRange r p =
     (case strconv_ParseBool r of
        Inr b \<Rightarrow>
          if r \<noteq> ''1'' \<and> r \<noteq> ''0'' then Inr b
          else port_list_scan (sint p) (port_entries r)
      | Inl _ \<Rightarrow>
          if r = ''*'' then Inr True
          else if r = '''' then Inr False
          else port_list_scan (sint p) (port_entries r))"

section \<open>Protocols\<close>

fun send_proxy_scan :: "int \<Rightarrow> string list \<Rightarrow> err + ProxyProtocol" where
  "send_proxy_scan p [] = Inr ProxyProtocolNone"
| "send_proxy_scan p (e # es) =
     (case strconv_ParseInt e 0 of
        Inl _ \<Rightarrow> Inl ErrLoadBalancerInvalidAnnotation
      | Inr intPort \<Rightarrow> if p = intPort then Inr ProxyProtocolV2 else send_proxy_scan p es)"

definition getSendProxyV2 :: "Service \<Rightarrow> int32 \<Rightarrow> err + ProxyProtocol" where
  "getSendProxyV2 service nodePort =
     (case anno service serviceAnnotationLoadBalancerSendProxyV2 of
        None \<Rightarrow> Inr ProxyProtocolNone
      | Some sendProxyV2 \<Rightarrow>
          (case strconv_ParseBool sendProxyV2 of
             Inl _ \<Rightarrow>
               if svcPort service nodePort = -1 then Inl ErrLoadBalancerInvalidAnnotation
               else send_proxy_scan (sint (svcPort service nodePort)) (port_entries sendProxyV2)
           | Inr b \<Rightarrow> Inr (if b then ProxyProtocolV2 else ProxyProtocolNone)))"

definition getProxyProtocol :: "Service \<Rightarrow> int32 \<Rightarrow> err + ProxyProtocol" where
  "getProxyProtocol service nodePort =
     (let v1 = annoOrEmpty service serviceAnnotationLoadBalancerProxyProtocolV1;
          v2 = annoOrEmpty service serviceAnnotationLoadBalancerProxyProtocolV2;
          p = svcPort service nodePort
      in if p = -1 then Inl ErrLoadBalancerInvalidAnnotation
         else rbind (isPortInRange v1 p) (\<lambda>isV1.
           rbind (isPortInRange v2 p) (\<lambda>isV2.
             if isV1 \<and> isV2
             then Inl (Errorf ''port %d is in both v1 and v2 proxy protocols'' None)
             else if isV1 then Inr ProxyProtocolV1
             else if isV2 then Inr ProxyProtocolV2
             else getSendProxyV2 service nodePort)))"

definition getForwardProtocol :: "Service \<Rightarrow> int32 \<Rightarrow> err + Protocol" where
  "getForwardProtocol service nodePort =
     (let httpProtocol = annoOrEmpty service serviceAnnotationLoadBalancerProtocolHTTP;
          p = svcPort service nodePort
      in if p = -1 then Inl ErrLoadBalancerInvalidAnnotation
         else rbind (isPortInRange httpProtocol p) (\<lambda>isHTTP.
           Inr (if isHTTP then ProtocolHTTP else ProtocolTCP)))"

definition getSSLBridging :: "Service \<Rightarrow> int32 \<Rightarrow> err + bool" where
  "getSSLBridging service nodePort =
     (case anno service serviceAnnotationLoadBalancerHTTPBackendTLS of
        None \<Rightarrow> Inr False
      | Some tlsEnabled \<Rightarrow>
          let p = svcPort service nodePort
          in if p = -1 then Inl ErrLoadBalancerInvalidAnnotation
             else isPortInRange tlsEnabled p)"

definition getSSLBridgingSkipVerify :: "Service \<Rightarrow> int32 \<Rightarrow> err + bool option" where
  "getSSLBridgingSkipVerify service nodePort =
     (case anno service serviceAnnotationLoadBalancerHTTPBackendTLSSkipVerify of
        None \<Rightarrow> Inr None
      | Some skipTLSVerify \<Rightarrow>
          let p = svcPort service nodePort
          in if p = -1 then Inl ErrLoadBalancerInvalidAnnotation
             else rbind (isPortInRange skipTLSVerify p) (\<lambda>b. Inr (Some b)))"

section \<open>Certificates\<close>

fun certificates_for_port :: "int32 \<Rightarrow> string list \<Rightarrow> string list \<Rightarrow> err + string list" where
  "certificates_for_port port ids [] = Inr ids"
| "certificates_for_port port ids (c # cs) =
     (case strings_Split c '':'' of
        [] \<Rightarrow> certificates_for_port port ids cs
      | [s] \<Rightarrow> certificates_for_port port (ids @ strings_Split s '','') cs
      | r # s # _ \<Rightarrow>
          rbind (isPortInRange r port) (\<lambda>inRange.
            certificates_for_port port (if inRange then ids @ strings_Split s '','' else ids) cs))"

text \<open>Strip the region prefix of an identifier.\<close>

definition normalize_id :: "string \<Rightarrow> err + string" where
  "normalize_id i =
     (if strings_Contains i ''/''
      then (case strings_Split i ''/'' of
              [a, b] \<Rightarrow> Inr b
            | _ \<Rightarrow> Inl (Errorf ''unable to get certificate ID from %s'' None))
      else Inr i)"

fun normalize_ids :: "string list \<Rightarrow> err + string list" where
  "normalize_ids [] = Inr []"
| "normalize_ids (i # is) =
     rbind (normalize_id i) (\<lambda>j. rbind (normalize_ids is) (\<lambda>js. Inr (j # js)))"

definition getCertificateIDs :: "Service \<Rightarrow> int32 \<Rightarrow> err + string list" where
  "getCertificateIDs service port =
     (let certificates = annoOrEmpty service serviceAnnotationLoadBalancerCertificateIDs
      in if certificates = '''' then Inr []
         else rbind (certificates_for_port port [] (strings_Split certificates '';'')) normalize_ids)"

section \<open>Values per port\<close>

fun value_for_port_loop :: "int32 \<Rightarrow> string \<Rightarrow> string list \<Rightarrow> err + string" where
  "value_for_port_loop p value [] = Inr value"
| "value_for_port_loop p value (e # es) =
     (case strings_Split e '':'' of
        [] \<Rightarrow> value_for_port_loop p value es
      | [v] \<Rightarrow> value_for_port_loop p (if value = '''' then v else value) es
      | [r, v] \<Rightarrow>
          rbind (isPortInRange r p) (\<lambda>inRange.
            value_for_port_loop p (if inRange then v else value) es)
      | _ \<Rightarrow> Inl (Errorf ''annotation with value %s is wrongly formatted, should be `port1:value1;port2,port3:value2`'' None))"

definition getValueForPort :: "Service \<Rightarrow> int32 \<Rightarrow> string \<Rightarrow> err + string" where
  "getValueForPort service nodePort fullValue =
     value_for_port_loop (svcPort service nodePort) '''' (strings_Split fullValue '';'')"

definition valueForPortAnno :: "Service \<Rightarrow> int32 \<Rightarrow> string \<Rightarrow> string \<Rightarrow> err + string" where
  "valueForPortAnno service nodePort key dflt =
     (case anno service key of
        None \<Rightarrow> Inr dflt
      | Some annotation \<Rightarrow> getValueForPort service nodePort annotation)"

section \<open>Health checks\<close>

definition getHealthCheckType :: "Service \<Rightarrow> int32 \<Rightarrow> err + string" where
  "getHealthCheckType service nodePort =
     valueForPortAnno service nodePort serviceAnnotationLoadBalancerHealthCheckType ''tcp''"

definition getRedisHealthCheck :: "Service \<Rightarrow> int32 \<Rightarrow> err + unit option" where
  "getRedisHealthCheck service nodePort = Inr (Some ())"

definition getLdapHealthCheck :: "Service \<Rightarrow> int32 \<Rightarrow> err + unit option" where
  "getLdapHealthCheck service nodePort = Inr (Some ())"

definition getTCPHealthCheck :: "Service \<Rightarrow> int32 \<Rightarrow> err + unit option" where
  "getTCPHealthCheck service nodePort = Inr (Some ())"

text \<open>A user for the database checks; no configuration at all without the annotation.\<close>

definition getPgsqlHealthCheck :: "Service \<Rightarrow> int32 \<Rightarrow> err + string option" where
  "getPgsqlHealthCheck service nodePort =
     (case anno service serviceAnnotationLoadBalancerHealthCheckPgsqlUser of
        None \<Rightarrow> Inr None
      | Some annotation \<Rightarrow>
          rbind (getValueForPort service nodePort annotation) (\<lambda>user. Inr (Some user)))"

definition getMysqlHealthCheck :: "Service \<Rightarrow> int32 \<Rightarrow> err + string option" where
  "getMysqlHealthCheck service nodePort =
     (case anno service serviceAnnotationLoadBalancerHealthCheckMysqlUser of
        None \<Rightarrow> Inr None
      | Some annotation \<Rightarrow>
          rbind (getValueForPort service nodePort annotation) (\<lambda>user. Inr (Some user)))"

definition getHTTPHealthCheckCode :: "Service \<Rightarrow> int32 \<Rightarrow> err + int32" where
  "getHTTPHealthCheckCode service nodePort =
     (case anno service serviceAnnotationLoadBalancerHealthCheckHTTPCode of
        None \<Rightarrow> Inr 200
      | Some annotation \<Rightarrow>
          rbind (getValueForPort service nodePort annotation) (\<lambda>stringCode.
            case strconv_Atoi stringCode of
              Inl _ \<Rightarrow> Inl ErrLoadBalancerInvalidAnnotation
            | Inr code \<Rightarrow> Inr (go_int32 code)))"

definition getHTTPHealthCheckURI :: "Service \<Rightarrow> int32 \<Rightarrow> err + string" where
  "getHTTPHealthCheckURI service nodePort =
     valueForPortAnno service nodePort serviceAnnotationLoadBalancerHealthCheckHTTPURI ''/''"

definition getHTTPHealthCheckMethod :: "Service \<Rightarrow> int32 \<Rightarrow> err + string" where
  "getHTTPHealthCheckMethod service nodePort =
     valueForPortAnno service nodePort serviceAnnotationLoadBalancerHealthCheckHTTPMethod ''GET''"

definition getHTTPHealthCheck :: "sdk \<Rightarrow> Service \<Rightarrow> int32 \<Rightarrow> err + HealthCheckHTTPConfig option" where
  "getHTTPHealthCheck X service nodePort =
     rbind (getHTTPHealthCheckCode service nodePort) (\<lambda>code.
     rbind (getHTTPHealthCheckURI service nodePort) (\<lambda>uriStr.
     rbind (sdk_url_Parse X (''http://'' @ uriStr)) (\<lambda>uri0.
       let uri = (if url_Path uri0 = '''' then uri0\<lparr>url_Path := ''/''\<rparr> else uri0) in
     rbind (getHTTPHealthCheckMethod service nodePort) (\<lambda>method.
       Inr (Some \<lparr>http_URI = sdk_url_RequestURI X uri, http_Method = method,
                  http_Code = Some code, http_HostHeader = url_Host uri\<rparr>)))))"

definition getHTTPSHealthCheck :: "sdk \<Rightarrow> Service \<Rightarrow> int32 \<Rightarrow> err + HealthCheckHTTPSConfig option" where
  "getHTTPSHealthCheck X service nodePort =
     rbind (getHTTPHealthCheckCode service nodePort) (\<lambda>code.
     rbind (getHTTPHealthCheckURI service nodePort) (\<lambda>uriStr.
     rbind (sdk_url_Parse X (''https://'' @ uriStr)) (\<lambda>uri0.
       let uri = (if url_Path uri0 = '''' then uri0\<lparr>url_Path := ''/''\<rparr> else uri0) in
     rbind (getHTTPHealthCheckMethod service nodePort) (\<lambda>method.
       Inr (Some \<lparr>https_URI = url_Path uri, https_Method = method,
                  https_Code = Some code, https_HostHeader = url_Host uri,
                  https_Sni = url_Host uri\<rparr>)))))"

definition getNativeHealthCheck :: "Service \<Rightarrow> int32 \<Rightarrow> err + HealthCheck option" where
  "getNativeHealthCheck service targetPort =
     (case isPortInRange (annoOrEmpty service serviceAnnotationLoadBalancerHealthCheckFromService)
             targetPort of
        Inl e \<Rightarrow> Inl (Errorf ''invalid health check annotation: %w'' (Some e))
      | Inr isEnabled \<Rightarrow>
          if \<not> isEnabled then Inr None
          else let hcNodePort = svc_HealthCheckNodePort service in
            if hcNodePort = 0 then Inr None
            else if sint hcNodePort < 1 \<or> 65535 < sint hcNodePort
            then Inl (Errorf ''invalid healthCheckNodePort %d: port must be in range 1-65535'' None)
            else Inr (Some (zero_HealthCheck\<lparr>
                   hc_Port := hcNodePort,
                   hc_HTTPConfig := Some \<lparr>http_URI = ''/healthz'', http_Method = ''GET'',
                     http_Code = Some 200, http_HostHeader = ''''\<rparr>\<rparr>)))"

end
