(* ===== verification/Convert.thy ===== *)
theory Convert
  imports Compare PortAnnotations
begin

text \<open>
  \<open>scaleway/loadbalancers.go\<close>: from a service and its nodes to the frontends and backends that
  the load balancer should have (\<open>serviceToLB\<close>), the choice and the readiness of the nodes,
  the static addresses of a service, and the IP mode of its status.
\<close>

section \<open>Nodes\<close>

text \<open>
  The addresses of a type, in the order of the nodes.  The code appends to a nil slice, so no
  address at all is the nil slice.
\<close>

definition node_ips :: "NodeAddressType \<Rightarrow> Node list \<Rightarrow> string list" where
  "node_ips t nodes =
     concat (map (\<lambda>n. map addr_Address (filter (\<lambda>a. addr_Type a = t) (node_Addresses n))) nodes)"

definition extractNodesExternalIps :: "Node list \<Rightarrow> string slice" where
  "extractNodesExternalIps nodes = sappend None (node_ips NodeExternalIP nodes)"

definition extractNodesInternalIps :: "Node list \<Rightarrow> string slice" where
  "extractNodesInternalIps nodes = sappend None (node_ips NodeInternalIP nodes)"

definition label_matches :: "(string, string) gomap \<Rightarrow> string \<times> string \<Rightarrow> bool" where
  "label_matches labels kv =
     (case map_of labels (fst kv) of
        None \<Rightarrow> False
      | Some nodeLabelValue \<Rightarrow> \<not> (nodeLabelValue \<noteq> snd kv \<and> snd kv \<noteq> ''''))"

definition filterNodes :: "Service \<Rightarrow> Node list \<Rightarrow> Node list" where
  "filterNodes service nodes =
     (case anno service serviceAnnotationLoadBalancerTargetNodeLabels of
        None \<Rightarrow> nodes
      | Some nodeLabels \<Rightarrow>
          let targetNodeLabels = getKeyValueFromAnnotation nodeLabels
          in if targetNodeLabels = [] then nodes
             else filter (\<lambda>node. node_Labels node \<noteq> []
                            \<and> list_all (label_matches (node_Labels node)) targetNodeLabels) nodes)"

text \<open>Times are nanoseconds; \<open>now\<close> is the instant at which \<open>time.Since\<close> is evaluated.\<close>

definition three_minutes :: int where
  "three_minutes = 180000000000"

fun nodesInitialized :: "int \<Rightarrow> Node list \<Rightarrow> bool \<Rightarrow> err option" where
  "nodesInitialized now [] useInternalIPs = None"
| "nodesInitialized now (node # nodes) useInternalIPs =
     (if three_minutes < now - node_CreationTimestamp node
      then nodesInitialized now nodes useInternalIPs
      else if list_ex (\<lambda>t. taint_Key t = api_TaintExternalCloudProvider) (node_Taints node)
      then Some (Errorf ''node %s is not yet initialized'' None)
      else if useInternalIPs \<and> elems (extractNodesInternalIps [node]) = []
      then Some (Errorf ''node %s is initialized, but is missing an internal IP address'' None)
      else if \<not> useInternalIPs \<and> elems (extractNodesExternalIps [node]) = []
      then Some (Errorf ''node %s is initialized, but is missing an external IP address'' None)
      else nodesInitialized now nodes useInternalIPs)"

section \<open>Names and static addresses\<close>

definition GetLoadBalancerName :: "env \<Rightarrow> Service \<Rightarrow> string" where
  "GetLoadBalancerName E service = env_SCW_CCM_PREFIX E @ svc_UID service"

definition hasLoadBalancerStaticIPs :: "Service \<Rightarrow> bool" where
  "hasLoadBalancerStaticIPs service =
     (if getIPIDs service \<noteq> [] then True
      else if svc_LoadBalancerIP service \<noteq> '''' then True
      else False)"

definition hasEqualLoadBalancerStaticIPs :: "Service \<Rightarrow> LB \<Rightarrow> bool" where
  "hasEqualLoadBalancerStaticIPs service lb =
     (let ipIDs = getIPIDs service in
      if ipIDs \<noteq> [] then
        (if length ipIDs \<noteq> length (lb_IP lb) then False
         else sort ipIDs = sort (map lbip_ID (lb_IP lb)))
      else if svc_LoadBalancerIP service \<noteq> '''' then
        (case lb_IP lb of
           [ip] \<Rightarrow> svc_LoadBalancerIP service = lbip_IPAddress ip
         | _ \<Rightarrow> False)
      else True)"

section \<open>Frontends\<close>

definition resource_name :: "Service \<Rightarrow> string \<Rightarrow> int32 \<Rightarrow> string" where
  "resource_name service protocol port =
     svc_UID service @ ''_'' @ strings_ToLower protocol @ ''_'' @ fmt_d (sint port)"

definition servicePortToFrontend :: "Service \<Rightarrow> LB \<Rightarrow> ServicePort \<Rightarrow> err + Frontend" where
  "servicePortToFrontend service loadbalancer port =
     rbind (rwrap (\<lambda>e. Errorf ''error getting %s annotation for loadbalancer %s: %v'' None)
              (getTimeoutClient service)) (\<lambda>timeoutClient.
     rbind (rwrap (\<lambda>e. Errorf ''error getting certificate IDs for loadbalancer %s: %v'' None)
              (getCertificateIDs service (port_Port port))) (\<lambda>certificateIDs.
     rbind (rwrap (\<lambda>e. Errorf ''error getting %s annotation for loadbalancer %s: %v'' None)
              (getConnectionRateLimit service)) (\<lambda>connectionRateLimit.
     rbind (rwrap (\<lambda>e. Errorf ''error getting %s annotation for loadbalancer %s: %v'' None)
              (getEnableAccessLogs service)) (\<lambda>enableAccessLogs.
     rbind (rwrap (\<lambda>e. Errorf ''error getting %s annotation for loadbalancer %s: %v'' None)
              (getEnableHTTP3 service)) (\<lambda>enableHTTP3.
       Inr \<lparr>fe_ID = '''',
            fe_Name = resource_name service (port_Protocol port) (port_Port port),
            fe_InboundPort = port_Port port,
            fe_Backend = Some (zero_Backend\<lparr>be_ForwardPort := port_NodePort port\<rparr>),
            fe_TimeoutClient = Some timeoutClient,
            fe_CertificateIDs = Some certificateIDs,
            fe_ConnectionRateLimit = connectionRateLimit,
            fe_EnableAccessLogs = enableAccessLogs,
            fe_EnableHTTP3 = enableHTTP3\<rparr>)))))"

section \<open>Backends\<close>

text \<open>The configuration for the type of health check that the annotation names.\<close>

definition typed_health_check :: "sdk \<Rightarrow> Service \<Rightarrow> int32 \<Rightarrow> err + HealthCheck" where
  "typed_health_check X service nodePort =
     (let healthCheck = zero_HealthCheck\<lparr>hc_Port := nodePort\<rparr> in
      rbind (getHealthCheckType service nodePort) (\<lambda>healthCheckType.
      rbind
        (if healthCheckType = ''mysql'' then
           rbind (getMysqlHealthCheck service nodePort) (\<lambda>hc. Inr (healthCheck\<lparr>hc_MysqlConfig := hc\<rparr>))
         else if healthCheckType = ''ldap'' then
           rbind (getLdapHealthCheck service nodePort) (\<lambda>hc. Inr (healthCheck\<lparr>hc_LdapConfig := hc\<rparr>))
         else if healthCheckType = ''redis'' then
           rbind (getRedisHealthCheck service nodePort) (\<lambda>hc. Inr (healthCheck\<lparr>hc_RedisConfig := hc\<rparr>))
         else if healthCheckType = ''pgsql'' then
           rbind (getPgsqlHealthCheck service nodePort) (\<lambda>hc. Inr (healthCheck\<lparr>hc_PgsqlConfig := hc\<rparr>))
         else if healthCheckType = ''tcp'' then
           rbind (getTCPHealthCheck service nodePort) (\<lambda>hc. Inr (healthCheck\<lparr>hc_TCPConfig := hc\<rparr>))
         else if healthCheckType = ''http'' then
           rbind (getHTTPHealthCheck X service nodePort) (\<lambda>hc. Inr (healthCheck\<lparr>hc_HTTPConfig := hc\<rparr>))
         else if healthCheckType = ''https'' then
           rbind (getHTTPSHealthCheck X service nodePort) (\<lambda>hc. Inr (healthCheck\<lparr>hc_HTTPSConfig := hc\<rparr>))
         else Inl ErrLoadBalancerInvalidAnnotation)
        (\<lambda>healthCheck.
           rbind (getHealthCheckSendProxy service) (\<lambda>healthCheckSendProxy.
             Inr (healthCheck\<lparr>hc_CheckSendProxy := healthCheckSendProxy\<rparr>)))))"

definition backend_health_check :: "sdk \<Rightarrow> Service \<Rightarrow> ServicePort \<Rightarrow> err + HealthCheck" where
  "backend_health_check X service port =
     rbind (getNativeHealthCheck service (port_Port port)) (\<lambda>native.
     rbind (case native of
              Some healthCheck \<Rightarrow> Inr healthCheck
            | None \<Rightarrow> typed_health_check X service (port_NodePort port)) (\<lambda>healthCheck.
     rbind (getHealthCheckDelay service) (\<lambda>healthCheckDelay.
     rbind (getHealthCheckTimeout service) (\<lambda>healthCheckTimeout.
     rbind (getHealthCheckMaxRetries service) (\<lambda>healthCheckMaxRetries.
     rbind (getHealthCheckTransientCheckDelay X service) (\<lambda>healthCheckTransientCheckDelay.
       Inr (healthCheck\<lparr>
         hc_CheckDelay := Some healthCheckDelay,
         hc_CheckTimeout := Some healthCheckTimeout,
         hc_CheckMaxRetries := healthCheckMaxRetries,
         hc_TransientCheckDelay := healthCheckTransientCheckDelay\<rparr>)))))))"

definition servicePortToBackend ::
  "sdk \<Rightarrow> Service \<Rightarrow> LB \<Rightarrow> ServicePort \<Rightarrow> string slice \<Rightarrow> err + Backend" where
  "servicePortToBackend X service loadbalancer port nodeIPs =
     rbind (getForwardProtocol service (port_NodePort port)) (\<lambda>protocol.
     rbind (getSSLBridging service (port_NodePort port)) (\<lambda>sslBridging.
     rbind (getSSLBridgingSkipVerify service (port_NodePort port)) (\<lambda>sslSkipVerify.
     rbind (getForwardPortAlgorithm service) (\<lambda>forwardPortAlgorithm.
     rbind (getStickySessions service) (\<lambda>stickySessions.
     rbind (getProxyProtocol service (port_NodePort port)) (\<lambda>proxyProtocol.
     rbind (getTimeoutServer service) (\<lambda>timeoutServer.
     rbind (getTimeoutConnect service) (\<lambda>timeoutConnect.
     rbind (getTimeoutTunnel service) (\<lambda>timeoutTunnel.
     rbind (getTimeoutQueue X service) (\<lambda>timeoutQueue.
     rbind (getOnMarkedDownAction service) (\<lambda>onMarkedDownAction.
     rbind (getRedisatchAttemptCount service) (\<lambda>redispatchAttemptCount.
     rbind (getMaxConnections service) (\<lambda>maxConnections.
     rbind (getMaxRetries service) (\<lambda>maxRetries.
     rbind (getFailoverHost service) (\<lambda>failoverHost.
     rbind (backend_health_check X service port) (\<lambda>healthCheck.
       let backend = \<lparr>be_ID = '''',
         be_Name = resource_name service (port_Protocol port) (port_NodePort port),
         be_Pool = nodeIPs,
         be_ForwardProtocol = protocol,
         be_SslBridging = Some sslBridging,
         be_IgnoreSslServerVerify = sslSkipVerify,
         be_ForwardPort = port_NodePort port,
         be_ForwardPortAlgorithm = forwardPortAlgorithm,
         be_StickySessions = stickySessions,
         be_StickySessionsCookieName = '''',
         be_ProxyProtocol = proxyProtocol,
         be_TimeoutServer = Some timeoutServer,
         be_TimeoutConnect = Some timeoutConnect,
         be_TimeoutTunnel = Some timeoutTunnel,
         be_TimeoutQueue = timeoutQueue,
         be_OnMarkedDownAction = onMarkedDownAction,
         be_HealthCheck = Some healthCheck,
         be_RedispatchAttemptCount = redispatchAttemptCount,
         be_MaxConnections = maxConnections,
         be_MaxRetries = maxRetries,
         be_FailoverHost = failoverHost\<rparr>
       in if stickySessions = StickySessionsTypeCookie
          then rbind (getStickySessionsCookieName service) (\<lambda>stickySessionsCookieName.
            if stickySessionsCookieName = ''''
            then Inl (NewAnnorationError serviceAnnotationLoadBalancerStickySessionsCookieName
                        stickySessionsCookieName)
            else Inr (backend\<lparr>be_StickySessionsCookieName := stickySessionsCookieName\<rparr>))
          else Inr backend))))))))))))))))"

section \<open>The whole service\<close>

fun serviceToLB_loop ::
  "sdk \<Rightarrow> Service \<Rightarrow> LB \<Rightarrow> string slice \<Rightarrow> ServicePort list
    \<Rightarrow> (int32, Frontend) gomap \<Rightarrow> (int32, Backend) gomap
    \<Rightarrow> err + (int32, Frontend) gomap \<times> (int32, Backend) gomap" where
  "serviceToLB_loop X service loadbalancer nodeIPs [] tcpFrontends tcpBackends =
     Inr (tcpFrontends, tcpBackends)"
| "serviceToLB_loop X service loadbalancer nodeIPs (port # ports) tcpFrontends tcpBackends =
     (if port_Protocol port \<noteq> v1_ProtocolTCP
      then serviceToLB_loop X service loadbalancer nodeIPs ports tcpFrontends tcpBackends
      else
        rbind (rwrap (\<lambda>e. Errorf ''failed to prepare frontend for port %d: %v'' None)
                 (servicePortToFrontend service loadbalancer port)) (\<lambda>tcpFrontend.
        rbind (rwrap (\<lambda>e. Errorf ''failed to prepare backend for port %d: %v'' None)
                 (servicePortToBackend X service loadbalancer port nodeIPs)) (\<lambda>tcpBackend.
          serviceToLB_loop X service loadbalancer nodeIPs ports
            (AList.update (port_Port port) tcpFrontend tcpFrontends)
            (AList.update (port_NodePort port) tcpBackend tcpBackends))))"

definition serviceToLB ::
  "sdk \<Rightarrow> Service \<Rightarrow> LB \<Rightarrow> string slice
    \<Rightarrow> err + (int32, Frontend) gomap \<times> (int32, Backend) gomap" where
  "serviceToLB X service loadbalancer nodeIPs =
     serviceToLB_loop X service loadbalancer nodeIPs (svc_Ports service) [] []"

section \<open>IP mode\<close>

fun proxy_port_count :: "Service \<Rightarrow> ServicePort list \<Rightarrow> nat \<Rightarrow> err + nat" where
  "proxy_port_count service [] ppCount = Inr ppCount"
| "proxy_port_count service (port # ports) ppCount =
     rbind (getProxyProtocol service (port_NodePort port)) (\<lambda>proxyProtocol.
       proxy_port_count service ports
         (if proxyProtocol = ProxyProtocolV1 \<or> proxyProtocol = ProxyProtocolV2
          then ppCount + 1 else ppCount))"

definition ipMode :: "Service \<Rightarrow> err + string option" where
  "ipMode service =
     (case getLoadBalancerIPMode service of
        Some mode \<Rightarrow> Inr (Some mode)
      | None \<Rightarrow>
          if svc_Ports service = [] then Inr (Some v1_LoadBalancerIPModeVIP)
          else rbind (proxy_port_count service (svc_Ports service) 0) (\<lambda>ppCount.
            if ppCount = length (svc_Ports service) then Inr (Some v1_LoadBalancerIPModeProxy)
            else Inr (Some v1_LoadBalancerIPModeVIP)))"

section \<open>What the conversion gives\<close>

lemma servicePortToFrontend_fields:
  assumes "servicePortToFrontend service lb port = Inr f"
  shows "fe_ID f = ''''" "fe_InboundPort f = port_Port port"
    "fe_Name f = resource_name service (port_Protocol port) (port_Port port)"
    "fe_Backend f = Some (zero_Backend\<lparr>be_ForwardPort := port_NodePort port\<rparr>)"
    "\<exists>ids. fe_CertificateIDs f = Some ids"
  using assms by (auto simp: servicePortToFrontend_def rbind_Inr_iff)

lemma servicePortToBackend_fields:
  assumes "servicePortToBackend X service lb port ips = Inr b"
  shows "be_ID b = ''''" "be_ForwardPort b = port_NodePort port" "be_Pool b = ips"
    "be_Name b = resource_name service (port_Protocol port) (port_NodePort port)"
    "\<exists>hc. be_HealthCheck b = Some hc"
  using assms
  by (auto simp: servicePortToBackend_def rbind_Inr_iff Let_def split: if_splits)

lemma resource_name_prefix: "strings_HasPrefix (resource_name service t p) (svc_UID service @ ''_'')"
  by (simp add: resource_name_def strings_HasPrefix_def)

text \<open>The TCP ports of a service; later entries of a port override earlier ones.\<close>

definition tcp_ports :: "Service \<Rightarrow> ServicePort list" where
  "tcp_ports service = filter (\<lambda>p. port_Protocol p = v1_ProtocolTCP) (svc_Ports service)"

fun last_with :: "('a \<Rightarrow> 'k) \<Rightarrow> 'k \<Rightarrow> 'a list \<Rightarrow> 'a option" where
  "last_with key k [] = None"
| "last_with key k (x # xs) =
     (case last_with key k xs of Some y \<Rightarrow> Some y | None \<Rightarrow> if key x = k then Some x else None)"

lemma last_with_SomeD: "last_with key k xs = Some x \<Longrightarrow> x \<in> set xs \<and> key x = k"
  by (induction xs) (auto split: option.splits if_splits)

lemma last_with_None: "last_with key k xs = None \<longleftrightarrow> k \<notin> key ` set xs"
  by (induction xs) (auto split: option.splits)

lemma serviceToLB_loop_Inr:
  assumes "serviceToLB_loop X service lb ips ports fs bs = Inr (fs', bs')"
    and "wf_want fe_InboundPort fs" "wf_want be_ForwardPort bs"
  defines "tcp \<equiv> filter (\<lambda>p. port_Protocol p = v1_ProtocolTCP) ports"
  shows "wf_want fe_InboundPort fs' \<and> wf_want be_ForwardPort bs'
    \<and> list_all (\<lambda>p. \<exists>f. servicePortToFrontend service lb p = Inr f) tcp
    \<and> list_all (\<lambda>p. \<exists>b. servicePortToBackend X service lb p ips = Inr b) tcp
    \<and> map_of fs' = (\<lambda>k. case last_with port_Port k tcp of
         Some p \<Rightarrow> Some (projr (servicePortToFrontend service lb p)) | None \<Rightarrow> map_of fs k)
    \<and> map_of bs' = (\<lambda>k. case last_with port_NodePort k tcp of
         Some p \<Rightarrow> Some (projr (servicePortToBackend X service lb p ips)) | None \<Rightarrow> map_of bs k)"
  using assms(1-3) unfolding tcp_def
proof (induction ports arbitrary: fs bs)
  case Nil
  then show ?case by simp
next
  case (Cons port ports)
  show ?case
  proof (cases "port_Protocol port = v1_ProtocolTCP")
    case False
    with Cons show ?thesis by simp
  next
    case True
    with Cons.prems(1) obtain f b where
      f: "servicePortToFrontend service lb port = Inr f" and
      b: "servicePortToBackend X service lb port ips = Inr b" and
      rest: "serviceToLB_loop X service lb ips ports
        (AList.update (port_Port port) f fs) (AList.update (port_NodePort port) b bs) = Inr (fs', bs')"
      by (auto simp: rbind_Inr_iff)
    note wf = wf_want_update [OF Cons.prems(2) servicePortToFrontend_fields(2) [OF f]]
      wf_want_update [OF Cons.prems(3) servicePortToBackend_fields(2) [OF b]]
    from Cons.IH [OF rest wf] True f b show ?thesis
      by (auto simp: fun_eq_iff split: option.split)
  qed
qed

lemma serviceToLB_loop_Inl:
  assumes "serviceToLB_loop X service lb ips ports fs bs = Inl e"
  shows "list_ex (\<lambda>p. port_Protocol p = v1_ProtocolTCP
    \<and> (isl (servicePortToFrontend service lb p) \<or> isl (servicePortToBackend X service lb p ips))) ports"
  using assms
proof (induction ports arbitrary: fs bs)
  case (Cons port ports)
  then show ?case
    by (cases "servicePortToFrontend service lb port"; cases "servicePortToBackend X service lb port ips")
      (auto split: if_splits)
qed simp

lemma serviceToLB_Inr:
  assumes "serviceToLB X service lb ips = Inr (fs, bs)"
  shows "wf_want fe_InboundPort fs" "wf_want be_ForwardPort bs"
    and "list_all (\<lambda>p. \<exists>f. servicePortToFrontend service lb p = Inr f) (tcp_ports service)"
    and "list_all (\<lambda>p. \<exists>b. servicePortToBackend X service lb p ips = Inr b) (tcp_ports service)"
    and "map_of fs k = map_option (\<lambda>p. projr (servicePortToFrontend service lb p))
      (last_with port_Port k (tcp_ports service))"
    and "map_of bs k = map_option (\<lambda>p. projr (servicePortToBackend X service lb p ips))
      (last_with port_NodePort k (tcp_ports service))"
  using serviceToLB_loop_Inr [OF assms [unfolded serviceToLB_def] wf_want_Nil wf_want_Nil]
  by (auto simp: tcp_ports_def split: option.split)

lemma serviceToLB_frontendD:
  assumes "serviceToLB X service lb ips = Inr (fs, bs)" "map_of fs k = Some f"
  obtains p where "p \<in> set (tcp_ports service)" "port_Port p = k"
    "servicePortToFrontend service lb p = Inr f"
proof -
  from assms serviceToLB_Inr(5) [OF assms(1)] obtain p where
    p: "last_with port_Port k (tcp_ports service) = Some p"
    and f: "f = projr (servicePortToFrontend service lb p)" by auto
  from p have "p \<in> set (tcp_ports service)" "port_Port p = k"
    by (auto dest: last_with_SomeD)
  moreover with serviceToLB_Inr(3) [OF assms(1)] f
  have "servicePortToFrontend service lb p = Inr f"
    by (auto simp: list_all_iff)
  ultimately show thesis using that by blast
qed

lemma serviceToLB_backendD:
  assumes "serviceToLB X service lb ips = Inr (fs, bs)" "map_of bs k = Some b"
  obtains p where "p \<in> set (tcp_ports service)" "port_NodePort p = k"
    "servicePortToBackend X service lb p ips = Inr b"
proof -
  from assms serviceToLB_Inr(6) [OF assms(1)] obtain p where
    p: "last_with port_NodePort k (tcp_ports service) = Some p"
    and b: "b = projr (servicePortToBackend X service lb p ips)" by auto
  from p have "p \<in> set (tcp_ports service)" "port_NodePort p = k"
    by (auto dest: last_with_SomeD)
  moreover with serviceToLB_Inr(4) [OF assms(1)] b
  have "servicePortToBackend X service lb p ips = Inr b"
    by (auto simp: list_all_iff)
  ultimately show thesis using that by blast
qed

section \<open>Properties\<close>

text \<open>
  C9: \<open>serviceToLB\<close> fails exactly when some TCP port of the service cannot be converted.
  Otherwise it gives, for each port number, the frontend of the last TCP port with that number
  and, for each node port, the backend of the last TCP port with that node port, each stored
  under its own port; ports of other protocols give nothing.
\<close>

theorem serviceToLB_spec:
  "case serviceToLB X service lb ips of
     Inl e \<Rightarrow> list_ex (\<lambda>p. isl (servicePortToFrontend service lb p)
                  \<or> isl (servicePortToBackend X service lb p ips)) (tcp_ports service)
   | Inr (fs, bs) \<Rightarrow>
       wf_want fe_InboundPort fs \<and> wf_want be_ForwardPort bs
     \<and> list_all (\<lambda>p. isl (servicePortToFrontend service lb p) = False
           \<and> isl (servicePortToBackend X service lb p ips) = False) (tcp_ports service)
     \<and> (\<forall>k. map_of fs k = map_option (\<lambda>p. projr (servicePortToFrontend service lb p))
           (last_with port_Port k (tcp_ports service)))
     \<and> (\<forall>k. map_of bs k = map_option (\<lambda>p. projr (servicePortToBackend X service lb p ips))
           (last_with port_NodePort k (tcp_ports service)))"
proof (cases "serviceToLB X service lb ips")
  case (Inl e)
  with serviceToLB_loop_Inl [of X service lb ips "svc_Ports service" "[]" "[]" e] show ?thesis
    by (auto simp: serviceToLB_def tcp_ports_def list_ex_iff)
next
  case (Inr r)
  obtain fs bs where r: "r = (fs, bs)" by (cases r)
  note spec = serviceToLB_Inr [OF Inr [unfolded r]]
  from spec(3,4) have "list_all (\<lambda>p. isl (servicePortToFrontend service lb p) = False
      \<and> isl (servicePortToBackend X service lb p ips) = False) (tcp_ports service)"
    by (auto simp: list_all_iff)
  with spec(1,2,5,6) Inr r show ?thesis by simp
qed

text \<open>
  C37: the static addresses of a load balancer equal those of a service that lists IP
  identifiers exactly when the identifiers are the same up to order, repetitions counted.
\<close>

theorem hasEqualLoadBalancerStaticIPs_spec:
  "hasEqualLoadBalancerStaticIPs service lb =
     (if getIPIDs service \<noteq> [] then mset (getIPIDs service) = mset (map lbip_ID (lb_IP lb))
      else if svc_LoadBalancerIP service \<noteq> ''''
      then map lbip_IPAddress (lb_IP lb) = [svc_LoadBalancerIP service]
      else hasLoadBalancerStaticIPs service = False)"
proof -
  have len: "mset (getIPIDs service) \<noteq> mset (map lbip_ID (lb_IP lb))"
    if "length (getIPIDs service) \<noteq> length (lb_IP lb)"
    using that by (metis length_map size_mset)
  show ?thesis
    using len
    by (auto simp: hasEqualLoadBalancerStaticIPs_def hasLoadBalancerStaticIPs_def Let_def
        sort_eq_iff_mset split: list.splits)
qed

definition node_ready :: "int \<Rightarrow> bool \<Rightarrow> Node \<Rightarrow> bool" where
  "node_ready now useInternalIPs node \<longleftrightarrow>
     three_minutes < now - node_CreationTimestamp node
   \<or> (api_TaintExternalCloudProvider \<notin> taint_Key ` set (node_Taints node)
      \<and> (if useInternalIPs then NodeInternalIP else NodeExternalIP)
          \<in> addr_Type ` set (node_Addresses node))"

lemma node_ips_single: "node_ips t [node] = [] \<longleftrightarrow> t \<notin> addr_Type ` set (node_Addresses node)"
  by (auto simp: node_ips_def filter_empty_conv)

lemma list_ex_image: "list_ex (\<lambda>x. f x = k) xs \<longleftrightarrow> k \<in> f ` set xs"
  by (auto simp: list_ex_iff)

text \<open>
  C35: \<open>nodesInitialized\<close> reports no error exactly when every node that is at most three
  minutes old has lost the cloud provider's taint and has an address of the wanted kind.
\<close>

theorem nodesInitialized_iff:
  "nodesInitialized now nodes useInternalIPs = None \<longleftrightarrow> list_all (node_ready now useInternalIPs) nodes"
  by (induction nodes)
    (simp_all add: node_ready_def extractNodesInternalIps_def extractNodesExternalIps_def
      node_ips_single list_ex_image)

end
