(* ===== verification/Effects.thy ===== *)
theory Effects
  imports Types
begin

text \<open>
  The remote calls of the controller and the programs that make them.

  A program is a function of the history of calls made so far, with the outcome of each; it
  returns its result and the extended history.  What a service answers is a function of that
  history and of the call (\<open>api\<close>), so that every behaviour of the services, with every failure
  of every call, is an instance of the parameter.  Calls to the Scaleway SDK and to the
  Kubernetes API are the constructors of \<open>call\<close>, with the arguments that the code passes;
  the request structs with many fields are records of their own.
\<close>

section \<open>Requests\<close>

record CreateLBRequest =
  clb_Zone :: string
  clb_Name :: string
  clb_Description :: string
  clb_Tags :: "string list"
  clb_IPIDs :: "string list"
  clb_Type :: string
  clb_AssignFlexibleIP :: "bool option"
  clb_AssignFlexibleIPv6 :: "bool option"
  clb_SslCompatibilityLevel :: string

record UpdateLBRequest =
  ulb_Zone :: string
  ulb_LBID :: string
  ulb_Name :: string
  ulb_Description :: string
  ulb_Tags :: "string list"
  ulb_SslCompatibilityLevel :: string

record CreateBackendRequest =
  cb_Zone :: string
  cb_LBID :: string
  cb_Name :: string
  cb_ForwardProtocol :: Protocol
  cb_SslBridging :: "bool option"
  cb_IgnoreSslServerVerify :: "bool option"
  cb_ForwardPort :: int32
  cb_ForwardPortAlgorithm :: string
  cb_StickySessions :: string
  cb_StickySessionsCookieName :: string
  cb_HealthCheck :: "HealthCheck option"
  cb_ServerIP :: "string slice"
  cb_ProxyProtocol :: ProxyProtocol
  cb_TimeoutServer :: "duration option"
  cb_TimeoutConnect :: "duration option"
  cb_TimeoutTunnel :: "duration option"
  cb_TimeoutQueue :: "scw_duration option"
  cb_OnMarkedDownAction :: string
  cb_RedispatchAttemptCount :: "int32 option"
  cb_MaxConnections :: "int32 option"
  cb_MaxRetries :: "int32 option"
  cb_FailoverHost :: "string option"

record UpdateBackendRequest =
  ub_Zone :: string
  ub_BackendID :: string
  ub_Name :: string
  ub_ForwardProtocol :: Protocol
  ub_SslBridging :: "bool option"
  ub_IgnoreSslServerVerify :: "bool option"
  ub_ForwardPort :: int32
  ub_ForwardPortAlgorithm :: string
  ub_StickySessions :: string
  ub_StickySessionsCookieName :: string
  ub_ProxyProtocol :: ProxyProtocol
  ub_TimeoutServer :: "duration option"
  ub_TimeoutConnect :: "duration option"
  ub_TimeoutTunnel :: "duration option"
  ub_TimeoutQueue :: "scw_duration option"
  ub_OnMarkedDownAction :: string
  ub_RedispatchAttemptCount :: "int32 option"
  ub_MaxConnections :: "int32 option"
  ub_MaxRetries :: "int32 option"
  ub_FailoverHost :: "string option"

record UpdateHealthCheckRequest =
  uh_Zone :: string
  uh_BackendID :: string
  uh_Port :: int32
  uh_CheckDelay :: "duration option"
  uh_CheckTimeout :: "duration option"
  uh_CheckMaxRetries :: int32
  uh_CheckSendProxy :: bool
  uh_TCPConfig :: "unit option"
  uh_MysqlConfig :: "string option"
  uh_PgsqlConfig :: "string option"
  uh_LdapConfig :: "unit option"
  uh_RedisConfig :: "unit option"
  uh_HTTPConfig :: "HealthCheckHTTPConfig option"
  uh_HTTPSConfig :: "HealthCheckHTTPSConfig option"
  uh_TransientCheckDelay :: "scw_duration option"

record CreateFrontendRequest =
  cf_Zone :: string
  cf_LBID :: string
  cf_Name :: string
  cf_InboundPort :: int32
  cf_BackendID :: string
  cf_TimeoutClient :: "duration option"
  cf_CertificateIDs :: "string slice"
  cf_ConnectionRateLimit :: "uint32 option"
  cf_EnableAccessLogs :: bool
  cf_EnableHTTP3 :: bool

record UpdateFrontendRequest =
  uf_Zone :: string
  uf_FrontendID :: string
  uf_Name :: string
  uf_InboundPort :: int32
  uf_BackendID :: string
  uf_TimeoutClient :: "duration option"
  uf_CertificateIDs :: "string slice"
  uf_ConnectionRateLimit :: "uint32 option"
  uf_EnableAccessLogs :: "bool option"
  uf_EnableHTTP3 :: bool

section \<open>Calls\<close>

text \<open>
  \<open>ListFrontends zone lbID name\<close> and \<open>ListBackends zone lbID name\<close> carry the optional name
  filter; \<open>IPAM_ListNetworkIPs region pnID ids\<close> and
  \<open>IPAM_ListResourceIPs region project type id isIPv6\<close> are the two uses of the IPAM listing.
\<close>

datatype call =
    ListLBs string string
  | GetLB string string
  | CreateLB CreateLBRequest
  | UpdateLB UpdateLBRequest
  | DeleteLB string string bool
  | MigrateLB string string string
  | LB_ListIPs string string
  | ListBackends string string "string option"
  | CreateBackend CreateBackendRequest
  | UpdateBackend UpdateBackendRequest
  | DeleteBackend string string
  | SetBackendServers string string "string slice"
  | UpdateHealthCheck UpdateHealthCheckRequest
  | ListFrontends string string "string option"
  | CreateFrontend CreateFrontendRequest
  | UpdateFrontend UpdateFrontendRequest
  | DeleteFrontend string string
  | ListACLs string string string
  | SetACLs string string "ACLSpec list"
  | ListLBPrivateNetworks string string
  | AttachPrivateNetwork string string string "string list"
  | DetachPrivateNetwork string string string
  | IPAM_ListNetworkIPs string string "string list"
  | IPAM_ListResourceIPs string string string string "bool option"
  | VPC_GetPrivateNetwork string string
  | PatchService string string string
  | PatchNode string string
  | Instance_ListServers string string
  | Instance_GetServer string string
  | Baremetal_ListServers string string
  | Baremetal_GetServer string string
  | Baremetal_GetOffer string string

type_synonym event = "call \<times> api_error option"
type_synonym hist = "event list"

text \<open>The answers of the load balancer, IPAM, VPC and Kubernetes services.\<close>

record api =
  api_ListLBs :: "hist \<Rightarrow> call \<Rightarrow> api_error + LB list"
  api_GetLB :: "hist \<Rightarrow> call \<Rightarrow> api_error + LB"
  api_CreateLB :: "hist \<Rightarrow> call \<Rightarrow> api_error + LB"
  api_UpdateLB :: "hist \<Rightarrow> call \<Rightarrow> api_error + LB"
  api_DeleteLB :: "hist \<Rightarrow> call \<Rightarrow> api_error + unit"
  api_MigrateLB :: "hist \<Rightarrow> call \<Rightarrow> api_error + LB"
  api_LB_ListIPs :: "hist \<Rightarrow> call \<Rightarrow> api_error + LBIP list"
  api_ListBackends :: "hist \<Rightarrow> call \<Rightarrow> api_error + Backend list"
  api_CreateBackend :: "hist \<Rightarrow> call \<Rightarrow> api_error + Backend"
  api_UpdateBackend :: "hist \<Rightarrow> call \<Rightarrow> api_error + Backend"
  api_DeleteBackend :: "hist \<Rightarrow> call \<Rightarrow> api_error + unit"
  api_SetBackendServers :: "hist \<Rightarrow> call \<Rightarrow> api_error + Backend"
  api_UpdateHealthCheck :: "hist \<Rightarrow> call \<Rightarrow> api_error + HealthCheck"
  api_ListFrontends :: "hist \<Rightarrow> call \<Rightarrow> api_error + Frontend list"
  api_CreateFrontend :: "hist \<Rightarrow> call \<Rightarrow> api_error + Frontend"
  api_UpdateFrontend :: "hist \<Rightarrow> call \<Rightarrow> api_error + Frontend"
  api_DeleteFrontend :: "hist \<Rightarrow> call \<Rightarrow> api_error + unit"
  api_ListACLs :: "hist \<Rightarrow> call \<Rightarrow> api_error + ACL list"
  api_SetACLs :: "hist \<Rightarrow> call \<Rightarrow> api_error + ACL list"
  api_ListLBPrivateNetworks :: "hist \<Rightarrow> call \<Rightarrow> api_error + LBPrivateNetwork list"
  api_AttachPrivateNetwork :: "hist \<Rightarrow> call \<Rightarrow> api_error + unit"
  api_DetachPrivateNetwork :: "hist \<Rightarrow> call \<Rightarrow> api_error + unit"
  api_IPAM_ListIPs :: "hist \<Rightarrow> call \<Rightarrow> api_error + IPAMIP list"
  api_VPC_GetPrivateNetwork :: "hist \<Rightarrow> call \<Rightarrow> api_error + string"
  api_Patch :: "hist \<Rightarrow> call \<Rightarrow> api_error + unit"

section \<open>Programs\<close>

type_synonym 'a act = "hist \<Rightarrow> (err + 'a) \<times> hist"

definition retA :: "'a \<Rightarrow> 'a act" where
  "retA x = (\<lambda>h. (Inr x, h))"

definition failA :: "err \<Rightarrow> 'a act" where
  "failA e = (\<lambda>h. (Inl e, h))"

definition bindA :: "'a act \<Rightarrow> ('a \<Rightarrow> 'b act) \<Rightarrow> 'b act" where
  "bindA m f = (\<lambda>h. case m h of (Inl e, h') \<Rightarrow> (Inl e, h') | (Inr x, h') \<Rightarrow> f x h')"

text \<open>"\<open>if err != nil { return w(err) }\<close>", and "\<open>if err != nil { return handle(err) }\<close>".\<close>

definition wrapA :: "(err \<Rightarrow> err) \<Rightarrow> 'a act \<Rightarrow> 'a act" where
  "wrapA w m = (\<lambda>h. case m h of (r, h') \<Rightarrow> (rwrap w r, h'))"

definition catchA :: "'a act \<Rightarrow> (err \<Rightarrow> 'b act) \<Rightarrow> ('a \<Rightarrow> 'b act) \<Rightarrow> 'b act" where
  "catchA m handle f = (\<lambda>h. case m h of (Inl e, h') \<Rightarrow> handle e h' | (Inr x, h') \<Rightarrow> f x h')"

definition liftA :: "err + 'a \<Rightarrow> 'a act" where
  "liftA r = (\<lambda>h. (r, h))"

text \<open>A program that depends on the moment at which it runs.\<close>

definition momentA :: "(hist \<Rightarrow> 'a act) \<Rightarrow> 'a act" where
  "momentA f = (\<lambda>h. f h h)"

fun forA :: "('x \<Rightarrow> unit act) \<Rightarrow> 'x list \<Rightarrow> unit act" where
  "forA f [] = retA ()"
| "forA f (x # xs) = bindA (f x) (\<lambda>_. forA f xs)"

fun foldA :: "('x \<Rightarrow> 's \<Rightarrow> 's act) \<Rightarrow> 'x list \<Rightarrow> 's \<Rightarrow> 's act" where
  "foldA f [] s = retA s"
| "foldA f (x # xs) s = bindA (f x s) (foldA f xs)"

text \<open>One remote call: its outcome is recorded, its error is the error value.\<close>

definition invoke :: "(hist \<Rightarrow> call \<Rightarrow> api_error + 'a) \<Rightarrow> call \<Rightarrow> 'a act" where
  "invoke reply c = (\<lambda>h. case reply h c of
       Inl e \<Rightarrow> (Inl (ApiErr e), h @ [(c, Some e)])
     | Inr x \<Rightarrow> (Inr x, h @ [(c, None)]))"

lemma bindA_ret [simp, act_simps]: "bindA (retA x) f = f x"
  by (simp add: bindA_def retA_def)

lemma bindA_fail [simp, act_simps]: "bindA (failA e) f = failA e"
  by (simp add: bindA_def failA_def)

lemma liftA_simps [simp, act_simps]: "liftA (Inr x) = retA x" "liftA (Inl e) = failA e"
  by (simp_all add: liftA_def retA_def failA_def)

lemma wrapA_simps [simp, act_simps]: "wrapA w (retA x) = retA x" "wrapA w (failA e) = failA (w e)"
  by (simp_all add: wrapA_def retA_def failA_def)

lemma catchA_simps [simp, act_simps]:
  "catchA (retA x) g f = f x" "catchA (failA e) g f = g e"
  by (simp_all add: catchA_def retA_def failA_def)

lemma bindA_assoc: "bindA (bindA m f) g = bindA m (\<lambda>x. bindA (f x) g)"
  by (rule ext) (simp add: bindA_def split: prod.split sum.split)

lemma bindA_apply: "bindA m f h = (case m h of (Inl e, h') \<Rightarrow> (Inl e, h') | (Inr x, h') \<Rightarrow> f x h')"
  by (simp add: bindA_def)

lemmas act_applies = bindA_apply retA_def failA_def wrapA_def catchA_def liftA_def

section \<open>Reasoning about runs\<close>

text \<open>
  \<open>post m h Q\<close>: run after the history \<open>h\<close>, the program only adds events to it, and its result
  and the added events satisfy \<open>Q\<close>.  The rules follow the structure of programs.
\<close>

definition post :: "'a act \<Rightarrow> hist \<Rightarrow> (err + 'a \<Rightarrow> hist \<Rightarrow> bool) \<Rightarrow> bool" where
  "post m h Q \<longleftrightarrow> (\<exists>r es. m h = (r, h @ es) \<and> Q r es)"

lemma post_ret: "post (retA x) h Q \<longleftrightarrow> Q (Inr x) []"
  by (simp add: post_def retA_def)

lemma post_fail: "post (failA e) h Q \<longleftrightarrow> Q (Inl e) []"
  by (simp add: post_def failA_def)

lemma post_lift: "post (liftA r) h Q \<longleftrightarrow> Q r []"
  by (simp add: post_def liftA_def)

lemma post_invoke:
  "post (invoke reply c) h Q \<longleftrightarrow>
    (case reply h c of Inl e \<Rightarrow> Q (Inl (ApiErr e)) [(c, Some e)] | Inr x \<Rightarrow> Q (Inr x) [(c, None)])"
  by (simp add: post_def invoke_def split: sum.split)

lemma post_moment: "post (f h) h Q \<Longrightarrow> post (momentA f) h Q"
  by (simp add: post_def momentA_def)

lemma post_mono: "post m h Q \<Longrightarrow> (\<And>r es. Q r es \<Longrightarrow> Q' r es) \<Longrightarrow> post m h Q'"
  by (auto simp: post_def)

lemma post_conj: "post m h Q \<Longrightarrow> post m h Q' \<Longrightarrow> post m h (\<lambda>r es. Q r es \<and> Q' r es)"
  by (auto simp: post_def)

lemma post_bind:
  assumes "post m h (\<lambda>r es. case r of
      Inl e \<Rightarrow> Q (Inl e) es
    | Inr x \<Rightarrow> post (f x) (h @ es) (\<lambda>r' es'. Q r' (es @ es')))"
  shows "post (bindA m f) h Q"
proof -
  from assms obtain r es where m: "m h = (r, h @ es)" and q: "case r of
      Inl e \<Rightarrow> Q (Inl e) es
    | Inr x \<Rightarrow> post (f x) (h @ es) (\<lambda>r' es'. Q r' (es @ es'))" by (auto simp: post_def)
  show ?thesis
    using m q by (cases r) (auto simp: post_def bindA_def)
qed

lemma post_wrap: "post m h (\<lambda>r es. Q (rwrap w r) es) \<Longrightarrow> post (wrapA w m) h Q"
  by (auto simp: post_def wrapA_def)

lemma post_catch:
  assumes "post m h (\<lambda>r es. case r of
      Inl e \<Rightarrow> post (g e) (h @ es) (\<lambda>r' es'. Q r' (es @ es'))
    | Inr x \<Rightarrow> post (f x) (h @ es) (\<lambda>r' es'. Q r' (es @ es')))"
  shows "post (catchA m g f) h Q"
proof -
  from assms obtain r es where m: "m h = (r, h @ es)" and q: "case r of
      Inl e \<Rightarrow> post (g e) (h @ es) (\<lambda>r' es'. Q r' (es @ es'))
    | Inr x \<Rightarrow> post (f x) (h @ es) (\<lambda>r' es'. Q r' (es @ es'))" by (auto simp: post_def)
  show ?thesis
    using m q by (cases r) (auto simp: post_def catchA_def)
qed

section \<open>Trace languages\<close>

text \<open>
  \<open>runs I L m\<close>: the events that the program adds, whatever its result, belong to \<open>L\<close>, and its
  value, when it returns one, satisfies \<open>I\<close>.  \<open>emits L m\<close> is about the events only.  When \<open>L\<close>
  is closed under concatenation these judgements follow the structure of programs.
\<close>

definition runs :: "('a \<Rightarrow> bool) \<Rightarrow> (hist \<Rightarrow> bool) \<Rightarrow> 'a act \<Rightarrow> bool" where
  "runs I L m \<longleftrightarrow> (\<forall>h. post m h (\<lambda>r es. L es \<and> (\<forall>x. r = Inr x \<longrightarrow> I x)))"

definition emits :: "(hist \<Rightarrow> bool) \<Rightarrow> 'a act \<Rightarrow> bool" where
  "emits L m \<longleftrightarrow> (\<forall>h. post m h (\<lambda>r es. L es))"

lemma emits_iff_runs: "emits L m \<longleftrightarrow> runs (\<lambda>_. True) L m"
  by (simp add: emits_def runs_def)

lemma emits_mono: "emits L m \<Longrightarrow> (\<And>es. L es \<Longrightarrow> L' es) \<Longrightarrow> emits L' m"
  unfolding emits_def by (blast intro: post_mono)

lemma runs_mono:
  "runs I L m \<Longrightarrow> (\<And>x. I x \<Longrightarrow> I' x) \<Longrightarrow> (\<And>es. L es \<Longrightarrow> L' es) \<Longrightarrow> runs I' L' m"
  unfolding runs_def by (blast intro: post_mono)

lemma runs_emits: "runs I L m \<Longrightarrow> emits L m"
  unfolding runs_def emits_def by (blast intro: post_mono)

lemma emits_post: "emits L m \<Longrightarrow> post m h (\<lambda>r es. L es)"
  by (simp add: emits_def)

lemma runs_post: "runs I L m \<Longrightarrow> post m h (\<lambda>r es. L es \<and> (\<forall>x. r = Inr x \<longrightarrow> I x))"
  by (simp add: runs_def)

locale trace_language =
  fixes L :: "hist \<Rightarrow> bool"
  assumes empty: "L []" and append: "L xs \<Longrightarrow> L ys \<Longrightarrow> L (xs @ ys)"
begin

lemma runs_ret: "I x \<Longrightarrow> runs I L (retA x)"
  by (simp add: runs_def post_ret empty)

lemma runs_fail: "runs I L (failA e)"
  by (simp add: runs_def post_fail empty)

lemma runs_lift: "(\<And>x. r = Inr x \<Longrightarrow> I x) \<Longrightarrow> runs I L (liftA r)"
  by (simp add: runs_def post_lift empty)

lemma runs_invoke:
  "(\<And>o'. L [(c, o')]) \<Longrightarrow> (\<And>h x. reply h c = Inr x \<Longrightarrow> I x) \<Longrightarrow> runs I L (invoke reply c)"
  by (simp add: runs_def post_invoke split: sum.split)

lemma runs_after: "runs I L m \<Longrightarrow> L es \<Longrightarrow>
    post m h (\<lambda>r es'. L (es @ es') \<and> (\<forall>x. r = Inr x \<longrightarrow> I x))"
  by (auto simp: runs_def intro: append post_mono)

lemma runs_bind: "runs J L m \<Longrightarrow> (\<And>x. J x \<Longrightarrow> runs I L (f x)) \<Longrightarrow> runs I L (bindA m f)"
  unfolding runs_def [of J L m] runs_def [of I L "bindA m f"]
  by (intro allI post_bind, rule post_mono, blast) (auto split: sum.split intro: runs_after)

lemma runs_wrap: "runs I L m \<Longrightarrow> runs I L (wrapA w m)"
  unfolding runs_def by (intro allI post_wrap) simp

lemma runs_catch:
  "runs J L m \<Longrightarrow> (\<And>e. runs I L (g e)) \<Longrightarrow> (\<And>x. J x \<Longrightarrow> runs I L (f x)) \<Longrightarrow> runs I L (catchA m g f)"
  unfolding runs_def [of J L m] runs_def [of I L "catchA m g f"]
  by (intro allI post_catch, rule post_mono, blast) (auto split: sum.split intro: runs_after)

lemma runs_for: "(\<And>x. x \<in> set xs \<Longrightarrow> runs (\<lambda>_. True) L (f x)) \<Longrightarrow> runs (\<lambda>_. True) L (forA f xs)"
proof (induction xs)
  case (Cons x xs)
  then show ?case by (auto intro!: runs_bind [of "\<lambda>_. True"])
qed (simp add: runs_ret)

lemma runs_fold:
  "(\<And>x s. x \<in> set xs \<Longrightarrow> I s \<Longrightarrow> runs I L (f x s)) \<Longrightarrow> I s \<Longrightarrow> runs I L (foldA f xs s)"
proof (induction xs arbitrary: s)
  case (Cons x xs)
  then show ?case by (auto intro!: runs_bind [of I])
qed (simp add: runs_ret)

lemmas runs_leaves = runs_ret runs_fail runs_lift runs_invoke runs_wrap

lemma emits_ret: "emits L (retA x)"
  by (simp add: emits_iff_runs runs_ret)

lemma emits_fail: "emits L (failA e)"
  by (simp add: emits_iff_runs runs_fail)

lemma emits_lift: "emits L (liftA r)"
  by (simp add: emits_iff_runs runs_lift)

lemma emits_bind: "emits L m \<Longrightarrow> (\<And>x. emits L (f x)) \<Longrightarrow> emits L (bindA m f)"
  unfolding emits_iff_runs by (rule runs_bind)

lemma emits_wrap: "emits L m \<Longrightarrow> emits L (wrapA w m)"
  unfolding emits_iff_runs by (rule runs_wrap)

lemma emits_catch:
  "emits L m \<Longrightarrow> (\<And>e. emits L (g e)) \<Longrightarrow> (\<And>x. emits L (f x)) \<Longrightarrow> emits L (catchA m g f)"
  unfolding emits_iff_runs by (rule runs_catch)

lemma emits_invoke: "(\<And>o'. L [(c, o')]) \<Longrightarrow> emits L (invoke reply c)"
  unfolding emits_iff_runs by (rule runs_invoke) simp_all

lemma emits_for: "(\<And>x. x \<in> set xs \<Longrightarrow> emits L (f x)) \<Longrightarrow> emits L (forA f xs)"
  unfolding emits_iff_runs by (rule runs_for)

lemma emits_fold: "(\<And>x s. x \<in> set xs \<Longrightarrow> emits L (f x s)) \<Longrightarrow> emits L (foldA f xs s)"
  unfolding emits_iff_runs by (rule runs_fold) simp_all

lemmas emits_intros = emits_ret emits_fail emits_lift emits_bind emits_wrap emits_catch
  emits_invoke emits_for emits_fold

end

text \<open>Every call satisfies a predicate.\<close>

abbreviation all_calls :: "(call \<Rightarrow> bool) \<Rightarrow> hist \<Rightarrow> bool" where
  "all_calls P \<equiv> list_all (\<lambda>e. P (fst e))"

interpretation all_calls: trace_language "all_calls P" for P
  by unfold_locales simp_all

lemma emits_calls_mono: "emits (all_calls P) m \<Longrightarrow> (\<And>c. P c \<Longrightarrow> Q c) \<Longrightarrow> emits (all_calls Q) m"
  by (erule emits_mono) (auto simp: list_all_iff)

section \<open>Phases\<close>

text \<open>
  The calls of a program fall into phases that follow each other: their numbers never go down
  and lie between two bounds.  Programs with adjacent phases compose.
\<close>

definition phases :: "(call \<Rightarrow> nat) \<Rightarrow> nat \<Rightarrow> nat \<Rightarrow> hist \<Rightarrow> bool" where
  "phases ph a b es \<longleftrightarrow> sorted (map (ph \<circ> fst) es) \<and> list_all (\<lambda>e. a \<le> ph (fst e) \<and> ph (fst e) \<le> b) es"

lemma phases_Nil [simp]: "phases ph a b []"
  by (simp add: phases_def)

lemma phases_append:
  "phases ph a b xs \<Longrightarrow> phases ph b' c ys \<Longrightarrow> b \<le> b' \<Longrightarrow> a \<le> b' \<Longrightarrow> b \<le> c \<Longrightarrow> phases ph a c (xs @ ys)"
  by (fastforce simp: phases_def sorted_append list_all_iff)

lemma phases_weaken: "phases ph a b xs \<Longrightarrow> a' \<le> a \<Longrightarrow> b \<le> b' \<Longrightarrow> phases ph a' b' xs"
  by (auto simp: phases_def list_all_iff)

lemma phases_one: "all_calls (\<lambda>c. ph c = a) xs \<longleftrightarrow> phases ph a a xs"
proof -
  have "sorted (map (ph \<circ> fst) xs)" if "all_calls (\<lambda>c. ph c = a) xs"
    using that by (induction xs) (auto simp: list_all_iff)
  then show ?thesis by (auto simp: phases_def list_all_iff)
qed

lemma emits_phase_one: "emits (all_calls (\<lambda>c. ph c = a)) m \<Longrightarrow> emits (phases ph a a) m"
  by (erule emits_mono) (simp add: phases_one)

lemma emits_phase_bind:
  assumes "emits (phases ph a b) m" "\<And>x. emits (phases ph b' c) (f x)" "b \<le> b'" "a \<le> b'" "b \<le> c"
  shows "emits (phases ph a c) (bindA m f)"
  unfolding emits_def
proof (intro allI post_bind, rule post_mono)
  fix h
  show "post m h (\<lambda>r es. phases ph a b es)" using assms(1) by (rule emits_post)
  fix r es
  assume es: "phases ph a b es"
  show "case r of Inl e \<Rightarrow> phases ph a c es
    | Inr x \<Rightarrow> post (f x) (h @ es) (\<lambda>r' es'. phases ph a c (es @ es'))"
    using es assms(3-)
    by (auto split: sum.split intro: phases_weaken phases_append post_mono [OF emits_post [OF assms(2)]])
qed

lemma emits_phase_wrap: "emits (phases ph a b) m \<Longrightarrow> emits (phases ph a b) (wrapA w m)"
  unfolding emits_def by (intro allI post_wrap) simp

lemma emits_phase_leaves:
  "emits (phases ph a b) (retA x)" "emits (phases ph a b) (failA e)" "emits (phases ph a b) (liftA r')"
  by (simp_all add: emits_def post_ret post_fail post_lift)

lemma emits_phase_invoke: "a \<le> ph c \<Longrightarrow> ph c \<le> b \<Longrightarrow> emits (phases ph a b) (invoke reply c)"
  by (simp add: emits_def post_invoke phases_def split: sum.split)

section \<open>Success\<close>

text \<open>A program is strict when it succeeds only if all its calls do.\<close>

definition strict :: "'a act \<Rightarrow> bool" where
  "strict m \<longleftrightarrow> (\<forall>h. post m h (\<lambda>r es. isl r \<or> list_all (\<lambda>e. snd e = None) es))"

lemma strict_leaves:
  "strict (retA x)" "strict (failA e)" "strict (liftA r)" "strict (invoke reply c)"
  by (simp_all add: strict_def post_ret post_fail post_lift post_invoke split: sum.split)

lemma strict_bind: "strict m \<Longrightarrow> (\<And>x. strict (f x)) \<Longrightarrow> strict (bindA m f)"
proof (unfold strict_def [of m] strict_def [of "bindA m f"], intro allI post_bind, rule post_mono)
  fix h
  assume m: "\<forall>h. post m h (\<lambda>r es. isl r \<or> list_all (\<lambda>e. snd e = None) es)"
    and f: "\<And>x. strict (f x)"
  show "post m h (\<lambda>r es. isl r \<or> list_all (\<lambda>e. snd e = None) es)" using m ..
  fix r :: "err + 'a" and es :: hist
  assume "isl r \<or> list_all (\<lambda>e. snd e = None) es"
  then show "case r of Inl e \<Rightarrow> isl (Inl e :: err + 'b) \<or> list_all (\<lambda>e. snd e = None) es
    | Inr x \<Rightarrow> post (f x) (h @ es) (\<lambda>r' es'. isl r' \<or> list_all (\<lambda>e. snd e = None) (es @ es'))"
    using f unfolding strict_def by (auto split: sum.split intro: post_mono)
qed

lemma strict_wrap: "strict m \<Longrightarrow> strict (wrapA w m)"
proof -
  have "isl (rwrap w r) = isl r" for r :: "err + 'a" by (cases r) simp_all
  then show "strict m \<Longrightarrow> strict (wrapA w m)"
    unfolding strict_def by (intro allI post_wrap) simp
qed

lemma strict_for: "(\<And>x. x \<in> set xs \<Longrightarrow> strict (f x)) \<Longrightarrow> strict (forA f xs)"
  by (induction xs) (auto intro: strict_leaves strict_bind)

lemma strict_fold: "(\<And>x s. x \<in> set xs \<Longrightarrow> strict (f x s)) \<Longrightarrow> strict (foldA f xs s)"
  by (induction xs arbitrary: s) (auto intro: strict_leaves strict_bind)

lemmas strict_intros = strict_leaves strict_bind strict_wrap strict_for strict_fold

end
