(* ===== verification/Patcher.thy ===== *)
theory Patcher
  imports Effects
begin

text \<open>
  \<open>scaleway/patcher.go\<close>: an object of the Kubernetes API is changed by sending the two-way
  merge patch from its original to its final state, and nothing is sent when that patch is
  empty.  Serialisation and the computation of the patch are libraries: the record \<open>kube\<close>.
\<close>

datatype kube_object = ServiceObject Service | NodeObject Node

record kube =
  kube_Marshal :: "kube_object \<Rightarrow> err + string"
  kube_MergePatchNode :: "string \<Rightarrow> string \<Rightarrow> err + string"
  kube_MergePatchService :: "string \<Rightarrow> string \<Rightarrow> err + string"

record kubePatcher =
  kp_origin :: kube_object
  kp_final :: kube_object

text \<open>
  The final object is the one passed in, which the caller changes before it calls \<open>Patch\<close>; the
  original is a copy made when the patcher is.
\<close>

definition NewServicePatcher :: "Service \<Rightarrow> kubePatcher" where
  "NewServicePatcher service =
     \<lparr>kp_origin = ServiceObject service, kp_final = ServiceObject service\<rparr>"

definition NewNodePatcher :: "Node \<Rightarrow> kubePatcher" where
  "NewNodePatcher node = \<lparr>kp_origin = NodeObject node, kp_final = NodeObject node\<rparr>"

definition Patch :: "kube \<Rightarrow> api \<Rightarrow> kubePatcher \<Rightarrow> unit act" where
  "Patch K A kp =
     bindA (liftA (rwrap (\<lambda>e. Errorf ''failed to serialize current original object: %s'' None)
              (kube_Marshal K (kp_origin kp)))) (\<lambda>originJSON.
     bindA (liftA (rwrap (\<lambda>e. Errorf ''failed to serialize modified updated object: %s'' None)
              (kube_Marshal K (kp_final kp)))) (\<lambda>updatedJSON.
       case kp_origin kp of
         NodeObject node \<Rightarrow>
           bindA (liftA (rwrap (\<lambda>e. Errorf ''failed to create 2-way merge patch: %s'' None)
                    (kube_MergePatchNode K originJSON updatedJSON))) (\<lambda>patch.
             if patch = '''' \<or> patch = ''{}'' then retA ()
             else wrapA (\<lambda>e. Errorf ''failed to patch node object %s: %s'' None)
                    (invoke (api_Patch A) (PatchNode (node_Name node) patch)))
       | ServiceObject service \<Rightarrow>
           bindA (liftA (rwrap (\<lambda>e. Errorf ''failed to create 2-way merge patch: %s'' None)
                    (kube_MergePatchService K originJSON updatedJSON))) (\<lambda>patch.
             if patch = '''' \<or> patch = ''{}'' then retA ()
             else wrapA (\<lambda>e. Errorf ''failed to patch service object %s/%s: %s'' None)
                    (invoke (api_Patch A)
                      (PatchService (svc_Namespace service) (svc_Name service) patch)))))"

section \<open>What a patch may send\<close>

definition is_patch_of :: "kube_object \<Rightarrow> call \<Rightarrow> bool" where
  "is_patch_of obj c = (case obj of
      ServiceObject service \<Rightarrow> (\<exists>p. c = PatchService (svc_Namespace service) (svc_Name service) p)
    | NodeObject node \<Rightarrow> (\<exists>p. c = PatchNode (node_Name node) p))"

text \<open>At most one call, which patches the original object, and an error unless it succeeds.\<close>

lemma Patch_post:
  "post (Patch K A kp) h (\<lambda>r es.
     es = [] \<or> (\<exists>c o'. es = [(c, o')] \<and> is_patch_of (kp_origin kp) c \<and> isl r = (o' \<noteq> None)))"
  by (auto simp: Patch_def is_patch_of_def post_lift post_ret post_invoke
      intro!: post_bind post_wrap split: sum.split kube_object.split)

text \<open>What is sent for a node: the merge patch from the original to the final object.\<close>

lemma Patch_node_post:
  "post (Patch K A \<lparr>kp_origin = NodeObject node, kp_final = final\<rparr>) h (\<lambda>r es.
     es = [] \<or> (\<exists>s s' p out. kube_Marshal K (NodeObject node) = Inr s \<and> kube_Marshal K final = Inr s'
       \<and> kube_MergePatchNode K s s' = Inr p \<and> p \<noteq> '''' \<and> p \<noteq> ''{}''
       \<and> es = [(PatchNode (node_Name node) p, out)] \<and> isl r = (out \<noteq> None)))"
  by (auto simp: Patch_def post_lift post_ret post_invoke intro!: post_bind post_wrap split: sum.split)

lemma Patch_emits: "(\<And>c. is_patch_of (kp_origin kp) c \<Longrightarrow> P c) \<Longrightarrow> emits (all_calls P) (Patch K A kp)"
  unfolding emits_def by (intro allI post_mono [OF Patch_post]) auto

text \<open>An object that was not changed is not patched, if the library gives the empty patch then.\<close>

lemma Patch_unchanged:
  assumes "kp_final kp = kp_origin kp"
    and "\<And>s p. kube_MergePatchService K s s = Inr p \<Longrightarrow> p = ''{}''"
    and "\<And>s p. kube_MergePatchNode K s s = Inr p \<Longrightarrow> p = ''{}''"
  shows "post (Patch K A kp) h (\<lambda>r es. es = [])"
  using assms
  by (auto simp: Patch_def post_lift post_ret intro!: post_bind post_wrap
      split: sum.split kube_object.split)

end
