(* ===== verification/PrivateNetworks.thy ===== *)
theory PrivateNetworks
  imports Convert Patcher
begin

text \<open>
  \<open>attachPrivateNetworks\<close> of \<open>scaleway/loadbalancers.go\<close>: which private networks the load
  balancer is attached to, with which addresses.  The struct \<open>loadbalancers\<close> is the record of
  the same name, with the third-party functions and the environment that its methods use.
\<close>

record loadbalancers =
  l_sdk :: sdk
  l_env :: env
  l_kube :: kube
  l_api :: api
  l_defaultLBType :: string
  l_pnID :: string

text \<open>
  The order in which Go visits a map is not determined: each loop over the map visits its keys
  in the order that the corresponding function gives, any permutation of them.
\<close>

record map_order =
  mo_resolve :: "string list \<Rightarrow> string list"
  mo_query :: "string list \<Rightarrow> string list"
  mo_keys :: "string \<Rightarrow> string list \<Rightarrow> string list"
  mo_attach :: "string list \<Rightarrow> string list"

definition map_order_ok :: "map_order \<Rightarrow> bool" where
  "map_order_ok M \<longleftrightarrow> (\<forall>ks. mset (mo_resolve M ks) = mset ks \<and> mset (mo_query M ks) = mset ks
     \<and> mset (mo_attach M ks) = mset ks \<and> (\<forall>pn. mset (mo_keys M pn ks) = mset ks))"

record privateNetworkStatus =
  pn_attached :: bool
  pn_attachedIPIDs :: "string list"
  pn_desiredIPIDs :: "string list"

type_synonym attachments = "(string, privateNetworkStatus) gomap"

definition pn_zero :: privateNetworkStatus where
  "pn_zero = \<lparr>pn_attached = False, pn_attachedIPIDs = [], pn_desiredIPIDs = []\<rparr>"

section \<open>Steps\<close>

definition pn_initial :: "loadbalancers \<Rightarrow> Service \<Rightarrow> bool \<Rightarrow> attachments" where
  "pn_initial l service lbExternallyManaged =
     (let m = (if lbExternallyManaged then []
               else fold (\<lambda>pnID. AList.update pnID pn_zero) (getPrivateNetworkIDs service) [])
      in if m = [] then AList.update (l_pnID l) pn_zero m else m)"

text \<open>One attached network: marked when it is wanted, detached when it is not.\<close>

definition pn_mark :: "api \<Rightarrow> LB \<Rightarrow> bool \<Rightarrow> LBPrivateNetwork \<Rightarrow> attachments \<Rightarrow> attachments act" where
  "pn_mark A loadbalancer lbExternallyManaged pNIC m =
     (case map_of m (lbpn_PrivateNetworkID pNIC) of
        Some pnStatus \<Rightarrow>
          retA (AList.update (lbpn_PrivateNetworkID pNIC)
            (pnStatus\<lparr>pn_attached := True, pn_attachedIPIDs := lbpn_IpamIDs pNIC\<rparr>) m)
      | None \<Rightarrow>
          if \<not> lbExternallyManaged then
            bindA (wrapA (\<lambda>e. Errorf ''unable to detach unmatched private network %s from %s: %v'' None)
                     (invoke (api_DetachPrivateNetwork A)
                       (DetachPrivateNetwork (lb_Zone loadbalancer) (lb_ID loadbalancer)
                          (lbpn_PrivateNetworkID pNIC)))) (\<lambda>_. retA m)
          else retA m)"

text \<open>
  Move the wanted identifiers among \<open>ids\<close> from the set of identifiers still to be placed to
  the desired ones.
\<close>

fun pn_claim :: "string list \<Rightarrow> string list \<times> string list \<Rightarrow> string list \<times> string list" where
  "pn_claim [] (desired, wanted) = (desired, wanted)"
| "pn_claim (ipID # ids) (desired, wanted) =
     (if ipID \<in> set wanted then pn_claim ids (desired @ [ipID], removeAll ipID wanted)
      else pn_claim ids (desired, wanted))"

definition pn_resolve :: "string \<Rightarrow> attachments \<times> string list \<Rightarrow> attachments \<times> string list" where
  "pn_resolve pnID = (\<lambda>(m, wanted).
     case map_of m pnID of
       None \<Rightarrow> (m, wanted)
     | Some pnStatus \<Rightarrow>
         (case pn_claim (pn_attachedIPIDs pnStatus) (pn_desiredIPIDs pnStatus, wanted) of
            (desired, wanted') \<Rightarrow>
              (AList.update pnID (pnStatus\<lparr>pn_desiredIPIDs := desired\<rparr>) m, wanted')))"

definition pn_query ::
  "api \<Rightarrow> map_order \<Rightarrow> string \<Rightarrow> string \<Rightarrow> attachments \<times> string list \<Rightarrow> (attachments \<times> string list) act" where
  "pn_query A M region pnID = (\<lambda>(m, wanted).
     case map_of m pnID of
       None \<Rightarrow> retA (m, wanted)
     | Some pnStatus \<Rightarrow>
         bindA (wrapA (\<lambda>e. Errorf ''failed to list IPs for private network %s: %w'' (Some e))
                  (invoke (api_IPAM_ListIPs A)
                    (IPAM_ListNetworkIPs region pnID (mo_keys M pnID wanted)))) (\<lambda>ips.
           case pn_claim (map ipam_ID ips) (pn_desiredIPIDs pnStatus, wanted) of
             (desired, wanted') \<Rightarrow>
               retA (AList.update pnID (pnStatus\<lparr>pn_desiredIPIDs := desired\<rparr>) m, wanted')))"

definition pn_attach :: "api \<Rightarrow> LB \<Rightarrow> attachments \<Rightarrow> string \<Rightarrow> unit act" where
  "pn_attach A loadbalancer m pnID =
     (case map_of m pnID of
        None \<Rightarrow> retA ()
      | Some pnStatus \<Rightarrow>
          if 1 < length (pn_desiredIPIDs pnStatus)
          then failA (Errorf ''at most one IP can be set per private network, please choose one between %s'' None)
          else if pn_attached pnStatus
               \<and> (pn_desiredIPIDs pnStatus = []
                  \<or> sort (pn_attachedIPIDs pnStatus) = sort (pn_desiredIPIDs pnStatus))
          then retA ()
          else
            bindA (if pn_attached pnStatus
                   then wrapA (\<lambda>e. Errorf ''unable to detach private network %s on %s: %w'' (Some e))
                          (invoke (api_DetachPrivateNetwork A)
                            (DetachPrivateNetwork (lb_Zone loadbalancer) (lb_ID loadbalancer) pnID))
                   else retA ()) (\<lambda>_.
            wrapA (\<lambda>e. Errorf ''unable to attach private network %s on %s: %v'' None)
              (invoke (api_AttachPrivateNetwork A)
                (AttachPrivateNetwork (lb_Zone loadbalancer) (lb_ID loadbalancer) pnID
                  (pn_desiredIPIDs pnStatus)))))"

section \<open>The whole operation\<close>

definition attachPrivateNetworks ::
  "loadbalancers \<Rightarrow> map_order \<Rightarrow> LB \<Rightarrow> Service \<Rightarrow> bool \<Rightarrow> unit act" where
  "attachPrivateNetworks l M loadbalancer service lbExternallyManaged =
     (if l_pnID l = '''' then retA ()
      else
        bindA (wrapA (\<lambda>e. Errorf ''error listing private networks of load balancer %s: %v'' None)
                 (invoke (api_ListLBPrivateNetworks (l_api l))
                   (ListLBPrivateNetworks (lb_Zone loadbalancer) (lb_ID loadbalancer)))) (\<lambda>respPN.
        bindA (foldA (pn_mark (l_api l) loadbalancer lbExternallyManaged) respPN
                 (pn_initial l service lbExternallyManaged)) (\<lambda>m1.
        let (m2, wanted) = fold pn_resolve (mo_resolve M (gm_keys m1)) (m1, getPrivateIPIDs service) in
        bindA (if wanted \<noteq> [] then
                 bindA (liftA (rwrap (\<lambda>e. Errorf ''error getting region for load balancer %s: %v'' None)
                          (sdk_ZoneRegion (l_sdk l) (lb_Zone loadbalancer)))) (\<lambda>region.
                 bindA (foldA (pn_query (l_api l) M region) (mo_query M (gm_keys m2)) (m2, wanted)) (\<lambda>(m3, left).
                   if left \<noteq> []
                   then failA (Errorf ''ips %s were not found in any configured private network'' None)
                   else retA m3))
               else retA m2) (\<lambda>m.
        forA (pn_attach (l_api l) loadbalancer m) (mo_attach M (gm_keys m))))))"

end
