(* ===== verification/GoNet.thy ===== *)
theory GoNet
  imports GoStrings
begin

text \<open>
  Whether Go's \<open>net.ParseCIDR\<close> accepts a string: the part before the first slash must be
  an address that \<open>netip.ParseAddr\<close> reads, without a zone, and the part after it a decimal
  prefix length of at most 32 (IPv4) or 128 (IPv6).  Only acceptance matters to the
  controller, which sends the string itself.
\<close>

section \<open>IPv4\<close>

text \<open>
  \<open>parseIPv4Fields\<close>: the state is the value and the number of digits of the current octet
  and the number of octets closed so far.  An octet needs a digit, has no leading zero and is
  at most 255, and there are four.
\<close>

fun ipv4_fields :: "nat \<Rightarrow> nat \<Rightarrow> nat \<Rightarrow> string \<Rightarrow> bool" where
  "ipv4_fields val digLen pos [] = (pos = 3 \<and> digLen \<noteq> 0)"
| "ipv4_fields val digLen pos (c # cs) =
     (if is_digit c then
        (\<not> (digLen = 1 \<and> val = 0) \<and> val * 10 + digit_val c \<le> 255
         \<and> ipv4_fields (val * 10 + digit_val c) (digLen + 1) pos cs)
      else if c = CHR ''.'' then
        (digLen \<noteq> 0 \<and> cs \<noteq> [] \<and> pos \<noteq> 3 \<and> ipv4_fields 0 0 (pos + 1) cs)
      else False)"

definition parseIPv4 :: "string \<Rightarrow> bool" where
  "parseIPv4 s = ipv4_fields 0 0 0 s"

section \<open>IPv6\<close>

definition is_hex :: "char \<Rightarrow> bool" where
  "is_hex c = (is_digit c \<or> (CHR ''a'' \<le> lower_char c \<and> lower_char c \<le> CHR ''f''))"

text \<open>
  The loop of \<open>parseIPv6\<close> after the optional leading \<open>::\<close>.  \<open>i\<close> bytes are filled and \<open>ell\<close>
  says whether an ellipsis was seen; \<open>fuel\<close> bounds the at most eight groups.  A group has at
  most four hex digits.  At the end, a full address has no ellipsis and a short one has.
\<close>

definition ipv6_done :: "nat \<Rightarrow> bool \<Rightarrow> string \<Rightarrow> bool" where
  "ipv6_done i ell rest = (rest = [] \<and> (if i < 16 then ell else \<not> ell))"

fun ipv6_groups :: "nat \<Rightarrow> nat \<Rightarrow> bool \<Rightarrow> string \<Rightarrow> bool" where
  "ipv6_groups 0 i ell s = ipv6_done i ell s"
| "ipv6_groups (Suc fuel) i ell s =
     (if 16 \<le> i then ipv6_done i ell s
      else
        let g = takeWhile is_hex s; r = dropWhile is_hex s in
        if g = [] \<or> 4 < length g then False
        else if r \<noteq> [] \<and> hd r = CHR ''.'' then
          ((ell \<or> i = 12) \<and> i + 4 \<le> 16 \<and> parseIPv4 s \<and> ipv6_done (i + 4) ell [])
        else if r = [] then ipv6_done (i + 2) ell []
        else if hd r \<noteq> CHR '':'' then False
        else if tl r = [] then False
        else if hd (tl r) = CHR '':'' then
          (if ell then False
           else if tl (tl r) = [] then ipv6_done (i + 2) True []
           else ipv6_groups fuel (i + 2) True (tl (tl r)))
        else ipv6_groups fuel (i + 2) ell (tl r))"

definition parseIPv6 :: "string \<Rightarrow> bool" where
  "parseIPv6 s =
     (if prefix ''::'' s
      then (drop 2 s = [] \<or> ipv6_groups 8 0 True (drop 2 s))
      else ipv6_groups 8 0 False s)"

section \<open>Addresses and prefixes\<close>

text \<open>
  The bit length of the address \<open>netip.ParseAddr\<close> reads, if any: the first of the
  characters dot, colon and percent decides.  A percent sign starts a zone, which
  \<open>ParseCIDR\<close> refuses, so an IPv6 text with one is not accepted.
\<close>

definition addr_bits :: "string \<Rightarrow> nat option" where
  "addr_bits s =
     (case find (\<lambda>c. c \<in> set ''.:%'') s of
        None \<Rightarrow> None
      | Some c \<Rightarrow>
          if c = CHR ''.'' then (if parseIPv4 s then Some 32 else None)
          else if c = CHR '':'' then
            (if CHR ''%'' \<notin> set s \<and> parseIPv6 s then Some 128 else None)
          else None)"

text \<open>\<open>dtoi\<close> on a whole string: a decimal number below 0xFFFFFF.\<close>

fun dtoi_digits :: "nat \<Rightarrow> string \<Rightarrow> nat option" where
  "dtoi_digits n [] = Some n"
| "dtoi_digits n (c # cs) =
     (if \<not> is_digit c then None
      else let m = n * 10 + digit_val c in if 0xFFFFFF \<le> m then None else dtoi_digits m cs)"

definition net_ParseCIDR_ok :: "string \<Rightarrow> bool" where
  "net_ParseCIDR_ok s =
     (case strings_Cut s ''/'' of
        None \<Rightarrow> False
      | Some (addr, plen) \<Rightarrow>
          (case addr_bits addr of
             None \<Rightarrow> False
           | Some bits \<Rightarrow>
               plen \<noteq> [] \<and> (case dtoi_digits 0 plen of None \<Rightarrow> False | Some n \<Rightarrow> n \<le> bits)))"

lemmas cidr_defs = net_ParseCIDR_ok_def addr_bits_def parseIPv4_def parseIPv6_def ipv6_done_def
  is_hex_def is_digit_def digit_val_def lower_char_def is_upper_def Let_def

text \<open>An accepted prefix has exactly one address and one mask around its first slash.\<close>

lemma net_ParseCIDR_ok_slash: "net_ParseCIDR_ok s \<Longrightarrow> CHR ''/'' \<in> set s"
  by (auto simp: net_ParseCIDR_ok_def strings_Cut_char split: if_splits)

end
