(* ===== verification/Acl.thy ===== *)
theory Acl
  imports Convert Effects GoNet
begin

text \<open>
  \<open>scaleway/acl.go\<close>, with \<open>chunkArray\<close> of \<open>scaleway/loadbalancers.go\<close>: the access control
  list of a frontend, which allows the source ranges of the service and the addresses of the
  nodes, by chunks, and denies the rest.
\<close>

section \<open>Chunks\<close>

text \<open>
  The loop never ends when the chunk size is 0: the result is then \<open>None\<close>.
\<close>

partial_function (option) chunk_loop :: "nat \<Rightarrow> string list \<Rightarrow> string list list \<Rightarrow> string list list option" where
  "chunk_loop maxChunkSize array result =
     (if array = [] then Some result
      else let chunkSize = (if length array < maxChunkSize then length array else maxChunkSize)
           in chunk_loop maxChunkSize (drop chunkSize array) (result @ [take chunkSize array]))"

definition chunkArray :: "string list \<Rightarrow> nat \<Rightarrow> string list list option" where
  "chunkArray array maxChunkSize = chunk_loop maxChunkSize array []"

section \<open>Specifications\<close>

definition MaxEntriesPerACL :: nat where
  "MaxEntriesPerACL = 60"

definition makeACLPrefix :: "Frontend option \<Rightarrow> string" where
  "makeACLPrefix frontend =
     (case frontend of
        None \<Rightarrow> ''lb-source-range''
      | Some f \<Rightarrow> fe_ID f @ ''-lb-source-range'')"

fun source_ranges :: "string list \<Rightarrow> string list" where
  "source_ranges [] = []"
| "source_ranges (sourceRange # rest) =
     (if \<not> net_ParseCIDR_ok sourceRange then source_ranges rest
      else if strings_Contains sourceRange '':''
      then strings_TrimSuffix sourceRange ''/128'' # source_ranges rest
      else strings_TrimSuffix sourceRange ''/32'' # source_ranges rest)"

definition allow_spec :: "sdk \<Rightarrow> string \<Rightarrow> nat \<Rightarrow> string list \<Rightarrow> ACLSpec" where
  "allow_spec X aclPrefix idx subnets =
     \<lparr>spec_Name = aclPrefix @ ''-'' @ fmt_d (int idx), spec_Action = Some ACLActionTypeAllow,
      spec_Match = Some \<lparr>match_IPSubnet = sdk_StringSlicePtr X subnets, match_Invert = False\<rparr>,
      spec_Index = of_nat idx\<rparr>"

definition deny_spec :: "sdk \<Rightarrow> string \<Rightarrow> nat \<Rightarrow> ACLSpec" where
  "deny_spec X aclPrefix idx =
     \<lparr>spec_Name = aclPrefix @ ''-end'', spec_Action = Some ACLActionTypeDeny,
      spec_Match = Some \<lparr>match_IPSubnet = sdk_StringSlicePtr X [''0.0.0.0/0'', ''::/0''],
                         match_Invert = False\<rparr>,
      spec_Index = of_nat idx\<rparr>"

definition acl_whitelist :: "Service \<Rightarrow> Node list \<Rightarrow> string list" where
  "acl_whitelist service nodes =
     sort (elems (extractNodesInternalIps nodes) @ elems (extractNodesExternalIps nodes)
           @ source_ranges (svc_LoadBalancerSourceRanges service))"

definition makeACLSpecs :: "sdk \<Rightarrow> Service \<Rightarrow> Node list \<Rightarrow> Frontend option \<Rightarrow> ACLSpec list option" where
  "makeACLSpecs X service nodes frontend =
     (if svc_LoadBalancerSourceRanges service = [] then Some []
      else
        let aclPrefix = makeACLPrefix frontend in
        case chunkArray (acl_whitelist service nodes) MaxEntriesPerACL of
          None \<Rightarrow> None
        | Some subnetsChunks \<Rightarrow>
            Some (map (\<lambda>(idx, subnets). allow_spec X aclPrefix idx subnets)
                      (zip [0..<length subnetsChunks] subnetsChunks)
                  @ [deny_spec X aclPrefix (length subnetsChunks)]))"

section \<open>Comparison\<close>

text \<open>
  \<open>slices.SortStableFunc\<close> with \<open>int(a.Index - b.Index)\<close>, whose 32-bit subtraction may wrap.
  The insertion sort below is what the library runs on at most 20 elements; beyond that it
  merges sorted blocks, with the same result whenever the comparison is a weak order, that is
  when no subtraction wraps.
\<close>

definition cmp_index :: "('a \<Rightarrow> int32) \<Rightarrow> 'a \<Rightarrow> 'a \<Rightarrow> int" where
  "cmp_index index a b = sint (index a - index b)"

fun move_left :: "('a \<Rightarrow> 'a \<Rightarrow> int) \<Rightarrow> 'a \<Rightarrow> 'a list \<Rightarrow> 'a list" where
  "move_left cmp x [] = [x]"
| "move_left cmp x (y # ys) = (if cmp x y < 0 then y # move_left cmp x ys else x # y # ys)"

definition slices_SortStableFunc :: "('a \<Rightarrow> 'a \<Rightarrow> int) \<Rightarrow> 'a list \<Rightarrow> 'a list" where
  "slices_SortStableFunc cmp xs = rev (fold (move_left cmp) xs [])"

text \<open>
  The loop over the sorted lists.  Comparing two matches sorts their subnets in place, which
  the result shows for the wanted specifications, since they are sent afterwards.
\<close>

definition match_equal :: "ACLMatch option \<Rightarrow> ACLMatch option \<Rightarrow> bool \<times> ACLMatch option" where
  "match_equal want got =
     (if (want = None) \<noteq> (got = None) then (False, want)
      else case (want, got) of
        (Some wm, Some gm) \<Rightarrow>
          (case stringPtrArrayEqual (match_IPSubnet wm) (match_IPSubnet gm) of
             (eq, wantSubnets, gotSubnets) \<Rightarrow>
               let wm' = wm\<lparr>match_IPSubnet := wantSubnets\<rparr>
               in (eq \<and> match_Invert wm = match_Invert gm, Some wm'))
      | _ \<Rightarrow> (True, want))"

fun acls_loop :: "ACL list \<Rightarrow> ACLSpec list \<Rightarrow> bool \<times> ACLSpec list" where
  "acls_loop got [] = (True, [])"
| "acls_loop [] (w # ws) = (False, w # ws)"
| "acls_loop (g # gs) (w # ws) =
     (if spec_Name w \<noteq> acl_Name g then (False, w # ws)
      else if spec_Index w \<noteq> acl_Index g then (False, w # ws)
      else if (spec_Action w = None) \<noteq> (acl_Action g = None) then (False, w # ws)
      else if spec_Action w \<noteq> None \<and> the (spec_Action w) \<noteq> the (acl_Action g) then (False, w # ws)
      else case match_equal (spec_Match w) (acl_Match g) of
        (same, m) \<Rightarrow>
          let w' = w\<lparr>spec_Match := m\<rparr>
          in if \<not> same then (False, w' # ws)
             else (case acls_loop gs ws of (b, ws') \<Rightarrow> (b, w' # ws')))"

definition aclsEquals :: "ACL list \<Rightarrow> ACLSpec list \<Rightarrow> bool \<times> ACLSpec list" where
  "aclsEquals got want =
     (if length got \<noteq> length want then (False, want)
      else acls_loop (slices_SortStableFunc (cmp_index acl_Index) got)
                     (slices_SortStableFunc (cmp_index spec_Index) want))"

section \<open>Reconciliation\<close>

definition reconcileACLs ::
  "sdk \<Rightarrow> api \<Rightarrow> LB \<Rightarrow> Frontend \<Rightarrow> Service \<Rightarrow> Node list \<Rightarrow> unit act" where
  "reconcileACLs X A loadbalancer frontend service nodes =
     (let aclName = makeACLPrefix (Some frontend) in
      bindA (wrapA (\<lambda>e. Errorf ''failed to list ACLs for frontend: %s port: %d loadbalancer: %s err: %v'' None)
               (invoke (api_ListACLs A) (ListACLs (lb_Zone loadbalancer) (fe_ID frontend) aclName))) (\<lambda>acls.
      case makeACLSpecs X service nodes (Some frontend) of
        None \<Rightarrow> failA (GoPanic ''makeACLSpecs does not return'')
      | Some svcAcls \<Rightarrow>
          (case aclsEquals acls svcAcls of (equal, svcAcls') \<Rightarrow>
             if \<not> equal then
               bindA (wrapA (\<lambda>e. Errorf ''failed setting ACLs for frontend: %s port: %d loadbalancer: %s err: %v'' None)
                        (invoke (api_SetACLs A)
                          (SetACLs (lb_Zone loadbalancer) (fe_ID frontend) svcAcls'))) (\<lambda>_. retA ())
             else retA ())))"

section \<open>Laws of the chunks\<close>

lemma chunk_loop_returns:
  "0 < n \<Longrightarrow> \<exists>cs. chunk_loop n xs res = Some (res @ cs) \<and> concat cs = xs
     \<and> list_all (\<lambda>c. c \<noteq> [] \<and> length c \<le> n) cs
     \<and> list_all (\<lambda>c. length c = n) (butlast cs)"
proof (induction xs arbitrary: res rule: length_induct)
  case (1 xs)
  show ?case
  proof (cases "xs = []")
    case True
    show ?thesis
      unfolding True by (intro exI [of _ "[]"]) (simp add: chunk_loop.simps [of n "[]"])
  next
    case False
    define k where "k = (if length xs < n then length xs else n)"
    have k: "0 < k" "k \<le> n" "k \<le> length xs" using False 1(2) by (auto simp: k_def)
    then have "length (drop k xs) < length xs" using False by simp
    with 1 obtain cs where cs: "chunk_loop n (drop k xs) (res @ [take k xs]) = Some ((res @ [take k xs]) @ cs)"
      "concat cs = drop k xs" "list_all (\<lambda>c. c \<noteq> [] \<and> length c \<le> n) cs"
      "list_all (\<lambda>c. length c = n) (butlast cs)" by blast
    have full: "length (take k xs) = n" if "cs \<noteq> []"
    proof -
      from that cs(2,3) have "drop k xs \<noteq> []" by (cases cs) auto
      then show ?thesis by (auto simp: k_def split: if_splits)
    qed
    show ?thesis
      using cs k False full
      by (intro exI [of _ "take k xs # cs"]) (auto simp: chunk_loop.simps [of n xs] k_def [symmetric])
  qed
qed

lemma chunkArray_returns:
  assumes "0 < n"
  obtains cs where "chunkArray xs n = Some cs" "concat cs = xs"
    "list_all (\<lambda>c. c \<noteq> [] \<and> length c \<le> n) cs" "list_all (\<lambda>c. length c = n) (butlast cs)"
  using chunk_loop_returns [OF assms, of xs "[]"] by (auto simp: chunkArray_def)

lemma makeACLSpecs_returns: "\<exists>specs. makeACLSpecs X service nodes frontend = Some specs"
proof -
  obtain cs where "chunkArray (acl_whitelist service nodes) MaxEntriesPerACL = Some cs"
    by (rule chunkArray_returns [of MaxEntriesPerACL]) (simp_all add: MaxEntriesPerACL_def)
  then show ?thesis by (simp add: makeACLSpecs_def Let_def)
qed

section \<open>Laws of the sort\<close>

lemma mset_move_left [simp]: "mset (move_left cmp x ys) = add_mset x (mset ys)"
  by (induction ys) auto

lemma mset_fold_move_left: "mset (fold (move_left cmp) xs rs) = mset xs + mset rs"
  by (induction xs arbitrary: rs) auto

lemma mset_SortStableFunc [simp]: "mset (slices_SortStableFunc cmp xs) = mset xs"
  by (simp add: slices_SortStableFunc_def mset_fold_move_left)

lemma length_SortStableFunc [simp]: "length (slices_SortStableFunc cmp xs) = length xs"
  by (metis mset_SortStableFunc size_mset)

lemma sorted_move_left:
  assumes "\<And>y. y \<in> set ys \<Longrightarrow> cmp x y < 0 \<longleftrightarrow> key x < (key y :: int)"
    and "sorted_wrt (\<lambda>a b. key b \<le> key a) ys"
  shows "sorted_wrt (\<lambda>a b. key b \<le> key a) (move_left cmp x ys)"
  using assms
proof (induction ys)
  case (Cons y ys)
  have "set (move_left cmp x ys) = insert x (set ys)"
    by (metis mset_move_left set_mset_add_mset_insert set_mset_mset)
  with Cons show ?case by auto
qed simp

lemma sorted_fold_move_left:
  assumes "\<And>x y. x \<in> S \<Longrightarrow> y \<in> S \<Longrightarrow> cmp x y < 0 \<longleftrightarrow> key x < (key y :: int)"
    and "set xs \<subseteq> S" "set rs \<subseteq> S" "sorted_wrt (\<lambda>a b. key b \<le> key a) rs"
  shows "sorted_wrt (\<lambda>a b. key b \<le> key a) (fold (move_left cmp) xs rs)"
  using assms(2-)
proof (induction xs arbitrary: rs)
  case (Cons x xs)
  have "set (move_left cmp x rs) = insert x (set rs)"
    by (metis mset_move_left set_mset_add_mset_insert set_mset_mset)
  moreover have "sorted_wrt (\<lambda>a b. key b \<le> key a) (move_left cmp x rs)"
    using Cons.prems by (intro sorted_move_left assms(1)) auto
  ultimately show ?case using Cons by simp
qed simp

lemma sorted_SortStableFunc:
  assumes "\<And>x y. x \<in> set xs \<Longrightarrow> y \<in> set xs \<Longrightarrow> cmp x y < 0 \<longleftrightarrow> key x < (key y :: int)"
  shows "sorted (map key (slices_SortStableFunc cmp xs))"
proof -
  have "sorted_wrt (\<lambda>a b. key b \<le> key a) (fold (move_left cmp) xs [])"
    by (rule sorted_fold_move_left [of "set xs"]) (use assms in auto)
  then show ?thesis by (simp add: slices_SortStableFunc_def sorted_wrt_rev sorted_map)
qed

text \<open>Subtracting non-negative 32-bit numbers does not wrap.\<close>

lemma cmp_index_nonneg:
  assumes "0 \<le> sint (index a)" "0 \<le> sint (index b)"
  shows "cmp_index index a b < 0 \<longleftrightarrow> sint (index a) < sint (index b)"
proof -
  have "sint (index a) < 2 ^ 31" "sint (index b) < 2 ^ 31"
    using sint_lt [of "index a"] sint_lt [of "index b"] by simp_all
  with assms have "sint (index a - index b) = sint (index a) - sint (index b)"
    by (simp add: sint_word_ariths signed_take_bit_int_eq_self)
  then show ?thesis by (simp add: cmp_index_def)
qed

section \<open>Laws of the comparison\<close>

text \<open>
  The configuration of an access control list entry, independent of the order of its subnets.
\<close>

definition match_config where
  "match_config m = (match_IPSubnet m = None, mset (elems (match_IPSubnet m)), match_Invert m)"

definition acl_config where
  "acl_config a = (acl_Name a, acl_Index a, acl_Action a, map_option match_config (acl_Match a))"

definition spec_config where
  "spec_config w = (spec_Name w, spec_Index w, spec_Action w, map_option match_config (spec_Match w))"

lemma stringPtrArrayEqual_iff:
  "stringPtrArrayEqual a b = (eq, a', b') \<longleftrightarrow>
    (eq \<longleftrightarrow> (a = None \<longleftrightarrow> b = None) \<and> mset (elems a) = mset (elems b))
    \<and> a' = sort_slice a \<and> b' = sort_slice b"
  by (auto simp: stringPtrArrayEqual_def Let_def sort_slice_eq_iff)

lemma match_config_sort [simp]:
  "match_config (m\<lparr>match_IPSubnet := sort_slice (match_IPSubnet m)\<rparr>) = match_config m"
  by (cases "match_IPSubnet m") (simp_all add: match_config_def sort_slice_def)

lemma match_equal_iff:
  "fst (match_equal want got) \<longleftrightarrow> map_option match_config want = map_option match_config got"
  by (cases want; cases got)
    (auto simp: match_equal_def match_config_def stringPtrArrayEqual_iff Let_def split: prod.splits)

lemma match_equal_effect:
  "map_option match_config (snd (match_equal want got)) = map_option match_config want"
  by (cases want; cases got)
    (simp_all add: match_equal_def stringPtrArrayEqual_def Let_def)

lemma action_equal:
  "(if (a = None) \<noteq> (b = None) then False else if a \<noteq> None \<and> the a \<noteq> the b then False else R)
     \<longleftrightarrow> a = b \<and> R"
  by (cases a; cases b) auto

lemma acls_loop_Cons:
  "fst (acls_loop (g # gs) (w # ws)) \<longleftrightarrow>
     acl_config g = spec_config w \<and> fst (acls_loop gs ws)"
  using match_equal_iff [of "spec_Match w" "acl_Match g"]
  by (cases "spec_Action w"; cases "acl_Action g")
    (auto simp: acl_config_def spec_config_def Let_def case_prod_beta)

lemma acls_loop_iff:
  "length gs = length ws \<Longrightarrow> fst (acls_loop gs ws) \<longleftrightarrow> map acl_config gs = map spec_config ws"
  by (induction gs ws rule: list_induct2) (simp_all add: acls_loop_Cons del: acls_loop.simps(3))

lemma acls_loop_effect: "map spec_config (snd (acls_loop gs ws)) = map spec_config ws"
proof (induction gs ws rule: acls_loop.induct)
  case (3 g gs w ws)
  obtain same m where m: "match_equal (spec_Match w) (acl_Match g) = (same, m)" by (metis surj_pair)
  have eq: "spec_config (w\<lparr>spec_Match := m\<rparr>) = spec_config w"
    using match_equal_effect [of "spec_Match w" "acl_Match g"] m by (simp add: spec_config_def)
  show ?case
    using eq 3 m by (cases same) (simp_all add: Let_def case_prod_beta)
qed simp_all

lemma aclsEquals_effect: "mset (map spec_config (snd (aclsEquals got want))) = mset (map spec_config want)"
proof (cases "length got = length want")
  case True
  let ?g = "slices_SortStableFunc (cmp_index acl_Index) got"
  let ?w = "slices_SortStableFunc (cmp_index spec_Index) want"
  have "aclsEquals got want = acls_loop ?g ?w" using True by (simp add: aclsEquals_def)
  moreover have "mset (map spec_config (snd (acls_loop ?g ?w))) = mset (map spec_config ?w)"
    by (simp only: acls_loop_effect)
  ultimately show ?thesis by simp
qed (simp add: aclsEquals_def)

lemma sorted_configs_unique:
  fixes xs ys :: "('n \<times> int32 \<times> 'a) list"
  assumes "mset xs = mset ys" "inj_on (\<lambda>c. sint (fst (snd c))) (set ys)"
    and "sorted (map (\<lambda>c. sint (fst (snd c))) xs)" "sorted (map (\<lambda>c. sint (fst (snd c))) ys)"
  shows "xs = ys"
proof -
  have "set xs = set ys" using assms(1) by (rule mset_eq_setD)
  then have "inj_on (\<lambda>c. sint (fst (snd c))) (set xs)" using assms(2) by simp
  then have "sort_key (\<lambda>c. sint (fst (snd c))) xs = ys"
    using assms by (intro sort_key_inj_key_eq) auto
  moreover have "sort_key (\<lambda>c. sint (fst (snd c))) xs = xs"
    using assms(3) by (rule sort_key_id_if_sorted)
  ultimately show ?thesis by simp
qed

text \<open>Entries numbered from 0 are compared as multisets of configurations.\<close>

lemma aclsEquals_numbered:
  assumes idx: "map spec_Index want = map of_nat [0..<length want]" and len: "length want < 2 ^ 31"
  shows "fst (aclsEquals got want) \<longleftrightarrow> mset (map acl_config got) = mset (map spec_config want)"
proof (cases "length got = length want")
  case False
  then have "mset (map acl_config got) \<noteq> mset (map spec_config want)"
    by (metis length_map size_mset)
  with False show ?thesis by (simp add: aclsEquals_def)
next
  case True
  let ?key = "\<lambda>c. sint (fst (snd c)) :: int"
  let ?g = "slices_SortStableFunc (cmp_index acl_Index) got"
  let ?w = "slices_SortStableFunc (cmp_index spec_Index) want"
  have sint_nat: "sint (of_nat i :: int32) = int i" if "i < length want" for i
    using that len by (simp add: signed_of_nat signed_take_bit_int_eq_self)
  have keys: "map (sint \<circ> spec_Index) want = map int [0..<length want]"
  proof -
    have "map (sint \<circ> spec_Index) want = map sint (map spec_Index want :: int32 list)" by simp
    also have "\<dots> = map (\<lambda>i. sint (of_nat i :: int32)) [0..<length want]" unfolding idx by simp
    also have "\<dots> = map int [0..<length want]" by (rule map_cong) (simp_all add: sint_nat)
    finally show ?thesis .
  qed
  have nonneg: "0 \<le> sint (spec_Index w)" if "w \<in> set want" for w
  proof -
    from that have "sint (spec_Index w) \<in> set (map (sint \<circ> spec_Index) want)" by simp
    then show ?thesis unfolding keys by auto
  qed
  have sortedw: "sorted (map ?key (map spec_config want))"
    using arg_cong [OF keys, of sorted]
    by (simp add: comp_def spec_config_def sorted_map [of int])
  have "map ?key (map spec_config want) = map (sint \<circ> spec_Index) want"
    by (simp add: spec_config_def)
  then have "distinct (map ?key (map spec_config want))"
    unfolding keys by (simp only: distinct_map distinct_upt) simp
  then have inj: "inj_on ?key (set (map spec_config want))"
    by (rule distinct_map [THEN iffD1, THEN conjunct2])
  have keyw: "map ?key (map spec_config ws) = map (\<lambda>w. sint (spec_Index w)) ws" for ws
    by (simp add: spec_config_def)
  have "sorted (map (\<lambda>w. sint (spec_Index w)) ?w)"
    by (rule sorted_SortStableFunc, rule cmp_index_nonneg; rule nonneg; assumption)
  then have "sorted (map ?key (map spec_config ?w))" unfolding keyw .
  with inj sortedw have "map spec_config ?w = map spec_config want"
    by (intro sorted_configs_unique) simp_all
  then have loop: "fst (aclsEquals got want) \<longleftrightarrow> map acl_config ?g = map spec_config want"
    using True by (simp add: aclsEquals_def acls_loop_iff)
  show ?thesis
  proof
    assume "fst (aclsEquals got want)"
    then have "mset (map acl_config ?g) = mset (map spec_config want)" by (simp add: loop)
    then show "mset (map acl_config got) = mset (map spec_config want)" by simp
  next
    assume m: "mset (map acl_config got) = mset (map spec_config want)"
    have gnonneg: "0 \<le> sint (acl_Index g)" if "g \<in> set got" for g
    proof -
      from that m have "acl_config g \<in> set (map spec_config want)"
        by (metis image_eqI list.set_map mset_eq_setD)
      then show ?thesis using nonneg by (auto simp: acl_config_def spec_config_def)
    qed
    have "sorted (map (\<lambda>g. sint (acl_Index g)) ?g)"
      by (rule sorted_SortStableFunc, rule cmp_index_nonneg; rule gnonneg; assumption)
    then have "sorted (map ?key (map acl_config ?g))" by (simp add: acl_config_def comp_def)
    with m inj sortedw have "map acl_config ?g = map spec_config want"
      by (intro sorted_configs_unique) simp_all
    then show "fst (aclsEquals got want)" by (simp add: loop)
  qed
qed

section \<open>Properties\<close>

lemma makeACLSpecs_Some:
  assumes "makeACLSpecs X service nodes frontend = Some specs"
    and "svc_LoadBalancerSourceRanges service \<noteq> []"
  obtains cs where "chunkArray (acl_whitelist service nodes) MaxEntriesPerACL = Some cs"
    "specs = map (\<lambda>(idx, subnets). allow_spec X (makeACLPrefix frontend) idx subnets)
        (zip [0..<length cs] cs) @ [deny_spec X (makeACLPrefix frontend) (length cs)]"
  using assms by (auto simp: makeACLSpecs_def Let_def split: option.splits)

lemma makeACLSpecs_numbered:
  assumes "makeACLSpecs X service nodes frontend = Some specs"
  shows "map spec_Index specs = map of_nat [0..<length specs]"
proof (cases "svc_LoadBalancerSourceRanges service = []")
  case True
  with assms show ?thesis by (simp add: makeACLSpecs_def)
next
  case False
  with makeACLSpecs_Some [OF assms] obtain cs where
    specs: "specs = map (\<lambda>(idx, subnets). allow_spec X (makeACLPrefix frontend) idx subnets)
        (zip [0..<length cs] cs) @ [deny_spec X (makeACLPrefix frontend) (length cs)]" by blast
  have "map spec_Index specs = map (of_nat \<circ> fst) (zip [0..<length cs] cs) @ [of_nat (length cs)]"
    by (auto simp: specs allow_spec_def deny_spec_def)
  also have "\<dots> = map of_nat (map fst (zip [0..<length cs] cs)) @ [of_nat (length cs)]"
    by (simp only: map_map)
  also have "map fst (zip [0..<length cs] cs) = [0..<length cs]" by (rule map_fst_zip) simp
  also have "map of_nat [0..<length cs] @ [of_nat (length cs)] = map of_nat [0..<length specs]"
    by (simp add: specs)
  finally show ?thesis .
qed

text \<open>
  \<open>chunkArray\<close> with a positive size ends; its chunks are not empty, put together they are
  the array, and all of them but the last one are full.
\<close>

lemma chunkArray_spec:
  assumes "0 < n"
  shows "case chunkArray xs n of
      None \<Rightarrow> False
    | Some cs \<Rightarrow> concat cs = xs \<and> list_all (\<lambda>c. c \<noteq> [] \<and> length c \<le> n) cs
        \<and> list_all (\<lambda>c. length c = n) (butlast cs)"
  by (rule chunkArray_returns [OF assms, of xs]) simp

text \<open>The actions and the matches of the rules made from the chunks.\<close>

lemma allow_deny_shape:
  assumes eq: "specs = map (\<lambda>(idx, subnets). allow_spec X aclPrefix idx subnets) (zip [0..<length cs] cs)
      @ [deny_spec X aclPrefix (length cs)]"
  shows "map spec_Action specs = replicate (length cs) (Some ACLActionTypeAllow) @ [Some ACLActionTypeDeny]"
    and "map (map_option match_IPSubnet \<circ> spec_Match) specs =
        map (\<lambda>c. Some (sdk_StringSlicePtr X c)) (cs @ [[''0.0.0.0/0'', ''::/0'']])"
    and "list_all (\<lambda>w. map_option match_Invert (spec_Match w) = Some False) specs"
proof -
  show "map spec_Action specs = replicate (length cs) (Some ACLActionTypeAllow) @ [Some ACLActionTypeDeny]"
    by (simp add: eq allow_spec_def deny_spec_def case_prod_beta map_replicate_const comp_def)
  have "map (\<lambda>p. Some (sdk_StringSlicePtr X (snd p))) (zip [0..<length cs] cs) =
      map (\<lambda>c. Some (sdk_StringSlicePtr X c)) (map snd (zip [0..<length cs] cs))"
    by (simp only: map_map comp_def)
  also have "map snd (zip [0..<length cs] cs) = cs" by (rule map_snd_zip) simp
  finally show "map (map_option match_IPSubnet \<circ> spec_Match) specs =
        map (\<lambda>c. Some (sdk_StringSlicePtr X c)) (cs @ [[''0.0.0.0/0'', ''::/0'']])"
    by (simp add: eq allow_spec_def deny_spec_def case_prod_beta comp_def)
  show "list_all (\<lambda>w. map_option match_Invert (spec_Match w) = Some False) specs"
    by (auto simp: eq allow_spec_def deny_spec_def list_all_iff)
qed

text \<open>
  The subnets of the allow rules, written from the addresses of the nodes and the source ranges
  of the service.
\<close>

lemma source_ranges_eq:
  "source_ranges rs =
     map (\<lambda>r. if CHR '':'' \<in> set r then strings_TrimSuffix r ''/128'' else strings_TrimSuffix r ''/32'')
       (filter net_ParseCIDR_ok rs)"
  by (induction rs) (simp_all add: strings_Contains_def strings_Cut_char)

lemma node_ips_mset:
  "mset (node_ips NodeInternalIP nodes) + mset (node_ips NodeExternalIP nodes) =
     mset (map addr_Address (filter (\<lambda>a. addr_Type a = NodeInternalIP \<or> addr_Type a = NodeExternalIP)
       (concat (map node_Addresses nodes))))"
proof -
  have "mset (map addr_Address (filter (\<lambda>a. addr_Type a = NodeInternalIP) as)) +
      mset (map addr_Address (filter (\<lambda>a. addr_Type a = NodeExternalIP) as)) =
      mset (map addr_Address (filter (\<lambda>a. addr_Type a = NodeInternalIP \<or> addr_Type a = NodeExternalIP) as))"
    for as :: "NodeAddress list"
    by (induction as) auto
  moreover have "node_ips t nodes = map addr_Address (filter (\<lambda>a. addr_Type a = t) (concat (map node_Addresses nodes)))" for t
    by (simp add: node_ips_def filter_concat map_concat comp_def)
  ultimately show ?thesis by simp
qed

lemma acl_whitelist_spec:
  "sorted (acl_whitelist service nodes)"
  "mset (acl_whitelist service nodes) =
     mset (map addr_Address (filter (\<lambda>a. addr_Type a = NodeInternalIP \<or> addr_Type a = NodeExternalIP)
       (concat (map node_Addresses nodes))))
   + mset (map (\<lambda>r. if CHR '':'' \<in> set r then strings_TrimSuffix r ''/128'' else strings_TrimSuffix r ''/32'')
       (filter net_ParseCIDR_ok (svc_LoadBalancerSourceRanges service)))"
  using node_ips_mset [of nodes]
  by (simp_all add: acl_whitelist_def source_ranges_eq extractNodesInternalIps_def
      extractNodesExternalIps_def add.assoc [symmetric])

text \<open>
  C10: \<open>makeACLSpecs\<close> always returns.  Without source ranges it gives no rule; otherwise it
  gives rules numbered from 0 in list order: allow rules, then one rule that denies every
  address.  The subnets of the allow rules, put together, are sorted, and they are exactly the
  internal and external addresses of the nodes and the source ranges that parse, each as often
  as it occurs, with a suffix \<open>/128\<close> removed from those with a colon and \<open>/32\<close> from the others;
  every allow rule but the last one has 60 of them, and the last one has at least one and at
  most 60.
\<close>

theorem makeACLSpecs_spec:
  "case makeACLSpecs X service nodes frontend of
     None \<Rightarrow> False
   | Some specs \<Rightarrow>
       map spec_Index specs = map of_nat [0..<length specs]
     \<and> (if svc_LoadBalancerSourceRanges service = [] then specs = []
        else \<exists>cs. sorted (concat cs)
          \<and> mset (concat cs) =
              mset (map addr_Address (filter (\<lambda>a. addr_Type a = NodeInternalIP \<or> addr_Type a = NodeExternalIP)
                (concat (map node_Addresses nodes))))
            + mset (map (\<lambda>r. if CHR '':'' \<in> set r then strings_TrimSuffix r ''/128'' else strings_TrimSuffix r ''/32'')
                (filter net_ParseCIDR_ok (svc_LoadBalancerSourceRanges service)))
          \<and> list_all (\<lambda>c. 0 < length c \<and> length c \<le> 60) cs
          \<and> list_all (\<lambda>c. length c = 60) (butlast cs)
          \<and> map spec_Action specs = replicate (length cs) (Some ACLActionTypeAllow) @ [Some ACLActionTypeDeny]
          \<and> map (map_option match_IPSubnet \<circ> spec_Match) specs =
              map (\<lambda>c. Some (sdk_StringSlicePtr X c)) (cs @ [[''0.0.0.0/0'', ''::/0'']])
          \<and> list_all (\<lambda>w. map_option match_Invert (spec_Match w) = Some False) specs)"
proof -
  obtain specs where specs: "makeACLSpecs X service nodes frontend = Some specs"
    using makeACLSpecs_returns by blast
  note num = makeACLSpecs_numbered [OF specs]
  show ?thesis
  proof (cases "svc_LoadBalancerSourceRanges service = []")
    case True
    with specs num show ?thesis by (simp add: makeACLSpecs_def)
  next
    case False
    obtain cs where cs: "chunkArray (acl_whitelist service nodes) MaxEntriesPerACL = Some cs"
      and eq: "specs = map (\<lambda>(idx, subnets). allow_spec X (makeACLPrefix frontend) idx subnets)
        (zip [0..<length cs] cs) @ [deny_spec X (makeACLPrefix frontend) (length cs)]"
      using makeACLSpecs_Some [OF specs False] by blast
    have chunks: "concat cs = acl_whitelist service nodes" "list_all (\<lambda>c. c \<noteq> [] \<and> length c \<le> 60) cs"
        "list_all (\<lambda>c. length c = 60) (butlast cs)"
      using chunkArray_spec [of MaxEntriesPerACL "acl_whitelist service nodes"] cs
      by (simp_all add: MaxEntriesPerACL_def)
    note shape = allow_deny_shape [where X = X and aclPrefix = "makeACLPrefix frontend", OF eq]
    show ?thesis
      using specs num False chunks(2,3) shape
      by (simp add: chunks(1) acl_whitelist_spec del: map_map) (intro exI [of _ cs], simp add: chunks(1) acl_whitelist_spec del: map_map)
  qed
qed

text \<open>
  C20: the rules of a frontend are considered up to date exactly when they are the wanted ones
  as a multiset: same names, indices, actions, matches, whatever the order in which the
  service lists them and their subnets.
\<close>

theorem aclsEquals_iff:
  assumes "makeACLSpecs X service nodes frontend = Some specs" "length specs < 2 ^ 31"
  shows "fst (aclsEquals got specs) \<longleftrightarrow> mset (map acl_config got) = mset (map spec_config specs)"
  by (rule aclsEquals_numbered [OF makeACLSpecs_numbered [OF assms(1)] assms(2)])

definition sample_service :: Service where
  "sample_service = \<lparr>svc_Namespace = ''default'', svc_Name = ''web'', svc_UID = ''u'',
     svc_Labels = [], svc_Annotations = [], svc_DeletionTimestamp = None,
     svc_Ports = [\<lparr>port_Protocol = ''TCP'', port_Port = 80, port_NodePort = 30080\<rparr>],
     svc_LoadBalancerClass = None, svc_LoadBalancerIP = '''', svc_LoadBalancerSourceRanges = [],
     svc_HealthCheckNodePort = 0, svc_StatusIngress = []\<rparr>"

text \<open>The rule that the service stores for a specification.\<close>

definition acl_of :: "ACLSpec \<Rightarrow> ACL" where
  "acl_of w = \<lparr>acl_Name = spec_Name w, acl_Action = spec_Action w, acl_Match = spec_Match w,
     acl_Index = spec_Index w\<rparr>"

lemma acl_config_of: "acl_config (acl_of w) = spec_config w"
  by (simp add: acl_of_def acl_config_def spec_config_def)

lemma sample_rules:
  "makeACLSpecs sample_sdk (sample_service\<lparr>svc_LoadBalancerSourceRanges := [''10.0.0.0/8'']\<rparr>) [] None =
     Some [allow_spec sample_sdk ''lb-source-range'' 0 [''10.0.0.0/8''],
       deny_spec sample_sdk ''lb-source-range'' 1]"
  by (simp add: makeACLSpecs_def sample_service_def acl_whitelist_def chunkArray_def chunk_loop.simps
      MaxEntriesPerACL_def makeACLPrefix_def extractNodesInternalIps_def extractNodesExternalIps_def
      node_ips_def sappend_def cidr_defs strings_Contains_def strings_TrimSuffix_def suffix_to_prefix)

theorem aclsEquals_iff_witness:
  "\<exists>specs. makeACLSpecs sample_sdk (sample_service\<lparr>svc_LoadBalancerSourceRanges := [''10.0.0.0/8'']\<rparr>) [] None =
      Some specs
    \<and> fst (aclsEquals (rev (map acl_of specs)) specs) \<and> \<not> fst (aclsEquals (map acl_of (tl specs)) specs)"
proof -
  let ?specs = "[allow_spec sample_sdk ''lb-source-range'' 0 [''10.0.0.0/8''],
       deny_spec sample_sdk ''lb-source-range'' 1]"
  have "length ?specs < 2 ^ 31" by simp
  note eq = aclsEquals_iff [OF sample_rules this]
  have "fst (aclsEquals (rev (map acl_of ?specs)) ?specs)" "\<not> fst (aclsEquals (map acl_of (tl ?specs)) ?specs)"
    unfolding eq by (simp_all add: acl_config_of add_mset_commute)
  with sample_rules show ?thesis by blast
qed

text \<open>
  C21: \<open>reconcileACLs\<close> lists the rules of the frontend and sets them only when they differ
  from the wanted ones; what it sets is the wanted rules.  It fails only when a call fails.
\<close>

theorem reconcileACLs_spec:
  "\<exists>specs. makeACLSpecs X service nodes (Some f) = Some specs
   \<and> post (reconcileACLs X A lb f service nodes) h (\<lambda>r es.
       let list_call = ListACLs (lb_Zone lb) (fe_ID f) (fe_ID f @ ''-lb-source-range'') in
       case api_ListACLs A h list_call of
         Inl e \<Rightarrow> es = [(list_call, Some e)] \<and> isl r
       | Inr acls \<Rightarrow>
           if fst (aclsEquals acls specs) then es = [(list_call, None)] \<and> r = Inr ()
           else \<exists>specs' o'. mset (map spec_config specs') = mset (map spec_config specs)
             \<and> es = [(list_call, None), (SetACLs (lb_Zone lb) (fe_ID f) specs', o')]
             \<and> isl r = (o' \<noteq> None))"
proof -
  obtain specs where specs: "makeACLSpecs X service nodes (Some f) = Some specs"
    using makeACLSpecs_returns by blast
  let ?list = "ListACLs (lb_Zone lb) (fe_ID f) (fe_ID f @ ''-lb-source-range'')"
  show ?thesis
  proof (intro exI [of _ specs] conjI specs)
    show "post (reconcileACLs X A lb f service nodes) h (\<lambda>r es.
       let list_call = ?list in
       case api_ListACLs A h list_call of
         Inl e \<Rightarrow> es = [(list_call, Some e)] \<and> isl r
       | Inr acls \<Rightarrow>
           if fst (aclsEquals acls specs) then es = [(list_call, None)] \<and> r = Inr ()
           else \<exists>specs' o'. mset (map spec_config specs') = mset (map spec_config specs)
             \<and> es = [(list_call, None), (SetACLs (lb_Zone lb) (fe_ID f) specs', o')]
             \<and> isl r = (o' \<noteq> None))"
    proof (cases "api_ListACLs A h ?list")
      case (Inl e)
      then show ?thesis
        by (auto simp: reconcileACLs_def makeACLPrefix_def Let_def post_invoke
            intro!: post_bind post_wrap)
    next
      case (Inr acls)
      obtain eq specs' where eq: "aclsEquals acls specs = (eq, specs')" by (metis surj_pair)
      then have "mset (map spec_config specs') = mset (map spec_config specs)"
        using aclsEquals_effect [of acls specs] by simp
      with Inr eq show ?thesis
        by (cases eq)
          (auto simp: reconcileACLs_def makeACLPrefix_def Let_def post_invoke post_ret specs
            intro!: post_bind post_wrap split: sum.splits)
    qed
  qed
qed

end
