(* ===== verification/AnnotationLaws.thy ===== *)
theory AnnotationLaws
  imports Convert
begin

text \<open>
  Laws of the annotation getters.  Two interfaces: \<open>annotation_getter\<close> is a getter that reads
  one annotation, with a default; \<open>annotation_frame\<close> is any function of the service that
  depends on the annotations only through a set of keys.  The first gives the second.  From
  them: the configuration that a service asks for does not depend on the identifier annotation
  that the controller itself writes.
\<close>

section \<open>The interfaces\<close>

abbreviation with_annos :: "Service \<Rightarrow> (string, string) gomap \<Rightarrow> Service" where
  "with_annos service m \<equiv> service\<lparr>svc_Annotations := m\<rparr>"

locale annotation_frame =
  fixes get :: "Service \<Rightarrow> 'r" and keys :: "string set"
  assumes frame: "(\<And>k. k \<in> keys \<Longrightarrow> map_of m k = map_of m' k) \<Longrightarrow>
    get (with_annos s m) = get (with_annos s m')"
begin

lemma update_other:
  assumes "k \<notin> keys"
  shows "get (with_annos s (AList.update k v (svc_Annotations s))) = get s"
proof -
  have "get (with_annos s (AList.update k v (svc_Annotations s))) = get (with_annos s (svc_Annotations s))"
    using assms by (intro frame) auto
  then show ?thesis by simp
qed

lemma delete_other:
  assumes "k \<notin> keys"
  shows "get (with_annos s (AList.delete k (svc_Annotations s))) = get s"
proof -
  have "get (with_annos s (AList.delete k (svc_Annotations s))) = get (with_annos s (svc_Annotations s))"
    using assms by (intro frame) auto
  then show ?thesis by simp
qed

end

locale annotation_getter =
  fixes get :: "Service \<Rightarrow> 'r" and key :: string and dflt :: 'r and parse :: "string \<Rightarrow> 'r"
  assumes missing: "anno s key = None \<Longrightarrow> get s = dflt"
    and present: "anno s key = Some v \<Longrightarrow> get s = parse v"
begin

lemma get_eq: "get s = (case anno s key of None \<Rightarrow> dflt | Some v \<Rightarrow> parse v)"
  by (simp add: missing present split: option.split)

lemma get_update: "get (with_annos s (AList.update key v m)) = parse v"
  by (simp add: present)

lemma get_delete: "get (with_annos s (AList.delete key m)) = dflt"
  by (simp add: missing)

end

sublocale annotation_getter \<subseteq> annotation_frame get "{key}"
  by unfold_locales (simp add: get_eq)

section \<open>The getters of one annotation\<close>

lemmas getter_defs = getForwardPortAlgorithm_def getStickySessions_def
  getStickySessionsCookieName_def getOnMarkedDownAction_def getTimeoutClient_def
  getTimeoutServer_def getTimeoutConnect_def getTimeoutTunnel_def durationAnno_def
  getTimeoutQueue_def getRedisatchAttemptCount_def getMaxConnections_def getMaxRetries_def
  int32Anno_def getFailoverHost_def getHealthCheckDelay_def getHealthCheckTimeout_def
  getHealthCheckMaxRetries_def getHealthCheckSendProxy_def getHealthCheckTransientCheckDelay_def
  getEnableAccessLogs_def getEnableHTTP3_def boolAnno_def getConnectionRateLimit_def
  getForceInternalIP_def getUseHostname_def svcPrivate_def svcExternallyManaged_def

text \<open>The parser of each kind of getter.\<close>

definition parse_enum :: "string list \<Rightarrow> string \<Rightarrow> err + string" where
  "parse_enum values v = (if v \<in> set values then Inr v else Inl ErrLoadBalancerInvalidAnnotation)"

definition parse_with :: "('a \<Rightarrow> 'b) \<Rightarrow> (string \<Rightarrow> err + 'a) \<Rightarrow> string \<Rightarrow> err + 'b" where
  "parse_with conv parse v =
     (case parse v of Inl e \<Rightarrow> Inl ErrLoadBalancerInvalidAnnotation | Inr x \<Rightarrow> Inr (conv x))"

interpretation forward_port_algorithm: annotation_getter getForwardPortAlgorithm
  serviceAnnotationLoadBalancerForwardPortAlgorithm "Inr ForwardPortAlgorithmRoundrobin"
  "parse_enum [ForwardPortAlgorithmRoundrobin, ForwardPortAlgorithmLeastconn, ForwardPortAlgorithmFirst]"
  by unfold_locales (auto simp: getter_defs parse_enum_def)

interpretation sticky_sessions: annotation_getter getStickySessions
  serviceAnnotationLoadBalancerStickySessions "Inr StickySessionsTypeNone"
  "parse_enum [StickySessionsTypeNone, StickySessionsTypeCookie, StickySessionsTypeTable]"
  by unfold_locales (auto simp: getter_defs parse_enum_def)

interpretation cookie_name: annotation_getter getStickySessionsCookieName
  serviceAnnotationLoadBalancerStickySessionsCookieName "Inr ''''" Inr
  by unfold_locales (simp_all add: getter_defs)

interpretation on_marked_down: annotation_getter getOnMarkedDownAction
  serviceAnnotationLoadBalancerOnMarkedDownAction "Inr OnMarkedDownActionNone"
  "parse_enum [OnMarkedDownActionNone, OnMarkedDownActionShutdownSessions]"
  by unfold_locales (auto simp: getter_defs parse_enum_def)

interpretation timeout_client: annotation_getter getTimeoutClient
  serviceAnnotationLoadBalancerTimeoutClient "time_ParseDuration ''10m''"
  "parse_with (\<lambda>x. x) time_ParseDuration"
  by unfold_locales (simp_all add: getter_defs parse_with_def)

interpretation timeout_server: annotation_getter getTimeoutServer
  serviceAnnotationLoadBalancerTimeoutServer "time_ParseDuration ''10s''"
  "parse_with (\<lambda>x. x) time_ParseDuration"
  by unfold_locales (simp_all add: getter_defs parse_with_def)

interpretation timeout_connect: annotation_getter getTimeoutConnect
  serviceAnnotationLoadBalancerTimeoutConnect "time_ParseDuration ''10m''"
  "parse_with (\<lambda>x. x) time_ParseDuration"
  by unfold_locales (simp_all add: getter_defs parse_with_def)

interpretation timeout_tunnel: annotation_getter getTimeoutTunnel
  serviceAnnotationLoadBalancerTimeoutTunnel "time_ParseDuration ''10m''"
  "parse_with (\<lambda>x. x) time_ParseDuration"
  by unfold_locales (simp_all add: getter_defs parse_with_def)

interpretation timeout_queue: annotation_getter "getTimeoutQueue X"
  serviceAnnotationLoadBalancerTimeoutQueue "Inr None"
  "parse_with (\<lambda>d. Some (sdk_NewDurationFromTimeDuration X d)) time_ParseDuration" for X
  by unfold_locales (simp_all add: getter_defs parse_with_def)

interpretation redispatch: annotation_getter getRedisatchAttemptCount
  serviceAnnotationLoadBalancerRedispatchAttemptCount "Inr (Some 0)"
  "parse_with (\<lambda>i. Some (go_int32 i)) strconv_Atoi"
  by unfold_locales (simp_all add: getter_defs parse_with_def)

interpretation max_connections: annotation_getter getMaxConnections
  serviceAnnotationLoadBalancerMaxConnections "Inr None"
  "parse_with (\<lambda>i. Some (go_int32 i)) strconv_Atoi"
  by unfold_locales (simp_all add: getter_defs parse_with_def)

interpretation max_retries: annotation_getter getMaxRetries
  serviceAnnotationLoadBalancerMaxRetries "Inr (Some 3)"
  "parse_with (\<lambda>i. Some (go_int32 i)) strconv_Atoi"
  by unfold_locales (simp_all add: getter_defs parse_with_def)

interpretation failover_host: annotation_getter getFailoverHost
  serviceAnnotationLoadBalancerFailoverHost "Inr None" "\<lambda>v. Inr (Some v)"
  by unfold_locales (simp_all add: getter_defs)

interpretation health_check_delay: annotation_getter getHealthCheckDelay
  serviceAnnotationLoadBalancerHealthCheckDelay "time_ParseDuration ''5s''"
  "parse_with (\<lambda>x. x) time_ParseDuration"
  by unfold_locales (simp_all add: getter_defs parse_with_def)

interpretation health_check_timeout: annotation_getter getHealthCheckTimeout
  serviceAnnotationLoadBalancerHealthCheckTimeout "time_ParseDuration ''5s''"
  "parse_with (\<lambda>x. x) time_ParseDuration"
  by unfold_locales (simp_all add: getter_defs parse_with_def)

interpretation health_check_max_retries: annotation_getter getHealthCheckMaxRetries
  serviceAnnotationLoadBalancerHealthCheckMaxRetries "Inr 5" "parse_with go_int32 strconv_Atoi"
  by unfold_locales (simp_all add: getter_defs parse_with_def split: sum.split)

interpretation health_check_send_proxy: annotation_getter getHealthCheckSendProxy
  serviceAnnotationLoadBalancerHealthCheckSendProxy "Inr False" "parse_with (\<lambda>x. x) strconv_ParseBool"
  by unfold_locales (simp_all add: getter_defs parse_with_def)

interpretation transient_check_delay: annotation_getter "getHealthCheckTransientCheckDelay X"
  serviceAnnotationLoadBalancerHealthTransientCheckDelay "Inr None"
  "parse_with (\<lambda>d. Some \<lparr>sd_Seconds = sd_Seconds (sdk_durationpb_New X d),
      sd_Nanos = sd_Nanos (sdk_durationpb_New X d)\<rparr>) time_ParseDuration" for X
  by unfold_locales (simp_all add: getter_defs parse_with_def Let_def split: sum.split)

interpretation access_logs: annotation_getter getEnableAccessLogs
  serviceAnnotationLoadBalancerEnableAccessLogs "Inr False" strconv_ParseBool
  by unfold_locales (simp_all add: getter_defs)

interpretation http3: annotation_getter getEnableHTTP3
  serviceAnnotationLoadBalancerEnableHTTP3 "Inr False" strconv_ParseBool
  by unfold_locales (simp_all add: getter_defs)

interpretation private_lb: annotation_getter svcPrivate
  serviceAnnotationLoadBalancerPrivate "Inr False" strconv_ParseBool
  by unfold_locales (simp_all add: getter_defs)

interpretation externally_managed: annotation_getter svcExternallyManaged
  serviceAnnotationLoadBalancerExternallyManaged "Inr False" strconv_ParseBool
  by unfold_locales (simp_all add: getter_defs)

interpretation rate_limit: annotation_getter getConnectionRateLimit
  serviceAnnotationLoadBalancerConnectionRateLimit "Inr None"
  "parse_with (\<lambda>i. Some (go_uint32 i)) strconv_Atoi"
  by unfold_locales (simp_all add: getter_defs parse_with_def)

lemmas getter_eqs = forward_port_algorithm.get_eq sticky_sessions.get_eq cookie_name.get_eq
  on_marked_down.get_eq timeout_client.get_eq timeout_server.get_eq timeout_connect.get_eq
  timeout_tunnel.get_eq timeout_queue.get_eq redispatch.get_eq max_connections.get_eq
  max_retries.get_eq failover_host.get_eq health_check_delay.get_eq health_check_timeout.get_eq
  health_check_max_retries.get_eq health_check_send_proxy.get_eq transient_check_delay.get_eq
  access_logs.get_eq http3.get_eq rate_limit.get_eq

section \<open>The getters that depend on a port\<close>

lemma svcPort_with_annos [simp]: "svcPort (with_annos s m) p = svcPort s p"
  by (simp add: svcPort_def)

lemma getValueForPort_with_annos [simp]:
  "getValueForPort (with_annos s m) p v = getValueForPort s p v"
  by (simp add: getValueForPort_def)

interpretation proxy_protocol: annotation_frame "\<lambda>s. getProxyProtocol s p"
  "{serviceAnnotationLoadBalancerProxyProtocolV1, serviceAnnotationLoadBalancerProxyProtocolV2,
    serviceAnnotationLoadBalancerSendProxyV2}" for p
  by unfold_locales (simp add: getProxyProtocol_def getSendProxyV2_def getOrZero_def Let_def cong: option.case_cong sum.case_cong if_cong)

interpretation forward_protocol: annotation_frame "\<lambda>s. getForwardProtocol s p"
  "{serviceAnnotationLoadBalancerProtocolHTTP}" for p
  by unfold_locales (simp add: getForwardProtocol_def getOrZero_def Let_def cong: option.case_cong sum.case_cong if_cong)

interpretation ssl_bridging: annotation_frame "\<lambda>s. getSSLBridging s p"
  "{serviceAnnotationLoadBalancerHTTPBackendTLS}" for p
  by unfold_locales (simp add: getSSLBridging_def Let_def cong: option.case_cong sum.case_cong if_cong)

interpretation skip_verify: annotation_frame "\<lambda>s. getSSLBridgingSkipVerify s p"
  "{serviceAnnotationLoadBalancerHTTPBackendTLSSkipVerify}" for p
  by unfold_locales (simp add: getSSLBridgingSkipVerify_def Let_def cong: option.case_cong sum.case_cong if_cong)

interpretation certificates: annotation_frame "\<lambda>s. getCertificateIDs s p"
  "{serviceAnnotationLoadBalancerCertificateIDs}" for p
  by unfold_locales (simp add: getCertificateIDs_def getOrZero_def Let_def cong: option.case_cong sum.case_cong if_cong)

interpretation native_check: annotation_frame "\<lambda>s. getNativeHealthCheck s p"
  "{serviceAnnotationLoadBalancerHealthCheckFromService}" for p
  by unfold_locales (simp add: getNativeHealthCheck_def getOrZero_def Let_def cong: option.case_cong sum.case_cong if_cong)

definition health_check_keys :: "string set" where
  "health_check_keys = {serviceAnnotationLoadBalancerHealthCheckType,
     serviceAnnotationLoadBalancerHealthCheckMysqlUser,
     serviceAnnotationLoadBalancerHealthCheckPgsqlUser,
     serviceAnnotationLoadBalancerHealthCheckHTTPURI,
     serviceAnnotationLoadBalancerHealthCheckHTTPMethod,
     serviceAnnotationLoadBalancerHealthCheckHTTPCode,
     serviceAnnotationLoadBalancerHealthCheckSendProxy}"

lemmas typed_check_defs = getHealthCheckType_def getMysqlHealthCheck_def getLdapHealthCheck_def
  getRedisHealthCheck_def getPgsqlHealthCheck_def getTCPHealthCheck_def getHTTPHealthCheck_def
  getHTTPSHealthCheck_def getHTTPHealthCheckCode_def getHTTPHealthCheckURI_def
  getHTTPHealthCheckMethod_def valueForPortAnno_def getHealthCheckSendProxy_def

interpretation typed_check: annotation_frame "\<lambda>s. typed_health_check X s p" health_check_keys
  for X p
  by unfold_locales (simp add: typed_health_check_def typed_check_defs health_check_keys_def Let_def cong: option.case_cong sum.case_cong if_cong)

section \<open>The identifier annotation does not matter\<close>

text \<open>
  A getter that depends on keys other than the identifier annotation gives the same result on
  two services whose annotations differ in that one only.
\<close>

definition same_but_id :: "(string, string) gomap \<Rightarrow> (string, string) gomap \<Rightarrow> bool" where
  "same_but_id m m' \<longleftrightarrow> (map_of m)(serviceAnnotationLoadBalancerID := None) =
     (map_of m')(serviceAnnotationLoadBalancerID := None)"

lemma same_but_idD: "same_but_id m m' \<Longrightarrow> k \<noteq> serviceAnnotationLoadBalancerID \<Longrightarrow> map_of m k = map_of m' k"
  unfolding same_but_id_def by (metis fun_upd_other)

lemma same_but_id_update [simp]:
  "same_but_id (AList.update serviceAnnotationLoadBalancerID v m) m"
  "same_but_id (AList.delete serviceAnnotationLoadBalancerID m) m"
  by (simp_all add: same_but_id_def)

lemmas frames = proxy_protocol.frame forward_protocol.frame ssl_bridging.frame skip_verify.frame
  certificates.frame native_check.frame typed_check.frame
  forward_port_algorithm.frame sticky_sessions.frame cookie_name.frame on_marked_down.frame
  timeout_client.frame timeout_server.frame timeout_connect.frame timeout_tunnel.frame
  timeout_queue.frame redispatch.frame max_connections.frame max_retries.frame
  failover_host.frame health_check_delay.frame health_check_timeout.frame
  health_check_max_retries.frame transient_check_delay.frame access_logs.frame http3.frame
  rate_limit.frame

lemma frontend_frame:
  assumes "same_but_id m m'"
  shows "servicePortToFrontend (with_annos s m) lb port = servicePortToFrontend (with_annos s m') lb port"
proof -
  note eq = same_but_idD [OF assms]
  have "getTimeoutClient (with_annos s m) = getTimeoutClient (with_annos s m')"
    "getCertificateIDs (with_annos s m) p = getCertificateIDs (with_annos s m') p"
    "getConnectionRateLimit (with_annos s m) = getConnectionRateLimit (with_annos s m')"
    "getEnableAccessLogs (with_annos s m) = getEnableAccessLogs (with_annos s m')"
    "getEnableHTTP3 (with_annos s m) = getEnableHTTP3 (with_annos s m')" for p
    by (rule frames; rule eq; auto simp: anno_keys)+
  then show ?thesis
    by (simp add: servicePortToFrontend_def resource_name_def)
qed

lemma health_check_frame:
  assumes "same_but_id m m'"
  shows "backend_health_check X (with_annos s m) port = backend_health_check X (with_annos s m') port"
proof -
  note eq = same_but_idD [OF assms]
  have "getNativeHealthCheck (with_annos s m) p = getNativeHealthCheck (with_annos s m') p"
    "typed_health_check X (with_annos s m) p = typed_health_check X (with_annos s m') p"
    "getHealthCheckDelay (with_annos s m) = getHealthCheckDelay (with_annos s m')"
    "getHealthCheckTimeout (with_annos s m) = getHealthCheckTimeout (with_annos s m')"
    "getHealthCheckMaxRetries (with_annos s m) = getHealthCheckMaxRetries (with_annos s m')"
    "getHealthCheckTransientCheckDelay X (with_annos s m) = getHealthCheckTransientCheckDelay X (with_annos s m')"
    for p
    by (rule frames; rule eq; auto simp: anno_keys health_check_keys_def)+
  then show ?thesis by (simp add: backend_health_check_def cong: option.case_cong)
qed

lemma backend_frame:
  assumes "same_but_id m m'"
  shows "servicePortToBackend X (with_annos s m) lb port ips = servicePortToBackend X (with_annos s m') lb port ips"
proof -
  note eq = same_but_idD [OF assms]
  have "getForwardProtocol (with_annos s m) p = getForwardProtocol (with_annos s m') p"
    "getSSLBridging (with_annos s m) p = getSSLBridging (with_annos s m') p"
    "getSSLBridgingSkipVerify (with_annos s m) p = getSSLBridgingSkipVerify (with_annos s m') p"
    "getForwardPortAlgorithm (with_annos s m) = getForwardPortAlgorithm (with_annos s m')"
    "getStickySessions (with_annos s m) = getStickySessions (with_annos s m')"
    "getStickySessionsCookieName (with_annos s m) = getStickySessionsCookieName (with_annos s m')"
    "getProxyProtocol (with_annos s m) p = getProxyProtocol (with_annos s m') p"
    "getTimeoutServer (with_annos s m) = getTimeoutServer (with_annos s m')"
    "getTimeoutConnect (with_annos s m) = getTimeoutConnect (with_annos s m')"
    "getTimeoutTunnel (with_annos s m) = getTimeoutTunnel (with_annos s m')"
    "getTimeoutQueue X (with_annos s m) = getTimeoutQueue X (with_annos s m')"
    "getOnMarkedDownAction (with_annos s m) = getOnMarkedDownAction (with_annos s m')"
    "getRedisatchAttemptCount (with_annos s m) = getRedisatchAttemptCount (with_annos s m')"
    "getMaxConnections (with_annos s m) = getMaxConnections (with_annos s m')"
    "getMaxRetries (with_annos s m) = getMaxRetries (with_annos s m')"
    "getFailoverHost (with_annos s m) = getFailoverHost (with_annos s m')" for p
    by (rule frames; rule eq; auto simp: anno_keys)+
  then show ?thesis
    by (simp add: servicePortToBackend_def resource_name_def health_check_frame [OF assms] Let_def cong: if_cong)
qed

lemma serviceToLB_loop_frame:
  assumes "same_but_id m m'"
  shows "serviceToLB_loop X (with_annos s m) lb ips ports fs bs =
    serviceToLB_loop X (with_annos s m') lb ips ports fs bs"
  by (induction ports arbitrary: fs bs)
    (simp_all add: frontend_frame [OF assms] backend_frame [OF assms])

lemma serviceToLB_frame:
  "same_but_id m m' \<Longrightarrow> serviceToLB X (with_annos s m) lb ips = serviceToLB X (with_annos s m') lb ips"
  by (simp add: serviceToLB_def serviceToLB_loop_frame)

end
