(* ===== verification/Reconcile.thy ===== *)
theory Reconcile
  imports PrivateNetworks Acl AnnotationLaws
begin

text \<open>
  \<open>updateLoadBalancer\<close> of \<open>scaleway/loadbalancers.go\<close> and the operations it is made of: the
  calls that bring the frontends, backends, access control lists, private networks, type and
  compatibility level of a load balancer to what the service asks for.
\<close>

section \<open>Backends and frontends\<close>

definition createBackend :: "api \<Rightarrow> LB \<Rightarrow> Backend \<Rightarrow> Backend act" where
  "createBackend A loadbalancer backend =
     invoke (api_CreateBackend A) (CreateBackend
       \<lparr>cb_Zone = lb_Zone loadbalancer,
        cb_LBID = lb_ID loadbalancer,
        cb_Name = be_Name backend,
        cb_ForwardProtocol = be_ForwardProtocol backend,
        cb_SslBridging = be_SslBridging backend,
        cb_IgnoreSslServerVerify = be_IgnoreSslServerVerify backend,
        cb_ForwardPort = be_ForwardPort backend,
        cb_ForwardPortAlgorithm = be_ForwardPortAlgorithm backend,
        cb_StickySessions = be_StickySessions backend,
        cb_StickySessionsCookieName = be_StickySessionsCookieName backend,
        cb_HealthCheck = be_HealthCheck backend,
        cb_ServerIP = be_Pool backend,
        cb_ProxyProtocol = be_ProxyProtocol backend,
        cb_TimeoutServer = be_TimeoutServer backend,
        cb_TimeoutConnect = be_TimeoutConnect backend,
        cb_TimeoutTunnel = be_TimeoutTunnel backend,
        cb_TimeoutQueue = be_TimeoutQueue backend,
        cb_OnMarkedDownAction = be_OnMarkedDownAction backend,
        cb_RedispatchAttemptCount = be_RedispatchAttemptCount backend,
        cb_MaxConnections = be_MaxConnections backend,
        cb_MaxRetries = be_MaxRetries backend,
        cb_FailoverHost = be_FailoverHost backend\<rparr>)"

text \<open>Reading the health check of a backend that has none is a nil dereference.\<close>

definition updateBackend :: "api \<Rightarrow> LB \<Rightarrow> Backend \<Rightarrow> Backend act" where
  "updateBackend A loadbalancer backend =
     bindA (invoke (api_UpdateBackend A) (UpdateBackend
       \<lparr>ub_Zone = lb_Zone loadbalancer,
        ub_BackendID = be_ID backend,
        ub_Name = be_Name backend,
        ub_ForwardProtocol = be_ForwardProtocol backend,
        ub_SslBridging = be_SslBridging backend,
        ub_IgnoreSslServerVerify = be_IgnoreSslServerVerify backend,
        ub_ForwardPort = be_ForwardPort backend,
        ub_ForwardPortAlgorithm = be_ForwardPortAlgorithm backend,
        ub_StickySessions = be_StickySessions backend,
        ub_StickySessionsCookieName = be_StickySessionsCookieName backend,
        ub_ProxyProtocol = be_ProxyProtocol backend,
        ub_TimeoutServer = be_TimeoutServer backend,
        ub_TimeoutConnect = be_TimeoutConnect backend,
        ub_TimeoutTunnel = be_TimeoutTunnel backend,
        ub_TimeoutQueue = be_TimeoutQueue backend,
        ub_OnMarkedDownAction = be_OnMarkedDownAction backend,
        ub_RedispatchAttemptCount = be_RedispatchAttemptCount backend,
        ub_MaxConnections = be_MaxConnections backend,
        ub_MaxRetries = be_MaxRetries backend,
        ub_FailoverHost = be_FailoverHost backend\<rparr>)) (\<lambda>b.
     case be_HealthCheck backend of
       None \<Rightarrow> failA (GoPanic ''nil health check'')
     | Some hc \<Rightarrow>
         bindA (wrapA (\<lambda>e. Errorf ''failed to update healthcheck: %v'' None)
                  (invoke (api_UpdateHealthCheck A) (UpdateHealthCheck
           \<lparr>uh_Zone = lb_Zone loadbalancer,
            uh_BackendID = be_ID backend,
            uh_Port = hc_Port hc,
            uh_CheckDelay = hc_CheckDelay hc,
            uh_CheckTimeout = hc_CheckTimeout hc,
            uh_CheckMaxRetries = hc_CheckMaxRetries hc,
            uh_CheckSendProxy = hc_CheckSendProxy hc,
            uh_TCPConfig = hc_TCPConfig hc,
            uh_MysqlConfig = hc_MysqlConfig hc,
            uh_PgsqlConfig = hc_PgsqlConfig hc,
            uh_LdapConfig = hc_LdapConfig hc,
            uh_RedisConfig = hc_RedisConfig hc,
            uh_HTTPConfig = hc_HTTPConfig hc,
            uh_HTTPSConfig = hc_HTTPSConfig hc,
            uh_TransientCheckDelay = hc_TransientCheckDelay hc\<rparr>))) (\<lambda>_.
         retA b))"

definition createFrontend :: "api \<Rightarrow> LB \<Rightarrow> Frontend \<Rightarrow> Backend \<Rightarrow> Frontend act" where
  "createFrontend A loadbalancer frontend backend =
     invoke (api_CreateFrontend A) (CreateFrontend
       \<lparr>cf_Zone = lb_Zone loadbalancer,
        cf_LBID = lb_ID loadbalancer,
        cf_Name = fe_Name frontend,
        cf_InboundPort = fe_InboundPort frontend,
        cf_BackendID = be_ID backend,
        cf_TimeoutClient = fe_TimeoutClient frontend,
        cf_CertificateIDs = fe_CertificateIDs frontend,
        cf_ConnectionRateLimit = fe_ConnectionRateLimit frontend,
        cf_EnableAccessLogs = fe_EnableAccessLogs frontend,
        cf_EnableHTTP3 = fe_EnableHTTP3 frontend\<rparr>)"

definition updateFrontend :: "api \<Rightarrow> LB \<Rightarrow> Frontend \<Rightarrow> Backend \<Rightarrow> Frontend act" where
  "updateFrontend A loadbalancer frontend backend =
     invoke (api_UpdateFrontend A) (UpdateFrontend
       \<lparr>uf_Zone = lb_Zone loadbalancer,
        uf_FrontendID = fe_ID frontend,
        uf_Name = fe_Name frontend,
        uf_InboundPort = fe_InboundPort frontend,
        uf_BackendID = be_ID backend,
        uf_TimeoutClient = fe_TimeoutClient frontend,
        uf_CertificateIDs = fe_CertificateIDs frontend,
        uf_ConnectionRateLimit = fe_ConnectionRateLimit frontend,
        uf_EnableAccessLogs = Some (fe_EnableAccessLogs frontend),
        uf_EnableHTTP3 = fe_EnableHTTP3 frontend\<rparr>)"

section \<open>One port\<close>

text \<open>
  The backend of a port: updated, created, or the one that is kept.  The pool of a backend to
  create is the slice of the target addresses itself, in its current order.
\<close>

definition port_backend ::
  "api \<Rightarrow> LB \<Rightarrow> Backend ops \<Rightarrow> ServicePort \<Rightarrow> string slice \<Rightarrow> Backend act" where
  "port_backend A loadbalancer backendsOps port targetIPs =
     bindA (case map_of (ops_update backendsOps) (port_NodePort port) of
              None \<Rightarrow> retA None
            | Some b \<Rightarrow>
                bindA (wrapA (\<lambda>e. Errorf ''failed updating backend %s port: %d loadbalancer: %s err: %v'' None)
                         (updateBackend A loadbalancer b)) (\<lambda>updatedBackend. retA (Some updatedBackend))) (\<lambda>backend.
     bindA (case map_of (ops_create backendsOps) (port_NodePort port) of
              None \<Rightarrow> retA backend
            | Some b \<Rightarrow>
                bindA (wrapA (\<lambda>e. Errorf ''failed creating backend port: %d loadbalancer: %s err: %v'' None)
                         (createBackend A loadbalancer (b\<lparr>be_Pool := targetIPs\<rparr>))) (\<lambda>createdBackend.
                retA (Some createdBackend))) (\<lambda>backend.
     case backend of
       Some b \<Rightarrow> retA b
     | None \<Rightarrow>
         (case map_of (ops_keep backendsOps) (port_NodePort port) of
            None \<Rightarrow> failA (Errorf ''undefined backend port: %d loadbalancer: %s'' None)
          | Some b \<Rightarrow> retA b)))"

text \<open>
  The servers of the backend; comparing the pool with the target addresses sorts the latter.
\<close>

definition port_servers :: "api \<Rightarrow> LB \<Rightarrow> Backend \<Rightarrow> string slice \<Rightarrow> string slice act" where
  "port_servers A loadbalancer backend targetIPs =
     (case stringArrayEqual (be_Pool backend) targetIPs of (equal, pool, targetIPs') \<Rightarrow>
        bindA (if \<not> equal
               then bindA (wrapA (\<lambda>e. Errorf ''failed updating server list for backend: %s port: %d loadbalancer: %s err: %v'' None)
                             (invoke (api_SetBackendServers A)
                               (SetBackendServers (lb_Zone loadbalancer) (be_ID backend) targetIPs'))) (\<lambda>_. retA ())
               else retA ()) (\<lambda>_. retA targetIPs'))"

definition port_frontend ::
  "api \<Rightarrow> LB \<Rightarrow> Frontend ops \<Rightarrow> ServicePort \<Rightarrow> Backend \<Rightarrow> Frontend act" where
  "port_frontend A loadbalancer frontendsOps port backend =
     bindA (case map_of (ops_update frontendsOps) (port_Port port) of
              None \<Rightarrow> retA None
            | Some f \<Rightarrow>
                bindA (wrapA (\<lambda>e. Errorf ''failed updating frontend: %s port: %d loadbalancer: %s err: %v'' None)
                         (updateFrontend A loadbalancer f backend)) (\<lambda>ff. retA (Some ff))) (\<lambda>frontend.
     bindA (case map_of (ops_create frontendsOps) (port_Port port) of
              None \<Rightarrow> retA frontend
            | Some f \<Rightarrow>
                bindA (wrapA (\<lambda>e. Errorf ''failed creating frontend port: %d loadbalancer: %s err: %v'' None)
                         (createFrontend A loadbalancer f backend)) (\<lambda>ff. retA (Some ff))) (\<lambda>frontend.
     case frontend of
       Some f \<Rightarrow> retA f
     | None \<Rightarrow>
         (case map_of (ops_keep frontendsOps) (port_Port port) of
            None \<Rightarrow> failA (Errorf ''undefined frontend port: %d loadbalancer: %s'' None)
          | Some f \<Rightarrow> retA f)))"

definition reconcile_port ::
  "sdk \<Rightarrow> api \<Rightarrow> LB \<Rightarrow> Service \<Rightarrow> Node list \<Rightarrow> Frontend ops \<Rightarrow> Backend ops
    \<Rightarrow> ServicePort \<Rightarrow> string slice \<Rightarrow> string slice act" where
  "reconcile_port X A loadbalancer service nodes frontendsOps backendsOps port targetIPs =
     bindA (port_backend A loadbalancer backendsOps port targetIPs) (\<lambda>backend.
     bindA (port_servers A loadbalancer backend targetIPs) (\<lambda>targetIPs'.
     bindA (port_frontend A loadbalancer frontendsOps port backend) (\<lambda>frontend.
     bindA (reconcileACLs X A loadbalancer frontend service nodes) (\<lambda>_.
     retA targetIPs'))))"

section \<open>The load balancer itself\<close>

definition update_settings :: "loadbalancers \<Rightarrow> LB \<Rightarrow> Service \<Rightarrow> unit act" where
  "update_settings l loadbalancer service =
     (let loadBalancerType = getLoadBalancerType service in
      bindA (if loadBalancerType \<noteq> '''' \<and> strings_ToLower (lb_Type loadbalancer) \<noteq> loadBalancerType
             then bindA (wrapA (\<lambda>e. Errorf ''error updating load balancer %s: %v'' None)
                           (invoke (api_MigrateLB (l_api l))
                             (MigrateLB (lb_Zone loadbalancer) (lb_ID loadbalancer) loadBalancerType))) (\<lambda>_. retA ())
             else retA ()) (\<lambda>_.
      bindA (liftA (rwrap (\<lambda>e. Errorf ''error getting SSL compatibility level on the service %s for load balancer %s: %v'' None)
               (getSSLCompatibilityLevel (l_sdk l) service))) (\<lambda>sslCompatibilityLevel.
      if lb_SslCompatibilityLevel loadbalancer \<noteq> sslCompatibilityLevel
      then bindA (wrapA (\<lambda>e. Errorf ''error updating load balancer %s: %v'' None)
                    (invoke (api_UpdateLB (l_api l)) (UpdateLB
                      \<lparr>ulb_Zone = lb_Zone loadbalancer,
                       ulb_LBID = lb_ID loadbalancer,
                       ulb_Name = lb_Name loadbalancer,
                       ulb_Description = lb_Description loadbalancer,
                       ulb_Tags = lb_Tags loadbalancer,
                       ulb_SslCompatibilityLevel = sslCompatibilityLevel\<rparr>))) (\<lambda>_. retA ())
      else retA ())))"

definition remove_frontends :: "api \<Rightarrow> LB \<Rightarrow> Frontend list \<Rightarrow> unit act" where
  "remove_frontends A loadbalancer fs =
     forA (\<lambda>f. wrapA (\<lambda>e. Errorf ''failed deleting frontend: %s port: %d loadbalancer: %s err: %v'' None)
                 (invoke (api_DeleteFrontend A) (DeleteFrontend (lb_Zone loadbalancer) (fe_ID f)))) fs"

definition remove_backends :: "api \<Rightarrow> LB \<Rightarrow> Backend list \<Rightarrow> unit act" where
  "remove_backends A loadbalancer bs =
     forA (\<lambda>b. wrapA (\<lambda>e. Errorf ''failed deleting backend: %s port: %d loadbalancer: %s err: %v'' None)
                 (invoke (api_DeleteBackend A) (DeleteBackend (lb_Zone loadbalancer) (be_ID b)))) bs"

definition useInternalIPs :: "loadbalancers \<Rightarrow> Service \<Rightarrow> bool" where
  "useInternalIPs l service =
     (getForceInternalIP service \<or> l_pnID l \<noteq> '''' \<or> getPrivateNetworkIDs service \<noteq> [])"

definition target_ips :: "loadbalancers \<Rightarrow> Service \<Rightarrow> Node list \<Rightarrow> string slice" where
  "target_ips l service nodes =
     (if useInternalIPs l service then extractNodesInternalIps nodes else extractNodesExternalIps nodes)"

definition prefix_filter :: "Service \<Rightarrow> bool \<Rightarrow> string" where
  "prefix_filter service lbExternallyManaged =
     (if lbExternallyManaged then svc_UID service @ ''_'' else '''')"

definition updateLoadBalancer ::
  "loadbalancers \<Rightarrow> int \<Rightarrow> map_order \<Rightarrow> LB \<Rightarrow> Service \<Rightarrow> Node list \<Rightarrow> unit act" where
  "updateLoadBalancer l now M loadbalancer service nodes0 =
     (if svc_DeletionTimestamp service \<noteq> None then retA ()
      else
        bindA (liftA (rwrap (\<lambda>e. Errorf ''invalid value for annotation %s: expected boolean'' None)
                 (svcExternallyManaged service))) (\<lambda>lbExternallyManaged.
        let nodes = filterNodes service nodes0 in
        case nodesInitialized now nodes (useInternalIPs l service) of
          Some e \<Rightarrow> failA e
        | None \<Rightarrow>
        bindA (wrapA (\<lambda>e. Errorf ''failed to attach private networks: %w'' (Some e))
                 (attachPrivateNetworks l M loadbalancer service lbExternallyManaged)) (\<lambda>_.
        let targetIPs = target_ips l service nodes in
        bindA (wrapA (\<lambda>e. Errorf ''error listing frontends for load balancer %s: %v'' None)
                 (invoke (api_ListFrontends (l_api l))
                   (ListFrontends (lb_Zone loadbalancer) (lb_ID loadbalancer) None))) (\<lambda>respFrontends.
        bindA (wrapA (\<lambda>e. Errorf ''error listing backend for load balancer %s: %v'' None)
                 (invoke (api_ListBackends (l_api l))
                   (ListBackends (lb_Zone loadbalancer) (lb_ID loadbalancer) None))) (\<lambda>respBackends.
        bindA (liftA (rwrap (\<lambda>e. Errorf ''failed to convert service to frontend and backends on loadbalancer %s: %v'' None)
                 (serviceToLB (l_sdk l) service loadbalancer targetIPs))) (\<lambda>(svcFrontends, svcBackends).
        let prefixFilter = prefix_filter service lbExternallyManaged;
            frontendsOps = compareFrontends respFrontends svcFrontends prefixFilter;
            backendsOps = compareBackends (l_sdk l) respBackends svcBackends prefixFilter in
        bindA (remove_frontends (l_api l) loadbalancer (ops_remove frontendsOps)) (\<lambda>_.
        bindA (foldA (reconcile_port (l_sdk l) (l_api l) loadbalancer service nodes frontendsOps backendsOps)
                 (svc_Ports service) targetIPs) (\<lambda>_.
        bindA (remove_backends (l_api l) loadbalancer (ops_remove backendsOps)) (\<lambda>_.
        if \<not> lbExternallyManaged then update_settings l loadbalancer service else retA ())))))))))"

end
