(* ===== verification/Lifecycle.thy ===== *)
theory Lifecycle
  imports Reconcile
begin

text \<open>
  The interface of \<open>scaleway/loadbalancers.go\<close> to the service controller
  (\<open>GetLoadBalancer\<close>, \<open>EnsureLoadBalancer\<close>, \<open>UpdateLoadBalancer\<close>,
  \<open>EnsureLoadBalancerDeleted\<close>), and how a load balancer is found, created, deleted and
  reported.
\<close>

section \<open>The controller\<close>

definition newLoadbalancers :: "sdk \<Rightarrow> env \<Rightarrow> kube \<Rightarrow> api \<Rightarrow> string \<Rightarrow> string \<Rightarrow> loadbalancers" where
  "newLoadbalancers X E K A defaultLBType pnID =
     \<lparr>l_sdk = X, l_env = E, l_kube = K, l_api = A,
      l_defaultLBType = (if defaultLBType \<noteq> '''' then strings_ToLower defaultLBType else ''lb-s''),
      l_pnID = pnID\<rparr>"

section \<open>Annotating the service\<close>

definition annotateAndPatch :: "loadbalancers \<Rightarrow> Service \<Rightarrow> LB \<Rightarrow> unit act" where
  "annotateAndPatch l service loadbalancer =
     (let service' = service\<lparr>svc_Annotations := AList.update serviceAnnotationLoadBalancerID
                       (lb_Zone loadbalancer @ ''/'' @ lb_ID loadbalancer) (svc_Annotations service)\<rparr>
      in Patch (l_kube l) (l_api l) ((NewServicePatcher service)\<lparr>kp_final := ServiceObject service'\<rparr>))"

definition unannotateAndPatch :: "loadbalancers \<Rightarrow> Service \<Rightarrow> unit act" where
  "unannotateAndPatch l service =
     (let service' = service\<lparr>svc_Annotations :=
                       AList.delete serviceAnnotationLoadBalancerID (svc_Annotations service)\<rparr>
      in Patch (l_kube l) (l_api l) ((NewServicePatcher service)\<lparr>kp_final := ServiceObject service'\<rparr>))"

section \<open>Finding the load balancer\<close>

text \<open>The loop of \<open>getLoadbalancerByName\<close> over the listed load balancers.\<close>

fun lb_by_name :: "string \<Rightarrow> LB list \<Rightarrow> LB option \<Rightarrow> err + LB option" where
  "lb_by_name name [] loadbalancer = Inr loadbalancer"
| "lb_by_name name (lb # lbs) loadbalancer =
     (if lb_Name lb = name
      then (if loadbalancer \<noteq> None then Inl LoadBalancerDuplicated else lb_by_name name lbs (Some lb))
      else lb_by_name name lbs loadbalancer)"

definition getLoadbalancerByName :: "loadbalancers \<Rightarrow> Service \<Rightarrow> LB act" where
  "getLoadbalancerByName l service =
     (let name = GetLoadBalancerName (l_env l) service in
      bindA (invoke (api_ListLBs (l_api l)) (ListLBs (getLoadBalancerZone service) name)) (\<lambda>lbs.
      bindA (liftA (lb_by_name name lbs None)) (\<lambda>loadbalancer.
      case loadbalancer of
        None \<Rightarrow> failA LoadBalancerNotFound
      | Some lb \<Rightarrow> bindA (annotateAndPatch l service lb) (\<lambda>_. retA lb))))"

text \<open>
  An invalid-annotation error of \<open>getLoadBalancerID\<close>, that is a missing annotation, leaves zone
  and identifier empty.
\<close>

definition lb_id_or_empty :: "sdk \<Rightarrow> Service \<Rightarrow> err + string \<times> string" where
  "lb_id_or_empty X service =
     (case getLoadBalancerID X service of
        Inl e \<Rightarrow> if \<not> errors_Is e ErrLoadBalancerInvalidAnnotation then Inl e else Inr ('''', '''')
      | Inr r \<Rightarrow> Inr r)"

definition fetchLoadBalancer :: "loadbalancers \<Rightarrow> Service \<Rightarrow> LB act" where
  "fetchLoadBalancer l service =
     bindA (liftA (rwrap (\<lambda>e. Errorf ''invalid value for annotation %s: %v'' None)
              (svcExternallyManaged service))) (\<lambda>lbExternallyManaged.
     bindA (liftA (lb_id_or_empty (l_sdk l) service)) (\<lambda>(zone, loadBalancerID).
     if lbExternallyManaged \<and> loadBalancerID = ''''
     then failA (Errorf ''loadbalancer id must be defined for externally managed loadbalancer for service %s/%s'' None)
     else if loadBalancerID \<noteq> '''' then
       catchA (invoke (api_GetLB (l_api l)) (GetLB zone loadBalancerID))
         (\<lambda>e. if is404Error e then failA LoadBalancerNotFound else failA e)
         (\<lambda>resp. if lbExternallyManaged \<and> strings_HasPrefix (lb_Name resp) (env_SCW_CCM_PREFIX (l_env l))
                 then failA (Errorf ''externally managed loadbalancer must not be prefixed by the cluster id'' None)
                 else retA resp)
     else getLoadbalancerByName l service))"

section \<open>Creating and deleting it\<close>

definition getLoadBalancerStaticIPIDs :: "loadbalancers \<Rightarrow> Service \<Rightarrow> string list act" where
  "getLoadBalancerStaticIPIDs l service =
     (if getIPIDs service \<noteq> [] then retA (getIPIDs service)
      else if svc_LoadBalancerIP service \<noteq> '''' then
        bindA (wrapA (\<lambda>e. Errorf ''createLoadBalancer: error getting ip for service %s: %s'' None)
                 (invoke (api_LB_ListIPs (l_api l))
                   (LB_ListIPs (getLoadBalancerZone service) (svc_LoadBalancerIP service)))) (\<lambda>ips.
          case ips of
            [] \<Rightarrow> failA IPAddressNotFound
          | ip # _ \<Rightarrow>
              if lbip_LBID ip \<noteq> None \<and> lbip_LBID ip \<noteq> Some '''' then failA IPAddressInUse
              else retA [lbip_ID ip])
      else retA [])"

definition lb_tags :: "env \<Rightarrow> string list" where
  "lb_tags E =
     (let delimiter = (if env_SCW_CCM_TAGS_DELIMITER E = '''' then '','' else env_SCW_CCM_TAGS_DELIMITER E)
      in (if env_SCW_CCM_TAGS E \<noteq> '''' then strings_Split (env_SCW_CCM_TAGS E) delimiter else [])
         @ [''managed-by-scaleway-cloud-controller-manager''])"

text \<open>The addresses of a new load balancer: identifiers, and which flexible ones to assign.\<close>

definition lb_addresses :: "loadbalancers \<Rightarrow> Service \<Rightarrow> bool \<Rightarrow> (string list \<times> bool \<times> bool) act" where
  "lb_addresses l service lbPrivate =
     (if \<not> lbPrivate then
        bindA (getLoadBalancerStaticIPIDs l service) (\<lambda>ipIDs.
          if ipIDs = [] then
            bindA (liftA (rwrap (\<lambda>e. Errorf ''invalid value for annotation %s: %w'' (Some e))
                     (getFlexibleIPTypes service))) (\<lambda>(assignFlexibleIP, assignFlexibleIPv6).
              retA (ipIDs, assignFlexibleIP, assignFlexibleIPv6))
          else retA (ipIDs, False, False))
      else retA ([], False, False))"

definition createLoadBalancer :: "loadbalancers \<Rightarrow> Service \<Rightarrow> LB act" where
  "createLoadBalancer l service =
     bindA (liftA (rwrap (\<lambda>e. Errorf ''invalid value for annotation %s: expected boolean'' None)
              (svcExternallyManaged service))) (\<lambda>lbExternallyManaged.
     if lbExternallyManaged
     then failA (Errorf ''cannot create an externally managed load balancer, please provide an existing load balancer instead'' None)
     else
     bindA (liftA (rwrap (\<lambda>e. Errorf ''invalid value for annotation %s: expected boolean'' None)
              (svcPrivate service))) (\<lambda>lbPrivate.
     bindA (liftA (rwrap (\<lambda>e. Errorf ''error getting SSL compatibility level for service %s(%s): %v'' None)
              (getSSLCompatibilityLevel (l_sdk l) service))) (\<lambda>sslCompatibilityLevel.
     bindA (lb_addresses l service lbPrivate) (\<lambda>(ipIDs, assignFlexibleIP, assignFlexibleIPv6).
     bindA (wrapA (\<lambda>e. Errorf ''error creating load balancer for service %s/%s: %v'' None)
              (invoke (api_CreateLB (l_api l)) (CreateLB
                \<lparr>clb_Zone = getLoadBalancerZone service,
                 clb_Name = GetLoadBalancerName (l_env l) service,
                 clb_Description = ''kubernetes service '' @ svc_Name service,
                 clb_Tags = lb_tags (l_env l),
                 clb_IPIDs = ipIDs,
                 clb_Type = (if getLoadBalancerType service = '''' then l_defaultLBType l
                             else getLoadBalancerType service),
                 clb_AssignFlexibleIP = Some assignFlexibleIP,
                 clb_AssignFlexibleIPv6 = Some assignFlexibleIPv6,
                 clb_SslCompatibilityLevel = sslCompatibilityLevel\<rparr>))) (\<lambda>lb.
     bindA (annotateAndPatch l service lb) (\<lambda>_. retA lb))))))"

definition deleteLoadBalancer :: "loadbalancers \<Rightarrow> LB \<Rightarrow> Service \<Rightarrow> unit act" where
  "deleteLoadBalancer l lb service =
     bindA (unannotateAndPatch l service) (\<lambda>_.
     if lb_Name lb \<noteq> GetLoadBalancerName (l_env l) service then retA ()
     else wrapA (\<lambda>e. Errorf ''error deleting load balancer %s for service %s/%s: %v'' None)
            (invoke (api_DeleteLB (l_api l))
              (DeleteLB (lb_Zone lb) (lb_ID lb) (\<not> hasLoadBalancerStaticIPs service))))"

definition removeExternallyManagedResources :: "loadbalancers \<Rightarrow> LB \<Rightarrow> Service \<Rightarrow> unit act" where
  "removeExternallyManagedResources l lb service =
     (let prefixFilter = svc_UID service @ ''_'' in
      bindA (wrapA (\<lambda>e. Errorf ''error listing frontends for load balancer %s: %v'' None)
               (invoke (api_ListFrontends (l_api l))
                 (ListFrontends (lb_Zone lb) (lb_ID lb) (Some prefixFilter)))) (\<lambda>respFrontends.
      bindA (wrapA (\<lambda>e. Errorf ''error listing backend for load balancer %s: %v'' None)
               (invoke (api_ListBackends (l_api l))
                 (ListBackends (lb_Zone lb) (lb_ID lb) (Some prefixFilter)))) (\<lambda>respBackends.
      bindA (remove_frontends (l_api l) lb respFrontends) (\<lambda>_.
      remove_backends (l_api l) lb respBackends))))"

section \<open>Status\<close>

definition public_ingress :: "Service \<Rightarrow> string option \<Rightarrow> LBIP \<Rightarrow> LoadBalancerIngress" where
  "public_ingress service mode ip =
     (if getUseHostname service
      then \<lparr>ing_IP = '''', ing_Hostname = lbip_Reverse ip, ing_IPMode = None\<rparr>
      else \<lparr>ing_IP = lbip_IPAddress ip, ing_Hostname = '''', ing_IPMode = mode\<rparr>)"

definition createPublicServiceStatus :: "Service \<Rightarrow> LB \<Rightarrow> string option \<Rightarrow> err + LoadBalancerIngress list" where
  "createPublicServiceStatus service lb mode =
     (let ingress = map (public_ingress service mode) (lb_IP lb)
      in if ingress = [] then Inl (Errorf ''no ip found for lb %s'' None) else Inr ingress)"

definition ResourceTypeLBServer :: string where
  "ResourceTypeLBServer = ''lb_server''"

definition createPrivateServiceStatus ::
  "loadbalancers \<Rightarrow> Service \<Rightarrow> LB \<Rightarrow> string option \<Rightarrow> LoadBalancerIngress list act" where
  "createPrivateServiceStatus l service lb mode =
     (if l_pnID l = ''''
      then failA (Errorf ''cannot create a status for service %s/%s: a private load balancer requires a private network'' None)
      else
        bindA (liftA (rwrap (\<lambda>e. Errorf ''error creating status for service %s/%s: %v'' None)
                 (sdk_ZoneRegion (l_sdk l) (lb_Zone lb)))) (\<lambda>region.
        if getUseHostname service then
          bindA (wrapA (\<lambda>e. Errorf ''unable to query private network for lb %s for service %s/%s: %v'' None)
                   (invoke (api_VPC_GetPrivateNetwork (l_api l)) (VPC_GetPrivateNetwork region (l_pnID l)))) (\<lambda>pnName.
          retA [\<lparr>ing_IP = '''', ing_Hostname = lb_ID lb @ ''.'' @ pnName, ing_IPMode = None\<rparr>])
        else
          bindA (wrapA (\<lambda>e. Errorf ''unable to query ipam for lb %s for service %s/%s: %v'' None)
                   (invoke (api_IPAM_ListIPs (l_api l))
                     (IPAM_ListResourceIPs region (lb_ProjectID lb) ResourceTypeLBServer (lb_ID lb) (Some False)))) (\<lambda>ips.
          if ips = [] then failA (Errorf ''no private network ip for lb %s for service %s/%s'' None)
          else retA (map (\<lambda>ip. \<lparr>ing_IP = ipam_Address ip, ing_Hostname = '''', ing_IPMode = mode\<rparr>) ips))))"

definition createServiceStatus :: "loadbalancers \<Rightarrow> Service \<Rightarrow> LB \<Rightarrow> LoadBalancerIngress list act" where
  "createServiceStatus l service lb =
     bindA (liftA (rwrap (\<lambda>e. Errorf ''invalid value for annotation %s: expected boolean'' None)
              (svcPrivate service))) (\<lambda>lbPrivate.
     bindA (liftA (ipMode service)) (\<lambda>mode.
     if lbPrivate then createPrivateServiceStatus l service lb mode
     else liftA (createPublicServiceStatus service lb mode)))"

section \<open>The interface\<close>

text \<open>
  \<open>GetLoadBalancer\<close> returns a status, whether the load balancer exists, and an error.
\<close>

definition GetLoadBalancer ::
  "loadbalancers \<Rightarrow> Service \<Rightarrow> (LoadBalancerIngress list option \<times> bool \<times> err option) act" where
  "GetLoadBalancer l service =
     (if svc_LoadBalancerClass service \<noteq> None then retA (None, False, None)
      else
        catchA (fetchLoadBalancer l service)
          (\<lambda>err. if errors_Is err LoadBalancerNotFound then retA (None, False, None)
                 else retA (None, False, Some err))
          (\<lambda>lb. catchA (createServiceStatus l service lb)
                  (\<lambda>err. retA (None, True, Some err))
                  (\<lambda>status. retA (Some status, True, None))))"

text \<open>The load balancer to work on: the one that is found, or a new one.\<close>

definition ensure_exists :: "loadbalancers \<Rightarrow> Service \<Rightarrow> LB act" where
  "ensure_exists l service =
     catchA (fetchLoadBalancer l service)
       (\<lambda>err. if err = LoadBalancerNotFound then createLoadBalancer l service else failA err)
       retA"

text \<open>It is deleted and created again when its addresses are not those that the service wants.\<close>

definition ensure_addresses :: "loadbalancers \<Rightarrow> Service \<Rightarrow> bool \<Rightarrow> bool \<Rightarrow> LB \<Rightarrow> LB act" where
  "ensure_addresses l service lbExternallyManaged lbPrivate lb =
     (if \<not> lbExternallyManaged then
        let privateModeMismatch = (lbPrivate \<noteq> (lb_IP lb = []));
            reservedIPMismatch = (hasLoadBalancerStaticIPs service
                                  \<and> \<not> hasEqualLoadBalancerStaticIPs service lb)
        in if privateModeMismatch \<or> reservedIPMismatch
           then bindA (deleteLoadBalancer l lb service) (\<lambda>_. createLoadBalancer l service)
           else retA lb
      else retA lb)"

definition EnsureLoadBalancer ::
  "loadbalancers \<Rightarrow> int \<Rightarrow> map_order \<Rightarrow> Service \<Rightarrow> Node list \<Rightarrow> LoadBalancerIngress list act" where
  "EnsureLoadBalancer l now M service nodes =
     (if svc_LoadBalancerClass service \<noteq> None
      then failA (Errorf ''scaleway-cloud-controller-manager cannot handle loadBalancerClass %s'' None)
      else
        bindA (liftA (rwrap (\<lambda>e. Errorf ''invalid value for annotation %s: expected boolean'' None)
                 (svcExternallyManaged service))) (\<lambda>lbExternallyManaged.
        bindA (liftA (rwrap (\<lambda>e. Errorf ''invalid value for annotation %s: expected boolean'' None)
                 (svcPrivate service))) (\<lambda>lbPrivate.
        if lbPrivate \<and> l_pnID l = ''''
        then failA (Errorf ''scaleway-cloud-controller-manager cannot create private load balancers without a private network'' None)
        else if lbPrivate \<and> hasLoadBalancerStaticIPs service
        then failA (Errorf ''scaleway-cloud-controller-manager can only handle static IPs for public load balancers. Unsetting the static IP can result in the loss of the IP'' None)
        else
        bindA (ensure_exists l service) (\<lambda>lb0.
        bindA (ensure_addresses l service lbExternallyManaged lbPrivate lb0) (\<lambda>lb.
        if lb_Status lb \<noteq> LBStatusReady then failA LoadBalancerNotReady
        else
        bindA (updateLoadBalancer l now M lb service nodes) (\<lambda>_.
        createServiceStatus l service lb))))))"

definition UpdateLoadBalancer ::
  "loadbalancers \<Rightarrow> int \<Rightarrow> map_order \<Rightarrow> Service \<Rightarrow> Node list \<Rightarrow> unit act" where
  "UpdateLoadBalancer l now M service nodes =
     (if svc_LoadBalancerClass service \<noteq> None
      then failA (Errorf ''scaleway-cloud-controller-manager cannot handle loadBalancerClas %s'' None)
      else bindA (fetchLoadBalancer l service) (\<lambda>lb. updateLoadBalancer l now M lb service nodes))"

definition EnsureLoadBalancerDeleted :: "loadbalancers \<Rightarrow> Service \<Rightarrow> unit act" where
  "EnsureLoadBalancerDeleted l service =
     (if svc_LoadBalancerClass service \<noteq> None then retA ()
      else
        catchA (fetchLoadBalancer l service)
          (\<lambda>err. if err = LoadBalancerNotFound then retA () else failA err)
          (\<lambda>lb. bindA (liftA (rwrap (\<lambda>e. Errorf ''invalid value for annotation %s: expected boolean'' None)
                         (svcExternallyManaged service))) (\<lambda>lbExternallyManaged.
                if lbExternallyManaged then removeExternallyManagedResources l lb service
                else deleteLoadBalancer l lb service)))"

end
