(* ===== verification/Samples.thy ===== *)
theory Samples
  imports Lifecycle
begin

text \<open>
  A concrete controller, with services that answer every call, on which the properties of the
  load balancer operations are instantiated.
\<close>

definition sample_lb :: LB where
  "sample_lb = \<lparr>lb_ID = ''l1'', lb_Name = ''c-u'', lb_Description = '''', lb_Tags = [],
     lb_Status = LBStatusReady,
     lb_IP = [\<lparr>lbip_ID = ''i1'', lbip_IPAddress = ''192.0.2.1'', lbip_LBID = Some ''l1'', lbip_Reverse = ''r''\<rparr>],
     lb_Type = ''lb-s'', lb_Zone = ''fr-par-1'', lb_ProjectID = ''p'',
     lb_SslCompatibilityLevel = ''ssl_compatibility_level_intermediate''\<rparr>"

definition sample_api :: api where
  "sample_api = \<lparr>
     api_ListLBs = (\<lambda>h c. Inr [sample_lb]),
     api_GetLB = (\<lambda>h c. Inr sample_lb),
     api_CreateLB = (\<lambda>h c. Inr sample_lb),
     api_UpdateLB = (\<lambda>h c. Inr sample_lb),
     api_DeleteLB = (\<lambda>h c. Inr ()),
     api_MigrateLB = (\<lambda>h c. Inr sample_lb),
     api_LB_ListIPs = (\<lambda>h c. Inr []),
     api_ListBackends = (\<lambda>h c. Inr []),
     api_CreateBackend = (\<lambda>h c. case c of
        CreateBackend r \<Rightarrow> Inr (zero_Backend\<lparr>be_ID := ''b1'', be_Name := cb_Name r,
          be_ForwardPort := cb_ForwardPort r, be_Pool := cb_ServerIP r\<rparr>)
      | _ \<Rightarrow> Inl (OtherApiError ''create'')),
     api_UpdateBackend = (\<lambda>h c. Inr zero_Backend),
     api_DeleteBackend = (\<lambda>h c. Inr ()),
     api_SetBackendServers = (\<lambda>h c. Inr zero_Backend),
     api_UpdateHealthCheck = (\<lambda>h c. Inr zero_HealthCheck),
     api_ListFrontends = (\<lambda>h c. Inr []),
     api_CreateFrontend = (\<lambda>h c. case c of
        CreateFrontend r \<Rightarrow> Inr \<lparr>fe_ID = ''f1'', fe_Name = cf_Name r, fe_InboundPort = cf_InboundPort r,
          fe_Backend = None, fe_TimeoutClient = cf_TimeoutClient r,
          fe_CertificateIDs = cf_CertificateIDs r, fe_ConnectionRateLimit = cf_ConnectionRateLimit r,
          fe_EnableAccessLogs = cf_EnableAccessLogs r, fe_EnableHTTP3 = cf_EnableHTTP3 r\<rparr>
      | _ \<Rightarrow> Inl (OtherApiError ''create'')),
     api_UpdateFrontend = (\<lambda>h c. Inl (OtherApiError ''update'')),
     api_DeleteFrontend = (\<lambda>h c. Inr ()),
     api_ListACLs = (\<lambda>h c. Inr []),
     api_SetACLs = (\<lambda>h c. Inr []),
     api_ListLBPrivateNetworks = (\<lambda>h c. Inr []),
     api_AttachPrivateNetwork = (\<lambda>h c. Inr ()),
     api_DetachPrivateNetwork = (\<lambda>h c. Inr ()),
     api_IPAM_ListIPs = (\<lambda>h c. Inr []),
     api_VPC_GetPrivateNetwork = (\<lambda>h c. Inr ''pn''),
     api_Patch = (\<lambda>h c. Inr ())\<rparr>"

definition sample_kube :: kube where
  "sample_kube = \<lparr>kube_Marshal = (\<lambda>obj. Inr (case obj of
        ServiceObject s \<Rightarrow> concat (map (\<lambda>(k, v). k @ v) (svc_Annotations s))
      | NodeObject n \<Rightarrow> node_Name n)),
     kube_MergePatchNode = (\<lambda>a b. Inr (if a = b then ''{}'' else b)),
     kube_MergePatchService = (\<lambda>a b. Inr (if a = b then ''{}'' else b))\<rparr>"

definition sample_env :: env where
  "sample_env = \<lparr>env_SCW_CCM_PREFIX = ''c-'', env_SCW_CCM_TAGS = '''', env_SCW_CCM_TAGS_DELIMITER = ''''\<rparr>"

definition sample_controller :: loadbalancers where
  "sample_controller = newLoadbalancers sample_sdk sample_env sample_kube sample_api '''' ''''"

definition sample_order :: map_order where
  "sample_order = \<lparr>mo_resolve = (\<lambda>ks. ks), mo_query = (\<lambda>ks. ks), mo_keys = (\<lambda>pn ks. ks),
     mo_attach = (\<lambda>ks. ks)\<rparr>"

text \<open>A service with a port of another protocol than TCP.\<close>

definition udp_service :: Service where
  "udp_service = sample_service\<lparr>svc_Ports :=
     [\<lparr>port_Protocol = ''TCP'', port_Port = 80, port_NodePort = 30080\<rparr>,
      \<lparr>port_Protocol = ''UDP'', port_Port = 53, port_NodePort = 30053\<rparr>]\<rparr>"

text \<open>A service whose load balancer is externally managed.\<close>

definition external_service :: Service where
  "external_service = sample_service\<lparr>svc_Annotations :=
     [(serviceAnnotationLoadBalancerExternallyManaged, ''true''),
      (serviceAnnotationLoadBalancerID, ''fr-par-1/l1'')]\<rparr>"

lemma external_service_flag: "svcExternallyManaged external_service = Inr True"
  by (simp add: svcExternallyManaged_def boolAnno_def external_service_def strconv_ParseBool_def)

end
