(* ===== verification/ReconcileLaws.thy ===== *)
theory ReconcileLaws
  imports Samples
begin

text \<open>
  What \<open>updateLoadBalancer\<close> may do to the service of the load balancer: which calls it makes
  (\<open>update_may\<close>), in which order (\<open>update_phase\<close>), and when it reports success.
\<close>

section \<open>The plans, by port\<close>

text \<open>A listed frontend or backend with a name prefix, by identifier.\<close>

definition listed_frontend :: "loadbalancers \<Rightarrow> LB \<Rightarrow> string \<Rightarrow> string \<Rightarrow> bool" where
  "listed_frontend l lb pre i \<longleftrightarrow> (\<exists>h fs f.
     api_ListFrontends (l_api l) h (ListFrontends (lb_Zone lb) (lb_ID lb) None) = Inr fs
   \<and> f \<in> set fs \<and> fe_ID f = i \<and> strings_HasPrefix (fe_Name f) pre)"

definition listed_backend :: "loadbalancers \<Rightarrow> LB \<Rightarrow> string \<Rightarrow> string \<Rightarrow> bool" where
  "listed_backend l lb pre i \<longleftrightarrow> (\<exists>h bs b.
     api_ListBackends (l_api l) h (ListBackends (lb_Zone lb) (lb_ID lb) None) = Inr bs
   \<and> b \<in> set bs \<and> be_ID b = i \<and> strings_HasPrefix (be_Name b) pre)"

lemma compareFrontends_update:
  assumes "wf_want fe_InboundPort want" "map_of (ops_update (compareFrontends got want pre)) p = Some f"
  obtains c t t' where "c \<in> set got" "strings_HasPrefix (fe_Name c) pre" "map_of want p = Some t"
    "frontend_config t' = frontend_config t" "fe_Name t' = fe_Name t" "f = t'\<lparr>fe_ID := fe_ID c\<rparr>"
proof -
  from assms(2) fdiff.diff_spec(2) [OF assms(1), where pre = pre and got = got and p = p]
  have "diff_update frontend_fields_equal frontend_setid
      (first_on fe_InboundPort fe_Name pre got p) (map_of want p) = Some f"
    by (simp add: compareFrontends_def Let_def)
  then obtain c t c' t' where c: "first_on fe_InboundPort fe_Name pre got p = Some c"
    and t: "map_of want p = Some t" and e: "frontend_fields_equal c t = (False, c', t')"
    and f: "f = t'\<lparr>fe_ID := fe_ID c\<rparr>"
    by (auto simp: diff_update_def split: option.splits prod.splits if_splits)
  show thesis
    using that first_on_SomeD [OF c] t f frontend_fields_equal_preserves [OF e] by blast
qed

lemma compareFrontends_create:
  assumes "wf_want fe_InboundPort want" "map_of (ops_create (compareFrontends got want pre)) p = Some f"
  shows "map_of want p = Some f"
  using assms fdiff.diff_spec(3) [OF assms(1), where pre = pre and got = got and p = p]
  by (simp add: compareFrontends_def Let_def diff_create_def split: option.splits)

lemma compareFrontends_keep:
  assumes "wf_want fe_InboundPort want" "map_of (ops_keep (compareFrontends got want pre)) p = Some f"
  obtains c t where "c \<in> set got" "strings_HasPrefix (fe_Name c) pre" "map_of want p = Some t"
    "frontend_config c = frontend_config t" "fe_ID f = fe_ID c"
    "first_on fe_InboundPort fe_Name pre got p = Some c"
proof -
  from assms(2) fdiff.diff_spec(1) [OF assms(1), where pre = pre and got = got and p = p]
  have "diff_keep frontend_fields_equal (first_on fe_InboundPort fe_Name pre got p) (map_of want p) = Some f"
    by (simp add: compareFrontends_def Let_def)
  then obtain c t t' where c: "first_on fe_InboundPort fe_Name pre got p = Some c"
    and t: "map_of want p = Some t" and e: "frontend_fields_equal c t = (True, f, t')"
    by (auto simp: diff_keep_def split: option.splits prod.splits if_splits)
  have "frontend_config c = frontend_config t"
    using frontend_fields_equal_config [of c t] e by simp
  with first_on_SomeD [OF c] frontend_fields_equal_preserves(3) [OF e] t c show thesis
    by (intro that [of c t]) simp_all
qed

lemma compareBackends_update:
  assumes "wf_want be_ForwardPort want" "map_of (ops_update (compareBackends X got want pre)) p = Some b"
  obtains c t where "c \<in> set got" "strings_HasPrefix (be_Name c) pre" "map_of want p = Some t"
    "b = t\<lparr>be_ID := be_ID c\<rparr>"
proof -
  from assms(2) bdiff.diff_spec(2) [OF assms(1), where X = X and pre = pre and got = got and p = p]
  have "diff_update (backend_eq X) backend_setid
      (first_on be_ForwardPort be_Name pre got p) (map_of want p) = Some b"
    by (simp add: compareBackends_def Let_def)
  then obtain c t where c: "first_on be_ForwardPort be_Name pre got p = Some c"
    and t: "map_of want p = Some t" and b: "b = t\<lparr>be_ID := be_ID c\<rparr>"
    by (auto simp: diff_update_def split: option.splits if_splits)
  show thesis using that first_on_SomeD [OF c] t b by blast
qed

lemma compareBackends_create:
  assumes "wf_want be_ForwardPort want" "map_of (ops_create (compareBackends X got want pre)) p = Some b"
  shows "map_of want p = Some b"
  using assms bdiff.diff_spec(3) [OF assms(1), where X = X and pre = pre and got = got and p = p]
  by (simp add: compareBackends_def Let_def diff_create_def split: option.splits)

lemma compareBackends_keep:
  assumes "wf_want be_ForwardPort want" "map_of (ops_keep (compareBackends X got want pre)) p = Some b"
  obtains t where "b \<in> set got" "strings_HasPrefix (be_Name b) pre" "map_of want p = Some t"
    "backend_config X b = backend_config X t" "first_on be_ForwardPort be_Name pre got p = Some b"
proof -
  from assms(2) bdiff.diff_spec(1) [OF assms(1), where X = X and pre = pre and got = got and p = p]
  have "diff_keep (backend_eq X) (first_on be_ForwardPort be_Name pre got p) (map_of want p) = Some b"
    by (simp add: compareBackends_def Let_def)
  then obtain t where c: "first_on be_ForwardPort be_Name pre got p = Some b"
    and t: "map_of want p = Some t" and e: "backend_fields_equal X b t"
    by (auto simp: diff_keep_def split: option.splits if_splits)
  show thesis using that first_on_SomeD [OF c] t c e by (simp add: backend_fields_equal_config)
qed

lemma compareFrontends_remove:
  assumes "wf_want fe_InboundPort want" "f \<in> set (ops_remove (compareFrontends got want pre))"
  shows "f \<in> set got \<and> strings_HasPrefix (fe_Name f) pre"
  using assms fdiff.diff_spec(5) [OF assms(1), where pre = pre and got = got and c = f]
  by (simp add: compareFrontends_def Let_def)

lemma compareBackends_remove:
  assumes "wf_want be_ForwardPort want" "b \<in> set (ops_remove (compareBackends X got want pre))"
  shows "b \<in> set got \<and> strings_HasPrefix (be_Name b) pre"
  using assms bdiff.diff_spec(5) [OF assms(1), where X = X and pre = pre and got = got and c = b]
  by (simp add: compareBackends_def Let_def)

section \<open>Private networks\<close>

text \<open>
  The invariant of the loops over the attachments: the networks are those that are wanted, and
  the desired addresses and those still to be placed are among the addresses of the service.
\<close>

definition pn_inv :: "string set \<Rightarrow> string set \<Rightarrow> attachments \<Rightarrow> bool" where
  "pn_inv K S m \<longleftrightarrow> set (gm_keys m) = K
     \<and> (\<forall>pn st. map_of m pn = Some st \<longrightarrow> set (pn_desiredIPIDs st) \<subseteq> S)"

definition pn_call :: "LB \<Rightarrow> bool \<Rightarrow> string set \<Rightarrow> string set \<Rightarrow> call \<Rightarrow> bool" where
  "pn_call lb ext K S c = (case c of
      ListLBPrivateNetworks z i \<Rightarrow> z = lb_Zone lb \<and> i = lb_ID lb
    | DetachPrivateNetwork z i pn \<Rightarrow> z = lb_Zone lb \<and> i = lb_ID lb \<and> (\<not> ext \<or> pn \<in> K)
    | AttachPrivateNetwork z i pn ips \<Rightarrow>
        z = lb_Zone lb \<and> i = lb_ID lb \<and> pn \<in> K \<and> length ips \<le> 1 \<and> set ips \<subseteq> S
    | IPAM_ListNetworkIPs r pn ids \<Rightarrow> pn \<in> K
    | _ \<Rightarrow> False)"

lemma map_of_key: "map_of m k = Some v \<Longrightarrow> k \<in> set (gm_keys m)"
  by (metis image_set weak_map_of_SomeI domI dom_map_of_conv_image_fst)

lemma pn_inv_update:
  "pn_inv K S m \<Longrightarrow> k \<in> K \<Longrightarrow> set (pn_desiredIPIDs st) \<subseteq> S \<Longrightarrow> pn_inv K S (AList.update k st m)"
  unfolding pn_inv_def by (simp only: set_gm_keys_update insert_absorb map_of_update) simp

lemma pn_invD: "pn_inv K S m \<Longrightarrow> map_of m pn = Some st \<Longrightarrow> pn \<in> K \<and> set (pn_desiredIPIDs st) \<subseteq> S"
  using map_of_key [of m pn st] by (auto simp: pn_inv_def)

lemma pn_claim_subset:
  "pn_claim ids (d, w) = (d', w') \<Longrightarrow> set d' \<subseteq> set d \<union> set w \<and> set w' \<subseteq> set w"
proof (induction ids arbitrary: d w)
  case (Cons i ids)
  then show ?case by (fastforce split: if_splits)
qed simp

lemma pn_resolve_inv:
  assumes "pn_inv K S m" "set w \<subseteq> S" "pn_resolve pn (m, w) = (m', w')"
  shows "pn_inv K S m' \<and> set w' \<subseteq> S"
proof (cases "map_of m pn")
  case None
  with assms show ?thesis by (simp add: pn_resolve_def)
next
  case (Some st)
  obtain d' where claim: "pn_claim (pn_attachedIPIDs st) (pn_desiredIPIDs st, w) = (d', w')"
    and m': "m' = AList.update pn (st\<lparr>pn_desiredIPIDs := d'\<rparr>) m"
    using assms(3) Some by (auto simp: pn_resolve_def split: prod.splits)
  have "set (pn_desiredIPIDs st) \<subseteq> S" "pn \<in> K"
    using assms(1) Some map_of_key [OF Some] by (auto simp: pn_inv_def)
  with pn_claim_subset [OF claim] assms(1,2) show ?thesis
    unfolding m' by (auto intro!: pn_inv_update)
qed

lemma pn_resolve_fold_inv:
  "pn_inv K S m \<Longrightarrow> set w \<subseteq> S \<Longrightarrow> fold pn_resolve pns (m, w) = (m', w') \<Longrightarrow>
    pn_inv K S m' \<and> set w' \<subseteq> S"
proof (induction pns arbitrary: m w)
  case (Cons pn pns)
  obtain m1 w1 where "pn_resolve pn (m, w) = (m1, w1)" by (metis surj_pair)
  with Cons show ?case using pn_resolve_inv by (metis fold_simps(2))
qed simp

lemma pn_mark_runs:
  assumes inv: "pn_inv K S m"
  shows "runs (pn_inv K S) (all_calls (pn_call lb ext K S')) (pn_mark A lb ext nic m)"
proof (cases "map_of m (lbpn_PrivateNetworkID nic)")
  case None
  with inv show ?thesis
    by (auto simp: pn_mark_def pn_call_def
        intro!: all_calls.runs_bind [of "\<lambda>_. True"] all_calls.runs_leaves)
next
  case (Some st)
  with pn_invD [OF inv Some] inv show ?thesis
    by (auto simp: pn_mark_def intro!: all_calls.runs_ret pn_inv_update)
qed

lemma pn_query_runs:
  assumes "pn_inv K S (fst s)" "set (snd s) \<subseteq> S"
  shows "runs (\<lambda>s'. pn_inv K S (fst s') \<and> set (snd s') \<subseteq> S) (all_calls (pn_call lb ext K S))
    (pn_query A M region pn s)"
proof -
  obtain m w where s: "s = (m, w)" by (cases s)
  show ?thesis
  proof (cases "map_of m pn")
    case None
    with assms show ?thesis by (simp add: s pn_query_def all_calls.runs_ret)
  next
    case (Some st)
    then have pn: "pn \<in> K" "set (pn_desiredIPIDs st) \<subseteq> S"
      using assms(1) map_of_key [OF Some] by (auto simp: s pn_inv_def)
    have claim: "pn_inv K S (AList.update pn (st\<lparr>pn_desiredIPIDs := d\<rparr>) m) \<and> (\<forall>x\<in>set w'. x \<in> S)"
      if "pn_claim ids (pn_desiredIPIDs st, w) = (d, w')" for ids d w'
      using pn_claim_subset [OF that] assms pn by (auto simp: s intro!: pn_inv_update)
    show ?thesis
      using pn(1)
      by (auto simp: s pn_query_def Some pn_call_def split: prod.split dest!: claim
          intro!: all_calls.runs_bind [of "\<lambda>_. True"] all_calls.runs_leaves)
  qed
qed

lemma pn_attach_emits:
  assumes "pn_inv K S m"
  shows "emits (all_calls (pn_call lb ext K S)) (pn_attach A lb m pn)"
  using assms map_of_key [of m pn]
  by (auto simp: pn_attach_def pn_call_def pn_inv_def split: option.split
      intro!: all_calls.emits_intros)

lemma pn_initial_zero: "map_of (pn_initial l service ext) pn = Some st \<Longrightarrow> st = pn_zero"
proof -
  have "map_of (fold (\<lambda>pnID. AList.update pnID pn_zero) ids m) pn = Some st \<Longrightarrow>
      st = pn_zero \<or> map_of m pn = Some st" for ids m
    by (induction ids arbitrary: m) (fastforce split: if_splits)+
  from this [of "getPrivateNetworkIDs service" "[]"]
  show "map_of (pn_initial l service ext) pn = Some st \<Longrightarrow> st = pn_zero"
    by (auto simp: pn_initial_def Let_def split: if_splits)
qed

lemma attachPrivateNetworks_emits:
  defines "K \<equiv> \<lambda>l service ext. set (gm_keys (pn_initial l service ext))"
  shows "emits (all_calls (pn_call lb ext (K l service ext) (set (getPrivateIPIDs service))))
    (attachPrivateNetworks l M lb service ext)"
proof -
  let ?K = "K l service ext" and ?S = "set (getPrivateIPIDs service)"
  let ?P = "all_calls (pn_call lb ext ?K ?S)"
  have init: "pn_inv ?K ?S (pn_initial l service ext)"
    using pn_initial_zero by (fastforce simp: pn_inv_def K_def pn_zero_def)
  have marks: "runs (pn_inv ?K ?S) ?P (foldA (pn_mark A lb ext) nics (pn_initial l service ext))" for A nics
    by (intro all_calls.runs_fold pn_mark_runs init)
  have rest: "emits ?P
      (let (m2, wanted) = fold pn_resolve (mo_resolve M (gm_keys m1)) (m1, getPrivateIPIDs service) in
        bindA (if wanted \<noteq> [] then
                 bindA (liftA (rwrap w (sdk_ZoneRegion (l_sdk l) (lb_Zone lb)))) (\<lambda>region.
                 bindA (foldA (pn_query (l_api l) M region) (mo_query M (gm_keys m2)) (m2, wanted)) (\<lambda>(m3, left).
                   if left \<noteq> [] then failA e else retA m3))
               else retA m2) (\<lambda>m.
        forA (pn_attach (l_api l) lb m) (mo_attach M (gm_keys m))))"
    if m1: "pn_inv ?K ?S m1" for m1 w e
  proof -
    obtain m2 wanted where f: "fold pn_resolve (mo_resolve M (gm_keys m1)) (m1, getPrivateIPIDs service) = (m2, wanted)"
      by (metis surj_pair)
    from pn_resolve_fold_inv [OF m1 subset_refl f] have inv: "pn_inv ?K ?S m2" "set wanted \<subseteq> ?S" by auto
    have q: "runs (\<lambda>s'. pn_inv ?K ?S (fst s') \<and> set (snd s') \<subseteq> ?S) ?P
        (foldA (pn_query (l_api l) M region) pns (m2, wanted))" for region pns
      by (rule all_calls.runs_fold) (use inv in \<open>auto intro!: pn_query_runs\<close>)
    have mid: "runs (pn_inv ?K ?S) ?P
        (if wanted \<noteq> [] then
           bindA (liftA (rwrap w (sdk_ZoneRegion (l_sdk l) (lb_Zone lb)))) (\<lambda>region.
           bindA (foldA (pn_query (l_api l) M region) (mo_query M (gm_keys m2)) (m2, wanted)) (\<lambda>(m3, left).
             if left \<noteq> [] then failA e else retA m3))
         else retA m2)"
      using inv by (auto intro!: all_calls.runs_bind [of "\<lambda>_. True"] all_calls.runs_leaves
          all_calls.runs_bind [OF q] split: prod.split)
    show ?thesis
      unfolding f Let_def prod.case emits_iff_runs
      by (rule all_calls.runs_bind [OF mid], rule all_calls.runs_for)
        (simp add: emits_iff_runs [symmetric] pn_attach_emits)
  qed
  have listing: "runs (\<lambda>_. True) ?P (wrapA w' (invoke reply (ListLBPrivateNetworks (lb_Zone lb) (lb_ID lb))))"
    for w' and reply :: "hist \<Rightarrow> call \<Rightarrow> api_error + LBPrivateNetwork list"
    by (intro all_calls.runs_leaves) (simp_all add: pn_call_def)
  show ?thesis
  proof (cases "l_pnID l = ''''")
    case True
    then show ?thesis by (simp add: attachPrivateNetworks_def all_calls.emits_ret)
  next
    case False
    show ?thesis
      unfolding attachPrivateNetworks_def emits_iff_runs if_not_P [OF False]
      by (intro all_calls.runs_bind [OF listing] all_calls.runs_bind [OF marks]
          rest [unfolded emits_iff_runs])
  qed
qed

section \<open>The calls of an update\<close>

text \<open>
  What an update may call: every call is about this load balancer, in its zone, and about its
  resources.  A backend or a frontend of the service is one that was listed with the prefix
  filter, or the answer to the creation of one on this load balancer with the prefix of the
  service, or to the update of a listed one.
\<close>

definition own_backend :: "loadbalancers \<Rightarrow> LB \<Rightarrow> Service \<Rightarrow> string \<Rightarrow> string \<Rightarrow> bool" where
  "own_backend l lb service pre i \<longleftrightarrow> listed_backend l lb pre i
   \<or> (\<exists>h r b. api_CreateBackend (l_api l) h (CreateBackend r) = Inr b \<and> be_ID b = i
        \<and> cb_Zone r = lb_Zone lb \<and> cb_LBID r = lb_ID lb \<and> strings_HasPrefix (cb_Name r) (svc_UID service @ ''_''))
   \<or> (\<exists>h r b. api_UpdateBackend (l_api l) h (UpdateBackend r) = Inr b \<and> be_ID b = i
        \<and> ub_Zone r = lb_Zone lb \<and> listed_backend l lb pre (ub_BackendID r))"

definition own_frontend :: "loadbalancers \<Rightarrow> LB \<Rightarrow> Service \<Rightarrow> string \<Rightarrow> string \<Rightarrow> bool" where
  "own_frontend l lb service pre i \<longleftrightarrow> listed_frontend l lb pre i
   \<or> (\<exists>h r f. api_CreateFrontend (l_api l) h (CreateFrontend r) = Inr f \<and> fe_ID f = i
        \<and> cf_Zone r = lb_Zone lb \<and> cf_LBID r = lb_ID lb \<and> strings_HasPrefix (cf_Name r) (svc_UID service @ ''_''))
   \<or> (\<exists>h r f. api_UpdateFrontend (l_api l) h (UpdateFrontend r) = Inr f \<and> fe_ID f = i
        \<and> uf_Zone r = lb_Zone lb \<and> listed_frontend l lb pre (uf_FrontendID r))"

text \<open>
  What is deleted or updated was listed; what is created carries the prefix of the service; the
  servers are set on a backend of the service and are the target addresses up to order; the rules
  are listed and set on a frontend of the service and are the wanted ones; a frontend is created or
  updated with a backend of the service.
\<close>

definition resource_call ::
  "loadbalancers \<Rightarrow> LB \<Rightarrow> Service \<Rightarrow> Node list \<Rightarrow> string multiset \<Rightarrow> string \<Rightarrow> call \<Rightarrow> bool" where
  "resource_call l lb service nodes targets pre c = (case c of
      DeleteFrontend z i \<Rightarrow> z = lb_Zone lb \<and> listed_frontend l lb pre i
    | DeleteBackend z i \<Rightarrow> z = lb_Zone lb \<and> listed_backend l lb pre i
    | CreateBackend r \<Rightarrow> cb_Zone r = lb_Zone lb \<and> cb_LBID r = lb_ID lb
        \<and> strings_HasPrefix (cb_Name r) (svc_UID service @ ''_'')
        \<and> mset (elems (cb_ServerIP r)) = targets
    | UpdateBackend r \<Rightarrow> ub_Zone r = lb_Zone lb \<and> listed_backend l lb pre (ub_BackendID r)
        \<and> strings_HasPrefix (ub_Name r) (svc_UID service @ ''_'')
    | UpdateHealthCheck r \<Rightarrow> uh_Zone r = lb_Zone lb \<and> listed_backend l lb pre (uh_BackendID r)
    | SetBackendServers z i ips \<Rightarrow> z = lb_Zone lb \<and> own_backend l lb service pre i \<and> mset (elems ips) = targets
    | CreateFrontend r \<Rightarrow> cf_Zone r = lb_Zone lb \<and> cf_LBID r = lb_ID lb
        \<and> strings_HasPrefix (cf_Name r) (svc_UID service @ ''_'') \<and> own_backend l lb service pre (cf_BackendID r)
    | UpdateFrontend r \<Rightarrow> uf_Zone r = lb_Zone lb \<and> listed_frontend l lb pre (uf_FrontendID r)
        \<and> strings_HasPrefix (uf_Name r) (svc_UID service @ ''_'') \<and> own_backend l lb service pre (uf_BackendID r)
    | ListACLs z i n \<Rightarrow> z = lb_Zone lb \<and> own_frontend l lb service pre i \<and> n = i @ ''-lb-source-range''
    | SetACLs z i specs \<Rightarrow> z = lb_Zone lb \<and> own_frontend l lb service pre i
        \<and> (\<exists>f wanted. fe_ID f = i \<and> makeACLSpecs (l_sdk l) service nodes (Some f) = Some wanted
             \<and> mset (map spec_config specs) = mset (map spec_config wanted))
    | _ \<Rightarrow> False)"

text \<open>
  The type and the settings of the load balancer are left alone when it is externally managed;
  and nothing else is called, in particular no load balancer is created or deleted.
\<close>

definition update_may :: "loadbalancers \<Rightarrow> LB \<Rightarrow> Service \<Rightarrow> Node list \<Rightarrow> bool \<Rightarrow> call \<Rightarrow> bool" where
  "update_may l lb service nodes ext c \<longleftrightarrow>
     pn_call lb ext (set (gm_keys (pn_initial l service ext))) (set (getPrivateIPIDs service)) c
   \<or> resource_call l lb service (filterNodes service nodes)
       (mset (elems (target_ips l service (filterNodes service nodes))))
       (if ext then svc_UID service @ ''_'' else '''') c
   \<or> c = ListFrontends (lb_Zone lb) (lb_ID lb) None
   \<or> c = ListBackends (lb_Zone lb) (lb_ID lb) None
   \<or> \<not> ext \<and> (case c of
        MigrateLB z i t \<Rightarrow> z = lb_Zone lb \<and> i = lb_ID lb \<and> t = getLoadBalancerType service
      | UpdateLB r \<Rightarrow> ulb_Zone r = lb_Zone lb \<and> ulb_LBID r = lb_ID lb \<and> ulb_Name r = lb_Name lb
          \<and> ulb_Description r = lb_Description lb \<and> ulb_Tags r = lb_Tags lb
          \<and> getSSLCompatibilityLevel (l_sdk l) service = Inr (ulb_SslCompatibilityLevel r)
      | _ \<Rightarrow> False)"

text \<open>
  The situation in which the ports are reconciled: the service was converted, and the plans
  were made from what the service listed.
\<close>

definition planned ::
  "loadbalancers \<Rightarrow> LB \<Rightarrow> Service \<Rightarrow> string slice \<Rightarrow> string \<Rightarrow> Frontend ops \<Rightarrow> Backend ops \<Rightarrow> bool" where
  "planned l lb service ips pre fops bops \<longleftrightarrow> (\<exists>h h' gotf gotb fs bs.
     api_ListFrontends (l_api l) h (ListFrontends (lb_Zone lb) (lb_ID lb) None) = Inr gotf
   \<and> api_ListBackends (l_api l) h' (ListBackends (lb_Zone lb) (lb_ID lb) None) = Inr gotb
   \<and> serviceToLB (l_sdk l) service lb ips = Inr (fs, bs)
   \<and> fops = compareFrontends gotf fs pre \<and> bops = compareBackends (l_sdk l) gotb bs pre)"

lemma wanted_frontend_name:
  assumes "serviceToLB X service lb ips = Inr (fs, bs)" "map_of fs k = Some f"
  shows "strings_HasPrefix (fe_Name f) (svc_UID service @ ''_'')"
  using assms by (metis serviceToLB_frontendD servicePortToFrontend_fields(3) resource_name_prefix)

lemma wanted_backend:
  assumes "serviceToLB X service lb ips = Inr (fs, bs)" "map_of bs k = Some b"
  shows "strings_HasPrefix (be_Name b) (svc_UID service @ ''_'')" "\<exists>hc. be_HealthCheck b = Some hc"
    "be_Pool b = ips" "be_ForwardPort b = k"
  using assms
  by (metis serviceToLB_backendD servicePortToBackend_fields resource_name_prefix)+

lemma planned_facts:
  assumes "planned l lb service ips pre fops bops"
  shows "f \<in> set (ops_remove fops) \<Longrightarrow> listed_frontend l lb pre (fe_ID f)"
    and "b \<in> set (ops_remove bops) \<Longrightarrow> listed_backend l lb pre (be_ID b)"
    and "map_of (ops_update fops) p = Some f \<Longrightarrow>
      listed_frontend l lb pre (fe_ID f) \<and> strings_HasPrefix (fe_Name f) (svc_UID service @ ''_'')"
    and "map_of (ops_create fops) p = Some f \<Longrightarrow> strings_HasPrefix (fe_Name f) (svc_UID service @ ''_'')"
    and "map_of (ops_update bops) p = Some b \<Longrightarrow>
      listed_backend l lb pre (be_ID b) \<and> strings_HasPrefix (be_Name b) (svc_UID service @ ''_'')
        \<and> (\<exists>hc. be_HealthCheck b = Some hc)"
    and "map_of (ops_create bops) p = Some b \<Longrightarrow> strings_HasPrefix (be_Name b) (svc_UID service @ ''_'')"
    and "map_of (ops_keep fops) p = Some f \<Longrightarrow> listed_frontend l lb pre (fe_ID f)"
    and "map_of (ops_keep bops) p = Some b \<Longrightarrow> listed_backend l lb pre (be_ID b)"
proof -
  obtain h h' gotf gotb fs bs where
    lf: "api_ListFrontends (l_api l) h (ListFrontends (lb_Zone lb) (lb_ID lb) None) = Inr gotf" and
    lb: "api_ListBackends (l_api l) h' (ListBackends (lb_Zone lb) (lb_ID lb) None) = Inr gotb" and
    conv: "serviceToLB (l_sdk l) service lb ips = Inr (fs, bs)" and
    ops: "fops = compareFrontends gotf fs pre" "bops = compareBackends (l_sdk l) gotb bs pre"
    using assms unfolding planned_def by blast
  note wf = serviceToLB_Inr(1,2) [OF conv]
  show "f \<in> set (ops_remove fops) \<Longrightarrow> listed_frontend l lb pre (fe_ID f)"
    using compareFrontends_remove [OF wf(1)] lf unfolding ops listed_frontend_def by blast
  show "b \<in> set (ops_remove bops) \<Longrightarrow> listed_backend l lb pre (be_ID b)"
    using compareBackends_remove [OF wf(2)] lb unfolding ops listed_backend_def by blast
  show "listed_frontend l lb pre (fe_ID f) \<and> strings_HasPrefix (fe_Name f) (svc_UID service @ ''_'')"
    if u: "map_of (ops_update fops) p = Some f"
  proof -
    obtain c t t' where "c \<in> set gotf" "strings_HasPrefix (fe_Name c) pre" "map_of fs p = Some t"
      "fe_Name t' = fe_Name t" "f = t'\<lparr>fe_ID := fe_ID c\<rparr>"
      using compareFrontends_update [OF wf(1) u [unfolded ops]] by metis
    then show ?thesis using lf wanted_frontend_name [OF conv] by (auto simp: listed_frontend_def)
  qed
  show "map_of (ops_create fops) p = Some f \<Longrightarrow> strings_HasPrefix (fe_Name f) (svc_UID service @ ''_'')"
    using compareFrontends_create [OF wf(1)] wanted_frontend_name [OF conv] unfolding ops by blast
  show "listed_backend l lb pre (be_ID b) \<and> strings_HasPrefix (be_Name b) (svc_UID service @ ''_'')
      \<and> (\<exists>hc. be_HealthCheck b = Some hc)"
    if u: "map_of (ops_update bops) p = Some b"
  proof -
    obtain c t where "c \<in> set gotb" "strings_HasPrefix (be_Name c) pre" "map_of bs p = Some t"
      "b = t\<lparr>be_ID := be_ID c\<rparr>"
      using compareBackends_update [OF wf(2) u [unfolded ops]] by metis
    then show ?thesis using lb wanted_backend [OF conv] by (auto simp: listed_backend_def)
  qed
  show "map_of (ops_create bops) p = Some b \<Longrightarrow> strings_HasPrefix (be_Name b) (svc_UID service @ ''_'')"
    using compareBackends_create [OF wf(2)] wanted_backend [OF conv] unfolding ops by blast
  show "listed_frontend l lb pre (fe_ID f)" if k: "map_of (ops_keep fops) p = Some f"
  proof -
    obtain c where "c \<in> set gotf" "strings_HasPrefix (fe_Name c) pre" "fe_ID f = fe_ID c"
      using compareFrontends_keep [OF wf(1) k [unfolded ops]] by metis
    then show ?thesis using lf by (auto simp: listed_frontend_def)
  qed
  show "listed_backend l lb pre (be_ID b)" if k: "map_of (ops_keep bops) p = Some b"
    using compareBackends_keep [OF wf(2) k [unfolded ops]] lb unfolding listed_backend_def by metis
qed

lemma remove_emits:
  assumes "planned l lb service ips pre fops bops"
  shows "emits (all_calls (resource_call l lb service nodes targets pre))
      (remove_frontends (l_api l) lb (ops_remove fops))"
    and "emits (all_calls (resource_call l lb service nodes targets pre))
      (remove_backends (l_api l) lb (ops_remove bops))"
  unfolding remove_frontends_def remove_backends_def
  using planned_facts(1,2) [OF assms]
  by (auto intro!: all_calls.emits_intros simp: resource_call_def)

text \<open>The backend of a port is one of the service, and so is its frontend.\<close>

lemma createBackend_runs:
  assumes "strings_HasPrefix (be_Name b) (svc_UID service @ ''_'')" "mset (elems (be_Pool b)) = targets"
  shows "runs (\<lambda>b'. own_backend l lb service pre (be_ID b')) (all_calls (resource_call l lb service nodes targets pre))
    (createBackend (l_api l) lb b)"
  unfolding createBackend_def
  by (rule all_calls.runs_invoke) (use assms in \<open>fastforce simp: resource_call_def own_backend_def\<close>)+

lemma updateBackend_runs:
  assumes "listed_backend l lb pre (be_ID b)" "strings_HasPrefix (be_Name b) (svc_UID service @ ''_'')"
    and "\<exists>hc. be_HealthCheck b = Some hc"
  shows "runs (\<lambda>b'. own_backend l lb service pre (be_ID b')) (all_calls (resource_call l lb service nodes targets pre))
    (updateBackend (l_api l) lb b)"
proof -
  let ?own = "\<lambda>b'. own_backend l lb service pre (be_ID b')"
  show ?thesis
    unfolding updateBackend_def
    by (rule all_calls.runs_bind [of ?own], rule all_calls.runs_invoke)
      (use assms in \<open>fastforce simp: resource_call_def own_backend_def
        intro!: all_calls.runs_bind [of "\<lambda>_. True"] all_calls.runs_wrap all_calls.runs_invoke all_calls.runs_ret\<close>)+
qed

lemma port_backend_runs:
  assumes "planned l lb service ips pre fops bops" "mset (elems tips) = targets"
  shows "runs (\<lambda>b. own_backend l lb service pre (be_ID b)) (all_calls (resource_call l lb service nodes targets pre))
    (port_backend (l_api l) lb bops port tips)"
proof -
  let ?P = "all_calls (resource_call l lb service nodes targets pre)"
  let ?own = "\<lambda>r. \<forall>b. r = Some b \<longrightarrow> own_backend l lb service pre (be_ID b)"
  have up: "runs ?own ?P (case map_of (ops_update bops) (port_NodePort port) of
      None \<Rightarrow> retA None
    | Some b \<Rightarrow> bindA (wrapA w (updateBackend (l_api l) lb b)) (\<lambda>b'. retA (Some b')))" for w
    using planned_facts(5) [OF assms(1)]
    by (auto split: option.split
        intro!: all_calls.runs_ret all_calls.runs_bind [OF all_calls.runs_wrap [OF updateBackend_runs]])
  have new: "runs ?own ?P (case map_of (ops_create bops) (port_NodePort port) of
      None \<Rightarrow> retA backend
    | Some b \<Rightarrow> bindA (wrapA w (createBackend (l_api l) lb (b\<lparr>be_Pool := tips\<rparr>))) (\<lambda>b'. retA (Some b')))"
    if "?own backend" for backend w
    using planned_facts(6) [OF assms(1)] assms(2) that
    by (auto split: option.split
        intro!: all_calls.runs_ret all_calls.runs_bind [OF all_calls.runs_wrap [OF createBackend_runs]])
  have keep: "runs (\<lambda>b. own_backend l lb service pre (be_ID b)) ?P (case backend of
      Some b \<Rightarrow> retA b
    | None \<Rightarrow> (case map_of (ops_keep bops) (port_NodePort port) of None \<Rightarrow> failA e | Some b \<Rightarrow> retA b))"
    if "?own backend" for backend e
    using that planned_facts(8) [OF assms(1)]
    by (auto split: option.split intro!: all_calls.runs_ret all_calls.runs_fail simp: own_backend_def)
  show ?thesis
    unfolding port_backend_def
    by (rule all_calls.runs_bind [OF up], rule all_calls.runs_bind [OF new], assumption, rule keep, assumption)
qed

lemma createFrontend_runs:
  assumes "strings_HasPrefix (fe_Name f) (svc_UID service @ ''_'')" "own_backend l lb service pre (be_ID b)"
  shows "runs (\<lambda>f'. own_frontend l lb service pre (fe_ID f')) (all_calls (resource_call l lb service nodes targets pre))
    (createFrontend (l_api l) lb f b)"
  unfolding createFrontend_def
  by (rule all_calls.runs_invoke) (use assms in \<open>fastforce simp: resource_call_def own_frontend_def\<close>)+

lemma updateFrontend_runs:
  assumes "listed_frontend l lb pre (fe_ID f)" "strings_HasPrefix (fe_Name f) (svc_UID service @ ''_'')"
    and "own_backend l lb service pre (be_ID b)"
  shows "runs (\<lambda>f'. own_frontend l lb service pre (fe_ID f')) (all_calls (resource_call l lb service nodes targets pre))
    (updateFrontend (l_api l) lb f b)"
  unfolding updateFrontend_def
  by (rule all_calls.runs_invoke) (use assms in \<open>fastforce simp: resource_call_def own_frontend_def\<close>)+

lemma port_frontend_runs:
  assumes "planned l lb service ips pre fops bops" "own_backend l lb service pre (be_ID backend)"
  shows "runs (\<lambda>f. own_frontend l lb service pre (fe_ID f)) (all_calls (resource_call l lb service nodes targets pre))
    (port_frontend (l_api l) lb fops port backend)"
proof -
  let ?P = "all_calls (resource_call l lb service nodes targets pre)"
  let ?own = "\<lambda>r. \<forall>f. r = Some f \<longrightarrow> own_frontend l lb service pre (fe_ID f)"
  have up: "runs ?own ?P (case map_of (ops_update fops) (port_Port port) of
      None \<Rightarrow> retA None
    | Some f \<Rightarrow> bindA (wrapA w (updateFrontend (l_api l) lb f backend)) (\<lambda>f'. retA (Some f')))" for w
    using planned_facts(3) [OF assms(1)] assms(2)
    by (auto split: option.split
        intro!: all_calls.runs_ret all_calls.runs_bind [OF all_calls.runs_wrap [OF updateFrontend_runs]])
  have new: "runs ?own ?P (case map_of (ops_create fops) (port_Port port) of
      None \<Rightarrow> retA frontend
    | Some f \<Rightarrow> bindA (wrapA w (createFrontend (l_api l) lb f backend)) (\<lambda>f'. retA (Some f')))"
    if "?own frontend" for frontend w
    using planned_facts(4) [OF assms(1)] assms(2) that
    by (auto split: option.split
        intro!: all_calls.runs_ret all_calls.runs_bind [OF all_calls.runs_wrap [OF createFrontend_runs]])
  have keep: "runs (\<lambda>f. own_frontend l lb service pre (fe_ID f)) ?P (case frontend of
      Some f \<Rightarrow> retA f
    | None \<Rightarrow> (case map_of (ops_keep fops) (port_Port port) of None \<Rightarrow> failA e | Some f \<Rightarrow> retA f))"
    if "?own frontend" for frontend e
    using that planned_facts(7) [OF assms(1)]
    by (auto split: option.split intro!: all_calls.runs_ret all_calls.runs_fail simp: own_frontend_def)
  show ?thesis
    unfolding port_frontend_def
    by (rule all_calls.runs_bind [OF up], rule all_calls.runs_bind [OF new], assumption, rule keep, assumption)
qed

lemma port_servers_runs:
  assumes "mset (elems tips) = targets" "own_backend l lb service pre (be_ID backend)"
  shows "runs (\<lambda>t. mset (elems t) = targets) (all_calls (resource_call l lb service nodes targets pre))
    (port_servers A lb backend tips)"
  using assms
  by (auto simp: port_servers_def stringArrayEqual_def Let_def resource_call_def
      intro!: all_calls.runs_bind [of "\<lambda>_. True"] all_calls.runs_leaves)

lemma reconcileACLs_emits:
  assumes "own_frontend l lb service pre (fe_ID f)"
  shows "emits (all_calls (resource_call l lb service nodes targets pre)) (reconcileACLs (l_sdk l) A lb f service nodes)"
proof -
  have "mset (map spec_config specs') = mset (map spec_config specs)"
    if "aclsEquals acls specs = (eq, specs')" for acls specs specs' eq
    using aclsEquals_effect [of acls specs] that by simp
  with assms show ?thesis
    by (auto simp: reconcileACLs_def Let_def makeACLPrefix_def resource_call_def
        intro!: all_calls.emits_intros split: option.split prod.split) blast
qed

lemma reconcile_port_runs:
  assumes plan: "planned l lb service ips pre fops bops" and tips: "mset (elems tips) = targets"
  shows "runs (\<lambda>t. mset (elems t) = targets) (all_calls (resource_call l lb service nodes targets pre))
    (reconcile_port (l_sdk l) (l_api l) lb service nodes fops bops port tips)"
  unfolding reconcile_port_def
  by (rule all_calls.runs_bind [OF port_backend_runs [OF plan tips]],
      rule all_calls.runs_bind [OF port_servers_runs [OF tips]], assumption,
      rule all_calls.runs_bind [OF port_frontend_runs [OF plan]], assumption,
      rule all_calls.runs_bind [OF reconcileACLs_emits [unfolded emits_iff_runs]], assumption,
      rule all_calls.runs_ret)

lemma update_settings_emits:
  "emits (all_calls (update_may l lb service nodes False)) (update_settings l lb service)"
proof -
  let ?P = "all_calls (update_may l lb service nodes False)"
  have migrate: "runs (\<lambda>_. True) ?P
      (if b then bindA (wrapA w (invoke reply (MigrateLB (lb_Zone lb) (lb_ID lb) (getLoadBalancerType service)))) (\<lambda>_. retA ())
       else retA ())" for b w and reply :: "hist \<Rightarrow> call \<Rightarrow> api_error + LB"
    unfolding emits_iff_runs [symmetric] by (auto intro!: all_calls.emits_intros simp: update_may_def)
  have level: "runs (\<lambda>level. getSSLCompatibilityLevel (l_sdk l) service = Inr level) ?P
      (liftA (rwrap w (getSSLCompatibilityLevel (l_sdk l) service)))" for w
    by (rule all_calls.runs_lift) simp
  show ?thesis
    unfolding update_settings_def Let_def emits_iff_runs
    by (rule all_calls.runs_bind [OF migrate], rule all_calls.runs_bind [OF level])
      (auto simp: update_may_def intro!: all_calls.emits_intros [unfolded emits_iff_runs])
qed

text \<open>
  The part of the update that follows the two listings.
\<close>

definition apply_plans ::
  "loadbalancers \<Rightarrow> LB \<Rightarrow> Service \<Rightarrow> Node list \<Rightarrow> bool \<Rightarrow> string slice \<Rightarrow> Frontend ops \<Rightarrow> Backend ops \<Rightarrow> unit act" where
  "apply_plans l lb service nodes ext tips fops bops =
     bindA (remove_frontends (l_api l) lb (ops_remove fops)) (\<lambda>_.
     bindA (foldA (reconcile_port (l_sdk l) (l_api l) lb service nodes fops bops) (svc_Ports service) tips) (\<lambda>_.
     bindA (remove_backends (l_api l) lb (ops_remove bops)) (\<lambda>_.
     if \<not> ext then update_settings l lb service else retA ())))"

lemma updateLoadBalancer_eq:
  "updateLoadBalancer l now M lb service nodes0 =
     (if svc_DeletionTimestamp service \<noteq> None then retA ()
      else
        bindA (liftA (rwrap (\<lambda>e. Errorf ''invalid value for annotation %s: expected boolean'' None)
                 (svcExternallyManaged service))) (\<lambda>ext.
        let nodes = filterNodes service nodes0 in
        case nodesInitialized now nodes (useInternalIPs l service) of
          Some e \<Rightarrow> failA e
        | None \<Rightarrow>
        bindA (wrapA (\<lambda>e. Errorf ''failed to attach private networks: %w'' (Some e))
                 (attachPrivateNetworks l M lb service ext)) (\<lambda>_.
        bindA (wrapA (\<lambda>e. Errorf ''error listing frontends for load balancer %s: %v'' None)
                 (invoke (api_ListFrontends (l_api l)) (ListFrontends (lb_Zone lb) (lb_ID lb) None))) (\<lambda>gotf.
        bindA (wrapA (\<lambda>e. Errorf ''error listing backend for load balancer %s: %v'' None)
                 (invoke (api_ListBackends (l_api l)) (ListBackends (lb_Zone lb) (lb_ID lb) None))) (\<lambda>gotb.
        bindA (liftA (rwrap (\<lambda>e. Errorf ''failed to convert service to frontend and backends on loadbalancer %s: %v'' None)
                 (serviceToLB (l_sdk l) service lb (target_ips l service nodes)))) (\<lambda>(fs, bs).
        apply_plans l lb service nodes ext (target_ips l service nodes)
          (compareFrontends gotf fs (prefix_filter service ext))
          (compareBackends (l_sdk l) gotb bs (prefix_filter service ext))))))))"
  unfolding updateLoadBalancer_def apply_plans_def Let_def ..

lemma apply_plans_emits:
  assumes "planned l lb service ips (prefix_filter service ext) fops bops"
    and "mset (elems tips) = mset (elems (target_ips l service (filterNodes service nodes0)))"
  shows "emits (all_calls (update_may l lb service nodes0 ext)) (apply_plans l lb service (filterNodes service nodes0) ext tips fops bops)"
proof -
  let ?T = "mset (elems (target_ips l service (filterNodes service nodes0)))"
  let ?R = "resource_call l lb service (filterNodes service nodes0) ?T (prefix_filter service ext)"
  have may: "?R c \<Longrightarrow> update_may l lb service nodes0 ext c" for c by (simp add: update_may_def prefix_filter_def)
  have ports: "emits (all_calls ?R)
      (foldA (reconcile_port (l_sdk l) (l_api l) lb service (filterNodes service nodes0) fops bops) (svc_Ports service) tips)"
    using reconcile_port_runs [OF assms(1)] assms(2)
    by (intro runs_emits [OF all_calls.runs_fold [of _ "\<lambda>t. mset (elems t) = ?T"]]) blast+
  have settings: "emits (all_calls (update_may l lb service nodes0 ext))
      (if \<not> ext then update_settings l lb service else retA ())"
    using update_settings_emits by (cases ext) (simp_all add: all_calls.emits_ret)
  have steps: "emits (all_calls (update_may l lb service nodes0 ext)) (remove_frontends (l_api l) lb (ops_remove fops))"
    "emits (all_calls (update_may l lb service nodes0 ext)) (remove_backends (l_api l) lb (ops_remove bops))"
    "emits (all_calls (update_may l lb service nodes0 ext))
      (foldA (reconcile_port (l_sdk l) (l_api l) lb service (filterNodes service nodes0) fops bops) (svc_Ports service) tips)"
    by (rule emits_calls_mono [OF remove_emits(1) [OF assms(1)]], erule may)
      (rule emits_calls_mono [OF remove_emits(2) [OF assms(1)]], erule may,
        rule emits_calls_mono [OF ports], erule may)
  show ?thesis
    unfolding apply_plans_def
    by (rule all_calls.emits_bind [OF steps(1)], rule all_calls.emits_bind [OF steps(3)],
        rule all_calls.emits_bind [OF steps(2)], rule settings)
qed

lemma updateLoadBalancer_emits:
  assumes "svcExternallyManaged service = Inr ext"
  shows "emits (all_calls (update_may l lb service nodes ext)) (updateLoadBalancer l now M lb service nodes)"
proof -
  let ?P = "all_calls (update_may l lb service nodes ext)"
  let ?tips = "target_ips l service (filterNodes service nodes)"
  let ?LF = "ListFrontends (lb_Zone lb) (lb_ID lb) None" and ?LB = "ListBackends (lb_Zone lb) (lb_ID lb) None"
  have "emits ?P (attachPrivateNetworks l M lb service ext)"
    by (rule emits_calls_mono [OF attachPrivateNetworks_emits]) (simp add: update_may_def)
  then have pn: "runs (\<lambda>_. True) ?P (wrapA w (attachPrivateNetworks l M lb service ext))" for w
    by (intro all_calls.runs_wrap) (simp add: emits_iff_runs)
  have lf: "runs (\<lambda>x. \<exists>h. api_ListFrontends (l_api l) h ?LF = Inr x) ?P
      (wrapA w (invoke (api_ListFrontends (l_api l)) ?LF))" for w
    by (intro all_calls.runs_leaves) (auto simp: update_may_def)
  have lb: "runs (\<lambda>x. \<exists>h. api_ListBackends (l_api l) h ?LB = Inr x) ?P
      (wrapA w (invoke (api_ListBackends (l_api l)) ?LB))" for w
    by (intro all_calls.runs_leaves) (auto simp: update_may_def)
  have conv: "runs (\<lambda>r. serviceToLB (l_sdk l) service lb ?tips = Inr r) ?P
      (liftA (rwrap w (serviceToLB (l_sdk l) service lb ?tips)))" for w
    by (intro all_calls.runs_lift) simp
  have plans: "runs (\<lambda>_. True) ?P (apply_plans l lb service (filterNodes service nodes) ext ?tips
      (compareFrontends gotf fs (prefix_filter service ext))
      (compareBackends (l_sdk l) gotb bs (prefix_filter service ext)))"
    if "\<exists>h. api_ListFrontends (l_api l) h ?LF = Inr gotf" "\<exists>h. api_ListBackends (l_api l) h ?LB = Inr gotb"
      "serviceToLB (l_sdk l) service lb ?tips = Inr (fs, bs)" for gotf gotb fs bs
    unfolding emits_iff_runs [symmetric]
    by (rule apply_plans_emits [of _ _ _ ?tips]) (use that in \<open>auto simp: planned_def\<close>)
  show ?thesis
    unfolding updateLoadBalancer_eq emits_iff_runs assms Let_def
    by (auto intro!: all_calls.runs_ret all_calls.runs_fail all_calls.runs_bind [OF pn]
        all_calls.runs_bind [OF lf] all_calls.runs_bind [OF lb] all_calls.runs_bind [OF conv] plans
        split: option.split)
qed

section \<open>The order of the calls\<close>

definition update_phase :: "call \<Rightarrow> nat" where
  "update_phase c = (case c of
      ListLBPrivateNetworks z i \<Rightarrow> 0
    | DetachPrivateNetwork z i pn \<Rightarrow> 0
    | AttachPrivateNetwork z i pn ips \<Rightarrow> 0
    | IPAM_ListNetworkIPs r pn ids \<Rightarrow> 0
    | ListFrontends z i n \<Rightarrow> 1
    | ListBackends z i n \<Rightarrow> 2
    | DeleteFrontend z i \<Rightarrow> 3
    | DeleteBackend z i \<Rightarrow> 5
    | MigrateLB z i t \<Rightarrow> 6
    | UpdateLB r \<Rightarrow> 7
    | _ \<Rightarrow> 4)"

lemma pn_phase: "emits (phases update_phase 0 0) (attachPrivateNetworks l M lb service ext)"
  by (rule emits_phase_one, rule emits_calls_mono [OF attachPrivateNetworks_emits])
    (auto simp: pn_call_def update_phase_def split: call.splits)

lemma remove_phase:
  "emits (phases update_phase 3 3) (remove_frontends A lb fs)"
  "emits (phases update_phase 5 5) (remove_backends A lb bs)"
  by (auto simp: remove_frontends_def remove_backends_def update_phase_def
      intro!: emits_phase_one all_calls.emits_intros)

lemma reconcile_port_phase:
  "emits (all_calls (\<lambda>c. update_phase c = 4)) (reconcile_port X A lb service nodes fops bops port tips)"
proof -
  let ?P = "all_calls (\<lambda>c. update_phase c = 4)"
  have "emits ?P (port_backend A lb bops port tips)"
    unfolding port_backend_def updateBackend_def createBackend_def
    by (auto intro!: all_calls.emits_intros split: option.split simp: update_phase_def)
  moreover have "emits ?P (port_servers A lb b tips)" for b
    by (auto simp: port_servers_def update_phase_def intro!: all_calls.emits_intros split: prod.split)
  moreover have "emits ?P (port_frontend A lb fops port b)" for b
    unfolding port_frontend_def updateFrontend_def createFrontend_def
    by (auto intro!: all_calls.emits_intros split: option.split simp: update_phase_def)
  moreover have "emits ?P (reconcileACLs X A lb f service nodes)" for f
    by (auto simp: reconcileACLs_def Let_def update_phase_def
        intro!: all_calls.emits_intros split: option.split prod.split)
  ultimately show ?thesis
    unfolding reconcile_port_def by (intro all_calls.emits_bind all_calls.emits_ret)
qed

lemma update_settings_phase: "emits (phases update_phase 6 7) (update_settings l lb service)"
proof -
  have migrate: "emits (phases update_phase 6 6)
      (if b then bindA (wrapA w (invoke reply (MigrateLB z i t))) (\<lambda>_. retA ()) else retA ())"
    for b w t z i and reply :: "hist \<Rightarrow> call \<Rightarrow> api_error + LB"
    by (auto intro!: emits_phase_one all_calls.emits_intros simp: update_phase_def)
  have update: "emits (phases update_phase 7 7)
      (if b then bindA (wrapA w (invoke reply (UpdateLB r))) (\<lambda>_. retA ()) else retA ())"
    for b w r and reply :: "hist \<Rightarrow> call \<Rightarrow> api_error + LB"
    by (auto intro!: emits_phase_one all_calls.emits_intros simp: update_phase_def)
  show ?thesis
    unfolding update_settings_def Let_def
    by (rule emits_phase_bind [OF migrate], rule emits_phase_bind [OF emits_phase_leaves(3) [of _ 7 7]],
        rule update) simp_all
qed

lemma apply_plans_phase: "emits (phases update_phase 3 7) (apply_plans l lb service nodes ext tips fops bops)"
proof -
  have ports: "emits (phases update_phase 4 4) (foldA (reconcile_port X A lb service nodes fops bops) ps s)"
    for X A ps s
    by (intro emits_phase_one all_calls.emits_fold reconcile_port_phase)
  have settings: "emits (phases update_phase 6 7) (if \<not> ext then update_settings l lb service else retA ())"
    using update_settings_phase by (simp add: emits_phase_leaves)
  show ?thesis
    unfolding apply_plans_def
    by (rule emits_phase_bind [OF remove_phase(1)], rule emits_phase_bind [OF ports],
        rule emits_phase_bind [OF remove_phase(2)], rule settings) simp_all
qed

lemma updateLoadBalancer_phase: "emits (phases update_phase 0 7) (updateLoadBalancer l now M lb service nodes)"
proof -
  let ?LF = "ListFrontends (lb_Zone lb) (lb_ID lb) None" and ?LB = "ListBackends (lb_Zone lb) (lb_ID lb) None"
  have listings: "emits (phases update_phase 1 7)
    (bindA (wrapA w (invoke (api_ListFrontends A) ?LF)) (\<lambda>gotf.
     bindA (wrapA w' (invoke (api_ListBackends A) ?LB)) (\<lambda>gotb.
     bindA (liftA r) (\<lambda>(fs, bs). apply_plans l lb service nodes ext tips (fops gotf fs) (bops gotb bs)))))"
    for w w' A nodes ext tips fops bops
      and r :: "err + (int32, Frontend) gomap \<times> (int32, Backend) gomap"
  proof -
    have lf: "emits (phases update_phase 1 1) (wrapA w (invoke (api_ListFrontends A) ?LF))"
      and lb: "emits (phases update_phase 2 2) (wrapA w' (invoke (api_ListBackends A) ?LB))"
      by (intro emits_phase_wrap emits_phase_invoke; simp add: update_phase_def)+
    have plans: "emits (phases update_phase 3 7) (case p of (fs, bs) \<Rightarrow>
        apply_plans l lb service nodes ext tips (fops gotf fs) (bops gotb bs))" for p gotf gotb
      by (cases p) (simp add: apply_plans_phase)
    show ?thesis
      by (rule emits_phase_bind [OF lf], rule emits_phase_bind [OF lb],
          rule emits_phase_bind [OF emits_phase_leaves(3) [of _ 3 3]], rule plans) simp_all
  qed
  show ?thesis
    unfolding updateLoadBalancer_eq Let_def
    by (auto intro!: emits_phase_leaves emits_phase_bind [OF emits_phase_leaves(3) [of _ 0 0]]
        emits_phase_bind [OF emits_phase_wrap [OF pn_phase]] listings split: option.split)
qed

section \<open>Success\<close>

lemma attachPrivateNetworks_strict: "strict (attachPrivateNetworks l M lb service ext)"
  unfolding attachPrivateNetworks_def pn_mark_def pn_query_def pn_attach_def Let_def
  by (auto intro!: strict_intros split: option.split prod.split)

lemma reconcile_port_strict: "strict (reconcile_port X A lb service nodes fops bops port tips)"
proof -
  have "strict (port_backend A lb bops port tips)"
    unfolding port_backend_def updateBackend_def createBackend_def
    by (auto intro!: strict_intros split: option.split)
  moreover have "strict (port_servers A lb b tips)" for b
    by (auto simp: port_servers_def intro!: strict_intros split: prod.split)
  moreover have "strict (port_frontend A lb fops port b)" for b
    unfolding port_frontend_def updateFrontend_def createFrontend_def
    by (auto intro!: strict_intros split: option.split)
  moreover have "strict (reconcileACLs X A lb f service nodes)" for f
    by (auto simp: reconcileACLs_def Let_def intro!: strict_intros split: option.split prod.split)
  ultimately show ?thesis
    unfolding reconcile_port_def by (intro strict_bind strict_leaves(1))
qed

lemma apply_plans_strict: "strict (apply_plans l lb service nodes ext tips fops bops)"
  unfolding apply_plans_def remove_frontends_def remove_backends_def update_settings_def Let_def
  by (auto intro!: strict_intros reconcile_port_strict)

lemma updateLoadBalancer_strict: "strict (updateLoadBalancer l now M lb service nodes)"
  unfolding updateLoadBalancer_eq Let_def
  by (auto intro!: strict_intros attachPrivateNetworks_strict apply_plans_strict
      split: option.split prod.split)

section \<open>Ports that are skipped\<close>

text \<open>Programs that never return a value.\<close>

interpretation any_calls: trace_language "\<lambda>_. True"
  by unfold_locales simp_all

abbreviation never :: "'a act \<Rightarrow> bool" where
  "never m \<equiv> runs (\<lambda>_. False) (\<lambda>_. True) m"

abbreviation appends :: "'a act \<Rightarrow> bool" where
  "appends m \<equiv> runs (\<lambda>_. True) (\<lambda>_. True) m"

lemma appends_if_emits: "emits L m \<Longrightarrow> appends m"
  unfolding emits_iff_runs by (erule runs_mono) simp_all

lemma never_bind: "never m \<Longrightarrow> never (bindA m f)"
  by (rule any_calls.runs_bind [of "\<lambda>_. False"]) simp_all

lemma never_fold:
  assumes "x \<in> set xs" "\<And>s. never (f x s)" "\<And>y s. appends (f y s)"
  shows "never (foldA f xs s)"
  using assms(1)
proof (induction xs arbitrary: s)
  case (Cons y ys)
  show ?case
  proof (cases "x = y")
    case True
    then show ?thesis using assms(2) by (simp add: never_bind)
  next
    case False
    with Cons show ?thesis
      by (auto intro!: any_calls.runs_bind [OF assms(3)])
  qed
qed simp

lemma compareBackends_unwanted:
  assumes "wf_want be_ForwardPort want" "map_of want p = None"
  shows "map_of (ops_update (compareBackends X got want pre)) p = None"
    "map_of (ops_create (compareBackends X got want pre)) p = None"
    "map_of (ops_keep (compareBackends X got want pre)) p = None"
  using bdiff.diff_spec(1-3) [OF assms(1), where X = X and pre = pre and got = got and p = p] assms(2)
  by (simp_all add: compareBackends_def Let_def diff_specs split: option.split)

lemma reconcile_port_unwanted:
  assumes "wf_want be_ForwardPort bs" "map_of bs (port_NodePort port) = None"
  shows "never (reconcile_port X A lb service nodes fops (compareBackends X gotb bs pre) port tips)"
  using compareBackends_unwanted [OF assms]
  by (simp add: reconcile_port_def port_backend_def any_calls.runs_fail)

lemma apply_plans_unwanted:
  assumes "wf_want be_ForwardPort bs" "map_of bs (port_NodePort port) = None" "port \<in> set (svc_Ports service)"
  shows "never (apply_plans l lb service nodes ext tips fops (compareBackends (l_sdk l) gotb bs pre))"
  unfolding apply_plans_def
  by (rule any_calls.runs_bind [OF appends_if_emits [OF remove_phase(1)]], rule never_bind,
      rule never_fold [OF assms(3)], rule reconcile_port_unwanted [OF assms(1,2)],
      rule appends_if_emits [OF reconcile_port_phase])

lemma updateLoadBalancer_unwanted:
  assumes "port \<in> set (svc_Ports service)" "port_NodePort port \<notin> port_NodePort ` set (tcp_ports service)"
    and "svc_DeletionTimestamp service = None"
  shows "never (updateLoadBalancer l now M lb service nodes)"
proof -
  let ?tips = "target_ips l service (filterNodes service nodes)"
  have conv: "runs (\<lambda>r. serviceToLB (l_sdk l) service lb ?tips = Inr r) (\<lambda>_. True)
      (liftA (rwrap w (serviceToLB (l_sdk l) service lb ?tips)))" for w
    by (intro any_calls.runs_lift) simp
  have plans: "never (apply_plans l lb service (filterNodes service nodes) ext ?tips fops
      (compareBackends (l_sdk l) gotb bs pre))"
    if "serviceToLB (l_sdk l) service lb ?tips = Inr (fs, bs)" for fs bs gotb ext fops pre
  proof (rule apply_plans_unwanted [OF serviceToLB_Inr(2) [OF that] _ assms(1)])
    show "map_of bs (port_NodePort port) = None"
      using serviceToLB_Inr(6) [OF that] assms(2) by (simp add: last_with_None)
  qed
  have step: "appends (wrapA w (attachPrivateNetworks l M lb service ext))"
    "appends (wrapA w (invoke reply c))" for w ext c and reply :: "hist \<Rightarrow> call \<Rightarrow> api_error + 'z"
    by (intro appends_if_emits [OF emits_phase_wrap [OF pn_phase]] any_calls.runs_leaves; simp)+
  show ?thesis
    unfolding updateLoadBalancer_eq Let_def
    using assms(3)
    by (auto intro!: any_calls.runs_bind [OF step(1)] any_calls.runs_bind [OF step(2)]
        any_calls.runs_bind [OF conv] any_calls.runs_bind [of "\<lambda>_. True" "liftA _"]
        any_calls.runs_fail any_calls.runs_lift plans split: option.split)
qed

section \<open>Properties\<close>

text \<open>
  C23: a service that is not being deleted and has a port whose node port is not the node port of
  any of its TCP ports is never updated successfully: the conversion skips the port, and the
  reconciliation of the ports then finds no backend for it.
\<close>

theorem updateLoadBalancer_skipped_port:
  assumes "port \<in> set (svc_Ports service)" "port_NodePort port \<notin> port_NodePort ` set (tcp_ports service)"
    and "svc_DeletionTimestamp service = None"
  shows "post (updateLoadBalancer l now M lb service nodes) h (\<lambda>r es. isl r)"
proof (rule post_mono [OF runs_post [OF updateLoadBalancer_unwanted [OF assms]]])
  show "isl r" if "True \<and> (\<forall>x. r = Inr x \<longrightarrow> False)" for r :: "err + unit"
    using that by (cases r) simp_all
qed

theorem updateLoadBalancer_skipped_port_witness:
  "post (updateLoadBalancer sample_controller 0 sample_order sample_lb udp_service []) []
     (\<lambda>r es. isl r)"
  by (rule updateLoadBalancer_skipped_port
      [of "\<lparr>port_Protocol = ''UDP'', port_Port = 53, port_NodePort = 30053\<rparr>"])
    (simp_all add: udp_service_def sample_service_def tcp_ports_def v1_ProtocolTCP_def)

text \<open>
  C3: the calls of an update come in a fixed order: private networks, then the listing of
  frontends and of backends, then the removal of frontends, then the reconciliation of the
  ports, then the removal of backends (which no frontend uses any more), then the migration and
  the settings of the load balancer.
\<close>

theorem updateLoadBalancer_order:
  "post (updateLoadBalancer l now M lb service nodes) h
    (\<lambda>r es. sorted (map (update_phase \<circ> fst) es))"
  by (rule post_mono [OF emits_post [OF updateLoadBalancer_phase]]) (simp add: phases_def)

text \<open>
  C22: an update reports success only when every call that it made succeeded.
\<close>

theorem updateLoadBalancer_success:
  "post (updateLoadBalancer l now M lb service nodes) h
    (\<lambda>r es. isl r \<or> list_all (\<lambda>e. snd e = None) es)"
  using updateLoadBalancer_strict [of l now M lb service nodes] by (simp add: strict_def)

text \<open>
  C2: every call that an update makes is one that it may make.  It is about this load balancer, in
  its zone: deleted and updated frontends and backends were listed on it, with the prefix of the
  service when it is externally managed; created ones are created on it and carry the prefix of
  the service; servers are set on a backend, and rules listed and set on a frontend, that was
  listed in this way or is the answer to such a creation or update; every created or updated
  frontend is given such a backend; the servers are the target addresses and the rules the wanted
  ones.  A load balancer that is not externally managed is migrated only to the configured type
  and keeps its name, description and tags when its settings change; an externally managed one is
  neither migrated nor reconfigured, and only the controller's private network is detached from it.
  Nothing else is called.
\<close>

theorem updateLoadBalancer_calls:
  assumes "svcExternallyManaged service = Inr ext"
  shows "post (updateLoadBalancer l now M lb service nodes) h
    (\<lambda>r es. all_calls (update_may l lb service nodes ext) es)"
  by (rule emits_post [OF updateLoadBalancer_emits [OF assms]])

theorem updateLoadBalancer_calls_witness:
  "post (updateLoadBalancer sample_controller 0 sample_order sample_lb external_service []) []
     (\<lambda>r es. all_calls (update_may sample_controller sample_lb external_service [] True) es)"
  by (rule updateLoadBalancer_calls [OF external_service_flag])

end
