(* ===== verification/LifecycleLaws.thy ===== *)
theory LifecycleLaws
  imports ReconcileLaws
begin

text \<open>
  What the operations of the service controller's interface may do to load balancers: when one
  is created or deleted and with which arguments, what is never done to an externally managed
  one, and what a successful result says.
\<close>

section \<open>Finding\<close>

text \<open>The load balancers that \<open>fetchLoadBalancer\<close> may return for a service.\<close>

definition fetched :: "loadbalancers \<Rightarrow> Service \<Rightarrow> LB \<Rightarrow> bool" where
  "fetched l service lb \<longleftrightarrow>
     (\<exists>h zone i. getLoadBalancerID (l_sdk l) service = Inr (zone, i) \<and> i \<noteq> ''''
        \<and> api_GetLB (l_api l) h (GetLB zone i) = Inr lb)
   \<or> (\<exists>h lbs. api_ListLBs (l_api l) h
          (ListLBs (getLoadBalancerZone service) (GetLoadBalancerName (l_env l) service)) = Inr lbs
        \<and> filter (\<lambda>b. lb_Name b = GetLoadBalancerName (l_env l) service) lbs = [lb])"

lemma lb_by_name_eq:
  "lb_by_name name lbs acc =
     (case filter (\<lambda>b. lb_Name b = name) lbs of
        [] \<Rightarrow> Inr acc
      | [b] \<Rightarrow> if acc = None then Inr (Some b) else Inl LoadBalancerDuplicated
      | _ \<Rightarrow> Inl LoadBalancerDuplicated)"
  by (induction name lbs acc rule: lb_by_name.induct) (auto split: list.splits)

text \<open>The calls made while finding: two reads and the patch of the annotation.\<close>

definition fetch_call :: "Service \<Rightarrow> call \<Rightarrow> bool" where
  "fetch_call service c = (case c of
      GetLB z i \<Rightarrow> True
    | ListLBs z n \<Rightarrow> True
    | PatchService ns n p \<Rightarrow> ns = svc_Namespace service \<and> n = svc_Name service
    | _ \<Rightarrow> False)"

lemma annotate_emits: "emits (all_calls (fetch_call service)) (annotateAndPatch l service lb)"
  unfolding annotateAndPatch_def Let_def
  by (rule Patch_emits) (auto simp: NewServicePatcher_def is_patch_of_def fetch_call_def)

lemma unannotate_emits: "emits (all_calls (fetch_call service)) (unannotateAndPatch l service)"
  unfolding unannotateAndPatch_def Let_def
  by (rule Patch_emits) (auto simp: NewServicePatcher_def is_patch_of_def fetch_call_def)

lemma getLoadbalancerByName_runs:
  "runs (fetched l service) (all_calls (fetch_call service)) (getLoadbalancerByName l service)"
proof -
  let ?name = "GetLoadBalancerName (l_env l) service"
  have listing: "runs (\<lambda>lbs. \<exists>h. api_ListLBs (l_api l) h (ListLBs (getLoadBalancerZone service) ?name) = Inr lbs)
      (all_calls (fetch_call service))
      (invoke (api_ListLBs (l_api l)) (ListLBs (getLoadBalancerZone service) ?name))"
    by (rule all_calls.runs_invoke) (auto simp: fetch_call_def)
  have find: "runs (\<lambda>r. \<forall>lb. r = Some lb \<longrightarrow> filter (\<lambda>b. lb_Name b = ?name) lbs = [lb])
      (all_calls (fetch_call service)) (liftA (lb_by_name ?name lbs None))" for lbs
    by (rule all_calls.runs_lift) (auto simp: lb_by_name_eq split: list.splits)
  show ?thesis
    unfolding getLoadbalancerByName_def Let_def
    by (rule all_calls.runs_bind [OF listing], rule all_calls.runs_bind [OF find])
      (auto simp: fetched_def split: option.split
        intro!: all_calls.runs_fail all_calls.runs_bind [OF annotate_emits [unfolded emits_iff_runs]]
          all_calls.runs_ret)
qed

lemma fetch_runs: "runs (fetched l service) (all_calls (fetch_call service)) (fetchLoadBalancer l service)"
proof -
  have ids: "runs (\<lambda>r. snd r \<noteq> '''' \<longrightarrow> getLoadBalancerID (l_sdk l) service = Inr r)
      (all_calls (fetch_call service)) (liftA (lb_id_or_empty (l_sdk l) service))"
    by (rule all_calls.runs_lift) (auto simp: lb_id_or_empty_def split: sum.splits if_splits)
  have get: "runs (fetched l service) (all_calls (fetch_call service))
      (invoke (api_GetLB (l_api l)) (GetLB zone i))"
    if "getLoadBalancerID (l_sdk l) service = Inr (zone, i)" "i \<noteq> ''''" for zone i
    using that by (intro all_calls.runs_invoke) (auto simp: fetch_call_def fetched_def)
  show ?thesis
    unfolding fetchLoadBalancer_def
    by (rule all_calls.runs_bind [of "\<lambda>_. True"], rule all_calls.runs_lift, rule TrueI,
        rule all_calls.runs_bind [OF ids])
      (auto split: prod.split
        intro!: all_calls.runs_fail all_calls.runs_ret all_calls.runs_catch [OF get]
          getLoadbalancerByName_runs)
qed

section \<open>Creating and deleting\<close>

text \<open>
  The arguments with which a service has a load balancer created: its own name, the tags of
  the environment and of the controller, and either given addresses or flexible ones.
\<close>

definition create_request_ok :: "loadbalancers \<Rightarrow> Service \<Rightarrow> CreateLBRequest \<Rightarrow> bool" where
  "create_request_ok l service r \<longleftrightarrow>
     clb_Name r = GetLoadBalancerName (l_env l) service
   \<and> clb_Zone r = getLoadBalancerZone service
   \<and> last (clb_Tags r) = ''managed-by-scaleway-cloud-controller-manager''
   \<and> svcExternallyManaged service = Inr False
   \<and> (case svcPrivate service of
        Inl e \<Rightarrow> False
      | Inr True \<Rightarrow> clb_IPIDs r = [] \<and> clb_AssignFlexibleIP r = Some False \<and> clb_AssignFlexibleIPv6 r = Some False
      | Inr False \<Rightarrow>
          if clb_IPIDs r = [] then hasLoadBalancerStaticIPs service = False \<and> clb_AssignFlexibleIP r = Some True
          else hasLoadBalancerStaticIPs service \<and> clb_AssignFlexibleIP r = Some False
            \<and> clb_AssignFlexibleIPv6 r = Some False)"

text \<open>
  A load balancer of the service: one that was found for it (the annotated one, or the only one
  listed under its name), or the answer to a creation in its name.
\<close>

definition own_lb :: "loadbalancers \<Rightarrow> Service \<Rightarrow> LB \<Rightarrow> bool" where
  "own_lb l service lb \<longleftrightarrow> fetched l service lb
     \<or> (\<exists>h r. api_CreateLB (l_api l) h (CreateLB r) = Inr lb \<and> create_request_ok l service r)"

definition lifecycle_call :: "loadbalancers \<Rightarrow> Service \<Rightarrow> call \<Rightarrow> bool" where
  "lifecycle_call l service c = (fetch_call service c \<or> (case c of
      LB_ListIPs z ip \<Rightarrow> z = getLoadBalancerZone service \<and> ip = svc_LoadBalancerIP service
    | CreateLB r \<Rightarrow> create_request_ok l service r
    | DeleteLB z i release \<Rightarrow>
        release = (\<not> hasLoadBalancerStaticIPs service) \<and> svcExternallyManaged service = Inr False
        \<and> (\<exists>lb. own_lb l service lb
             \<and> z = lb_Zone lb \<and> i = lb_ID lb \<and> lb_Name lb = GetLoadBalancerName (l_env l) service)
    | _ \<Rightarrow> False))"

lemma flexible_types: "getFlexibleIPTypes service = Inr (v4, v6) \<Longrightarrow> v4"
  by (auto simp: getFlexibleIPTypes_def Let_def rbind_Inr_iff split: if_splits)

lemma static_ids_runs:
  "runs (\<lambda>ids. ids = [] \<longleftrightarrow> \<not> hasLoadBalancerStaticIPs service) (all_calls (lifecycle_call l service))
     (getLoadBalancerStaticIPIDs l service)"
  unfolding getLoadBalancerStaticIPIDs_def
  by (auto simp: lifecycle_call_def hasLoadBalancerStaticIPs_def split: list.split
      intro!: all_calls.runs_ret all_calls.runs_fail all_calls.runs_bind [of "\<lambda>_. True"]
        all_calls.runs_wrap all_calls.runs_invoke)

lemma lb_addresses_runs:
  "runs (\<lambda>(ids, v4, v6). if lbPrivate then ids = [] \<and> \<not> v4 \<and> \<not> v6
      else if ids = [] then \<not> hasLoadBalancerStaticIPs service \<and> v4
      else hasLoadBalancerStaticIPs service \<and> \<not> v4 \<and> \<not> v6)
    (all_calls (lifecycle_call l service)) (lb_addresses l service lbPrivate)"
proof (cases lbPrivate)
  case True
  then show ?thesis by (simp add: lb_addresses_def all_calls.runs_ret)
next
  case False
  have flex: "runs (\<lambda>(v4, v6). v4) (all_calls (lifecycle_call l service))
      (liftA (rwrap w (getFlexibleIPTypes service)))" for w
    by (rule all_calls.runs_lift) (auto dest: flexible_types)
  show ?thesis
    using False unfolding lb_addresses_def
    by (auto intro!: all_calls.runs_bind [OF static_ids_runs] all_calls.runs_bind [OF flex]
        all_calls.runs_ret)
qed

lemma fetch_is_lifecycle: "fetch_call service c \<Longrightarrow> lifecycle_call l service c"
  by (simp add: lifecycle_call_def)

lemma createLoadBalancer_runs:
  "runs (own_lb l service) (all_calls (lifecycle_call l service)) (createLoadBalancer l service)"
proof -
  let ?P = "all_calls (lifecycle_call l service)"
  have ext: "runs (\<lambda>b. svcExternallyManaged service = Inr b) ?P (liftA (rwrap w (svcExternallyManaged service)))"
    and priv: "runs (\<lambda>b. svcPrivate service = Inr b) ?P (liftA (rwrap w (svcPrivate service)))"
    and any: "runs (\<lambda>_. True) ?P (liftA r)" for w and r :: "err + string"
    by (rule all_calls.runs_lift; simp)+
  have anno: "runs (\<lambda>_. True) ?P (annotateAndPatch l service lb)" for lb
    using emits_calls_mono [OF annotate_emits fetch_is_lifecycle] by (simp add: emits_iff_runs)
  have create: "runs (own_lb l service) ?P
      (wrapA w (invoke (api_CreateLB (l_api l)) (CreateLB r)))"
    if "create_request_ok l service r" for w r
    using that by (intro all_calls.runs_wrap all_calls.runs_invoke) (auto simp: lifecycle_call_def own_lb_def)
  show ?thesis
    unfolding createLoadBalancer_def
    by (rule all_calls.runs_bind [OF ext])
      (auto intro!: all_calls.runs_fail all_calls.runs_bind [OF priv] all_calls.runs_bind [OF any]
        all_calls.runs_bind [OF lb_addresses_runs] all_calls.runs_bind [OF create]
        all_calls.runs_bind [OF anno] all_calls.runs_ret
        simp: create_request_ok_def lb_tags_def Let_def split: if_splits bool.split)
qed

lemma deleteLoadBalancer_emits:
  assumes "svcExternallyManaged service = Inr False"
    and "own_lb l service lb"
  shows "emits (all_calls (lifecycle_call l service)) (deleteLoadBalancer l lb service)"
proof -
  have patch: "emits (all_calls (lifecycle_call l service)) (unannotateAndPatch l service)"
    by (rule emits_calls_mono [OF unannotate_emits fetch_is_lifecycle])
  have "lifecycle_call l service (DeleteLB (lb_Zone lb) (lb_ID lb) (\<not> hasLoadBalancerStaticIPs service))"
    if "lb_Name lb = GetLoadBalancerName (l_env l) service"
    using assms that by (auto simp: lifecycle_call_def)
  then have "emits (all_calls (lifecycle_call l service))
      (if lb_Name lb \<noteq> GetLoadBalancerName (l_env l) service then retA ()
       else wrapA w (invoke reply (DeleteLB (lb_Zone lb) (lb_ID lb) (\<not> hasLoadBalancerStaticIPs service))))"
    for w and reply :: "hist \<Rightarrow> call \<Rightarrow> api_error + unit"
    by (simp add: all_calls.emits_ret all_calls.emits_wrap all_calls.emits_invoke)
  then show ?thesis
    unfolding deleteLoadBalancer_def by (intro all_calls.emits_bind patch)
qed

section \<open>Safety of the interface\<close>

text \<open>
  The frontends and backends of the service on a load balancer, for a service that is externally
  managed only those with its prefix: listed with that prefix, or with the name filter for it, or
  the answers to creations and updates.
\<close>

definition owned_prefix :: "Service \<Rightarrow> string" where
  "owned_prefix service = (if svcExternallyManaged service = Inr False then '''' else svc_UID service @ ''_'')"

definition owned_frontend :: "loadbalancers \<Rightarrow> Service \<Rightarrow> LB \<Rightarrow> string \<Rightarrow> bool" where
  "owned_frontend l service lb i \<longleftrightarrow> own_frontend l lb service (owned_prefix service) i
     \<or> (\<exists>h fs f. api_ListFrontends (l_api l) h (ListFrontends (lb_Zone lb) (lb_ID lb) (Some (svc_UID service @ ''_''))) = Inr fs
          \<and> f \<in> set fs \<and> fe_ID f = i)"

definition owned_backend :: "loadbalancers \<Rightarrow> Service \<Rightarrow> LB \<Rightarrow> string \<Rightarrow> bool" where
  "owned_backend l service lb i \<longleftrightarrow> own_backend l lb service (owned_prefix service) i
     \<or> (\<exists>h bs b. api_ListBackends (l_api l) h (ListBackends (lb_Zone lb) (lb_ID lb) (Some (svc_UID service @ ''_''))) = Inr bs
          \<and> b \<in> set bs \<and> be_ID b = i)"

lemma owned_frontendI:
  "api_ListFrontends (l_api l) h (ListFrontends (lb_Zone lb) (lb_ID lb) (Some (svc_UID service @ ''_''))) = Inr fs \<Longrightarrow>
     f \<in> set fs \<Longrightarrow> owned_frontend l service lb (fe_ID f)"
  unfolding owned_frontend_def by blast

lemma owned_backendI:
  "api_ListBackends (l_api l) h (ListBackends (lb_Zone lb) (lb_ID lb) (Some (svc_UID service @ ''_''))) = Inr bs \<Longrightarrow>
     b \<in> set bs \<Longrightarrow> owned_backend l service lb (be_ID b)"
  unfolding owned_backend_def by blast

text \<open>
  What a call may do, given a load balancer of the service: every call that changes something
  is about that load balancer and its resources.  It is created and deleted in its own name,
  without releasing a static address; and, when it is externally managed, it is not created,
  deleted, migrated nor reconfigured, and no private network but the controller's is detached.
\<close>

definition safe_on :: "loadbalancers \<Rightarrow> Service \<Rightarrow> LB \<Rightarrow> call \<Rightarrow> bool" where
  "safe_on l service lb c = (case c of
      DeleteLB z i release \<Rightarrow> z = lb_Zone lb \<and> i = lb_ID lb
        \<and> release = (\<not> hasLoadBalancerStaticIPs service) \<and> svcExternallyManaged service = Inr False
        \<and> lb_Name lb = GetLoadBalancerName (l_env l) service
    | MigrateLB z i t \<Rightarrow> z = lb_Zone lb \<and> i = lb_ID lb \<and> t = getLoadBalancerType service
        \<and> svcExternallyManaged service = Inr False
    | UpdateLB r \<Rightarrow> ulb_Zone r = lb_Zone lb \<and> ulb_LBID r = lb_ID lb \<and> ulb_Name r = lb_Name lb
        \<and> ulb_Description r = lb_Description lb \<and> ulb_Tags r = lb_Tags lb
        \<and> svcExternallyManaged service = Inr False
    | AttachPrivateNetwork z i pn ips \<Rightarrow> z = lb_Zone lb \<and> i = lb_ID lb
        \<and> (pn = l_pnID l \<or> pn \<in> set (getPrivateNetworkIDs service)) \<and> set ips \<subseteq> set (getPrivateIPIDs service)
    | DetachPrivateNetwork z i pn \<Rightarrow> z = lb_Zone lb \<and> i = lb_ID lb
        \<and> (svcExternallyManaged service = Inr False \<or> pn = l_pnID l)
    | CreateBackend r \<Rightarrow> cb_Zone r = lb_Zone lb \<and> cb_LBID r = lb_ID lb
        \<and> strings_HasPrefix (cb_Name r) (svc_UID service @ ''_'')
    | UpdateBackend r \<Rightarrow> ub_Zone r = lb_Zone lb \<and> owned_backend l service lb (ub_BackendID r)
    | UpdateHealthCheck r \<Rightarrow> uh_Zone r = lb_Zone lb \<and> owned_backend l service lb (uh_BackendID r)
    | SetBackendServers z i ips \<Rightarrow> z = lb_Zone lb \<and> owned_backend l service lb i
    | DeleteBackend z i \<Rightarrow> z = lb_Zone lb \<and> owned_backend l service lb i
    | CreateFrontend r \<Rightarrow> cf_Zone r = lb_Zone lb \<and> cf_LBID r = lb_ID lb
        \<and> strings_HasPrefix (cf_Name r) (svc_UID service @ ''_'') \<and> owned_backend l service lb (cf_BackendID r)
    | UpdateFrontend r \<Rightarrow> uf_Zone r = lb_Zone lb \<and> owned_frontend l service lb (uf_FrontendID r)
        \<and> owned_backend l service lb (uf_BackendID r)
    | DeleteFrontend z i \<Rightarrow> z = lb_Zone lb \<and> owned_frontend l service lb i
    | SetACLs z i specs \<Rightarrow> z = lb_Zone lb \<and> owned_frontend l service lb i
    | _ \<Rightarrow> False)"

text \<open>Reads are free; of the Kubernetes objects only the service itself is patched.\<close>

definition lb_safe :: "loadbalancers \<Rightarrow> Service \<Rightarrow> call \<Rightarrow> bool" where
  "lb_safe l service c = (case c of
      CreateLB r \<Rightarrow> create_request_ok l service r
    | PatchService ns n p \<Rightarrow> ns = svc_Namespace service \<and> n = svc_Name service
    | ListLBs z n \<Rightarrow> True
    | GetLB z i \<Rightarrow> True
    | LB_ListIPs z ip \<Rightarrow> True
    | ListBackends z i n \<Rightarrow> True
    | ListFrontends z i n \<Rightarrow> True
    | ListACLs z i n \<Rightarrow> True
    | ListLBPrivateNetworks z i \<Rightarrow> True
    | IPAM_ListNetworkIPs r pn ids \<Rightarrow> True
    | IPAM_ListResourceIPs r p t i v6 \<Rightarrow> True
    | VPC_GetPrivateNetwork r pn \<Rightarrow> True
    | _ \<Rightarrow> (\<exists>lb. own_lb l service lb \<and> safe_on l service lb c))"

lemma lifecycle_safe: "lifecycle_call l service c \<Longrightarrow> lb_safe l service c"
  by (auto simp: lifecycle_call_def lb_safe_def safe_on_def fetch_call_def split: call.splits)

lemma pn_initial_keys:
  "pn \<in> set (gm_keys (pn_initial l service ext)) \<Longrightarrow> pn = l_pnID l \<or> \<not> ext \<and> pn \<in> set (getPrivateNetworkIDs service)"
proof -
  have keys: "set (gm_keys (fold (\<lambda>pnID. AList.update pnID pn_zero) ids m)) = set ids \<union> set (gm_keys m)" for ids m
    by (induction ids arbitrary: m) (auto simp only: fold_simps set_gm_keys_update list.set)
  assume "pn \<in> set (gm_keys (pn_initial l service ext))"
  then show "pn = l_pnID l \<or> \<not> ext \<and> pn \<in> set (getPrivateNetworkIDs service)"
    using keys [of "getPrivateNetworkIDs service" "[]"]
    by (auto simp only: pn_initial_def Let_def set_gm_keys_update list.set list.map split: if_splits)
qed

lemma update_safe:
  assumes "svcExternallyManaged service = Inr ext" "own_lb l service lb" "update_may l lb service nodes ext c"
  shows "lb_safe l service c"
proof -
  have pre: "(if ext then svc_UID service @ ''_'' else '''') = owned_prefix service"
    using assms(1) by (simp add: owned_prefix_def)
  have own: "own_frontend l lb service (owned_prefix service) i \<Longrightarrow> owned_frontend l service lb i"
    "own_backend l lb service (owned_prefix service) i \<Longrightarrow> owned_backend l service lb i"
    "listed_frontend l lb (owned_prefix service) i \<Longrightarrow> owned_frontend l service lb i"
    "listed_backend l lb (owned_prefix service) i \<Longrightarrow> owned_backend l service lb i" for i
    by (simp_all add: owned_frontend_def owned_backend_def own_frontend_def own_backend_def)
  define K where "K = set (gm_keys (pn_initial l service ext))"
  have K: "pn \<in> K \<Longrightarrow> pn = l_pnID l \<or> \<not> ext \<and> pn \<in> set (getPrivateNetworkIDs service)" for pn
    unfolding K_def by (rule pn_initial_keys)
  have "safe_on l service lb c \<or> lb_safe l service c"
    using assms(1,3) unfolding update_may_def pre K_def [symmetric]
    by (cases c) (auto simp: lb_safe_def safe_on_def pn_call_def resource_call_def own dest: K)
  then show ?thesis
    using assms(2) by (auto simp: lb_safe_def safe_on_def split: call.splits)
qed

lemma update_lb_safe:
  assumes "own_lb l service lb"
  shows "emits (all_calls (lb_safe l service)) (updateLoadBalancer l now M lb service nodes)"
proof (cases "svcExternallyManaged service")
  case (Inl e)
  then show ?thesis
    unfolding updateLoadBalancer_eq by (simp add: all_calls.emits_ret all_calls.emits_fail)
next
  case (Inr ext)
  show ?thesis
    by (rule emits_calls_mono [OF updateLoadBalancer_emits [OF Inr]]) (rule update_safe [OF Inr assms])
qed

lemma remove_external_safe:
  assumes "own_lb l service lb"
  shows "emits (all_calls (lb_safe l service)) (removeExternallyManagedResources l lb service)"
proof -
  let ?P = "all_calls (lb_safe l service)" and ?pre = "svc_UID service @ ''_''"
  have lf: "runs (\<lambda>fs. \<forall>f\<in>set fs. owned_frontend l service lb (fe_ID f)) ?P
      (wrapA w (invoke (api_ListFrontends (l_api l)) (ListFrontends (lb_Zone lb) (lb_ID lb) (Some ?pre))))" for w
    by (intro all_calls.runs_wrap all_calls.runs_invoke) (auto simp: lb_safe_def intro: owned_frontendI)
  have lb: "runs (\<lambda>bs. \<forall>b\<in>set bs. owned_backend l service lb (be_ID b)) ?P
      (wrapA w (invoke (api_ListBackends (l_api l)) (ListBackends (lb_Zone lb) (lb_ID lb) (Some ?pre))))" for w
    by (intro all_calls.runs_wrap all_calls.runs_invoke) (auto simp: lb_safe_def intro: owned_backendI)
  have rf: "runs (\<lambda>_. True) ?P (remove_frontends (l_api l) lb fs)"
    if "\<forall>f\<in>set fs. owned_frontend l service lb (fe_ID f)" for fs
    using that assms unfolding remove_frontends_def
    by (intro all_calls.runs_for all_calls.runs_wrap all_calls.runs_invoke) (auto simp: lb_safe_def safe_on_def)
  have rb: "runs (\<lambda>_. True) ?P (remove_backends (l_api l) lb bs)"
    if "\<forall>b\<in>set bs. owned_backend l service lb (be_ID b)" for bs
    using that assms unfolding remove_backends_def
    by (intro all_calls.runs_for all_calls.runs_wrap all_calls.runs_invoke) (auto simp: lb_safe_def safe_on_def)
  show ?thesis
    unfolding removeExternallyManagedResources_def Let_def emits_iff_runs
    by (rule all_calls.runs_bind [OF lf], rule all_calls.runs_bind [OF lb],
        rule all_calls.runs_bind [OF rf], assumption, rule rb, assumption)
qed

lemma fetch_safe: "runs (own_lb l service) (all_calls (lb_safe l service)) (fetchLoadBalancer l service)"
  by (rule runs_mono [OF fetch_runs]) (auto simp: list_all_iff own_lb_def intro: lifecycle_safe fetch_is_lifecycle)

lemma create_safe: "runs (own_lb l service) (all_calls (lb_safe l service)) (createLoadBalancer l service)"
  by (rule runs_mono [OF createLoadBalancer_runs]) (auto simp: list_all_iff intro: lifecycle_safe)

lemma delete_safe:
  assumes "svcExternallyManaged service = Inr False" "own_lb l service lb"
  shows "emits (all_calls (lb_safe l service)) (deleteLoadBalancer l lb service)"
  by (rule emits_calls_mono [OF deleteLoadBalancer_emits [OF assms]]) (rule lifecycle_safe)

lemma flag_runs: "runs (\<lambda>b. r = Inr b) (all_calls P) (liftA (rwrap w r))"
  by (rule all_calls.runs_lift) (cases r; simp)

lemma status_safe: "emits (all_calls (lb_safe l service)) (createServiceStatus l service lb)"
  unfolding createServiceStatus_def createPrivateServiceStatus_def
  by (auto intro!: all_calls.emits_intros simp: lb_safe_def)

lemma ensure_lb_safe: "emits (all_calls (lb_safe l service)) (EnsureLoadBalancer l now M service nodes)"
proof -
  let ?P = "all_calls (lb_safe l service)"
  have exists: "runs (own_lb l service) ?P (ensure_exists l service)"
    unfolding ensure_exists_def
    by (rule all_calls.runs_catch [OF fetch_safe])
      (auto intro!: all_calls.runs_fail all_calls.runs_ret create_safe)
  have addresses: "runs (own_lb l service) ?P (ensure_addresses l service ext private' lb)"
    if "svcExternallyManaged service = Inr ext" "own_lb l service lb" for ext private' lb
    using that unfolding ensure_addresses_def Let_def
    by (auto intro!: all_calls.runs_ret create_safe
        all_calls.runs_bind [OF delete_safe [unfolded emits_iff_runs]])
  show ?thesis
    unfolding EnsureLoadBalancer_def emits_iff_runs
    by (auto intro!: all_calls.runs_fail all_calls.runs_bind [OF flag_runs]
        all_calls.runs_bind [OF exists] all_calls.runs_bind [OF addresses]
        all_calls.runs_bind [OF update_lb_safe [unfolded emits_iff_runs]]
        status_safe [unfolded emits_iff_runs])
qed

lemma deleted_lb_safe: "emits (all_calls (lb_safe l service)) (EnsureLoadBalancerDeleted l service)"
  unfolding EnsureLoadBalancerDeleted_def emits_iff_runs
  by (auto intro!: all_calls.runs_ret all_calls.runs_fail all_calls.runs_catch [OF fetch_safe]
      all_calls.runs_bind [OF flag_runs] delete_safe [unfolded emits_iff_runs]
      remove_external_safe [unfolded emits_iff_runs])

lemma get_lb_safe: "emits (all_calls (lb_safe l service)) (GetLoadBalancer l service)"
  unfolding GetLoadBalancer_def
  by (auto intro!: all_calls.emits_ret all_calls.emits_catch runs_emits [OF fetch_safe] status_safe)

lemma update_service_safe: "emits (all_calls (lb_safe l service)) (UpdateLoadBalancer l now M service nodes)"
  unfolding UpdateLoadBalancer_def emits_iff_runs
  by (auto intro!: all_calls.runs_fail all_calls.runs_bind [OF fetch_safe]
      update_lb_safe [unfolded emits_iff_runs])

section \<open>Properties\<close>

text \<open>
  C1: whatever the services answer, the four operations of the interface make only safe calls.
  A load balancer is created only under the service's name, with flexible addresses only when
  none are given.  Every other call that changes something is about a load balancer of the
  service, found for it or created by it, in its zone and by its identifier: only that one is
  deleted, migrated or reconfigured, or has private networks attached and detached, and only
  frontends and backends of the service on it are created, updated, given servers or rules, and
  deleted.  It is deleted only if it bears the service's name and is not externally managed,
  and releases its address exactly when no static address is configured.  On an externally
  managed one only the resources with the prefix of the service are changed, only the
  controller's private network is detached, and it is not migrated nor reconfigured.  Of the
  Kubernetes objects, only the service itself is patched.
\<close>

theorem interface_safe:
  "post (EnsureLoadBalancer l now M service nodes) h (\<lambda>r es. all_calls (lb_safe l service) es)
   \<and> post (EnsureLoadBalancerDeleted l service) h (\<lambda>r es. all_calls (lb_safe l service) es)
   \<and> post (UpdateLoadBalancer l now M service nodes) h (\<lambda>r es. all_calls (lb_safe l service) es)
   \<and> post (GetLoadBalancer l service) h (\<lambda>r es. all_calls (lb_safe l service) es)"
  by (intro conjI emits_post ensure_lb_safe deleted_lb_safe update_service_safe get_lb_safe)

lemma public_status_ok:
  "createPublicServiceStatus service lb mode \<noteq> Inr []"
  "createPublicServiceStatus service lb mode = Inr st \<Longrightarrow> i \<in> set st \<Longrightarrow> ing_Hostname i \<noteq> '''' \<Longrightarrow> ing_IP i = ''''"
  by (auto simp: createPublicServiceStatus_def Let_def public_ingress_def split: if_splits)

lemma status_runs:
  "runs (\<lambda>st. st \<noteq> [] \<and> list_all (\<lambda>i. ing_IP i = '''' \<or> ing_Hostname i = '''') st) (\<lambda>_. True)
     (createServiceStatus l service lb)"
proof -
  have any: "appends (liftA r)" "appends (wrapA w (invoke reply c))"
    for w c and r :: "err + 'q" and reply :: "hist \<Rightarrow> call \<Rightarrow> api_error + 'z"
    by (intro any_calls.runs_leaves; simp)+
  show ?thesis
    unfolding createServiceStatus_def createPrivateServiceStatus_def
    by (auto intro!: any_calls.runs_bind [OF any(1)] any_calls.runs_bind [OF any(2)]
        any_calls.runs_fail any_calls.runs_ret any_calls.runs_lift
        simp: list_all_iff public_status_ok)
qed

lemma ensure_lb_appends: "appends (ensure_exists l service)"
    "appends (ensure_addresses l service ext lbPrivate lb)"
    "appends (updateLoadBalancer l now M lb service nodes)"
proof -
  show "appends (updateLoadBalancer l now M lb service nodes)"
    by (rule appends_if_emits [OF updateLoadBalancer_phase])
  have create: "appends (createLoadBalancer l service)"
    by (rule runs_mono [OF createLoadBalancer_runs]) simp_all
  have del: "appends (deleteLoadBalancer l lb service)"
    unfolding deleteLoadBalancer_def
    by (auto intro!: any_calls.runs_bind [OF appends_if_emits [OF unannotate_emits]]
        any_calls.runs_leaves)
  show "appends (ensure_addresses l service ext lbPrivate lb)"
    unfolding ensure_addresses_def Let_def
    by (auto intro!: any_calls.runs_ret any_calls.runs_bind [OF del] create)
  have "runs (\<lambda>_. True) (\<lambda>_. True) (fetchLoadBalancer l service)"
    by (rule runs_mono [OF fetch_runs]) simp_all
  then show "appends (ensure_exists l service)"
    unfolding ensure_exists_def
    by (rule any_calls.runs_catch) (auto intro!: any_calls.runs_ret any_calls.runs_fail create)
qed

text \<open>
  C26: \<open>EnsureLoadBalancer\<close> succeeds only with a status that has an entry, and every entry names
  either an address or a host; it never succeeds for a service with a load balancer class.
\<close>

theorem EnsureLoadBalancer_status:
  "post (EnsureLoadBalancer l now M service nodes) h (\<lambda>r es. case r of
      Inl e \<Rightarrow> True
    | Inr st \<Rightarrow> svc_LoadBalancerClass service = None \<and> st \<noteq> []
        \<and> list_all (\<lambda>i. ing_IP i = '''' \<or> ing_Hostname i = '''') st)"
proof -
  have any: "appends (liftA r)" for r :: "err + 'q"
    by (intro any_calls.runs_leaves; simp)
  have "runs (\<lambda>st. svc_LoadBalancerClass service = None \<and> st \<noteq> []
      \<and> list_all (\<lambda>i. ing_IP i = '''' \<or> ing_Hostname i = '''') st) (\<lambda>_. True)
      (EnsureLoadBalancer l now M service nodes)"
    unfolding EnsureLoadBalancer_def
    by (auto intro!: any_calls.runs_fail any_calls.runs_bind [OF any]
        any_calls.runs_bind [OF ensure_lb_appends(1)] any_calls.runs_bind [OF ensure_lb_appends(2)]
        any_calls.runs_bind [OF ensure_lb_appends(3)] runs_mono [OF status_runs])
  then show ?thesis
    unfolding runs_def by (rule allE [of _ h]) (auto elim!: post_mono split: sum.split)
qed

lemma fetch_external_never:
  assumes "svcExternallyManaged service = Inr True" "env_SCW_CCM_PREFIX (l_env l) = ''''"
  shows "never (fetchLoadBalancer l service)"
proof -
  have get: "runs (\<lambda>_. True) (\<lambda>_. True) (invoke (api_GetLB (l_api l)) (GetLB zone i))" for zone i
    by (intro any_calls.runs_leaves; simp)
  show ?thesis
    unfolding fetchLoadBalancer_def assms
    by (auto simp: strings_HasPrefix_def assms(2)
        intro!: any_calls.runs_bind [of "\<lambda>_. True" "liftA _"] any_calls.runs_lift any_calls.runs_fail
          any_calls.runs_catch [OF get] split: prod.split)
qed

text \<open>
  C25: with an empty cluster prefix, no externally managed load balancer is ever accepted: every
  name starts with the empty prefix, so \<open>EnsureLoadBalancer\<close> and \<open>UpdateLoadBalancer\<close> always fail.
\<close>

theorem external_without_prefix:
  assumes "svcExternallyManaged service = Inr True" "env_SCW_CCM_PREFIX (l_env l) = ''''"
  shows "post (EnsureLoadBalancer l now M service nodes) h (\<lambda>r es. isl r)
    \<and> post (UpdateLoadBalancer l now M service nodes) h (\<lambda>r es. isl r)"
proof -
  note fetch = fetch_external_never [OF assms]
  have isl: "post m h (\<lambda>r es. isl r)" if "never m" for m :: "'z act"
    using runs_post [OF that, of h]
    by (rule post_mono) (metis isl_def sum.exhaust)
  have create: "createLoadBalancer l service =
      failA (Errorf ''cannot create an externally managed load balancer, please provide an existing load balancer instead'' None)"
    by (simp add: createLoadBalancer_def assms(1))
  have "never (ensure_exists l service)"
    unfolding ensure_exists_def create
    by (rule any_calls.runs_catch [OF fetch]) (auto intro!: any_calls.runs_fail)
  then have ensure: "never (EnsureLoadBalancer l now M service nodes)"
    unfolding EnsureLoadBalancer_def
    by (auto intro!: any_calls.runs_bind [of "\<lambda>_. True" "liftA _"] any_calls.runs_lift
        any_calls.runs_fail never_bind [of "ensure_exists l service"])
  have "never (UpdateLoadBalancer l now M service nodes)"
    unfolding UpdateLoadBalancer_def by (auto intro!: any_calls.runs_fail never_bind fetch)
  with ensure show ?thesis by (auto intro: isl)
qed

theorem external_without_prefix_witness:
  "post (EnsureLoadBalancer (sample_controller\<lparr>l_env := sample_env\<lparr>env_SCW_CCM_PREFIX := ''''\<rparr>\<rparr>) 0
       sample_order external_service []) [] (\<lambda>r es. isl r)"
  using external_without_prefix [OF external_service_flag,
      of "sample_controller\<lparr>l_env := sample_env\<lparr>env_SCW_CCM_PREFIX := ''''\<rparr>\<rparr>" 0 sample_order "[]" "[]"]
  by simp

text \<open>
  C27: deleting a service whose annotated load balancer does not exist any more (the service
  answers 404) succeeds after that single read.
\<close>

theorem EnsureLoadBalancerDeleted_gone:
  assumes "svc_LoadBalancerClass service = None" "svcExternallyManaged service = Inr ext"
    and "getLoadBalancerID (l_sdk l) service = Inr (zone, i)" "i \<noteq> ''''"
    and "api_GetLB (l_api l) h (GetLB zone i) = Inl e" "is404Error (ApiErr e)"
  shows "EnsureLoadBalancerDeleted l service h = (Inr (), h @ [(GetLB zone i, Some e)])"
proof -
  have "fetchLoadBalancer l service h = (Inl LoadBalancerNotFound, h @ [(GetLB zone i, Some e)])"
    using assms by (simp add: fetchLoadBalancer_def lb_id_or_empty_def)
      (simp add: catchA_def invoke_def failA_def)
  then show ?thesis
    using assms(1) by (simp add: EnsureLoadBalancerDeleted_def) (simp add: catchA_def retA_def)
qed

theorem EnsureLoadBalancerDeleted_gone_witness:
  "EnsureLoadBalancerDeleted (sample_controller\<lparr>l_api := sample_api
       \<lparr>api_GetLB := (\<lambda>h c. Inl (ResponseError 404))\<rparr>\<rparr>) external_service []
     = (Inr (), [(GetLB ''fr-par-1'' ''l1'', Some (ResponseError 404))])"
  using EnsureLoadBalancerDeleted_gone [of external_service True
      "sample_controller\<lparr>l_api := sample_api\<lparr>api_GetLB := (\<lambda>h c. Inl (ResponseError 404))\<rparr>\<rparr>"
      "''fr-par-1''" "''l1''" "[]" "ResponseError 404", OF _ external_service_flag]
  by (simp add: external_service_def sample_service_def sample_controller_def newLoadbalancers_def
      sample_sdk_def getLoadBalancerID_def anno_keys go_defs strings_ToLower_def
      lower_char_def is_upper_def)

text \<open>
  C11: the annotation that \<open>annotateAndPatch\<close> writes is read back as the zone and the identifier of
  the load balancer, and it changes nothing in the frontends and backends that the service asks
  for, nor in the choice of its nodes.
\<close>

theorem annotation_round_trip:
  fixes service :: Service
  assumes "strings_ToLower (lb_Zone lb) = lb_Zone lb" "strings_ToLower (lb_ID lb) = lb_ID lb"
    and "CHR ''/'' \<notin> set (lb_Zone lb)" "CHR ''/'' \<notin> set (lb_ID lb)"
    and "\<not> sdk_IsRegion X (lb_Zone lb)"
  shows "\<exists>annotated.
      annotateAndPatch l service lb = Patch (l_kube l) (l_api l)
        \<lparr>kp_origin = ServiceObject service, kp_final = ServiceObject annotated\<rparr>
    \<and> getLoadBalancerID X annotated = Inr (lb_Zone lb, lb_ID lb)
    \<and> serviceToLB X annotated lb ips = serviceToLB X service lb ips
    \<and> filterNodes annotated nodes = filterNodes service nodes"
proof -
  define annotated where "annotated = service\<lparr>svc_Annotations := AList.update serviceAnnotationLoadBalancerID
      (lb_Zone lb @ ''/'' @ lb_ID lb) (svc_Annotations service)\<rparr>"
  have patch: "annotateAndPatch l service lb = Patch (l_kube l) (l_api l)
      \<lparr>kp_origin = ServiceObject service, kp_final = ServiceObject annotated\<rparr>"
    by (simp add: annotateAndPatch_def annotated_def NewServicePatcher_def)
  let ?a = "lb_Zone lb @ ''/'' @ lb_ID lb"
  have lower: "strings_ToLower ?a = ?a"
    using assms(1,2) by (simp add: strings_ToLower_append) (simp add: strings_ToLower_def lower_char_def is_upper_def)
  have "splitc (CHR ''/'') ?a = [lb_Zone lb, lb_ID lb]"
    using assms(3,4) by (simp add: splitc_eq_two)
  with lower assms(5) have read: "getLoadBalancerID X annotated = Inr (lb_Zone lb, lb_ID lb)"
    by (simp add: getLoadBalancerID_def annotated_def strings_Split_char)
  moreover note patch
  moreover have "serviceToLB X annotated lb ips = serviceToLB X (with_annos service (svc_Annotations service)) lb ips"
    unfolding annotated_def by (rule serviceToLB_frame) simp
  moreover have "filterNodes annotated nodes = filterNodes service nodes"
    by (simp add: filterNodes_def annotated_def anno_keys)
  ultimately show ?thesis by (intro exI [of _ annotated]) simp
qed

theorem annotation_round_trip_witness:
  "\<exists>annotated.
      annotateAndPatch sample_controller sample_service sample_lb = Patch sample_kube sample_api
        \<lparr>kp_origin = ServiceObject sample_service, kp_final = ServiceObject annotated\<rparr>
    \<and> getLoadBalancerID sample_sdk annotated = Inr (''fr-par-1'', ''l1'')"
proof -
  have lower: "strings_ToLower (lb_Zone sample_lb) = lb_Zone sample_lb"
    "strings_ToLower (lb_ID sample_lb) = lb_ID sample_lb"
    by (simp_all add: sample_lb_def strings_ToLower_def lower_char_def is_upper_def)
  have "CHR ''/'' \<notin> set (lb_Zone sample_lb)" "CHR ''/'' \<notin> set (lb_ID sample_lb)"
    "\<not> sdk_IsRegion sample_sdk (lb_Zone sample_lb)"
    by (simp_all add: sample_lb_def sample_sdk_def)
  from annotation_round_trip [OF lower this, of sample_controller sample_service None "[]"]
  show ?thesis by (auto simp: sample_controller_def newLoadbalancers_def sample_lb_def)
qed

text \<open>
  C36: by name, a load balancer is found exactly when one listed load balancer has the
  service's name, none is found when none has it, and two are an error.
\<close>

theorem lb_by_name_unique:
  "lb_by_name name lbs None =
     (case filter (\<lambda>b. lb_Name b = name) lbs of
        [] \<Rightarrow> Inr None
      | [b] \<Rightarrow> Inr (Some b)
      | _ \<Rightarrow> Inl LoadBalancerDuplicated)"
  by (simp add: lb_by_name_eq split: list.split)

end
