(* ===== verification/Converge.thy ===== *)
theory Converge
  imports Compare
begin

text \<open>
  Carrying out a plan of \<open>compareFrontends\<close> or \<open>compareBackends\<close> gives what was wanted.  The
  effect of the calls on the list of resources of the load balancer is the specification
  \<open>applied\<close>: resources are deleted and updated by identifier, and each planned creation adds one
  resource of that configuration.  The locale extends the one of the comparison by what an update
  keeps.
\<close>

section \<open>The effect of a plan\<close>

definition updated_by :: "('r \<Rightarrow> int32) \<Rightarrow> ('r \<Rightarrow> string) \<Rightarrow> 'r ops \<Rightarrow> 'r \<Rightarrow> 'r" where
  "updated_by port ident ops c =
     (case map_of (ops_update ops) (port c) of
        None \<Rightarrow> c
      | Some t \<Rightarrow> if ident t = ident c then t else c)"

definition applied :: "('r \<Rightarrow> int32) \<Rightarrow> ('r \<Rightarrow> string) \<Rightarrow> 'r list \<Rightarrow> 'r ops \<Rightarrow> 'r list \<Rightarrow> 'r list" where
  "applied port ident got ops created =
     map (updated_by port ident ops) (filter (\<lambda>c. ident c \<notin> ident ` set (ops_remove ops)) got) @ created"

definition creates :: "('r \<Rightarrow> int32) \<Rightarrow> ('r \<Rightarrow> 'c) \<Rightarrow> 'r ops \<Rightarrow> 'r list \<Rightarrow> bool" where
  "creates port cfg ops created \<longleftrightarrow> (\<forall>p. map cfg (filter (\<lambda>c. port c = p) created) =
     (case map_of (ops_create ops) p of None \<Rightarrow> [] | Some t \<Rightarrow> [cfg t]))"

locale resource_plan = resource_diff port name eq setid loop create
  for port :: "'r \<Rightarrow> int32" and name :: "'r \<Rightarrow> string"
    and eq :: "'r \<Rightarrow> 'r \<Rightarrow> bool \<times> 'r \<times> 'r" and setid :: "'r \<Rightarrow> 'r \<Rightarrow> 'r"
    and loop :: "string \<Rightarrow> 'r list \<Rightarrow> 'r cmp \<Rightarrow> 'r cmp"
    and create :: "(int32, 'r) gomap \<Rightarrow> (int32, 'r) gomap \<Rightarrow> (int32, 'r) gomap \<Rightarrow> (int32, 'r) gomap" +
  fixes cfg :: "'r \<Rightarrow> 'c" and ident :: "'r \<Rightarrow> string"
  assumes eq_cfg: "eq c t = (b, c', t') \<Longrightarrow> b = (cfg c = cfg t) \<and> cfg t' = cfg t"
    and setid_cfg: "cfg (setid c t) = cfg t"
    and setid_ident: "ident (setid c t) = ident c"
    and cfg_port: "cfg r = cfg s \<Longrightarrow> port r = port s"
    and cfg_name: "cfg r = cfg s \<Longrightarrow> name r = name s"
begin

text \<open>The plan of a comparison.\<close>

definition plan :: "'r list \<Rightarrow> (int32, 'r) gomap \<Rightarrow> string \<Rightarrow> 'r ops" where
  "plan got want pre =
     (let st = loop pre got (cmp_init want)
      in \<lparr>ops_remove = cmp_remove st, ops_update = cmp_update st,
          ops_create = create (cmp_seen st) (cmp_want st) [], ops_keep = cmp_keep st\<rparr>)"

lemma plan_spec:
  assumes "wf_want port want"
  shows "map_of (ops_update (plan got want pre)) p =
      diff_update eq setid (first_on port name pre got p) (map_of want p)"
    and "map_of (ops_create (plan got want pre)) p = diff_create (first_on port name pre got p) (map_of want p)"
    and "filter (\<lambda>c. port c = p) (ops_remove (plan got want pre)) =
      (if map_of want p = None then managed_on port name pre got p else tl (managed_on port name pre got p))"
    and "c \<in> set (ops_remove (plan got want pre)) \<Longrightarrow> c \<in> set got \<and> strings_HasPrefix (name c) pre"
  using diff_spec [OF assms, where pre = pre and got = got] by (simp_all add: plan_def Let_def)

lemma diff_update_Some:
  assumes "diff_update eq setid c t = Some u"
  obtains c0 t0 where "c = Some c0" "t = Some t0" "cfg u = cfg t0" "ident u = ident c0" "cfg c0 \<noteq> cfg t0"
  using assms eq_cfg
  by (auto simp: diff_update_def setid_cfg setid_ident split: option.splits prod.splits if_splits)

lemma diff_update_None:
  "diff_update eq setid (Some c) (Some t) = None \<Longrightarrow> cfg c = cfg t"
  using eq_cfg [of c t] by (auto simp: diff_update_def split: prod.splits if_splits)

lemma diff_update_same: "cfg c = cfg t \<Longrightarrow> diff_update eq setid (Some c) (Some t) = None"
  using eq_cfg [of c t] by (auto simp: diff_update_def split: prod.splits)

text \<open>An update keeps what the comparison looks at: whether the resource is managed, and its port.\<close>

lemma updated_by_keeps:
  assumes wf: "wf_want port want" and named: "\<forall>(p, t)\<in>set want. strings_HasPrefix (name t) pre"
    and idents: "distinct (map ident got)" and c: "c \<in> set got"
  shows "strings_HasPrefix (name (updated_by port ident (plan got want pre) c)) pre = strings_HasPrefix (name c) pre
    \<and> port (updated_by port ident (plan got want pre) c) = port c
    \<and> (\<not> strings_HasPrefix (name c) pre \<longrightarrow> updated_by port ident (plan got want pre) c = c)"
proof (cases "map_of (ops_update (plan got want pre)) (port c)")
  case None
  then show ?thesis by (simp add: updated_by_def)
next
  case (Some u)
  show ?thesis
  proof (cases "ident u = ident c")
    case False
    with Some show ?thesis by (simp add: updated_by_def)
  next
    case True
    from Some have "diff_update eq setid (first_on port name pre got (port c)) (map_of want (port c)) = Some u"
      by (simp add: plan_spec [OF wf])
    then obtain c0 t0 where u: "first_on port name pre got (port c) = Some c0" "map_of want (port c) = Some t0"
        "cfg u = cfg t0" "ident u = ident c0"
      by (rule diff_update_Some)
    from first_on_SomeD [OF u(1)] have c0: "c0 \<in> set got" "strings_HasPrefix (name c0) pre" by simp_all
    have "c0 = c"
      using idents c c0(1) u(4) True by (metis distinct_map inj_on_def)
    moreover have "strings_HasPrefix (name u) pre"
      using named u(2) cfg_name [OF u(3)] by (auto dest!: map_of_SomeD)
    moreover have "port u = port c" using cfg_port [OF u(3)] wf_wantD [OF wf u(2)] by simp
    ultimately show ?thesis using Some True c0 by (simp add: updated_by_def)
  qed
qed

text \<open>Which managed resources of a port are left.\<close>

lemma kept_on:
  assumes wf: "wf_want port want" and idents: "distinct (map ident got)"
  shows "managed_on port name pre
      (filter (\<lambda>c. ident c \<notin> ident ` set (ops_remove (plan got want pre))) got) p =
    (if map_of want p = None then [] else take 1 (managed_on port name pre got p))"
proof -
  let ?rm = "ops_remove (plan got want pre)" and ?M = "managed_on port name pre got p"
  have inj: "inj_on ident (set got)" and dist: "distinct got" using idents by (simp_all add: distinct_map)
  have rm: "set ?rm \<subseteq> set got" using plan_spec(4) [OF wf] by auto
  have keep: "(ident c \<notin> ident ` set ?rm) = (c \<notin> set ?rm)" if "c \<in> set got" for c
    using that rm inj by (auto simp: inj_on_def)
  have on: "(c \<in> set ?rm) = (c \<in> set (filter (\<lambda>c. port c = p) ?rm))" if "c \<in> set ?M" for c
    using that by (auto simp: managed_on_def)
  have "managed_on port name pre (filter (\<lambda>c. ident c \<notin> ident ` set ?rm) got) p =
      filter (\<lambda>c. ident c \<notin> ident ` set ?rm) ?M"
    by (auto simp: managed_on_def conj_ac intro: filter_cong)
  also have "\<dots> = filter (\<lambda>c. c \<notin> set (filter (\<lambda>c. port c = p) ?rm)) ?M"
  proof (rule filter_cong [OF refl])
    fix c assume "c \<in> set ?M"
    then show "(ident c \<notin> ident ` set ?rm) = (c \<notin> set (filter (\<lambda>c. port c = p) ?rm))"
      using on keep [of c] by (auto simp: managed_on_def)
  qed
  also have "\<dots> = (if map_of want p = None then [] else take 1 ?M)"
  proof -
    have "distinct ?M" using dist by (simp add: managed_on_def)
    then show ?thesis
      unfolding plan_spec(3) [OF wf] by (cases ?M) (auto intro!: filter_False simp: filter_empty_conv)
  qed
  finally show ?thesis .
qed

lemma created_managed:
  assumes wf: "wf_want port want" and named: "\<forall>(p, t)\<in>set want. strings_HasPrefix (name t) pre"
    and created: "creates port cfg (plan got want pre) created" and x: "x \<in> set created"
  shows "strings_HasPrefix (name x) pre"
proof -
  have "map cfg (filter (\<lambda>c. port c = port x) created) =
      (case diff_create (first_on port name pre got (port x)) (map_of want (port x)) of
         None \<Rightarrow> [] | Some t \<Rightarrow> [cfg t])" (is "_ = ?new")
    using created by (simp add: creates_def plan_spec(2) [OF wf])
  moreover have "cfg x \<in> set (map cfg (filter (\<lambda>c. port c = port x) created))" using x by simp
  ultimately have "cfg x \<in> set ?new" by simp
  then obtain t where "Some t = map_of want (port x)" "cfg x = cfg t"
    by (auto simp: diff_create_def split: option.splits)
  then show ?thesis using named cfg_name [of x t] by (auto dest!: map_of_SomeD [OF sym])
qed

text \<open>After the plan, the managed resources of a port are the wanted one.\<close>

lemma applied_on:
  assumes wf: "wf_want port want" and named: "\<forall>(p, t)\<in>set want. strings_HasPrefix (name t) pre"
    and idents: "distinct (map ident got)" and created: "creates port cfg (plan got want pre) created"
  shows "map cfg (managed_on port name pre (applied port ident got (plan got want pre) created) p) =
    (case map_of want p of None \<Rightarrow> [] | Some t \<Rightarrow> [cfg t])"
proof -
  let ?ops = "plan got want pre" and ?upd = "updated_by port ident (plan got want pre)"
  let ?left = "filter (\<lambda>c. ident c \<notin> ident ` set (ops_remove ?ops)) got"
  have upd: "managed_on port name pre (map ?upd xs) p = map ?upd (managed_on port name pre xs p)"
    if "set xs \<subseteq> set got" for xs
    using that updated_by_keeps [OF wf named idents] by (induction xs) (auto simp: managed_on_def)
  have new: "map cfg (managed_on port name pre created p) =
      (case diff_create (first_on port name pre got p) (map_of want p) of None \<Rightarrow> [] | Some t \<Rightarrow> [cfg t])"
  proof -
    have c: "map cfg (filter (\<lambda>c. port c = p) created) =
        (case diff_create (first_on port name pre got p) (map_of want p) of None \<Rightarrow> [] | Some t \<Rightarrow> [cfg t])"
      using created by (simp add: creates_def plan_spec(2) [OF wf])
    have "managed_on port name pre created p = filter (\<lambda>c. port c = p) created"
      using created_managed [OF wf named created] by (auto simp: managed_on_def intro: filter_cong)
    with c show ?thesis by simp
  qed
  have "managed_on port name pre (applied port ident got ?ops created) p =
      map ?upd (if map_of want p = None then [] else take 1 (managed_on port name pre got p))
        @ managed_on port name pre created p"
    using upd [of ?left] kept_on [OF wf idents, of pre p]
    by (simp add: applied_def managed_on_def)
  moreover have "cfg (?upd c) = cfg t"
    if first: "first_on port name pre got p = Some c" and want: "map_of want p = Some t" for c t
  proof -
    have pc: "port c = p" using first_on_SomeD [OF first] by simp
    show ?thesis
    proof (cases "map_of (ops_update ?ops) p")
      case None
      then show ?thesis
        using first want pc diff_update_None [of c t] by (simp add: updated_by_def plan_spec(1) [OF wf])
    next
      case (Some u)
      then have "diff_update eq setid (Some c) (Some t) = Some u"
        using first want by (simp add: plan_spec(1) [OF wf])
      then show ?thesis using Some pc by (elim diff_update_Some) (simp add: updated_by_def)
    qed
  qed
  ultimately show ?thesis
    using new by (cases "managed_on port name pre got p")
      (auto simp: first_on_def diff_create_def split: option.splits)
qed

text \<open>What is not managed is not touched, and comparing again finds nothing to do.\<close>

lemma applied_others:
  assumes wf: "wf_want port want" and named: "\<forall>(p, t)\<in>set want. strings_HasPrefix (name t) pre"
    and idents: "distinct (map ident got)" and created: "creates port cfg (plan got want pre) created"
  shows "filter (\<lambda>c. \<not> strings_HasPrefix (name c) pre) (applied port ident got (plan got want pre) created) =
    filter (\<lambda>c. \<not> strings_HasPrefix (name c) pre) got"
proof -
  let ?upd = "updated_by port ident (plan got want pre)"
    and ?left = "filter (\<lambda>c. ident c \<notin> ident ` set (ops_remove (plan got want pre))) got"
  have "filter (\<lambda>c. \<not> strings_HasPrefix (name c) pre) (map ?upd xs) = filter (\<lambda>c. \<not> strings_HasPrefix (name c) pre) xs"
    if "set xs \<subseteq> set got" for xs
    using that updated_by_keeps [OF wf named idents] by (induction xs) auto
  then have "filter (\<lambda>c. \<not> strings_HasPrefix (name c) pre) (map ?upd ?left) =
      filter (\<lambda>c. \<not> strings_HasPrefix (name c) pre) ?left" by simp
  also have "\<dots> = filter (\<lambda>c. \<not> strings_HasPrefix (name c) pre) got"
    using plan_spec(4) [OF wf, of _ got pre] idents
    by (auto simp: distinct_map inj_on_def intro!: filter_cong)
  finally show ?thesis
    using created_managed [OF wf named created] by (auto simp: applied_def filter_empty_conv)
qed

lemma applied_settled:
  assumes wf: "wf_want port want"
    and all: "\<And>p. map cfg (managed_on port name pre got' p) = (case map_of want p of None \<Rightarrow> [] | Some t \<Rightarrow> [cfg t])"
  shows "ops_remove (plan got' want pre) = [] \<and> map_of (ops_update (plan got' want pre)) p = None
    \<and> map_of (ops_create (plan got' want pre)) p = None"
proof (intro conjI)
  have "filter (\<lambda>c. port c = q) (ops_remove (plan got' want pre)) = []" for q
    using all [of q] unfolding plan_spec(3) [OF wf] by (auto split: option.splits)
  then show "ops_remove (plan got' want pre) = []"
    by (metis (mono_tags, lifting) filter_empty_conv list.set_intros(1) neq_Nil_conv)
  show "map_of (ops_update (plan got' want pre)) p = None"
    using all [of p] unfolding plan_spec(1) [OF wf]
    by (auto simp: first_on_def diff_update_def [of _ _ None] split: option.splits list.splits
        intro: diff_update_same)
  show "map_of (ops_create (plan got' want pre)) p = None"
    using all [of p] unfolding plan_spec(2) [OF wf]
    by (auto simp: first_on_def diff_create_def split: option.splits list.splits)
qed

text \<open>What is settled is kept.\<close>

lemma settled_keep:
  assumes wf: "wf_want port want"
    and all: "\<And>p. map cfg (managed_on port name pre got' p) = (case map_of want p of None \<Rightarrow> [] | Some t \<Rightarrow> [cfg t])"
    and p: "map_of want p = Some t"
  shows "\<exists>k. map_of (ops_keep (plan got' want pre)) p = Some k"
proof -
  from all [of p] p obtain c where first: "first_on port name pre got' p = Some c" and same: "cfg c = cfg t"
    by (auto simp: first_on_def)
  obtain b c' t' where eq: "eq c t = (b, c', t')" by (metis prod_cases3)
  with eq_cfg [OF eq] same have "diff_keep eq (Some c) (Some t) = Some c'" by (simp add: diff_keep_def)
  then show ?thesis using diff_spec(1) [OF wf, of pre got' p] first p by (simp add: plan_def Let_def)
qed

end

section \<open>Both comparisons\<close>

interpretation fplan: resource_plan fe_InboundPort fe_Name frontend_fields_equal frontend_setid
  frontends_loop frontends_create frontend_config fe_ID
proof unfold_locales
  show "b = (frontend_config c = frontend_config t) \<and> frontend_config t' = frontend_config t"
    if "frontend_fields_equal c t = (b, c', t')" for c t b c' t'
    using frontend_fields_equal_preserves [OF that] frontend_fields_equal_config [of c t] that by simp
qed (simp_all add: frontend_config_def)

interpretation bplan: resource_plan be_ForwardPort be_Name "backend_eq X" backend_setid
  "backends_loop X" backends_create "backend_config X" be_ID for X
proof unfold_locales
  show "b = (backend_config X c = backend_config X t) \<and> backend_config X t' = backend_config X t"
    if "backend_eq X c t = (b, c', t')" for c t b c' t'
    using that backend_fields_equal_config [of X c t] by auto
qed (simp_all add: backend_config_def)

lemma compare_plans:
  "compareFrontends got want pre = fplan.plan got want pre"
  "compareBackends X bgot bwant pre = bplan.plan X bgot bwant pre"
  by (simp_all add: compareFrontends_def compareBackends_def fplan.plan_def bplan.plan_def)

text \<open>
  C6: carrying out the plan of \<open>compareFrontends\<close> gives what was wanted: for every port the
  managed frontends are then exactly the wanted one, up to the order of its certificates, and no
  frontend when none is wanted; frontends without the filter prefix are as before; and comparing
  again plans nothing to remove, update or create.  The identifiers of frontends are distinct,
  and the names of the wanted ones have the filter prefix.
\<close>

theorem compareFrontends_converges:
  assumes "wf_want fe_InboundPort want"
    and "\<forall>(p, t)\<in>set want. strings_HasPrefix (fe_Name t) pre"
    and "distinct (map fe_ID got)"
    and "creates fe_InboundPort frontend_config (compareFrontends got want pre) created"
  defines "got' \<equiv> applied fe_InboundPort fe_ID got (compareFrontends got want pre) created"
  shows "map frontend_config (managed_on fe_InboundPort fe_Name pre got' p) =
      (case map_of want p of None \<Rightarrow> [] | Some t \<Rightarrow> [frontend_config t])
    \<and> filter (\<lambda>c. \<not> strings_HasPrefix (fe_Name c) pre) got' = filter (\<lambda>c. \<not> strings_HasPrefix (fe_Name c) pre) got
    \<and> ops_remove (compareFrontends got' want pre) = []
    \<and> map_of (ops_update (compareFrontends got' want pre)) p = None
    \<and> map_of (ops_create (compareFrontends got' want pre)) p = None"
proof -
  note wanted = assms(1-3) assms(4) [unfolded compare_plans]
  show ?thesis
    using fplan.applied_on [OF wanted] fplan.applied_others [OF wanted]
      fplan.applied_settled [OF assms(1) fplan.applied_on [OF wanted]]
    by (simp add: got'_def compare_plans)
qed

theorem compareFrontends_converges_witness:
  "let got = [sample_frontend ''a'' ''u_80'' 80 30000, sample_frontend ''b'' ''u_80'' 80 30001,
        sample_frontend ''x'' ''other'' 22 30022];
      want = [(80, sample_frontend '''' ''u_80'' 80 30002), (443, sample_frontend '''' ''u_443'' 443 30003)];
      got' = applied fe_InboundPort fe_ID got (compareFrontends got want ''u_'')
        [sample_frontend ''c'' ''u_443'' 443 30003]
   in map frontend_config (managed_on fe_InboundPort fe_Name ''u_'' got' 443) =
        [frontend_config (sample_frontend '''' ''u_443'' 443 30003)]
    \<and> filter (\<lambda>c. \<not> strings_HasPrefix (fe_Name c) ''u_'') got' = [sample_frontend ''x'' ''other'' 22 30022]
    \<and> ops_remove (compareFrontends got' want ''u_'') = []"
proof -
  let ?got = "[sample_frontend ''a'' ''u_80'' 80 30000, sample_frontend ''b'' ''u_80'' 80 30001,
        sample_frontend ''x'' ''other'' 22 30022]"
  let ?want = "[(80, sample_frontend '''' ''u_80'' 80 30002), (443, sample_frontend '''' ''u_443'' 443 30003)]"
  have wf: "wf_want fe_InboundPort ?want" by (simp add: wf_want_def sample_frontend_def)
  have "creates fe_InboundPort frontend_config (compareFrontends ?got ?want ''u_'')
      [sample_frontend ''c'' ''u_443'' 443 30003]"
    unfolding creates_def compare_plans fplan.plan_spec(2) [OF wf]
    by (simp add: first_on_def managed_on_def diff_create_def sample_frontend_def strings_HasPrefix_def
        frontend_config_def)
  from compareFrontends_converges [OF wf _ _ this, of 443] show ?thesis
    by (simp add: sample_frontend_def strings_HasPrefix_def)
qed

text \<open>
  C7: the same for \<open>compareBackends\<close>, by forward port and up to the server pool, which is set
  apart.
\<close>

theorem compareBackends_converges:
  assumes "wf_want be_ForwardPort want"
    and "\<forall>(p, t)\<in>set want. strings_HasPrefix (be_Name t) pre"
    and "distinct (map be_ID got)"
    and "creates be_ForwardPort (backend_config X) (compareBackends X got want pre) created"
  defines "got' \<equiv> applied be_ForwardPort be_ID got (compareBackends X got want pre) created"
  shows "map (backend_config X) (managed_on be_ForwardPort be_Name pre got' p) =
      (case map_of want p of None \<Rightarrow> [] | Some t \<Rightarrow> [backend_config X t])
    \<and> filter (\<lambda>c. \<not> strings_HasPrefix (be_Name c) pre) got' = filter (\<lambda>c. \<not> strings_HasPrefix (be_Name c) pre) got
    \<and> ops_remove (compareBackends X got' want pre) = []
    \<and> map_of (ops_update (compareBackends X got' want pre)) p = None
    \<and> map_of (ops_create (compareBackends X got' want pre)) p = None"
proof -
  note wanted = assms(1-3) assms(4) [unfolded compare_plans]
  show ?thesis
    using bplan.applied_on [OF wanted] bplan.applied_others [OF wanted]
      bplan.applied_settled [OF assms(1) bplan.applied_on [OF wanted]]
    by (simp add: got'_def compare_plans)
qed

theorem compareBackends_converges_witness:
  "let got = [sample_backend ''a'' ''u_1'' 30000, sample_backend ''b'' ''u_2'' 30001];
      want = [(30001, (sample_backend '''' ''u_2'' 30001)\<lparr>be_StickySessions := ''cookie''\<rparr>)];
      got' = applied be_ForwardPort be_ID got (compareBackends sample_sdk got want ''u_'') []
   in map (backend_config sample_sdk) (managed_on be_ForwardPort be_Name ''u_'' got' 30000) = []
    \<and> ops_remove (compareBackends sample_sdk got' want ''u_'') = []"
proof -
  let ?got = "[sample_backend ''a'' ''u_1'' 30000, sample_backend ''b'' ''u_2'' 30001]"
  let ?want = "[(30001, (sample_backend '''' ''u_2'' 30001)\<lparr>be_StickySessions := ''cookie''\<rparr>)]"
  have wf: "wf_want be_ForwardPort ?want" by (simp add: wf_want_def sample_backend_def)
  have "creates be_ForwardPort (backend_config sample_sdk) (compareBackends sample_sdk ?got ?want ''u_'') []"
    unfolding creates_def compare_plans bplan.plan_spec(2) [OF wf]
    by (simp add: first_on_def managed_on_def diff_create_def sample_backend_def strings_HasPrefix_def)
  from compareBackends_converges [OF wf _ _ this, of 30000] show ?thesis
    by (simp add: sample_backend_def strings_HasPrefix_def)
qed

end
