(* ===== verification/Settled.thy ===== *)
theory Settled
  imports ReconcileLaws Converge
begin

text \<open>
  The fixed point of \<open>updateLoadBalancer\<close>: when the load balancer is what the service asks for,
  the update succeeds and only reads.  \<open>Converge\<close> shows that carrying out the plans of changes
  gives such frontends and backends.
\<close>

section \<open>Programs that only read\<close>

definition reads :: "call \<Rightarrow> bool" where
  "reads c = (case c of
      ListLBPrivateNetworks z i \<Rightarrow> True
    | ListFrontends z i n \<Rightarrow> True
    | ListBackends z i n \<Rightarrow> True
    | ListACLs z i n \<Rightarrow> True
    | _ \<Rightarrow> False)"

text \<open>\<open>quiet I m\<close>: the program succeeds with a value in \<open>I\<close>, and its calls only read.\<close>

definition quiet :: "('a \<Rightarrow> bool) \<Rightarrow> 'a act \<Rightarrow> bool" where
  "quiet I m \<longleftrightarrow> (\<forall>h. post m h (\<lambda>r es. (\<exists>x. r = Inr x \<and> I x) \<and> all_calls reads es))"

lemma quiet_ret: "I x \<Longrightarrow> quiet I (retA x)"
  by (simp add: quiet_def post_ret)

lemma quiet_invoke: "reads c \<Longrightarrow> (\<And>h. \<exists>x. reply h c = Inr x \<and> I x) \<Longrightarrow> quiet I (invoke reply c)"
  unfolding quiet_def post_invoke by (auto split: sum.split) (metis sum.distinct(1), metis sum.sel(2))

lemma quiet_wrap: "quiet I m \<Longrightarrow> quiet I (wrapA w m)"
  unfolding quiet_def by (intro allI post_wrap, erule allE, erule post_mono) auto

lemma quiet_bind: "quiet J m \<Longrightarrow> (\<And>x. J x \<Longrightarrow> quiet I (f x)) \<Longrightarrow> quiet I (bindA m f)"
  unfolding quiet_def [of J m] quiet_def [of I "bindA m f"]
proof (intro allI post_bind, erule allE, erule post_mono)
  fix h r es
  assume f: "\<And>x. J x \<Longrightarrow> quiet I (f x)" and r: "(\<exists>x. r = Inr x \<and> J x) \<and> all_calls reads es"
  then obtain x where x: "r = Inr x" "quiet I (f x)" by blast
  show "case r of Inl e \<Rightarrow> (\<exists>x. Inl e = Inr x \<and> I x) \<and> all_calls reads es
    | Inr x \<Rightarrow> post (f x) (h @ es) (\<lambda>r' es'. (\<exists>x. r' = Inr x \<and> I x) \<and> all_calls reads (es @ es'))"
    using x r unfolding quiet_def by (auto intro: post_mono)
qed

lemma quiet_fold:
  "(\<And>x s. x \<in> set xs \<Longrightarrow> I s \<Longrightarrow> quiet I (f x s)) \<Longrightarrow> I s \<Longrightarrow> quiet I (foldA f xs s)"
  by (induction xs arbitrary: s) (auto intro: quiet_ret quiet_bind)

lemma quiet_bind_unit: "quiet (\<lambda>_. True) m \<Longrightarrow> quiet I (f ()) \<Longrightarrow> quiet I (bindA m f)"
  for m :: "unit act"
  by (erule quiet_bind) simp

lemma forA_nothing: "(\<And>x. x \<in> set xs \<Longrightarrow> f x = retA ()) \<Longrightarrow> forA f xs = retA ()"
  by (induction xs) simp_all

section \<open>Private networks\<close>

text \<open>
  The load balancer is attached to the wanted networks, and to no others unless it is externally
  managed; the service asks for no private address.
\<close>

definition settled_networks :: "loadbalancers \<Rightarrow> LB \<Rightarrow> Service \<Rightarrow> bool \<Rightarrow> bool" where
  "settled_networks l lb service ext \<longleftrightarrow> l_pnID l = '''' \<or> getPrivateIPIDs service = [] \<and>
     (\<exists>nics. (\<forall>h. api_ListLBPrivateNetworks (l_api l) h (ListLBPrivateNetworks (lb_Zone lb) (lb_ID lb)) = Inr nics)
       \<and> set (gm_keys (pn_initial l service ext)) \<subseteq> lbpn_PrivateNetworkID ` set nics
       \<and> (ext \<or> lbpn_PrivateNetworkID ` set nics \<subseteq> set (gm_keys (pn_initial l service ext))))"

definition no_addresses :: "attachments \<Rightarrow> bool" where
  "no_addresses m \<longleftrightarrow> (\<forall>pn st. map_of m pn = Some st \<longrightarrow> pn_desiredIPIDs st = [])"

definition attached_in :: "attachments \<Rightarrow> string \<Rightarrow> bool" where
  "attached_in m pn \<longleftrightarrow> (\<exists>st. map_of m pn = Some st \<and> pn_attached st)"

lemma pn_marks:
  assumes "no_addresses m" "ext \<or> lbpn_PrivateNetworkID ` set nics \<subseteq> set (gm_keys m)"
  shows "\<exists>m'. foldA (pn_mark A lb ext) nics m = retA m' \<and> set (gm_keys m') = set (gm_keys m) \<and> no_addresses m'
    \<and> (\<forall>pn\<in>set (gm_keys m). pn \<in> lbpn_PrivateNetworkID ` set nics \<or> attached_in m pn \<longrightarrow> attached_in m' pn)"
  using assms
proof (induction nics arbitrary: m)
  case Nil
  then show ?case by (intro exI [of _ m]) simp
next
  case (Cons nic nics)
  let ?pn = "lbpn_PrivateNetworkID nic"
  show ?case
  proof (cases "map_of m ?pn")
    case None
    then have no: "?pn \<notin> set (gm_keys m)" by (simp add: map_of_eq_None_iff)
    with Cons.prems have "pn_mark A lb ext nic m = retA m" by (simp add: pn_mark_def None)
    moreover have "ext \<or> lbpn_PrivateNetworkID ` set nics \<subseteq> set (gm_keys m)"
      using Cons.prems(2) by auto
    with Cons.IH [OF Cons.prems(1)] obtain m' where "foldA (pn_mark A lb ext) nics m = retA m'"
      "set (gm_keys m') = set (gm_keys m)" "no_addresses m'"
      "\<forall>pn\<in>set (gm_keys m). pn \<in> lbpn_PrivateNetworkID ` set nics \<or> attached_in m pn \<longrightarrow> attached_in m' pn"
      by blast
    ultimately show ?thesis
      using no by (intro exI [of _ m']) force
  next
    case (Some st)
    let ?m = "AList.update ?pn (st\<lparr>pn_attached := True, pn_attachedIPIDs := lbpn_IpamIDs nic\<rparr>) m"
    have mark: "pn_mark A lb ext nic m = retA ?m" by (simp add: pn_mark_def Some)
    have keys: "set (gm_keys ?m) = set (gm_keys m)"
      using map_of_key [OF Some] by (simp only: set_gm_keys_update insert_absorb)
    have none: "no_addresses ?m" using Cons.prems(1) Some by (simp add: no_addresses_def map_of_update)
    have "ext \<or> lbpn_PrivateNetworkID ` set nics \<subseteq> set (gm_keys ?m)"
      using Cons.prems(2) unfolding keys by auto
    from Cons.IH [OF none this] obtain m' where m': "foldA (pn_mark A lb ext) nics ?m = retA m'"
      "set (gm_keys m') = set (gm_keys ?m)" "no_addresses m'"
      "\<forall>pn\<in>set (gm_keys ?m). pn \<in> lbpn_PrivateNetworkID ` set nics \<or> attached_in ?m pn \<longrightarrow> attached_in m' pn"
      by (elim exE conjE)
    have "attached_in m' pn"
      if "pn \<in> set (gm_keys m)" "pn \<in> lbpn_PrivateNetworkID ` set (nic # nics) \<or> attached_in m pn" for pn
    proof -
      have "attached_in m pn \<or> pn = ?pn \<Longrightarrow> attached_in ?m pn" by (auto simp: attached_in_def map_of_update)
      with m'(4) [unfolded keys, rule_format, OF that(1)] that(2) show ?thesis by auto
    qed
    with m' mark keys show ?thesis by (intro exI [of _ m']) simp
  qed
qed

lemma pn_claim_none: "pn_claim ids (d, []) = (d, [])"
  by (induction ids) simp_all

lemma pn_resolve_none: "\<exists>m'. fold pn_resolve pns (m, []) = (m', []) \<and> map_of m' = map_of m"
proof (induction pns arbitrary: m)
  case (Cons pn pns)
  have "\<exists>m1. pn_resolve pn (m, []) = (m1, []) \<and> map_of m1 = map_of m"
    by (auto simp: pn_resolve_def pn_claim_none map_of_update fun_upd_idem_iff split: option.split)
  then show ?case using Cons.IH by (metis fold_simps(2))
qed simp

lemma attachPrivateNetworks_settled:
  assumes "settled_networks l lb service ext"
  shows "quiet (\<lambda>_. True) (attachPrivateNetworks l M lb service ext)"
proof (cases "l_pnID l = ''''")
  case True
  then show ?thesis by (simp add: attachPrivateNetworks_def quiet_ret)
next
  case False
  with assms obtain nics where none: "getPrivateIPIDs service = []"
    and listed: "\<And>h. api_ListLBPrivateNetworks (l_api l) h (ListLBPrivateNetworks (lb_Zone lb) (lb_ID lb)) = Inr nics"
    and wanted: "set (gm_keys (pn_initial l service ext)) \<subseteq> lbpn_PrivateNetworkID ` set nics"
    and others: "ext \<or> lbpn_PrivateNetworkID ` set nics \<subseteq> set (gm_keys (pn_initial l service ext))"
    unfolding settled_networks_def by blast
  let ?m = "pn_initial l service ext"
  have "no_addresses ?m" unfolding no_addresses_def by (auto dest!: pn_initial_zero simp: pn_zero_def)
  from pn_marks [OF this others, of "l_api l" lb] obtain m1 where
    marks: "foldA (pn_mark (l_api l) lb ext) nics ?m = retA m1" and
    keys: "set (gm_keys m1) = set (gm_keys ?m)" and empty: "no_addresses m1" and
    all: "\<forall>pn\<in>set (gm_keys ?m). pn \<in> lbpn_PrivateNetworkID ` set nics \<or> attached_in ?m pn \<longrightarrow> attached_in m1 pn"
    by (elim exE conjE)
  have attached: "attached_in m1 pn" if "pn \<in> set (gm_keys ?m)" for pn
    using all [rule_format, OF that] that wanted by (meson subsetD)
  obtain m2 where resolve: "fold pn_resolve (mo_resolve M (gm_keys m1)) (m1, []) = (m2, [])"
    and m2: "map_of m2 = map_of m1" using pn_resolve_none by blast
  have "pn_attach (l_api l) lb m2 pn = retA ()" for pn
  proof (cases "map_of m1 pn")
    case (Some st)
    then have "pn_attached st" "pn_desiredIPIDs st = []"
      using empty attached [of pn] map_of_key [OF Some] unfolding keys no_addresses_def attached_in_def
      by simp_all
    then show ?thesis by (simp add: pn_attach_def m2 Some)
  qed (simp add: pn_attach_def m2)
  then have "forA (pn_attach (l_api l) lb m2) pns = retA ()" for pns by (rule forA_nothing)
  note rest = this
  have listing: "quiet (\<lambda>x. x = nics) (wrapA w (invoke (api_ListLBPrivateNetworks (l_api l))
      (ListLBPrivateNetworks (lb_Zone lb) (lb_ID lb))))" for w
    by (intro quiet_wrap quiet_invoke) (simp_all add: reads_def listed)
  show ?thesis
    unfolding attachPrivateNetworks_def if_not_P [OF False]
    by (rule quiet_bind [OF listing]) (simp add: none marks resolve rest quiet_ret)
qed
section \<open>Frontends and backends\<close>

text \<open>For every port, the managed resources are the wanted one.\<close>

definition settled_resources ::
  "('r \<Rightarrow> int32) \<Rightarrow> ('r \<Rightarrow> string) \<Rightarrow> ('r \<Rightarrow> 'c) \<Rightarrow> string \<Rightarrow> 'r list \<Rightarrow> (int32, 'r) gomap \<Rightarrow> bool" where
  "settled_resources port name cfg pre got want \<longleftrightarrow>
     (\<forall>p. map cfg (managed_on port name pre got p) = (case map_of want p of None \<Rightarrow> [] | Some t \<Rightarrow> [cfg t]))"

text \<open>
  The load balancer is what the service asks for: its networks; its frontends and backends; the
  servers of each managed backend, up to order; the access control list of each managed
  frontend; and, unless it is externally managed, its type and its compatibility level.
\<close>

definition settled_rules :: "loadbalancers \<Rightarrow> LB \<Rightarrow> Service \<Rightarrow> Node list \<Rightarrow> Frontend \<Rightarrow> bool" where
  "settled_rules l lb service nodes f \<longleftrightarrow> (\<exists>acls specs.
     (\<forall>h. api_ListACLs (l_api l) h
       (ListACLs (lb_Zone lb) (fe_ID f) (fe_ID f @ ''-lb-source-range'')) = Inr acls)
   \<and> makeACLSpecs (l_sdk l) service nodes (Some f) = Some specs \<and> fst (aclsEquals acls specs))"

definition settled_settings :: "loadbalancers \<Rightarrow> LB \<Rightarrow> Service \<Rightarrow> bool" where
  "settled_settings l lb service \<longleftrightarrow>
     (getLoadBalancerType service = '''' \<or> strings_ToLower (lb_Type lb) = getLoadBalancerType service)
   \<and> getSSLCompatibilityLevel (l_sdk l) service = Inr (lb_SslCompatibilityLevel lb)"

definition settled_lb ::
  "loadbalancers \<Rightarrow> LB \<Rightarrow> Service \<Rightarrow> Node list \<Rightarrow> bool \<Rightarrow> Frontend list \<Rightarrow> Backend list \<Rightarrow> bool" where
  "settled_lb l lb service nodes ext gotf gotb \<longleftrightarrow>
     (\<forall>h. api_ListFrontends (l_api l) h (ListFrontends (lb_Zone lb) (lb_ID lb) None) = Inr gotf)
   \<and> (\<forall>h. api_ListBackends (l_api l) h (ListBackends (lb_Zone lb) (lb_ID lb) None) = Inr gotb)
   \<and> settled_networks l lb service ext
   \<and> (\<exists>fs bs. serviceToLB (l_sdk l) service lb (target_ips l service nodes) = Inr (fs, bs)
       \<and> settled_resources fe_InboundPort fe_Name frontend_config (prefix_filter service ext) gotf fs
       \<and> settled_resources be_ForwardPort be_Name (backend_config (l_sdk l)) (prefix_filter service ext) gotb bs)
   \<and> (\<forall>b\<in>set gotb. strings_HasPrefix (be_Name b) (prefix_filter service ext) \<longrightarrow>
       sort_slice (be_Pool b) = sort_slice (target_ips l service nodes))
   \<and> (\<forall>f\<in>set gotf. strings_HasPrefix (fe_Name f) (prefix_filter service ext) \<longrightarrow>
       settled_rules l lb service nodes f)
   \<and> (ext \<or> settled_settings l lb service)"

lemma settled_plans:
  assumes "serviceToLB X service lb tips = Inr (fs, bs)"
    and "settled_resources fe_InboundPort fe_Name frontend_config pre gotf fs"
    and "settled_resources be_ForwardPort be_Name (backend_config X) pre gotb bs"
  shows "ops_remove (compareFrontends gotf fs pre) = []" "map_of (ops_update (compareFrontends gotf fs pre)) p = None"
    "map_of (ops_create (compareFrontends gotf fs pre)) p = None"
    "ops_remove (compareBackends X gotb bs pre) = []" "map_of (ops_update (compareBackends X gotb bs pre)) p = None"
    "map_of (ops_create (compareBackends X gotb bs pre)) p = None"
proof -
  note wf = serviceToLB_Inr(1,2) [OF assms(1)]
  note f = fplan.applied_settled [OF wf(1) assms(2) [unfolded settled_resources_def, rule_format]]
    and b = bplan.applied_settled [OF wf(2) assms(3) [unfolded settled_resources_def, rule_format]]
  show "ops_remove (compareFrontends gotf fs pre) = []" "map_of (ops_update (compareFrontends gotf fs pre)) p = None"
    "map_of (ops_create (compareFrontends gotf fs pre)) p = None"
    "ops_remove (compareBackends X gotb bs pre) = []" "map_of (ops_update (compareBackends X gotb bs pre)) p = None"
    "map_of (ops_create (compareBackends X gotb bs pre)) p = None"
    using f [of p] b [of p] by (simp_all add: compare_plans)
qed

lemma settled_frontend:
  assumes "wf_want fe_InboundPort fs" "map_of fs p = Some t"
    and "settled_resources fe_InboundPort fe_Name frontend_config pre gotf fs"
  obtains f k where "f \<in> set gotf" "strings_HasPrefix (fe_Name f) pre" "fe_ID k = fe_ID f"
    "map_of (ops_keep (compareFrontends gotf fs pre)) p = Some k"
proof -
  obtain k where k: "map_of (ops_keep (compareFrontends gotf fs pre)) p = Some k"
    using fplan.settled_keep [OF assms(1) assms(3) [unfolded settled_resources_def, rule_format] assms(2)]
    by (auto simp: compare_plans)
  show thesis by (rule compareFrontends_keep [OF assms(1) k]) (rule that; use k in simp)
qed

lemma settled_backend:
  assumes "wf_want be_ForwardPort bs" "map_of bs p = Some t"
    and "settled_resources be_ForwardPort be_Name (backend_config X) pre gotb bs"
  obtains k where "k \<in> set gotb" "strings_HasPrefix (be_Name k) pre"
    "map_of (ops_keep (compareBackends X gotb bs pre)) p = Some k"
proof -
  obtain k where k: "map_of (ops_keep (compareBackends X gotb bs pre)) p = Some k"
    using bplan.settled_keep [OF assms(1) assms(3) [unfolded settled_resources_def, rule_format] assms(2)]
    by (auto simp: compare_plans)
  show thesis by (rule compareBackends_keep [OF assms(1) k]) (rule that; use k in simp)
qed

lemma makeACLSpecs_ident:
  "fe_ID f = fe_ID g \<Longrightarrow> makeACLSpecs X service nodes (Some f) = makeACLSpecs X service nodes (Some g)"
  by (simp add: makeACLSpecs_def makeACLPrefix_def)

lemma reconcileACLs_settled:
  assumes "settled_rules l lb service nodes f" "fe_ID k = fe_ID f"
  shows "quiet (\<lambda>_. True) (reconcileACLs (l_sdk l) (l_api l) lb k service nodes)"
proof -
  obtain acls specs where
    listed: "\<And>h. api_ListACLs (l_api l) h (ListACLs (lb_Zone lb) (fe_ID f) (fe_ID f @ ''-lb-source-range'')) = Inr acls"
    and specs: "makeACLSpecs (l_sdk l) service nodes (Some f) = Some specs" and same: "fst (aclsEquals acls specs)"
    using assms(1) unfolding settled_rules_def by blast
  show ?thesis
    unfolding reconcileACLs_def Let_def makeACLSpecs_ident [OF assms(2)] makeACLPrefix_def
    by (rule quiet_bind [of "\<lambda>x. x = acls"])
      (use same in \<open>auto intro!: quiet_wrap quiet_invoke quiet_ret simp: reads_def listed assms(2) specs split: prod.split\<close>)
qed

section \<open>Ports\<close>

lemma port_servers_settled:
  assumes "sort_slice (be_Pool b) = T" "sort_slice tips = T"
  shows "port_servers A lb b tips = retA T"
  using assms by (simp add: port_servers_def stringArrayEqual_def)

lemma reconcile_port_settled:
  assumes conv: "serviceToLB (l_sdk l) service lb ips = Inr (fs, bs)"
    and fronts: "settled_resources fe_InboundPort fe_Name frontend_config pre gotf fs"
    and backs: "settled_resources be_ForwardPort be_Name (backend_config (l_sdk l)) pre gotb bs"
    and pools: "\<forall>b\<in>set gotb. strings_HasPrefix (be_Name b) pre \<longrightarrow> sort_slice (be_Pool b) = T"
    and rules: "\<forall>f\<in>set gotf. strings_HasPrefix (fe_Name f) pre \<longrightarrow> settled_rules l lb service nodes f"
    and port: "port \<in> set (tcp_ports service)" and tips: "sort_slice tips = T"
  shows "quiet (\<lambda>t. sort_slice t = T) (reconcile_port (l_sdk l) (l_api l) lb service nodes
    (compareFrontends gotf fs pre) (compareBackends (l_sdk l) gotb bs pre) port tips)"
proof -
  note plans = settled_plans [OF conv fronts backs]
  obtain u where u: "map_of bs (port_NodePort port) = Some u"
    using serviceToLB_Inr(6) [OF conv] port last_with_None [of port_NodePort "port_NodePort port" "tcp_ports service"]
    by fastforce
  obtain b where b: "b \<in> set gotb" "strings_HasPrefix (be_Name b) pre"
    "map_of (ops_keep (compareBackends (l_sdk l) gotb bs pre)) (port_NodePort port) = Some b"
    using settled_backend [OF serviceToLB_Inr(2) [OF conv] u backs] by blast
  obtain t where t: "map_of fs (port_Port port) = Some t"
    using serviceToLB_Inr(5) [OF conv] port last_with_None [of port_Port "port_Port port" "tcp_ports service"]
    by fastforce
  obtain f k where f: "f \<in> set gotf" "strings_HasPrefix (fe_Name f) pre" "fe_ID k = fe_ID f"
    "map_of (ops_keep (compareFrontends gotf fs pre)) (port_Port port) = Some k"
    using settled_frontend [OF serviceToLB_Inr(1) [OF conv] t fronts] by blast
  have "port_backend (l_api l) lb (compareBackends (l_sdk l) gotb bs pre) port tips = retA b"
    by (simp add: port_backend_def plans b)
  moreover have "port_frontend (l_api l) lb (compareFrontends gotf fs pre) port b = retA k"
    by (simp add: port_frontend_def plans f)
  moreover have "port_servers (l_api l) lb b tips = retA T"
    using pools b(1,2) tips by (intro port_servers_settled) auto
  moreover have "sort_slice T = T"
    unfolding tips [symmetric] by (simp add: sort_slice_def option.map_comp comp_def sorted_sort_id)
  moreover have "settled_rules l lb service nodes f" using rules f(1,2) by blast
  ultimately show ?thesis
    using reconcileACLs_settled [of l lb service nodes f k] f(3)
    by (auto simp: reconcile_port_def intro!: quiet_bind [of "\<lambda>_. True"] quiet_ret)
qed

lemma remove_nothing: "remove_frontends A lb [] = retA ()" "remove_backends A lb [] = retA ()"
  by (simp_all add: remove_frontends_def remove_backends_def)

lemma update_settings_settled:
  "settled_settings l lb service \<Longrightarrow> update_settings l lb service = retA ()"
  by (auto simp: settled_settings_def update_settings_def Let_def)

section \<open>A settled load balancer\<close>

text \<open>
  The load balancer of the sample service, on the private network \<open>pn\<close>, as the service asks
  for: the frontend and the backend that the conversion gives, with identifiers of their own.
\<close>

lemma default_durations:
  "time_ParseDuration ''10m'' = Inr 600000000000" "time_ParseDuration ''10s'' = Inr 10000000000"
  "time_ParseDuration ''5s'' = Inr 5000000000"
  by (simp_all add: time_ParseDuration_def duration_loop.simps duration_step_def split_number_def Let_def
    not_unit_char_def is_digit_def digit_val_def unitMap_def of_char_def)

abbreviation port80 :: ServicePort where
  "port80 \<equiv> \<lparr>port_Protocol = ''TCP'', port_Port = 80, port_NodePort = 30080\<rparr>"

lemma sample_defaults:
  "svcPort sample_service 30080 = 80" "isPortInRange '''' p = Inr False"
  "svc_Annotations sample_service = []" "svc_Ports sample_service = [port80]"
  by (simp_all add: svcPort_def sample_service_def isPortInRange_def strconv_ParseBool_def)

lemma sample_names:
  "resource_name sample_service ''TCP'' 30080 = ''u_tcp_30080''" "resource_name sample_service ''TCP'' 80 = ''u_tcp_80''"
  by (simp_all add: resource_name_def sample_service_def strings_ToLower_def lower_char_def is_upper_def
      fmt_d_def nat_dec.simps char_of_def bit_iff_odd)

definition settled_frontend_sample :: Frontend where
  "settled_frontend_sample = \<lparr>fe_ID = ''f1'', fe_Name = ''u_tcp_80'', fe_InboundPort = 80,
     fe_Backend = Some (zero_Backend\<lparr>be_ForwardPort := 30080\<rparr>), fe_TimeoutClient = Some 600000000000,
     fe_CertificateIDs = Some [], fe_ConnectionRateLimit = None, fe_EnableAccessLogs = False,
     fe_EnableHTTP3 = False\<rparr>"

definition settled_backend_sample :: Backend where
  "settled_backend_sample = zero_Backend\<lparr>be_ID := ''b1'', be_Name := ''u_tcp_30080'',
     be_Pool := Some [''10.0.0.2'', ''10.0.0.1''], be_ForwardProtocol := ProtocolTCP, be_SslBridging := Some False,
     be_ForwardPort := 30080, be_ForwardPortAlgorithm := ''roundrobin'', be_StickySessions := ''none'',
     be_ProxyProtocol := ProxyProtocolNone, be_TimeoutServer := Some 10000000000,
     be_TimeoutConnect := Some 600000000000, be_TimeoutTunnel := Some 600000000000,
     be_OnMarkedDownAction := ''on_marked_down_action_none'', be_RedispatchAttemptCount := Some 0,
     be_MaxRetries := Some 3,
     be_HealthCheck := Some (zero_HealthCheck\<lparr>hc_Port := 30080, hc_CheckDelay := Some 5000000000,
       hc_CheckTimeout := Some 5000000000, hc_CheckMaxRetries := 5, hc_TCPConfig := Some ()\<rparr>)\<rparr>"

lemma sample_frontend_conversion:
  "servicePortToFrontend sample_service lb port80 = Inr (settled_frontend_sample\<lparr>fe_ID := ''''\<rparr>)"
  by (simp add: servicePortToFrontend_def default_durations getTimeoutClient_def durationAnno_def
      getCertificateIDs_def getConnectionRateLimit_def getEnableAccessLogs_def getEnableHTTP3_def
      boolAnno_def sample_defaults settled_frontend_sample_def sample_names getOrZero_def)

lemma sample_health_check:
  "backend_health_check sample_sdk sample_service port80 = Inr (the (be_HealthCheck settled_backend_sample))"
  by (simp add: backend_health_check_def default_durations getNativeHealthCheck_def typed_health_check_def
      getHealthCheckType_def valueForPortAnno_def getTCPHealthCheck_def getHealthCheckSendProxy_def
      getHealthCheckDelay_def getHealthCheckTimeout_def getHealthCheckMaxRetries_def
      getHealthCheckTransientCheckDelay_def int32Anno_def durationAnno_def sample_defaults
      settled_backend_sample_def getOrZero_def zero_HealthCheck_def Let_def)

lemma sample_backend_conversion:
  "servicePortToBackend sample_sdk sample_service lb port80 ips =
     Inr (settled_backend_sample\<lparr>be_ID := '''', be_Pool := ips\<rparr>)"
  by (simp add: servicePortToBackend_def sample_health_check sample_names default_durations
      getForwardProtocol_def getSSLBridging_def getSSLBridgingSkipVerify_def getForwardPortAlgorithm_def
      getStickySessions_def getProxyProtocol_def getSendProxyV2_def getTimeoutServer_def
      getTimeoutConnect_def getTimeoutTunnel_def getTimeoutQueue_def getOnMarkedDownAction_def
      getRedisatchAttemptCount_def getMaxConnections_def getMaxRetries_def getFailoverHost_def
      int32Anno_def durationAnno_def sample_defaults getOrZero_def Let_def StickySessionsTypeNone_def
      StickySessionsTypeCookie_def ForwardPortAlgorithmRoundrobin_def OnMarkedDownActionNone_def
      settled_backend_sample_def zero_Backend_def)

definition settled_nodes :: "Node list" where
  "settled_nodes = map (\<lambda>(name, ip). \<lparr>node_Name = name, node_Labels = [], node_CreationTimestamp = 0,
     node_ProviderID = '''', node_Taints = [], node_Addresses = [\<lparr>addr_Type = NodeInternalIP, addr_Address = ip\<rparr>]\<rparr>)
     [(''n1'', ''10.0.0.1''), (''n2'', ''10.0.0.2'')]"

definition settled_controller :: loadbalancers where
  "settled_controller = newLoadbalancers sample_sdk sample_env sample_kube (sample_api\<lparr>
     api_ListFrontends := (\<lambda>h c. Inr [settled_frontend_sample]),
     api_ListBackends := (\<lambda>h c. Inr [settled_backend_sample]),
     api_ListLBPrivateNetworks := (\<lambda>h c. Inr [\<lparr>lbpn_PrivateNetworkID = ''pn'', lbpn_IpamIDs = [''ip'']\<rparr>])\<rparr>) '''' ''pn''"

lemma settled_sample: "settled_lb settled_controller sample_lb sample_service settled_nodes False
    [settled_frontend_sample] [settled_backend_sample]"
proof -
  let ?tips = "Some [''10.0.0.1'', ''10.0.0.2'']"
  have tips: "target_ips settled_controller sample_service settled_nodes = ?tips"
    by (simp add: target_ips_def useInternalIPs_def settled_controller_def newLoadbalancers_def
        extractNodesInternalIps_def node_ips_def settled_nodes_def sappend_def)
  have conv: "serviceToLB sample_sdk sample_service sample_lb ?tips =
      Inr ([(80, settled_frontend_sample\<lparr>fe_ID := ''''\<rparr>)],
        [(30080, settled_backend_sample\<lparr>be_ID := '''', be_Pool := ?tips\<rparr>)])"
    by (simp add: serviceToLB_def sample_defaults v1_ProtocolTCP_def sample_frontend_conversion
        sample_backend_conversion)
  have fronts: "settled_resources fe_InboundPort fe_Name frontend_config '''' [settled_frontend_sample]
      [(80, settled_frontend_sample\<lparr>fe_ID := ''''\<rparr>)]"
    by (simp add: settled_resources_def managed_on_def settled_frontend_sample_def frontend_config_def
        strings_HasPrefix_def)
  have backs: "settled_resources be_ForwardPort be_Name (backend_config sample_sdk) '''' [settled_backend_sample]
      [(30080, settled_backend_sample\<lparr>be_ID := '''', be_Pool := ?tips\<rparr>)]"
    by (simp add: settled_resources_def managed_on_def settled_backend_sample_def backend_config_def
        strings_HasPrefix_def)
  have networks: "settled_networks settled_controller sample_lb sample_service False"
    by (simp add: settled_networks_def settled_controller_def newLoadbalancers_def getPrivateIPIDs_def
        pn_initial_def getPrivateNetworkIDs_def getOrZero_def sample_defaults sample_service_def)
  have rules: "settled_rules settled_controller sample_lb sample_service settled_nodes settled_frontend_sample"
    by (simp add: settled_rules_def settled_controller_def newLoadbalancers_def sample_api_def
        makeACLSpecs_def sample_service_def aclsEquals_def slices_SortStableFunc_def)
  have settings: "settled_settings settled_controller sample_lb sample_service"
    by (simp add: settled_settings_def getLoadBalancerType_def getSSLCompatibilityLevel_def getOrZero_def
        sample_defaults strings_ToLower_def sample_lb_def SSLCompatibilityLevelIntermediate_def)
  have pool: "sort_slice (be_Pool settled_backend_sample) = sort_slice ?tips"
    by (simp add: sort_slice_def settled_backend_sample_def)
  show ?thesis
    unfolding settled_lb_def tips
    using conv fronts backs networks rules settings pool
    by (simp add: settled_controller_def newLoadbalancers_def prefix_filter_def)
qed

section \<open>Property\<close>

text \<open>
  C8: when the load balancer is what the service asks for, an update succeeds and only reads.
\<close>

theorem updateLoadBalancer_settled:
  assumes "svcExternallyManaged service = Inr ext"
    and "\<forall>port\<in>set (svc_Ports service). port_Protocol port = v1_ProtocolTCP"
    and "nodesInitialized now (filterNodes service nodes) (useInternalIPs l service) = None"
    and "settled_lb l lb service (filterNodes service nodes) ext gotf gotb"
  shows "post (updateLoadBalancer l now M lb service nodes) h (\<lambda>r es. r = Inr () \<and> all_calls reads es)"
proof -
  let ?nodes = "filterNodes service nodes" and ?pre = "prefix_filter service ext"
  let ?tips = "target_ips l service ?nodes"
  obtain fs bs where conv: "serviceToLB (l_sdk l) service lb ?tips = Inr (fs, bs)"
    and fronts: "settled_resources fe_InboundPort fe_Name frontend_config ?pre gotf fs"
    and backs: "settled_resources be_ForwardPort be_Name (backend_config (l_sdk l)) ?pre gotb bs"
    using assms(4) unfolding settled_lb_def by blast
  note lb = assms(4) [unfolded settled_lb_def]
  have tcp: "tcp_ports service = svc_Ports service" using assms(2) by (simp add: tcp_ports_def)
  have ports: "quiet (\<lambda>t. sort_slice t = sort_slice ?tips) (foldA (reconcile_port (l_sdk l) (l_api l) lb service ?nodes
      (compareFrontends gotf fs ?pre) (compareBackends (l_sdk l) gotb bs ?pre)) (svc_Ports service) ?tips)"
    by (rule quiet_fold, rule reconcile_port_settled [OF conv fronts backs]) (use lb tcp in simp_all)
  have plans: "quiet (\<lambda>_. True) (apply_plans l lb service ?nodes ext ?tips
      (compareFrontends gotf fs ?pre) (compareBackends (l_sdk l) gotb bs ?pre))"
    unfolding apply_plans_def settled_plans(1,4) [OF conv fronts backs] remove_nothing bindA_ret
    by (rule quiet_bind [OF ports], cases ext)
      (use lb in \<open>simp_all add: update_settings_settled quiet_ret\<close>)
  have "quiet (\<lambda>_. True) (updateLoadBalancer l now M lb service nodes)"
    unfolding updateLoadBalancer_eq assms(1) Let_def
    using assms(3) lb conv plans
    by (auto intro!: quiet_ret quiet_bind [OF quiet_wrap [OF attachPrivateNetworks_settled]]
        quiet_bind [OF quiet_wrap [OF quiet_invoke [of _ _ "\<lambda>x. x = gotf"]]]
        quiet_bind [OF quiet_wrap [OF quiet_invoke [of _ _ "\<lambda>x. x = gotb"]]] simp: reads_def)
  then show ?thesis unfolding quiet_def by (auto elim: post_mono)
qed

theorem updateLoadBalancer_settled_witness:
  "post (updateLoadBalancer settled_controller 0 sample_order sample_lb sample_service settled_nodes) []
     (\<lambda>r es. r = Inr () \<and> all_calls reads es)"
proof -
  have nodes: "filterNodes sample_service settled_nodes = settled_nodes"
    by (simp add: filterNodes_def sample_defaults)
  show ?thesis
  proof (rule updateLoadBalancer_settled [where ext = False])
    show "svcExternallyManaged sample_service = Inr False"
      by (simp add: svcExternallyManaged_def boolAnno_def sample_defaults)
    show "\<forall>port\<in>set (svc_Ports sample_service). port_Protocol port = v1_ProtocolTCP"
      by (simp add: sample_defaults v1_ProtocolTCP_def)
    show "nodesInitialized 0 (filterNodes sample_service settled_nodes)
        (useInternalIPs settled_controller sample_service) = None"
      unfolding nodes by (simp add: settled_nodes_def useInternalIPs_def settled_controller_def
          newLoadbalancers_def extractNodesInternalIps_def node_ips_def sappend_def)
    show "settled_lb settled_controller sample_lb sample_service (filterNodes sample_service settled_nodes) False
        [settled_frontend_sample] [settled_backend_sample]"
      unfolding nodes by (rule settled_sample)
  qed
qed

end
