(* ===== verification/Perform.thy ===== *)
theory Perform
  imports Settled
begin

text \<open>
  What a successful \<open>updateLoadBalancer\<close> has changed: the calls that create, update and delete
  frontends and backends are exactly those of the plans, each with every field of the planned
  resource, in the order of the plans; and the backend of every port has the target addresses as
  its servers.
\<close>

section \<open>Changes\<close>

text \<open>
  A call as the change that it makes, if it is one.  The servers of a backend are left out, as
  they are set apart; a frontend comes with the identifier of its backend.
\<close>

datatype change =
    DeletedFrontend string
  | DeletedBackend string
  | CreatedBackend Backend
  | UpdatedBackend Backend
  | UpdatedCheck string HealthCheck
  | CreatedFrontend string Frontend
  | UpdatedFrontend string Frontend

definition created_backend :: "CreateBackendRequest \<Rightarrow> Backend" where
  "created_backend r =
     \<lparr>be_ID = '''', be_Name = cb_Name r, be_Pool = None, be_ForwardProtocol = cb_ForwardProtocol r,
      be_SslBridging = cb_SslBridging r, be_IgnoreSslServerVerify = cb_IgnoreSslServerVerify r,
      be_ForwardPort = cb_ForwardPort r, be_ForwardPortAlgorithm = cb_ForwardPortAlgorithm r,
      be_StickySessions = cb_StickySessions r, be_StickySessionsCookieName = cb_StickySessionsCookieName r,
      be_ProxyProtocol = cb_ProxyProtocol r, be_TimeoutServer = cb_TimeoutServer r,
      be_TimeoutConnect = cb_TimeoutConnect r, be_TimeoutTunnel = cb_TimeoutTunnel r,
      be_TimeoutQueue = cb_TimeoutQueue r, be_OnMarkedDownAction = cb_OnMarkedDownAction r,
      be_HealthCheck = cb_HealthCheck r, be_RedispatchAttemptCount = cb_RedispatchAttemptCount r,
      be_MaxConnections = cb_MaxConnections r, be_MaxRetries = cb_MaxRetries r,
      be_FailoverHost = cb_FailoverHost r\<rparr>"

definition updated_backend :: "UpdateBackendRequest \<Rightarrow> Backend" where
  "updated_backend r =
     \<lparr>be_ID = ub_BackendID r, be_Name = ub_Name r, be_Pool = None, be_ForwardProtocol = ub_ForwardProtocol r,
      be_SslBridging = ub_SslBridging r, be_IgnoreSslServerVerify = ub_IgnoreSslServerVerify r,
      be_ForwardPort = ub_ForwardPort r, be_ForwardPortAlgorithm = ub_ForwardPortAlgorithm r,
      be_StickySessions = ub_StickySessions r, be_StickySessionsCookieName = ub_StickySessionsCookieName r,
      be_ProxyProtocol = ub_ProxyProtocol r, be_TimeoutServer = ub_TimeoutServer r,
      be_TimeoutConnect = ub_TimeoutConnect r, be_TimeoutTunnel = ub_TimeoutTunnel r,
      be_TimeoutQueue = ub_TimeoutQueue r, be_OnMarkedDownAction = ub_OnMarkedDownAction r,
      be_HealthCheck = None, be_RedispatchAttemptCount = ub_RedispatchAttemptCount r,
      be_MaxConnections = ub_MaxConnections r, be_MaxRetries = ub_MaxRetries r,
      be_FailoverHost = ub_FailoverHost r\<rparr>"

definition created_frontend :: "CreateFrontendRequest \<Rightarrow> Frontend" where
  "created_frontend r =
     \<lparr>fe_ID = '''', fe_Name = cf_Name r, fe_InboundPort = cf_InboundPort r, fe_Backend = None,
      fe_TimeoutClient = cf_TimeoutClient r, fe_CertificateIDs = cf_CertificateIDs r,
      fe_ConnectionRateLimit = cf_ConnectionRateLimit r, fe_EnableAccessLogs = cf_EnableAccessLogs r,
      fe_EnableHTTP3 = cf_EnableHTTP3 r\<rparr>"

definition updated_frontend :: "UpdateFrontendRequest \<Rightarrow> Frontend" where
  "updated_frontend r =
     \<lparr>fe_ID = uf_FrontendID r, fe_Name = uf_Name r, fe_InboundPort = uf_InboundPort r, fe_Backend = None,
      fe_TimeoutClient = uf_TimeoutClient r, fe_CertificateIDs = uf_CertificateIDs r,
      fe_ConnectionRateLimit = uf_ConnectionRateLimit r,
      fe_EnableAccessLogs = (uf_EnableAccessLogs r = Some True), fe_EnableHTTP3 = uf_EnableHTTP3 r\<rparr>"

definition updated_check :: "UpdateHealthCheckRequest \<Rightarrow> HealthCheck" where
  "updated_check r =
     \<lparr>hc_Port = uh_Port r, hc_CheckDelay = uh_CheckDelay r, hc_CheckTimeout = uh_CheckTimeout r,
      hc_CheckMaxRetries = uh_CheckMaxRetries r, hc_TCPConfig = uh_TCPConfig r,
      hc_MysqlConfig = uh_MysqlConfig r, hc_PgsqlConfig = uh_PgsqlConfig r,
      hc_LdapConfig = uh_LdapConfig r, hc_RedisConfig = uh_RedisConfig r, hc_HTTPConfig = uh_HTTPConfig r,
      hc_HTTPSConfig = uh_HTTPSConfig r, hc_CheckSendProxy = uh_CheckSendProxy r,
      hc_TransientCheckDelay = uh_TransientCheckDelay r\<rparr>"

definition change :: "call \<Rightarrow> change list" where
  "change c = (case c of
      DeleteFrontend z i \<Rightarrow> [DeletedFrontend i]
    | DeleteBackend z i \<Rightarrow> [DeletedBackend i]
    | CreateBackend r \<Rightarrow> [CreatedBackend (created_backend r)]
    | UpdateBackend r \<Rightarrow> [UpdatedBackend (updated_backend r)]
    | UpdateHealthCheck r \<Rightarrow> [UpdatedCheck (uh_BackendID r) (updated_check r)]
    | CreateFrontend r \<Rightarrow> [CreatedFrontend (cf_BackendID r) (created_frontend r)]
    | UpdateFrontend r \<Rightarrow> [UpdatedFrontend (uf_BackendID r) (updated_frontend r)]
    | _ \<Rightarrow> [])"

definition changes :: "hist \<Rightarrow> change list" where
  "changes es = concat (map (change \<circ> fst) es)"

lemma changes_append [simp]: "changes (es @ es') = changes es @ changes es'"
  by (simp add: changes_def)

lemma changes_Nil [simp]: "changes [] = []"
  by (simp add: changes_def)

section \<open>What a program returns, with its events\<close>

definition returns :: "('a \<Rightarrow> hist \<Rightarrow> bool) \<Rightarrow> 'a act \<Rightarrow> bool" where
  "returns Q m \<longleftrightarrow> (\<forall>h. post m h (\<lambda>r es. \<forall>x. r = Inr x \<longrightarrow> Q x es))"

lemma returns_mono: "returns Q m \<Longrightarrow> (\<And>x es. Q x es \<Longrightarrow> Q' x es) \<Longrightarrow> returns Q' m"
  unfolding returns_def by (blast intro: post_mono)

lemma returns_ret: "Q x [] \<Longrightarrow> returns Q (retA x)"
  by (simp add: returns_def post_ret)

lemma returns_fail: "returns Q (failA e)"
  by (simp add: returns_def post_fail)

lemma returns_lift: "(\<And>x. r = Inr x \<Longrightarrow> Q x []) \<Longrightarrow> returns Q (liftA r)"
  by (simp add: returns_def post_lift)

lemma returns_invoke: "(\<And>h x. reply h c = Inr x \<Longrightarrow> Q x [(c, None)]) \<Longrightarrow> returns Q (invoke reply c)"
  by (simp add: returns_def post_invoke split: sum.split)

lemma returns_wrap: "returns Q m \<Longrightarrow> returns Q (wrapA w m)"
proof -
  have "rwrap w r = Inr x \<longleftrightarrow> r = Inr x" for r :: "err + 'a" and x by (cases r) simp_all
  then show "returns Q m \<Longrightarrow> returns Q (wrapA w m)"
    unfolding returns_def by (intro allI post_wrap) simp
qed

lemma returns_bind:
  assumes "returns J m" "\<And>x es. J x es \<Longrightarrow> returns (\<lambda>y es'. Q y (es @ es')) (f x)"
  shows "returns Q (bindA m f)"
  unfolding returns_def
proof (intro allI post_bind, rule post_mono)
  fix h
  show "post m h (\<lambda>r es. \<forall>x. r = Inr x \<longrightarrow> J x es)" using assms(1) by (simp add: returns_def)
  fix r es
  assume "\<forall>x. r = Inr x \<longrightarrow> J x es"
  then show "case r of Inl e \<Rightarrow> \<forall>x. Inl e = Inr x \<longrightarrow> Q x es
    | Inr x \<Rightarrow> post (f x) (h @ es) (\<lambda>r' es'. \<forall>y. r' = Inr y \<longrightarrow> Q y (es @ es'))"
    using assms(2) unfolding returns_def by (auto split: sum.split)
qed

lemma returns_if_emits: "emits L m \<Longrightarrow> returns (\<lambda>_ es. L es) m"
  unfolding returns_def by (intro allI, rule post_mono, erule emits_post) simp

lemma returns_fold:
  assumes "\<And>x s. x \<in> set xs \<Longrightarrow> I s \<Longrightarrow> returns (\<lambda>s' es. I s' \<and> P x es) (f x s)"
    and stable: "\<And>x as es bs. P x es \<Longrightarrow> P x (as @ es @ bs)"
    and "I s"
  shows "returns (\<lambda>s' es. I s' \<and> (\<forall>x\<in>set xs. P x es)) (foldA f xs s)"
  using assms(1,3)
proof (induction xs arbitrary: s)
  case (Cons x xs)
  show ?case
    unfolding foldA.simps
  proof (rule returns_bind [OF Cons.prems(1)])
    fix s' es
    assume x: "I s' \<and> P x es"
    have "returns (\<lambda>s' es. I s' \<and> (\<forall>x\<in>set xs. P x es)) (foldA f xs s')"
      by (rule Cons.IH) (use Cons.prems x in auto)
    then show "returns (\<lambda>y es'. I y \<and> (\<forall>x\<in>set (x # xs). P x (es @ es'))) (foldA f xs s')"
      by (rule returns_mono) (use x stable [of _ _ "[]"] stable [of _ _ _ "[]"] in fastforce)
  qed (use Cons.prems in simp_all)
qed (simp add: returns_ret)

section \<open>What a program has changed when it succeeds\<close>

definition performs :: "('a \<Rightarrow> change list \<Rightarrow> bool) \<Rightarrow> 'a act \<Rightarrow> bool" where
  "performs Q = returns (\<lambda>x es. Q x (changes es))"

lemma performs_mono: "performs Q m \<Longrightarrow> (\<And>x cs. Q x cs \<Longrightarrow> Q' x cs) \<Longrightarrow> performs Q' m"
  unfolding performs_def by (erule returns_mono)

lemma performs_ret: "Q x [] \<Longrightarrow> performs Q (retA x)"
  by (simp add: performs_def returns_ret)

lemma performs_fail: "performs Q (failA e)"
  by (simp add: performs_def returns_fail)

lemma performs_lift: "(\<And>x. r = Inr x \<Longrightarrow> Q x []) \<Longrightarrow> performs Q (liftA r)"
  by (simp add: performs_def returns_lift)

lemma performs_invoke: "(\<And>h x. reply h c = Inr x \<Longrightarrow> Q x (change c)) \<Longrightarrow> performs Q (invoke reply c)"
  by (simp add: performs_def returns_invoke changes_def)

lemma performs_call: "performs (\<lambda>x cs. (\<exists>h. reply h c = Inr x) \<and> cs = change c) (invoke reply c)"
  by (rule performs_invoke) blast

lemma performs_request:
  "P r \<Longrightarrow> performs (\<lambda>x cs. (\<exists>h r. reply h (C r) = Inr x \<and> P r) \<and> cs = change (C r)) (invoke reply (C r))"
  by (rule performs_invoke) blast

lemma performs_wrap: "performs Q m \<Longrightarrow> performs Q (wrapA w m)"
  by (simp add: performs_def returns_wrap)

lemma performs_bind:
  assumes "performs J m" "\<And>x cs. J x cs \<Longrightarrow> performs (\<lambda>y ds. Q y (cs @ ds)) (f x)"
  shows "performs Q (bindA m f)"
  using assms unfolding performs_def by (auto intro: returns_bind)

lemma performs_for:
  assumes "\<And>x. x \<in> set xs \<Longrightarrow> performs (\<lambda>_ cs. cs = g x) (f x)"
  shows "performs (\<lambda>_ cs. cs = concat (map g xs)) (forA f xs)"
  using assms
proof (induction xs)
  case (Cons x xs)
  have rest: "performs (\<lambda>_ cs. cs = concat (map g xs)) (forA f xs)"
    by (intro Cons.IH Cons.prems) simp
  show ?case
    unfolding forA.simps by (rule performs_bind [OF Cons.prems]) (simp_all add: rest)
qed (simp add: performs_ret)

lemma performs_fold:
  assumes "\<And>x s. x \<in> set xs \<Longrightarrow> performs (\<lambda>_ cs. P x cs) (f x s)"
  shows "performs (\<lambda>_ cs. \<exists>css. list_all2 P xs css \<and> cs = concat css) (foldA f xs s)"
  using assms
proof (induction xs arbitrary: s)
  case (Cons x xs)
  have rest: "performs (\<lambda>_ ds. \<exists>css. list_all2 P (x # xs) css \<and> cs @ ds = concat css) (foldA f xs y)"
    if "P x cs" for y cs
  proof (rule performs_mono [OF Cons.IH])
    show "\<exists>css. list_all2 P (x # xs) css \<and> cs @ ds = concat css"
      if "\<exists>css. list_all2 P xs css \<and> ds = concat css" for ds
    proof -
      from that obtain css where "list_all2 P xs css" "ds = concat css" by blast
      with \<open>P x cs\<close> show ?thesis by (intro exI [of _ "cs # css"]) simp
    qed
  qed (simp add: Cons.prems)
  show ?case
    unfolding foldA.simps by (rule performs_bind [OF Cons.prems]) (simp_all only: list.set_intros rest)
qed (simp add: performs_ret)

text \<open>Calls that change no frontend and no backend.\<close>

lemma changes_nothing: "all_calls (\<lambda>c. change c = []) es \<Longrightarrow> changes es = []"
  unfolding changes_def list_all_iff concat_eq_Nil_conv set_map by (auto simp only: comp_apply)

lemma performs_nothing:
  assumes "emits (all_calls (\<lambda>c. change c = [])) m"
  shows "performs (\<lambda>_ cs. cs = []) m"
  unfolding performs_def by (rule returns_mono [OF returns_if_emits [OF assms]]) (simp add: changes_nothing)

section \<open>The plans\<close>

text \<open>
  What one port needs: its backend is updated with its health check, or created, and then its
  frontend is updated or created, on that backend.
\<close>

definition backend_changes :: "Backend ops \<Rightarrow> int32 \<Rightarrow> change list" where
  "backend_changes bops np =
     (case map_of (ops_update bops) np of
        None \<Rightarrow> []
      | Some b \<Rightarrow> [UpdatedBackend (b\<lparr>be_Pool := None, be_HealthCheck := None\<rparr>),
                   UpdatedCheck (be_ID b) (the (be_HealthCheck b))])
   @ (case map_of (ops_create bops) np of
        None \<Rightarrow> []
      | Some b \<Rightarrow> [CreatedBackend (b\<lparr>be_ID := '''', be_Pool := None\<rparr>)])"

definition frontend_changes :: "Frontend ops \<Rightarrow> int32 \<Rightarrow> string \<Rightarrow> change list" where
  "frontend_changes fops p backendID =
     (case map_of (ops_update fops) p of
        None \<Rightarrow> []
      | Some f \<Rightarrow> [UpdatedFrontend backendID (f\<lparr>fe_Backend := None\<rparr>)])
   @ (case map_of (ops_create fops) p of
        None \<Rightarrow> []
      | Some f \<Rightarrow> [CreatedFrontend backendID (f\<lparr>fe_ID := '''', fe_Backend := None\<rparr>)])"

text \<open>The backend of a port: the one created, the one updated, or the one that is kept.\<close>

definition backend_of_port :: "api \<Rightarrow> Backend ops \<Rightarrow> int32 \<Rightarrow> Backend \<Rightarrow> bool" where
  "backend_of_port A bops np backend \<longleftrightarrow>
     (case (map_of (ops_create bops) np, map_of (ops_update bops) np) of
        (Some b, _) \<Rightarrow> \<exists>h r. api_CreateBackend A h (CreateBackend r) = Inr backend
          \<and> created_backend r = b\<lparr>be_ID := '''', be_Pool := None\<rparr>
      | (None, Some b) \<Rightarrow> \<exists>h r. api_UpdateBackend A h (UpdateBackend r) = Inr backend
          \<and> ub_BackendID r = be_ID b
      | (None, None) \<Rightarrow> map_of (ops_keep bops) np = Some backend)"

definition port_done :: "api \<Rightarrow> Frontend ops \<Rightarrow> Backend ops \<Rightarrow> ServicePort \<Rightarrow> change list \<Rightarrow> bool" where
  "port_done A fops bops port cs \<longleftrightarrow> (\<exists>backend. backend_of_port A bops (port_NodePort port) backend
     \<and> cs = backend_changes bops (port_NodePort port)
          @ frontend_changes fops (port_Port port) (be_ID backend))"

lemma performs_updateBackend:
  "performs (\<lambda>x cs. (\<exists>h r. api_UpdateBackend A h (UpdateBackend r) = Inr x \<and> ub_BackendID r = be_ID b)
     \<and> cs = [UpdatedBackend (b\<lparr>be_Pool := None, be_HealthCheck := None\<rparr>),
             UpdatedCheck (be_ID b) (the (be_HealthCheck b))])
   (updateBackend A lb b)"
proof (cases "be_HealthCheck b")
  case None
  then show ?thesis
    unfolding updateBackend_def by (auto intro!: performs_bind [OF performs_call] performs_fail)
next
  case (Some hc)
  show ?thesis
    unfolding updateBackend_def Some option.case
    by (rule performs_bind [OF performs_request [where P = "\<lambda>r. ub_BackendID r = be_ID b"]], simp,
        rule performs_bind [OF performs_wrap [OF performs_call]], rule performs_ret)
      (simp add: change_def updated_backend_def updated_check_def)
qed

lemma performs_createBackend:
  "performs (\<lambda>x cs. (\<exists>h r. api_CreateBackend A h (CreateBackend r) = Inr x
       \<and> created_backend r = b\<lparr>be_ID := '''', be_Pool := None\<rparr>)
     \<and> cs = [CreatedBackend (b\<lparr>be_ID := '''', be_Pool := None\<rparr>)])
   (createBackend A lb b)"
  unfolding createBackend_def
  by (rule performs_mono [OF performs_request
        [where P = "\<lambda>r. created_backend r = b\<lparr>be_ID := '''', be_Pool := None\<rparr>"]])
    (simp_all add: change_def created_backend_def)

lemma performs_updateFrontend:
  "performs (\<lambda>x cs. cs = [UpdatedFrontend (be_ID b) (f\<lparr>fe_Backend := None\<rparr>)]) (updateFrontend A lb f b)"
  unfolding updateFrontend_def
  by (rule performs_mono [OF performs_call]) (simp add: change_def updated_frontend_def)

lemma performs_createFrontend:
  "performs (\<lambda>x cs. cs = [CreatedFrontend (be_ID b) (f\<lparr>fe_ID := '''', fe_Backend := None\<rparr>)])
   (createFrontend A lb f b)"
  unfolding createFrontend_def
  by (rule performs_mono [OF performs_call]) (simp add: change_def created_frontend_def)

section \<open>Ports\<close>

text \<open>"\<open>if x, ok := plan[port]; ok { r, err = m(x) ... }\<close>": the step that each plan takes.\<close>

lemma performs_optional:
  assumes "\<And>b. entry = Some b \<Longrightarrow> performs (P b) (m b)"
  shows "performs (\<lambda>r cs. case entry of None \<Rightarrow> r = before \<and> cs = [] | Some b \<Rightarrow> \<exists>x. r = Some x \<and> P b x cs)
    (case entry of None \<Rightarrow> retA before | Some b \<Rightarrow> bindA (wrapA w (m b)) (\<lambda>x. retA (Some x)))"
proof (cases entry)
  case None
  then show ?thesis by (simp add: performs_ret)
next
  case (Some b)
  then show ?thesis
    by (auto intro!: performs_bind [OF performs_wrap [OF assms [OF Some]]] performs_ret)
qed

lemma performs_port_backend:
  "performs (\<lambda>backend cs. backend_of_port A bops (port_NodePort port) backend
     \<and> cs = backend_changes bops (port_NodePort port)) (port_backend A lb bops port tips)"
proof -
  have create: "performs (\<lambda>x cs. (\<exists>h r. api_CreateBackend A h (CreateBackend r) = Inr x
       \<and> created_backend r = b\<lparr>be_ID := '''', be_Pool := None\<rparr>)
     \<and> cs = [CreatedBackend (b\<lparr>be_ID := '''', be_Pool := None\<rparr>)])
     (createBackend A lb (b\<lparr>be_Pool := tips\<rparr>))" for b
    using performs_createBackend [of A "b\<lparr>be_Pool := tips\<rparr>" lb] by simp
  show ?thesis
    unfolding port_backend_def
    by (rule performs_bind [OF performs_optional [OF performs_updateBackend]],
        rule performs_bind [OF performs_optional [OF create]])
      (auto simp: backend_of_port_def backend_changes_def split: option.splits
        intro!: performs_ret performs_fail)
qed

lemma performs_port_frontend:
  "performs (\<lambda>_ cs. cs = frontend_changes fops (port_Port port) (be_ID backend))
     (port_frontend A lb fops port backend)"
  unfolding port_frontend_def
  by (rule performs_bind [OF performs_optional [OF performs_updateFrontend]],
      rule performs_bind [OF performs_optional [OF performs_createFrontend]])
    (auto simp: frontend_changes_def split: option.splits intro!: performs_ret performs_fail)

lemma performs_reconcile_port:
  "performs (\<lambda>_ cs. port_done A fops bops port cs) (reconcile_port X A lb service nodes fops bops port tips)"
proof -
  have servers: "performs (\<lambda>_ cs. cs = []) (port_servers A lb b tips)" for b
    by (rule performs_nothing)
      (auto simp: port_servers_def change_def intro!: all_calls.emits_intros split: prod.split)
  have rules: "performs (\<lambda>_ cs. cs = []) (reconcileACLs X A lb f service nodes)" for f
    by (rule performs_nothing)
      (auto simp: reconcileACLs_def Let_def change_def intro!: all_calls.emits_intros split: option.split prod.split)
  show ?thesis
    unfolding reconcile_port_def
    by (rule performs_bind [OF performs_port_backend], rule performs_bind [OF servers],
        rule performs_bind [OF performs_port_frontend], rule performs_bind [OF rules], rule performs_ret)
      (auto simp: port_done_def)
qed

lemma performs_removals:
  "performs (\<lambda>_ cs. cs = map (DeletedFrontend \<circ> fe_ID) fs) (remove_frontends A lb fs)"
  "performs (\<lambda>_ cs. cs = map (DeletedBackend \<circ> be_ID) bs) (remove_backends A lb bs)"
proof -
  have "performs (\<lambda>_ cs. cs = change c) (wrapA w (invoke reply c))"
    for w c and reply :: "hist \<Rightarrow> call \<Rightarrow> api_error + unit"
    by (rule performs_mono [OF performs_wrap [OF performs_call]]) simp
  note deletions = performs_for [OF this]
  show "performs (\<lambda>_ cs. cs = map (DeletedFrontend \<circ> fe_ID) fs) (remove_frontends A lb fs)"
    unfolding remove_frontends_def by (rule performs_mono [OF deletions]) (simp add: change_def comp_def)
  show "performs (\<lambda>_ cs. cs = map (DeletedBackend \<circ> be_ID) bs) (remove_backends A lb bs)"
    unfolding remove_backends_def by (rule performs_mono [OF deletions]) (simp add: change_def comp_def)
qed

lemma performs_apply_plans:
  "performs (\<lambda>_ cs. \<exists>css. list_all2 (port_done (l_api l) fops bops) (svc_Ports service) css
     \<and> cs = map (DeletedFrontend \<circ> fe_ID) (ops_remove fops) @ concat css
         @ map (DeletedBackend \<circ> be_ID) (ops_remove bops))
   (apply_plans l lb service nodes ext tips fops bops)"
proof -
  have settings: "performs (\<lambda>_ cs. cs = []) (if \<not> ext then update_settings l lb service else retA ())"
    by (rule performs_nothing)
      (auto simp: update_settings_def Let_def change_def intro!: all_calls.emits_intros)
  show ?thesis
    unfolding apply_plans_def
    by (rule performs_bind [OF performs_removals(1)], rule performs_bind [OF performs_fold [OF performs_reconcile_port]],
        rule performs_bind [OF performs_removals(2)], rule performs_mono [OF settings]) auto
qed

text \<open>
  The changes of an update whose plans were made from what the service listed and from what the
  service of Kubernetes converts to.
\<close>

definition carried_out :: "loadbalancers \<Rightarrow> LB \<Rightarrow> Service \<Rightarrow> Node list \<Rightarrow> string \<Rightarrow> change list \<Rightarrow> bool" where
  "carried_out l lb service nodes pre cs \<longleftrightarrow> (\<exists>h1 h2 gotf gotb fs bs css.
     api_ListFrontends (l_api l) h1 (ListFrontends (lb_Zone lb) (lb_ID lb) None) = Inr gotf
   \<and> api_ListBackends (l_api l) h2 (ListBackends (lb_Zone lb) (lb_ID lb) None) = Inr gotb
   \<and> serviceToLB (l_sdk l) service lb (target_ips l service (filterNodes service nodes)) = Inr (fs, bs)
   \<and> list_all2 (port_done (l_api l) (compareFrontends gotf fs pre) (compareBackends (l_sdk l) gotb bs pre))
       (svc_Ports service) css
   \<and> cs = map (DeletedFrontend \<circ> fe_ID) (ops_remove (compareFrontends gotf fs pre))
        @ concat css @ map (DeletedBackend \<circ> be_ID) (ops_remove (compareBackends (l_sdk l) gotb bs pre)))"

lemma performs_updateLoadBalancer:
  assumes "svc_DeletionTimestamp service = None" "svcExternallyManaged service = Inr ext"
  shows "performs (\<lambda>_ cs. carried_out l lb service nodes (prefix_filter service ext) cs)
    (updateLoadBalancer l now M lb service nodes)"
proof -
  let ?tips = "target_ips l service (filterNodes service nodes)" and ?pre = "prefix_filter service ext"
  have networks: "performs (\<lambda>_ cs. cs = []) (wrapA w (attachPrivateNetworks l M lb service ext))" for w
    by (rule performs_wrap [OF performs_nothing], rule emits_calls_mono [OF attachPrivateNetworks_emits])
      (auto simp: pn_call_def change_def split: call.splits)
  have conv: "performs (\<lambda>r cs. serviceToLB (l_sdk l) service lb ?tips = Inr r \<and> cs = [])
      (liftA (rwrap w (serviceToLB (l_sdk l) service lb ?tips)))" for w
    by (rule performs_lift) simp
  have plans: "performs (\<lambda>_ cs. carried_out l lb service nodes ?pre cs) (apply_plans l lb service nodes' ext ?tips
      (compareFrontends gotf fs ?pre) (compareBackends (l_sdk l) gotb bs ?pre))"
    if "api_ListFrontends (l_api l) h1 (ListFrontends (lb_Zone lb) (lb_ID lb) None) = Inr gotf"
      "api_ListBackends (l_api l) h2 (ListBackends (lb_Zone lb) (lb_ID lb) None) = Inr gotb"
      "serviceToLB (l_sdk l) service lb ?tips = Inr (fs, bs)" for h1 h2 gotf gotb fs bs nodes'
    by (rule performs_mono [OF performs_apply_plans]) (use that in \<open>unfold carried_out_def, blast\<close>)
  show ?thesis
    unfolding updateLoadBalancer_eq assms(2) Let_def
    using assms(1)
    by (auto intro!: performs_ret performs_fail performs_bind [OF networks] performs_bind [OF conv]
        performs_bind [OF performs_wrap [OF performs_call]] plans simp: change_def split: option.split)
qed

section \<open>Servers\<close>

text \<open>
  A backend has the servers of a multiset if the service answered so, or if it was sent them.
\<close>

definition served :: "LB \<Rightarrow> string multiset \<Rightarrow> Backend \<Rightarrow> hist \<Rightarrow> bool" where
  "served lb targets b es \<longleftrightarrow> mset (elems (be_Pool b)) = targets
     \<or> (\<exists>ips. (SetBackendServers (lb_Zone lb) (be_ID b) ips, None) \<in> set es \<and> mset (elems ips) = targets)"

lemma served_append: "served lb targets b es \<Longrightarrow> served lb targets b (as @ es @ bs)"
  by (auto simp: served_def)

lemma returns_port_servers:
  assumes "mset (elems tips) = targets"
  shows "returns (\<lambda>t es. mset (elems t) = targets \<and> served lb targets b es) (port_servers A lb b tips)"
proof -
  obtain equal pool tips' where eq: "stringArrayEqual (be_Pool b) tips = (equal, pool, tips')"
    by (metis surj_pair)
  have tips': "mset (elems tips') = targets"
    using eq assms by (auto simp: stringArrayEqual_def Let_def split: if_splits)
  have same: "mset (elems (be_Pool b)) = targets" if equal
    using stringArrayEqual_iff [of "be_Pool b" tips] eq assms that by simp
  show ?thesis
    unfolding port_servers_def eq prod.case
    by (rule returns_bind [where J = "\<lambda>_ es. served lb targets b es"])
      (use same tips' in \<open>auto simp: served_def intro!: returns_ret returns_bind
        [where J = "\<lambda>_ es. es = [(SetBackendServers (lb_Zone lb) (be_ID b) tips', None)]"]
        returns_wrap returns_invoke\<close>)
qed

lemma returns_port_backend:
  "returns (\<lambda>b es. backend_of_port A bops (port_NodePort port) b) (port_backend A lb bops port tips)"
  using performs_port_backend [of A bops port lb tips]
  unfolding performs_def by (rule returns_mono) simp

lemma returns_reconcile_port:
  assumes "mset (elems tips) = targets"
  shows "returns (\<lambda>t es. mset (elems t) = targets
      \<and> (\<exists>b. backend_of_port A bops (port_NodePort port) b \<and> served lb targets b es))
    (reconcile_port X A lb service nodes fops bops port tips)"
proof -
  have frontend: "returns (\<lambda>_ _. True) (port_frontend A lb fops port b)" for b
    using performs_port_frontend [of fops port b A lb]
    unfolding performs_def by (rule returns_mono) simp
  have rules: "returns (\<lambda>_ _. True) (reconcileACLs X A lb f service nodes)" for f
  proof -
    have "emits (all_calls (\<lambda>_. True)) (reconcileACLs X A lb f service nodes)"
      by (auto simp: reconcileACLs_def Let_def intro!: all_calls.emits_intros split: option.split prod.split)
    then show ?thesis by (rule returns_mono [OF returns_if_emits]) simp
  qed
  show ?thesis
    unfolding reconcile_port_def
    by (rule returns_bind [OF returns_port_backend], rule returns_bind [OF returns_port_servers [OF assms]],
        rule returns_bind [OF frontend], rule returns_bind [OF rules], rule returns_ret)
      (auto intro: served_append)
qed

text \<open>Every port of the service has a backend with the target addresses.\<close>

definition ports_served :: "loadbalancers \<Rightarrow> LB \<Rightarrow> Service \<Rightarrow> Node list \<Rightarrow> string \<Rightarrow> hist \<Rightarrow> bool" where
  "ports_served l lb service nodes pre es \<longleftrightarrow> (\<exists>h gotb fs bs.
     api_ListBackends (l_api l) h (ListBackends (lb_Zone lb) (lb_ID lb) None) = Inr gotb
   \<and> serviceToLB (l_sdk l) service lb (target_ips l service (filterNodes service nodes)) = Inr (fs, bs)
   \<and> (\<forall>port\<in>set (svc_Ports service). \<exists>b.
        backend_of_port (l_api l) (compareBackends (l_sdk l) gotb bs pre) (port_NodePort port) b
        \<and> served lb (mset (elems (target_ips l service (filterNodes service nodes)))) b es))"

lemma ports_served_append: "ports_served l lb service nodes pre es \<Longrightarrow> ports_served l lb service nodes pre (as @ es @ bs)"
  unfolding ports_served_def using served_append by meson

lemma returns_apply_plans:
  assumes "mset (elems tips) = targets"
  shows "returns (\<lambda>_ es. \<forall>port\<in>set (svc_Ports service). \<exists>b.
      backend_of_port (l_api l) bops (port_NodePort port) b \<and> served lb targets b es)
    (apply_plans l lb service nodes ext tips fops bops)"
proof -
  let ?P = "\<lambda>port es. \<exists>b. backend_of_port (l_api l) bops (port_NodePort port) b \<and> served lb targets b es"
  have stable: "?P port es \<Longrightarrow> ?P port (as @ es @ bs)" for port as es bs
    using served_append by blast
  have ports: "returns (\<lambda>t es. mset (elems t) = targets \<and> (\<forall>port\<in>set (svc_Ports service). ?P port es))
      (foldA (reconcile_port (l_sdk l) (l_api l) lb service nodes fops bops) (svc_Ports service) tips)"
    by (rule returns_fold, rule returns_reconcile_port, assumption, erule stable, rule assms)
  have removals: "returns (\<lambda>_ _. True) (remove_frontends A lb fs)" "returns (\<lambda>_ _. True) (remove_backends A lb bs)"
    for A fs bs
    by (rule returns_mono [OF returns_if_emits [OF remove_phase(1)]], simp)
      (rule returns_mono [OF returns_if_emits [OF remove_phase(2)]], simp)
  have settings: "returns (\<lambda>_ _. True) (if \<not> ext then update_settings l lb service else retA ())"
    using returns_mono [OF returns_if_emits [OF update_settings_phase]] by (simp add: returns_ret)
  show ?thesis
    unfolding apply_plans_def
    by (rule returns_bind [OF removals(1)], rule returns_bind [OF ports], rule returns_bind [OF removals(2)],
        rule returns_mono [OF settings]) (use stable in blast)
qed

lemma returns_updateLoadBalancer:
  assumes "svc_DeletionTimestamp service = None" "svcExternallyManaged service = Inr ext"
  shows "returns (\<lambda>_ es. ports_served l lb service nodes (prefix_filter service ext) es)
    (updateLoadBalancer l now M lb service nodes)"
proof -
  let ?tips = "target_ips l service (filterNodes service nodes)" and ?pre = "prefix_filter service ext"
  have networks: "returns (\<lambda>_ _. True) (wrapA w (attachPrivateNetworks l M lb service ext))" for w
    by (rule returns_wrap, rule returns_mono [OF returns_if_emits [OF pn_phase]]) simp
  have conv: "returns (\<lambda>r _. serviceToLB (l_sdk l) service lb ?tips = Inr r)
      (liftA (rwrap w (serviceToLB (l_sdk l) service lb ?tips)))" for w
    by (rule returns_lift) simp
  have call: "returns (\<lambda>x _. \<exists>h. reply h c = Inr x) (wrapA w (invoke reply c))"
    for w c and reply :: "hist \<Rightarrow> call \<Rightarrow> api_error + 'z"
    by (rule returns_wrap, rule returns_invoke) blast
  have plans: "returns (\<lambda>_ es. ports_served l lb service nodes ?pre (as @ es)) (apply_plans l lb service nodes' ext ?tips
      (compareFrontends gotf fs ?pre) (compareBackends (l_sdk l) gotb bs ?pre))"
    if "api_ListBackends (l_api l) h2 (ListBackends (lb_Zone lb) (lb_ID lb) None) = Inr gotb"
      "serviceToLB (l_sdk l) service lb ?tips = Inr (fs, bs)" for h2 gotf gotb fs bs nodes' as
  proof (rule returns_mono [OF returns_apply_plans [OF refl]])
    fix es
    assume "\<forall>port\<in>set (svc_Ports service). \<exists>b.
        backend_of_port (l_api l) (compareBackends (l_sdk l) gotb bs ?pre) (port_NodePort port) b
        \<and> served lb (mset (elems ?tips)) b es"
    then have "ports_served l lb service nodes ?pre es" unfolding ports_served_def using that by blast
    from ports_served_append [OF this, of as "[]"] show "ports_served l lb service nodes ?pre (as @ es)" by simp
  qed
  show ?thesis
    unfolding updateLoadBalancer_eq assms(2) Let_def
    using assms(1)
    by (auto intro!: returns_ret returns_fail returns_bind [OF networks] returns_bind [OF conv]
        returns_bind [OF call] plans [simplified] simp: append_assoc [symmetric]
        simp del: append_assoc split: option.split)
qed

section \<open>A run\<close>

text \<open>The first update of the sample service, on a load balancer without frontends and backends.\<close>

lemma bindA_call: "bindA (wrapA w (invoke reply c)) f h = (case reply h c of
    Inl e \<Rightarrow> (Inl (w (ApiErr e)), h @ [(c, Some e)]) | Inr x \<Rightarrow> f x (h @ [(c, None)]))"
  by (simp add: act_applies invoke_def split: sum.split)

lemma sample_answers:
  "l_sdk sample_controller = sample_sdk" "l_api sample_controller = sample_api"
  "api_ListFrontends sample_api h c = Inr []" "api_ListBackends sample_api h c = Inr []"
  "api_ListACLs sample_api h c = Inr []"
  "api_CreateBackend sample_api h (CreateBackend r) = Inr (zero_Backend\<lparr>be_ID := ''b1'', be_Name := cb_Name r,
     be_ForwardPort := cb_ForwardPort r, be_Pool := cb_ServerIP r\<rparr>)"
  "api_CreateFrontend sample_api h (CreateFrontend q) = Inr \<lparr>fe_ID = ''f1'', fe_Name = cf_Name q,
     fe_InboundPort = cf_InboundPort q, fe_Backend = None, fe_TimeoutClient = cf_TimeoutClient q,
     fe_CertificateIDs = cf_CertificateIDs q, fe_ConnectionRateLimit = cf_ConnectionRateLimit q,
     fe_EnableAccessLogs = cf_EnableAccessLogs q, fe_EnableHTTP3 = cf_EnableHTTP3 q\<rparr>"
  by (simp_all add: sample_controller_def newLoadbalancers_def sample_api_def)

lemma sample_wants:
  "serviceToLB sample_sdk sample_service sample_lb None =
     Inr ([(80, settled_frontend_sample\<lparr>fe_ID := ''''\<rparr>)], [(30080, settled_backend_sample\<lparr>be_ID := '''', be_Pool := None\<rparr>)])"
  "compareFrontends [] [(80, settled_frontend_sample\<lparr>fe_ID := ''''\<rparr>)] '''' =
     \<lparr>ops_remove = [], ops_update = [], ops_create = [(80, settled_frontend_sample\<lparr>fe_ID := ''''\<rparr>)], ops_keep = []\<rparr>"
  "compareBackends sample_sdk [] [(30080, settled_backend_sample\<lparr>be_ID := '''', be_Pool := None\<rparr>)] '''' =
     \<lparr>ops_remove = [], ops_update = [], ops_create = [(30080, settled_backend_sample\<lparr>be_ID := '''', be_Pool := None\<rparr>)],
      ops_keep = []\<rparr>"
  by (simp_all add: serviceToLB_def sample_defaults v1_ProtocolTCP_def sample_frontend_conversion
      sample_backend_conversion compareFrontends_def compareBackends_def cmp_init_def
      settled_frontend_sample_def settled_backend_sample_def)

lemma sample_quiet_parts:
  "attachPrivateNetworks sample_controller M lb s e = retA ()"
  "target_ips sample_controller sample_service [] = None" "filterNodes sample_service [] = []"
  "makeACLSpecs X sample_service n f = Some []" "svcExternallyManaged sample_service = Inr False"
  "svc_DeletionTimestamp sample_service = None"
  "stringArrayEqual None None = (True, None, None)" "fst (aclsEquals [] [])"
  "update_settings sample_controller sample_lb sample_service = retA ()"
proof -
  have "settled_settings sample_controller sample_lb sample_service"
    by (simp add: settled_settings_def getLoadBalancerType_def getSSLCompatibilityLevel_def getOrZero_def
        sample_defaults strings_ToLower_def sample_lb_def SSLCompatibilityLevelIntermediate_def)
  then show "update_settings sample_controller sample_lb sample_service = retA ()"
    by (rule update_settings_settled)
qed (simp_all add: attachPrivateNetworks_def sample_controller_def newLoadbalancers_def target_ips_def
    extractNodesInternalIps_def extractNodesExternalIps_def node_ips_def sappend_def filterNodes_def
    sample_defaults makeACLSpecs_def sample_service_def svcExternallyManaged_def boolAnno_def
    stringArrayEqual_def aclsEquals_def sort_slice_def slices_SortStableFunc_def)

lemma sample_run:
  "\<exists>es. updateLoadBalancer sample_controller 0 sample_order sample_lb sample_service [] [] = (Inr (), es)
    \<and> changes es = [CreatedBackend (settled_backend_sample\<lparr>be_ID := '''', be_Pool := None\<rparr>),
        CreatedFrontend ''b1'' (settled_frontend_sample\<lparr>fe_ID := '''', fe_Backend := None\<rparr>)]"
  unfolding updateLoadBalancer_eq
  by (simp add: sample_quiet_parts sample_wants sample_answers bindA_call bindA_assoc remove_nothing
      prefix_filter_def apply_plans_def sample_defaults reconcile_port_def port_backend_def
      port_frontend_def port_servers_def createBackend_def createFrontend_def reconcileACLs_def
      split_beta)
    (simp add: retA_def changes_def change_def created_backend_def created_frontend_def
      settled_backend_sample_def settled_frontend_sample_def zero_Backend_def)

section \<open>Properties\<close>

text \<open>
  C4: when an update succeeds, the changes of frontends and backends that it has made are
  exactly those that the plans ask for, field by field and in this order: the frontends to remove
  are deleted; for each port its backend is updated with its health check or created, and its
  frontend is updated or created on that backend; the backends to remove are deleted.
\<close>

theorem updateLoadBalancer_performs:
  assumes "svc_DeletionTimestamp service = None" "svcExternallyManaged service = Inr ext"
  shows "post (updateLoadBalancer l now M lb service nodes) h (\<lambda>r es. r = Inr () \<longrightarrow>
    carried_out l lb service nodes (if ext then svc_UID service @ ''_'' else '''') (changes es))"
proof -
  have pre: "prefix_filter service ext = (if ext then svc_UID service @ ''_'' else '''')"
    by (simp add: prefix_filter_def)
  show ?thesis
    by (rule post_mono, rule performs_updateLoadBalancer [OF assms, unfolded performs_def returns_def pre, rule_format]) simp
qed

theorem updateLoadBalancer_performs_witness:
  "\<exists>es. updateLoadBalancer sample_controller 0 sample_order sample_lb sample_service [] [] = (Inr (), es)
    \<and> changes es = [CreatedBackend (settled_backend_sample\<lparr>be_ID := '''', be_Pool := None\<rparr>),
        CreatedFrontend ''b1'' (settled_frontend_sample\<lparr>fe_ID := '''', fe_Backend := None\<rparr>)]
    \<and> carried_out sample_controller sample_lb sample_service [] '''' (changes es)"
  using sample_run updateLoadBalancer_performs [OF sample_quiet_parts(6,5),
      of sample_controller 0 sample_order sample_lb "[]" "[]"]
  by (auto simp: post_def)

text \<open>
  C34: when an update succeeds, every port of the service has a backend whose servers are the
  target addresses: the backend that was created or updated for the port, or is kept for it,
  had exactly these servers in the answer of the service, or a call that succeeded has set them
  on this very backend.
\<close>

theorem updateLoadBalancer_serves:
  assumes "svc_DeletionTimestamp service = None" "svcExternallyManaged service = Inr ext"
  shows "post (updateLoadBalancer l now M lb service nodes) h (\<lambda>r es. r = Inr () \<longrightarrow>
    ports_served l lb service nodes (if ext then svc_UID service @ ''_'' else '''') es)"
proof -
  have pre: "prefix_filter service ext = (if ext then svc_UID service @ ''_'' else '''')"
    by (simp add: prefix_filter_def)
  show ?thesis
    by (rule post_mono, rule returns_updateLoadBalancer [OF assms, unfolded returns_def pre, rule_format]) simp
qed

theorem updateLoadBalancer_serves_witness:
  "\<exists>es. updateLoadBalancer sample_controller 0 sample_order sample_lb sample_service [] [] = (Inr (), es)
    \<and> ports_served sample_controller sample_lb sample_service [] '''' es"
  using sample_run updateLoadBalancer_serves [OF sample_quiet_parts(6,5),
      of sample_controller 0 sample_order sample_lb "[]" "[]"]
  by (auto simp: post_def)

end
