(* ===== verification/Servers.thy ===== *)
theory Servers
  imports Effects
begin

text \<open>
  \<open>scaleway/servers.go\<close>: the provider identifier of a node, the Go interface \<open>Servers\<close> as a
  record of its methods, and its implementation that dispatches between instances and bare
  metal servers.
\<close>

section \<open>Provider identifiers\<close>

definition ProviderName :: string where
  "ProviderName = ''scaleway''"

definition InstanceTypeInstance :: string where
  "InstanceTypeInstance = ''instance''"

definition InstanceTypeBaremtal :: string where
  "InstanceTypeBaremtal = ''baremetal''"

definition nodeLabelDisableLifeCycle :: string where
  "nodeLabelDisableLifeCycle = ''k8s.scw.cloud/disable-lifecycle''"

definition nodeLabelNodePublicIP :: string where
  "nodeLabelNodePublicIP = ''k8s.scw.cloud/node-public-ip''"

text \<open>
  The match of \<open>providerIDRegexp\<close>, which is not anchored: it starts at the first occurrence of
  \<open>scaleway://\<close> and extends to the end of the line (\<open>.\<close> does not match a newline).  Its first
  alternative takes the text up to the first slash, up to the second, and the rest; its second
  alternative takes everything when there are less than two slashes.
\<close>

definition providerIDMatch :: "string \<Rightarrow> (string \<times> string \<times> string) option" where
  "providerIDMatch providerID =
     (case strings_Cut providerID (ProviderName @ ''://'') of
        None \<Rightarrow> None
      | Some (before, after) \<Rightarrow>
          let line = takeWhile (\<lambda>c. c \<noteq> CHR 0x0A) after in
          (case strings_Split line ''/'' of
             product # localization # uuid # parts \<Rightarrow>
               Some (product, localization, strings_Join (uuid # parts) ''/'')
           | _ \<Rightarrow> Some ('''', '''', line)))"

definition ServerInfoFromProviderID :: "string \<Rightarrow> err + string \<times> string \<times> string" where
  "ServerInfoFromProviderID providerID =
     (case providerIDMatch providerID of
        None \<Rightarrow> Inl BadProviderID
      | Some (product, localization, uuid) \<Rightarrow>
          Inr (if product = '''' then InstanceTypeInstance else product, localization, uuid))"

definition BuildProviderID :: "string \<Rightarrow> string \<Rightarrow> string \<Rightarrow> string" where
  "BuildProviderID product localization id' =
     ProviderName @ ''://'' @ product @ ''/'' @ localization @ ''/'' @ id'"

section \<open>The interface\<close>

record Zone =
  zone_FailureDomain :: string
  zone_Region :: string

record InstanceMetadata =
  md_ProviderID :: string
  md_InstanceType :: string
  md_NodeAddresses :: "NodeAddress list"
  md_Zone :: string
  md_Region :: string

record Servers =
  s_NodeAddresses :: "string \<Rightarrow> NodeAddress list act"
  s_NodeAddressesByProviderID :: "string \<Rightarrow> NodeAddress list act"
  s_InstanceID :: "string \<Rightarrow> string act"
  s_InstanceType :: "string \<Rightarrow> string act"
  s_InstanceTypeByProviderID :: "string \<Rightarrow> string act"
  s_AddSSHKeyToAllInstances :: "string \<Rightarrow> string \<Rightarrow> unit act"
  s_CurrentNodeName :: "string \<Rightarrow> string act"
  s_InstanceExistsByProviderID :: "string \<Rightarrow> bool act"
  s_InstanceShutdownByProviderID :: "string \<Rightarrow> bool act"
  s_InstanceExists :: "Node \<Rightarrow> bool act"
  s_InstanceShutdown :: "Node \<Rightarrow> bool act"
  s_InstanceMetadata :: "Node \<Rightarrow> InstanceMetadata act"
  s_GetZoneByProviderID :: "string \<Rightarrow> Zone act"
  s_GetZoneByNodeName :: "string \<Rightarrow> Zone act"

section \<open>Dispatch\<close>

text \<open>The struct \<open>servers\<close>, which implements the interface from two implementations of it.\<close>

record servers =
  srv_instances :: Servers
  srv_baremetal :: Servers

definition getImplementationByProviderID :: "servers \<Rightarrow> string \<Rightarrow> Servers" where
  "getImplementationByProviderID s providerID =
     (if strings_HasPrefix providerID (ProviderName @ ''://'' @ InstanceTypeBaremtal)
      then srv_baremetal s else srv_instances s)"

text \<open>"\<open>if err == cloudprovider.InstanceNotFound { return s.baremetal... }; return x, err\<close>".\<close>

definition or_baremetal :: "'a act \<Rightarrow> 'a act \<Rightarrow> 'a act" where
  "or_baremetal m m' = catchA m (\<lambda>err. if err = InstanceNotFound then m' else failA err) retA"

definition servers_NodeAddresses :: "servers \<Rightarrow> string \<Rightarrow> NodeAddress list act" where
  "servers_NodeAddresses s name =
     or_baremetal (s_NodeAddresses (srv_instances s) name) (s_NodeAddresses (srv_baremetal s) name)"

definition servers_NodeAddressesByProviderID :: "servers \<Rightarrow> string \<Rightarrow> NodeAddress list act" where
  "servers_NodeAddressesByProviderID s providerID =
     s_NodeAddressesByProviderID (getImplementationByProviderID s providerID) providerID"

definition servers_InstanceID :: "servers \<Rightarrow> string \<Rightarrow> string act" where
  "servers_InstanceID s nodeName =
     or_baremetal (s_InstanceID (srv_instances s) nodeName) (s_InstanceID (srv_baremetal s) nodeName)"

definition servers_InstanceType :: "servers \<Rightarrow> string \<Rightarrow> string act" where
  "servers_InstanceType s nodeName =
     or_baremetal (s_InstanceType (srv_instances s) nodeName) (s_InstanceType (srv_baremetal s) nodeName)"

definition servers_InstanceTypeByProviderID :: "servers \<Rightarrow> string \<Rightarrow> string act" where
  "servers_InstanceTypeByProviderID s providerID =
     s_InstanceTypeByProviderID (getImplementationByProviderID s providerID) providerID"

definition servers_AddSSHKeyToAllInstances :: "servers \<Rightarrow> string \<Rightarrow> string \<Rightarrow> unit act" where
  "servers_AddSSHKeyToAllInstances s user keyData = failA NotImplemented"

definition servers_CurrentNodeName :: "servers \<Rightarrow> string \<Rightarrow> string act" where
  "servers_CurrentNodeName s hostname = retA hostname"

definition servers_InstanceExistsByProviderID :: "servers \<Rightarrow> string \<Rightarrow> bool act" where
  "servers_InstanceExistsByProviderID s providerID =
     s_InstanceExistsByProviderID (getImplementationByProviderID s providerID) providerID"

definition servers_InstanceShutdownByProviderID :: "servers \<Rightarrow> string \<Rightarrow> bool act" where
  "servers_InstanceShutdownByProviderID s providerID =
     s_InstanceShutdownByProviderID (getImplementationByProviderID s providerID) providerID"

definition servers_GetZoneByProviderID :: "servers \<Rightarrow> string \<Rightarrow> Zone act" where
  "servers_GetZoneByProviderID s providerID =
     s_GetZoneByProviderID (getImplementationByProviderID s providerID) providerID"

definition servers_GetZoneByNodeName :: "servers \<Rightarrow> string \<Rightarrow> Zone act" where
  "servers_GetZoneByNodeName s nodeName =
     or_baremetal (s_GetZoneByNodeName (srv_instances s) nodeName)
                  (s_GetZoneByNodeName (srv_baremetal s) nodeName)"

definition servers_InstanceExists :: "servers \<Rightarrow> Node \<Rightarrow> bool act" where
  "servers_InstanceExists s node =
     (if map_of (node_Labels node) nodeLabelDisableLifeCycle \<noteq> None then retA True
      else if node_ProviderID node = '''' then
        bindA (s_InstanceExists (srv_instances s) node) (\<lambda>exists.
          if \<not> exists then s_InstanceExists (srv_baremetal s) node else retA exists)
      else s_InstanceExists (getImplementationByProviderID s (node_ProviderID node)) node)"

definition servers_InstanceShutdown :: "servers \<Rightarrow> Node \<Rightarrow> bool act" where
  "servers_InstanceShutdown s node =
     (if map_of (node_Labels node) nodeLabelDisableLifeCycle \<noteq> None then retA False
      else if node_ProviderID node = '''' then
        or_baremetal (s_InstanceShutdown (srv_instances s) node) (s_InstanceShutdown (srv_baremetal s) node)
      else s_InstanceShutdown (getImplementationByProviderID s (node_ProviderID node)) node)"

definition servers_InstanceMetadata :: "servers \<Rightarrow> Node \<Rightarrow> InstanceMetadata act" where
  "servers_InstanceMetadata s node =
     (case map_of (node_Labels node) nodeLabelNodePublicIP of
        Some address \<Rightarrow>
          retA \<lparr>md_ProviderID = '''', md_InstanceType = '''',
                md_NodeAddresses = \<lparr>addr_Type = NodeExternalIP, addr_Address = address\<rparr>
                  # filter (\<lambda>a. addr_Type a \<noteq> NodeExternalIP) (node_Addresses node),
                md_Zone = '''', md_Region = ''''\<rparr>
      | None \<Rightarrow>
          if node_ProviderID node = '''' then
            or_baremetal (s_InstanceMetadata (srv_instances s) node) (s_InstanceMetadata (srv_baremetal s) node)
          else s_InstanceMetadata (getImplementationByProviderID s (node_ProviderID node)) node)"

text \<open>The struct as a value of the interface.\<close>

definition servers_Servers :: "servers \<Rightarrow> Servers" where
  "servers_Servers s =
     \<lparr>s_NodeAddresses = servers_NodeAddresses s,
      s_NodeAddressesByProviderID = servers_NodeAddressesByProviderID s,
      s_InstanceID = servers_InstanceID s,
      s_InstanceType = servers_InstanceType s,
      s_InstanceTypeByProviderID = servers_InstanceTypeByProviderID s,
      s_AddSSHKeyToAllInstances = servers_AddSSHKeyToAllInstances s,
      s_CurrentNodeName = servers_CurrentNodeName s,
      s_InstanceExistsByProviderID = servers_InstanceExistsByProviderID s,
      s_InstanceShutdownByProviderID = servers_InstanceShutdownByProviderID s,
      s_InstanceExists = servers_InstanceExists s,
      s_InstanceShutdown = servers_InstanceShutdown s,
      s_InstanceMetadata = servers_InstanceMetadata s,
      s_GetZoneByProviderID = servers_GetZoneByProviderID s,
      s_GetZoneByNodeName = servers_GetZoneByNodeName s\<rparr>"

section \<open>Search by name\<close>

text \<open>
  \<open>getServerByName\<close> of instances and of bare metal servers: the same loops over the zones and
  over the servers of each answer, with the list call and the name of a server as parameters.
  A zone that answers 404 is skipped; the second server of that name, in whatever zone, stops
  the search.
\<close>

fun scan_servers :: "('s \<Rightarrow> string) \<Rightarrow> string \<Rightarrow> 's list \<Rightarrow> 's option \<Rightarrow> err + 's option" where
  "scan_servers nameOf name [] found = Inr found"
| "scan_servers nameOf name (srv # srvs) found =
     (if nameOf srv = name
      then (case found of
              Some _ \<Rightarrow> Inl InstanceDuplicated
            | None \<Rightarrow> scan_servers nameOf name srvs (Some srv))
      else scan_servers nameOf name srvs found)"

definition scan_zone ::
    "('s \<Rightarrow> string) \<Rightarrow> (string \<Rightarrow> 's list act) \<Rightarrow> string \<Rightarrow> string \<Rightarrow> 's option \<Rightarrow> 's option act" where
  "scan_zone nameOf listServers name zone found =
     catchA (listServers zone)
       (\<lambda>err. if is404Error err then retA found else failA err)
       (\<lambda>srvs. liftA (scan_servers nameOf name srvs found))"

definition search_by_name ::
    "('s \<Rightarrow> string) \<Rightarrow> (string \<Rightarrow> 's list act) \<Rightarrow> string list \<Rightarrow> string \<Rightarrow> 's act" where
  "search_by_name nameOf listServers zones name =
     (if name = '''' then failA InstanceNotFound
      else bindA (foldA (scan_zone nameOf listServers name) zones None) (\<lambda>found.
        case found of None \<Rightarrow> failA InstanceNotFound | Some srv \<Rightarrow> retA srv))"

text \<open>The server of an identifier: a 404 is \<open>InstanceNotFound\<close>.\<close>

definition by_provider_id :: "(string \<Rightarrow> string \<Rightarrow> 's act) \<Rightarrow> string \<Rightarrow> 's act" where
  "by_provider_id getServer providerID =
     bindA (liftA (ServerInfoFromProviderID providerID)) (\<lambda>(_, zone, id').
       wrapA (\<lambda>err. if is404Error err then InstanceNotFound else err) (getServer zone id'))"

text \<open>A scan succeeds when there is at most one match in all, which it returns.\<close>

abbreviation found_list :: "'s option \<Rightarrow> 's list" where
  "found_list found \<equiv> (case found of None \<Rightarrow> [] | Some s \<Rightarrow> [s])"

lemma scan_servers_Inr:
  "scan_servers nameOf name srvs found = Inr found' \<longleftrightarrow>
     found_list found @ filter (\<lambda>s. nameOf s = name) srvs = found_list found'"
  by (induction srvs arbitrary: found) (auto split: option.splits)

lemma scan_servers_Inl: "scan_servers nameOf name srvs found = Inl e \<Longrightarrow> e = InstanceDuplicated"
  by (induction srvs arbitrary: found) (auto split: option.splits if_splits)

text \<open>
  The matches of a list of zones, when each zone answers \<open>reply zone\<close> whatever was called
  before: \<open>None\<close> if a zone fails with another error than 404.
\<close>

fun zone_matches ::
    "('s \<Rightarrow> string) \<Rightarrow> (string \<Rightarrow> api_error + 's list) \<Rightarrow> string \<Rightarrow> string list \<Rightarrow> 's list option" where
  "zone_matches nameOf reply name [] = Some []"
| "zone_matches nameOf reply name (z # zs) =
     (case reply z of
        Inl e \<Rightarrow> if is404Error (ApiErr e) then zone_matches nameOf reply name zs else None
      | Inr srvs \<Rightarrow>
          map_option (\<lambda>ms. filter (\<lambda>s. nameOf s = name) srvs @ ms) (zone_matches nameOf reply name zs))"

lemma scan_zones_Inr:
  assumes "\<And>z h. listServers z h =
      (case reply z of Inl e \<Rightarrow> (Inl (ApiErr e), h @ [(c z, Some e)]) | Inr x \<Rightarrow> (Inr x, h @ [(c z, None)]))"
  shows "fst (foldA (scan_zone nameOf listServers name) zones found h) = Inr found' \<longleftrightarrow>
    map_option (\<lambda>ms. found_list found @ ms) (zone_matches nameOf reply name zones) = Some (found_list found')"
proof (induction zones arbitrary: found h)
  case Nil
  show ?case by (auto simp: retA_def split: option.split)
next
  case (Cons z zones)
  show ?case
  proof (cases "reply z")
    case (Inl e)
    then show ?thesis
      using Cons by (simp add: bindA_apply scan_zone_def catchA_def assms retA_def failA_def)
  next
    case (Inr srvs)
    show ?thesis
    proof (cases "scan_servers nameOf name srvs found")
      case (Inl e)
      then have "found_list found @ filter (\<lambda>s. nameOf s = name) srvs \<noteq> found_list f" for f
        using scan_servers_Inr [of nameOf name srvs found f] by simp
      then have "1 < length (found_list found @ filter (\<lambda>s. nameOf s = name) srvs)"
        by (metis (no_types, lifting) One_nat_def length_0_conv length_Suc_conv linorder_neqE_nat
            less_one option.simps(4) option.simps(5))
      then have "found_list found @ filter (\<lambda>s. nameOf s = name) srvs @ ms \<noteq> found_list f" for ms f
        by (cases f) (auto simp: append_eq_Cons_conv Cons_eq_append_conv split: option.splits)
      then show ?thesis
        using Inl Inr by (auto simp: bindA_apply scan_zone_def catchA_def assms failA_def)
    next
      case (Inr f)
      then have "found_list found @ filter (\<lambda>s. nameOf s = name) srvs = found_list f"
        by (simp add: scan_servers_Inr)
      then have "found_list f @ ms = found_list found @ filter (\<lambda>s. nameOf s = name) srvs @ ms" for ms
        by (metis append.assoc)
      then show ?thesis
        using Inr \<open>reply z = Inr srvs\<close> Cons
        by (simp add: bindA_apply scan_zone_def catchA_def assms retA_def option.map_comp comp_def)
    qed
  qed
qed

lemma search_by_name_Inr:
  assumes "\<And>z h. listServers z h =
      (case reply z of Inl e \<Rightarrow> (Inl (ApiErr e), h @ [(c z, Some e)]) | Inr x \<Rightarrow> (Inr x, h @ [(c z, None)]))"
  shows "fst (search_by_name nameOf listServers zones name h) = Inr srv \<longleftrightarrow>
    name \<noteq> '''' \<and> zone_matches nameOf reply name zones = Some [srv]"
proof -
  have zs: "fst (foldA (scan_zone nameOf listServers name) zones None h) = Inr found' \<longleftrightarrow>
      zone_matches nameOf reply name zones = Some (found_list found')" for found'
    using scan_zones_Inr [where nameOf = nameOf and name = name and zones = zones and found = None
        and h = h and listServers = listServers and reply = reply and c = c, OF assms, of found']
    by (cases "zone_matches nameOf reply name zones") simp_all
  show ?thesis
  proof (cases "foldA (scan_zone nameOf listServers name) zones None h")
    case (Pair r h')
    show ?thesis
    proof (cases r)
      case (Inl e)
      then show ?thesis
        using zs [of "Some srv"] Pair by (auto simp: search_by_name_def bindA_apply failA_def)
    next
      case (Inr found)
      then show ?thesis
        using zs [of found] Pair
        by (cases found) (auto simp: search_by_name_def bindA_apply failA_def retA_def)
    qed
  qed
qed

lemma search_emits:
  assumes "\<And>zone. emits (all_calls P) (listServers zone)"
  shows "emits (all_calls P) (search_by_name nameOf listServers zones name)"
  using assms
  by (auto simp: search_by_name_def scan_zone_def split: option.split
      intro!: all_calls.emits_ret all_calls.emits_fail all_calls.emits_bind all_calls.emits_fold
        all_calls.emits_catch all_calls.emits_lift)

lemma by_provider_id_emits:
  "(\<And>zone id'. emits (all_calls P) (getServer zone id')) \<Longrightarrow> emits (all_calls P) (by_provider_id getServer pid)"
  by (auto simp: by_provider_id_def
      intro!: all_calls.emits_bind all_calls.emits_lift all_calls.emits_wrap)

section \<open>The contract of the interface\<close>

text \<open>
  An implementation of \<open>Servers\<close> makes only calls of a kind, and adding a key is not
  implemented.
\<close>

locale servers_provider =
  fixes S :: Servers and may :: "call \<Rightarrow> bool"
  assumes calls:
    "emits (all_calls may) (s_NodeAddresses S name)"
    "emits (all_calls may) (s_NodeAddressesByProviderID S providerID)"
    "emits (all_calls may) (s_InstanceID S name)"
    "emits (all_calls may) (s_InstanceType S name)"
    "emits (all_calls may) (s_InstanceTypeByProviderID S providerID)"
    "emits (all_calls may) (s_CurrentNodeName S name)"
    "emits (all_calls may) (s_InstanceExistsByProviderID S providerID)"
    "emits (all_calls may) (s_InstanceShutdownByProviderID S providerID)"
    "emits (all_calls may) (s_InstanceExists S node)"
    "emits (all_calls may) (s_InstanceShutdown S node)"
    "emits (all_calls may) (s_InstanceMetadata S node)"
    "emits (all_calls may) (s_GetZoneByProviderID S providerID)"
    "emits (all_calls may) (s_GetZoneByNodeName S name)"
    and no_keys: "s_AddSSHKeyToAllInstances S user keyData = failA NotImplemented"
begin

lemma calls_mono: "(\<And>c. may c \<Longrightarrow> may' c) \<Longrightarrow> servers_provider S may'"
  by unfold_locales (auto intro: emits_calls_mono calls no_keys)

end

text \<open>The dispatching implementation meets the contract when both its parts do.\<close>

lemma or_baremetal_emits:
  "emits (all_calls P) m \<Longrightarrow> emits (all_calls P) m' \<Longrightarrow> emits (all_calls P) (or_baremetal m m')"
  by (auto simp: or_baremetal_def intro!: all_calls.emits_catch all_calls.emits_fail all_calls.emits_ret)

lemma servers_dispatch_provider:
  assumes "servers_provider (srv_instances s) P" "servers_provider (srv_baremetal s) P"
  shows "servers_provider (servers_Servers s) P"
proof -
  note calls = servers_provider.calls [OF assms(1)] servers_provider.calls [OF assms(2)]
  show ?thesis
    by unfold_locales
      (auto simp: servers_Servers_def getImplementationByProviderID_def servers_NodeAddresses_def
        servers_NodeAddressesByProviderID_def servers_InstanceID_def servers_InstanceType_def
        servers_InstanceTypeByProviderID_def servers_AddSSHKeyToAllInstances_def
        servers_CurrentNodeName_def servers_InstanceExistsByProviderID_def
        servers_InstanceShutdownByProviderID_def servers_InstanceExists_def
        servers_InstanceShutdown_def servers_InstanceMetadata_def servers_GetZoneByProviderID_def
        servers_GetZoneByNodeName_def
        intro!: calls or_baremetal_emits all_calls.emits_ret all_calls.emits_bind split: option.split)
qed

section \<open>Properties\<close>

lemma strings_Cut_prefix: "p \<noteq> [] \<Longrightarrow> strings_Cut (p @ s) p = Some ([], s)"
  by (cases p) simp_all

lemma ServerInfo_append:
  "ServerInfoFromProviderID (ProviderName @ ''://'' @ s) =
     Inr (case splitc CHR ''/'' (takeWhile (\<lambda>c. c \<noteq> CHR 0x0A) s) of
            p # l # u # parts \<Rightarrow>
              (if p = '''' then InstanceTypeInstance else p, l, strings_Join (u # parts) ''/'')
          | _ \<Rightarrow> (InstanceTypeInstance, '''', takeWhile (\<lambda>c. c \<noteq> CHR 0x0A) s))"
proof -
  have "strings_Cut (ProviderName @ ''://'' @ s) (ProviderName @ ''://'') = Some ([], s)"
    using strings_Cut_prefix [of "ProviderName @ ''://''" s] by (simp add: ProviderName_def)
  then show ?thesis
    by (simp add: ServerInfoFromProviderID_def providerIDMatch_def strings_Split_char Let_def
        split: list.split)
qed

text \<open>Reading the line of an identifier that was built.\<close>

lemma ServerInfo_Build:
  assumes clean: "product \<noteq> ''''" "CHR ''/'' \<notin> set product" "CHR ''/'' \<notin> set localization"
    "CHR 0x0A \<notin> set product" "CHR 0x0A \<notin> set localization" "CHR 0x0A \<notin> set id'"
  shows "ServerInfoFromProviderID (BuildProviderID product localization id') = Inr (product, localization, id')"
proof -
  let ?s = "product @ ''/'' @ localization @ ''/'' @ id'"
  let ?line = "takeWhile (\<lambda>c. c \<noteq> CHR 0x0A) ?s"
  have "?line = ?s" using clean by (auto simp: takeWhile_eq_all_conv)
  have "splitc CHR ''/'' ?s = product # localization # splitc CHR ''/'' id'"
    using clean splitc_append_sep [of "CHR ''/''" product "localization @ ''/'' @ id'"]
      splitc_append_sep [of "CHR ''/''" localization id'] by simp
  then have "splitc CHR ''/'' ?line = product # localization # splitc CHR ''/'' id'"
    by (simp only: \<open>?line = ?s\<close>)
  then show ?thesis
    using clean splitc_not_Nil [of "CHR ''/''" id'] splitc_Join [of "CHR ''/''" id']
    unfolding BuildProviderID_def ServerInfo_append by (cases "splitc CHR ''/'' id'") auto
qed

text \<open>
  C31: an identifier that the controller builds is read back as the product, the zone and the
  identifier it was built from, exactly when the product is not empty, the product and the zone
  contain no slash and nothing contains a newline.
\<close>

theorem provider_id_round_trip:
  "ServerInfoFromProviderID (BuildProviderID product localization id') = Inr (product, localization, id')
     \<longleftrightarrow> product \<noteq> '''' \<and> CHR ''/'' \<notin> set product \<and> CHR ''/'' \<notin> set localization
       \<and> CHR 0x0A \<notin> set product \<and> CHR 0x0A \<notin> set localization \<and> CHR 0x0A \<notin> set id'"
    (is "?read = _ \<longleftrightarrow> ?clean")
proof
  let ?s = "product @ ''/'' @ localization @ ''/'' @ id'"
  let ?line = "takeWhile (\<lambda>c. c \<noteq> CHR 0x0A) ?s"
  have read: "?read = Inr (case splitc CHR ''/'' ?line of
            p # l # u # parts \<Rightarrow>
              (if p = '''' then InstanceTypeInstance else p, l, strings_Join (u # parts) ''/'')
          | _ \<Rightarrow> (InstanceTypeInstance, '''', ?line))"
    unfolding BuildProviderID_def by (rule ServerInfo_append)
  show "?clean \<Longrightarrow> ?read = Inr (product, localization, id')"
    by (rule ServerInfo_Build) simp_all
  {
    assume eq: "?read = Inr (product, localization, id')"
    have clean_line: "CHR 0x0A \<notin> set ?line" by (auto dest: set_takeWhileD)
    show ?clean
    proof (cases "\<exists>p l u parts. splitc CHR ''/'' ?line = p # l # u # parts")
      case True
      then obtain p l u parts where three: "splitc CHR ''/'' ?line = p # l # u # parts" by blast
      have "?line = p @ ''/'' @ l @ ''/'' @ strings_Join (u # parts) ''/''"
        using splitc_Join [of "CHR ''/''" ?line, unfolded three] by (simp add: strings_Join_Cons)
      then have "CHR 0x0A \<notin> set p" "CHR 0x0A \<notin> set l" "CHR 0x0A \<notin> set (strings_Join (u # parts) ''/'')"
        using clean_line by (metis Un_iff set_append)+
      moreover have "CHR ''/'' \<notin> set p" "CHR ''/'' \<notin> set l"
        using splitc_pieces [of p "CHR ''/''" ?line] splitc_pieces [of l "CHR ''/''" ?line]
        unfolding three by auto
      ultimately show ?thesis
        using eq three unfolding read by (auto simp: InstanceTypeInstance_def split: if_splits)
    next
      case False
      then have "?read = Inr (InstanceTypeInstance, '''', ?line)"
        unfolding read by (auto split: list.split)
      with eq have "product = InstanceTypeInstance" "localization = ''''" "id' = ?line" by auto
      have "CHR 0x0A \<notin> set id'"
        by (subst \<open>id' = ?line\<close>) (rule clean_line)
      then have "?line = ?s"
        unfolding takeWhile_eq_all_conv
        by (auto simp: \<open>product = _\<close> \<open>localization = _\<close> InstanceTypeInstance_def)
      then have "id' = ?s" using \<open>id' = ?line\<close> by (simp only:)
      then have "length id' = length ?s" by (rule arg_cong)
      then show ?thesis by simp
    qed
  }
qed

end
