(* ===== verification/Instances.thy ===== *)
theory Instances
  imports Servers
begin

text \<open>
  \<open>scaleway/instances.go\<close>: the virtual machines as an implementation of the interface
  \<open>Servers\<close>.  The Instance API, its list of zones and the IPAM are parameters; of a server the
  fields that the code reads are kept.
\<close>

section \<open>Servers of the Instance API\<close>

datatype ServerState = ServerStateRunning | ServerStateStarting | ServerStateOther string

datatype ServerIPFamily = ServerIPFamilyInet | ServerIPFamilyOther string

datatype ProvisioningMode = ProvisioningModeDHCP | ProvisioningModeOther string

record ServerIP =
  sip_Family :: ServerIPFamily
  sip_ProvisioningMode :: ProvisioningMode
  sip_Address :: string

record PrivateNIC =
  nic_ID :: string
  nic_PrivateNetworkID :: string

record InstanceServer =
  is_ID :: string
  is_Name :: string
  is_Hostname :: string
  is_Project :: string
  is_Zone :: string
  is_CommercialType :: string
  is_State :: ServerState
  is_Tags :: "string list"
  is_PublicIPs :: "ServerIP list"
  is_PrivateIP :: "string option"
  is_PrivateNics :: "PrivateNIC list"

text \<open>The interfaces \<open>InstanceAPI\<close> and \<open>IPAMAPI\<close>: the answers of the services.\<close>

record InstanceAPI =
  ia_Zones :: "string list"
  ia_ListServers :: "hist \<Rightarrow> call \<Rightarrow> api_error + InstanceServer list"
  ia_GetServer :: "hist \<Rightarrow> call \<Rightarrow> api_error + InstanceServer"

record IPAMAPI =
  ipa_ListIPs :: "hist \<Rightarrow> call \<Rightarrow> api_error + IPAMIP list"

record instances =
  in_sdk :: sdk
  in_api :: InstanceAPI
  in_ipam :: IPAMAPI
  in_pnID :: string

definition newInstances :: "sdk \<Rightarrow> InstanceAPI \<Rightarrow> IPAMAPI \<Rightarrow> string \<Rightarrow> instances" where
  "newInstances L api ipam pnID = \<lparr>in_sdk = L, in_api = api, in_ipam = ipam, in_pnID = pnID\<rparr>"

section \<open>Finding a server\<close>

definition instances_ListServers :: "instances \<Rightarrow> string \<Rightarrow> string \<Rightarrow> InstanceServer list act" where
  "instances_ListServers i name zone =
     invoke (ia_ListServers (in_api i)) (Instance_ListServers zone name)"

definition instances_getServerByName :: "instances \<Rightarrow> string \<Rightarrow> InstanceServer act" where
  "instances_getServerByName i name =
     search_by_name is_Name (instances_ListServers i name) (ia_Zones (in_api i)) name"

definition instances_getServerByProviderID :: "instances \<Rightarrow> string \<Rightarrow> InstanceServer act" where
  "instances_getServerByProviderID i providerID =
     by_provider_id (\<lambda>zone id'. invoke (ia_GetServer (in_api i)) (Instance_GetServer zone id')) providerID"

text \<open>By the provider identifier of the node when it has one, else by name.\<close>

definition instances_getServer :: "instances \<Rightarrow> Node \<Rightarrow> InstanceServer act" where
  "instances_getServer i node =
     (if node_ProviderID node = '''' then instances_getServerByName i (node_Name node)
      else instances_getServerByProviderID i (node_ProviderID node))"

section \<open>Addresses\<close>

definition getIPsForPrivateNIC :: "instances \<Rightarrow> InstanceServer \<Rightarrow> PrivateNIC \<Rightarrow> string \<Rightarrow> NodeAddress list act" where
  "getIPsForPrivateNIC i server pNIC region =
     bindA (wrapA (\<lambda>err. Errorf ''unable to query ipam for node %s NIC %s: %v'' None)
              (invoke (ipa_ListIPs (in_ipam i))
                (IPAM_ListResourceIPs region (is_Project server) ''instance_private_nic'' (nic_ID pNIC) (Some False)))) (\<lambda>ips.
       retA (map (\<lambda>nicIP. \<lparr>addr_Type = NodeInternalIP, addr_Address = ipam_Address nicIP\<rparr>) ips))"

definition getPrivateNetworkAddresses :: "instances \<Rightarrow> InstanceServer \<Rightarrow> NodeAddress list act" where
  "getPrivateNetworkAddresses i server =
     (if is_PrivateNics server = [] then retA []
      else bindA (liftA (rwrap (\<lambda>e. Errorf ''unable to get region from zone %s: %v'' None)
                    (sdk_ZoneRegion (in_sdk i) (is_Zone server)))) (\<lambda>region.
        if in_pnID i \<noteq> '''' then
          (case find (\<lambda>pNIC. nic_PrivateNetworkID pNIC = in_pnID i) (is_PrivateNics server) of
             Some pNIC \<Rightarrow> getIPsForPrivateNIC i server pNIC region
           | None \<Rightarrow> retA [])
        else
          foldA (\<lambda>pNIC addresses.
              bindA (wrapA (\<lambda>err. Errorf ''failed to query IPAM for node %s: %w'' (Some err))
                       (getIPsForPrivateNIC i server pNIC region)) (\<lambda>nicAddresses.
                retA (addresses @ nicAddresses)))
            (is_PrivateNics server) []))"

definition instanceAddresses :: "instances \<Rightarrow> InstanceServer \<Rightarrow> NodeAddress list act" where
  "instanceAddresses i server =
     (let hostname = [\<lparr>addr_Type = NodeHostName, addr_Address = is_Hostname server\<rparr>];
          addresses = hostname @
            (case find (\<lambda>ip. sip_Family ip = ServerIPFamilyInet \<and> sip_ProvisioningMode ip = ProvisioningModeDHCP)
                    (is_PublicIPs server) of
               Some ip \<Rightarrow>
                 [\<lparr>addr_Type = NodeExternalIP, addr_Address = sip_Address ip\<rparr>,
                  \<lparr>addr_Type = NodeExternalDNS, addr_Address = is_ID server @ ''.pub.instances.scw.cloud''\<rparr>]
             | None \<Rightarrow> []) in
      bindA (wrapA (\<lambda>err. Errorf ''failed to get private network addresses for node %s: %w'' (Some err))
               (getPrivateNetworkAddresses i server)) (\<lambda>privateAddresses.
        if privateAddresses \<noteq> [] then retA (addresses @ privateAddresses)
        else case is_PrivateIP server of
          Some ip \<Rightarrow> retA (if ip \<noteq> '''' then addresses @
              [\<lparr>addr_Type = NodeInternalIP, addr_Address = ip\<rparr>,
               \<lparr>addr_Type = NodeInternalDNS, addr_Address = is_ID server @ ''.priv.instances.scw.cloud''\<rparr>]
            else addresses)
        | None \<Rightarrow> retA addresses))"

definition instanceZone :: "instances \<Rightarrow> InstanceServer \<Rightarrow> Zone act" where
  "instanceZone i server =
     bindA (liftA (sdk_ZoneRegion (in_sdk i) (is_Zone server))) (\<lambda>region.
       retA \<lparr>zone_FailureDomain = is_Zone server, zone_Region = region\<rparr>)"

section \<open>The interface\<close>

definition instances_NodeAddresses :: "instances \<Rightarrow> string \<Rightarrow> NodeAddress list act" where
  "instances_NodeAddresses i name = bindA (instances_getServerByName i name) (instanceAddresses i)"

definition instances_NodeAddressesByProviderID :: "instances \<Rightarrow> string \<Rightarrow> NodeAddress list act" where
  "instances_NodeAddressesByProviderID i providerID =
     bindA (instances_getServerByProviderID i providerID) (instanceAddresses i)"

definition instances_InstanceID :: "instances \<Rightarrow> string \<Rightarrow> string act" where
  "instances_InstanceID i name =
     bindA (instances_getServerByName i name) (\<lambda>server.
       retA (BuildProviderID InstanceTypeInstance (is_Zone server) (is_ID server)))"

definition instances_InstanceType :: "instances \<Rightarrow> string \<Rightarrow> string act" where
  "instances_InstanceType i name =
     bindA (instances_getServerByName i name) (\<lambda>server. retA (is_CommercialType server))"

definition instances_InstanceTypeByProviderID :: "instances \<Rightarrow> string \<Rightarrow> string act" where
  "instances_InstanceTypeByProviderID i providerID =
     bindA (instances_getServerByProviderID i providerID) (\<lambda>server. retA (is_CommercialType server))"

definition instances_AddSSHKeyToAllInstances :: "instances \<Rightarrow> string \<Rightarrow> string \<Rightarrow> unit act" where
  "instances_AddSSHKeyToAllInstances i user keyData = failA NotImplemented"

definition instances_CurrentNodeName :: "instances \<Rightarrow> string \<Rightarrow> string act" where
  "instances_CurrentNodeName i hostname = retA hostname"

definition instances_InstanceExistsByProviderID :: "instances \<Rightarrow> string \<Rightarrow> bool act" where
  "instances_InstanceExistsByProviderID i providerID =
     catchA (instances_getServerByProviderID i providerID)
       (\<lambda>err. if errors_Is err InstanceNotFound then retA False else failA err)
       (\<lambda>_. retA True)"

definition instances_InstanceShutdownByProviderID :: "instances \<Rightarrow> string \<Rightarrow> bool act" where
  "instances_InstanceShutdownByProviderID i providerID =
     bindA (instances_getServerByProviderID i providerID) (\<lambda>server.
       retA (is_State server \<noteq> ServerStateRunning))"

definition instances_InstanceExists :: "instances \<Rightarrow> Node \<Rightarrow> bool act" where
  "instances_InstanceExists i node =
     catchA (instances_getServer i node)
       (\<lambda>err. if err = InstanceNotFound then retA False else failA err)
       (\<lambda>_. retA True)"

definition instances_InstanceShutdown :: "instances \<Rightarrow> Node \<Rightarrow> bool act" where
  "instances_InstanceShutdown i node =
     bindA (instances_getServer i node) (\<lambda>server.
       retA (case is_State server of
               ServerStateRunning \<Rightarrow> False
             | ServerStateStarting \<Rightarrow> False
             | ServerStateOther _ \<Rightarrow> True))"

definition instances_InstanceMetadata :: "instances \<Rightarrow> Node \<Rightarrow> InstanceMetadata act" where
  "instances_InstanceMetadata i node =
     bindA (instances_getServer i node) (\<lambda>server.
     bindA (liftA (sdk_ZoneRegion (in_sdk i) (is_Zone server))) (\<lambda>region.
     bindA (instanceAddresses i server) (\<lambda>addresses.
       retA \<lparr>md_ProviderID = BuildProviderID InstanceTypeInstance (is_Zone server) (is_ID server),
             md_InstanceType = is_CommercialType server,
             md_NodeAddresses = addresses,
             md_Zone = is_Zone server,
             md_Region = region\<rparr>)))"

definition instances_GetZoneByProviderID :: "instances \<Rightarrow> string \<Rightarrow> Zone act" where
  "instances_GetZoneByProviderID i providerID =
     bindA (instances_getServerByProviderID i providerID) (instanceZone i)"

definition instances_GetZoneByNodeName :: "instances \<Rightarrow> string \<Rightarrow> Zone act" where
  "instances_GetZoneByNodeName i nodeName =
     bindA (instances_getServerByName i nodeName) (instanceZone i)"

text \<open>The struct as a value of the interface.\<close>

definition instances_Servers :: "instances \<Rightarrow> Servers" where
  "instances_Servers i =
     \<lparr>s_NodeAddresses = instances_NodeAddresses i,
      s_NodeAddressesByProviderID = instances_NodeAddressesByProviderID i,
      s_InstanceID = instances_InstanceID i,
      s_InstanceType = instances_InstanceType i,
      s_InstanceTypeByProviderID = instances_InstanceTypeByProviderID i,
      s_AddSSHKeyToAllInstances = instances_AddSSHKeyToAllInstances i,
      s_CurrentNodeName = instances_CurrentNodeName i,
      s_InstanceExistsByProviderID = instances_InstanceExistsByProviderID i,
      s_InstanceShutdownByProviderID = instances_InstanceShutdownByProviderID i,
      s_InstanceExists = instances_InstanceExists i,
      s_InstanceShutdown = instances_InstanceShutdown i,
      s_InstanceMetadata = instances_InstanceMetadata i,
      s_GetZoneByProviderID = instances_GetZoneByProviderID i,
      s_GetZoneByNodeName = instances_GetZoneByNodeName i\<rparr>"

section \<open>The contract\<close>

definition instance_read :: "call \<Rightarrow> bool" where
  "instance_read c = (case c of
      Instance_ListServers _ _ \<Rightarrow> True
    | Instance_GetServer _ _ \<Rightarrow> True
    | IPAM_ListResourceIPs _ _ _ _ isIPv6 \<Rightarrow> True
    | _ \<Rightarrow> False)"

lemma instances_find_emits:
  "emits (all_calls instance_read) (instances_getServerByName i name)"
  "emits (all_calls instance_read) (instances_getServerByProviderID i providerID)"
  "emits (all_calls instance_read) (instances_getServer i node)"
  by (auto simp: instances_getServerByName_def instances_getServerByProviderID_def instances_getServer_def
      instances_ListServers_def instance_read_def
      intro!: search_emits by_provider_id_emits all_calls.emits_invoke)

lemma instanceAddresses_emits: "emits (all_calls instance_read) (instanceAddresses i server)"
proof -
  have nic: "emits (all_calls instance_read) (getIPsForPrivateNIC i server pNIC region)" for pNIC region
    by (auto simp: getIPsForPrivateNIC_def instance_read_def
        intro!: all_calls.emits_bind all_calls.emits_wrap all_calls.emits_invoke all_calls.emits_ret)
  have "emits (all_calls instance_read) (getPrivateNetworkAddresses i server)"
    by (auto simp: getPrivateNetworkAddresses_def split: option.split
        intro!: nic all_calls.emits_bind all_calls.emits_lift all_calls.emits_ret all_calls.emits_fold
          all_calls.emits_wrap)
  then show ?thesis
    by (auto simp: instanceAddresses_def Let_def split: option.split
        intro!: all_calls.emits_bind all_calls.emits_wrap all_calls.emits_ret)
qed

interpretation virtual: servers_provider "instances_Servers i" instance_read for i
  by unfold_locales
    (auto simp: instances_Servers_def instances_NodeAddresses_def instances_NodeAddressesByProviderID_def
      instances_InstanceID_def instances_InstanceType_def instances_InstanceTypeByProviderID_def
      instances_AddSSHKeyToAllInstances_def instances_CurrentNodeName_def
      instances_InstanceExistsByProviderID_def instances_InstanceShutdownByProviderID_def
      instances_InstanceExists_def instances_InstanceShutdown_def instances_InstanceMetadata_def
      instances_GetZoneByProviderID_def instances_GetZoneByNodeName_def instanceZone_def
      intro!: instances_find_emits instanceAddresses_emits all_calls.emits_bind all_calls.emits_ret
        all_calls.emits_catch all_calls.emits_fail all_calls.emits_lift)

end
