(* ===== verification/Baremetal.thy ===== *)
theory Baremetal
  imports Servers
begin

text \<open>
  \<open>scaleway/baremetal.go\<close>: the bare metal servers as an implementation of the interface
  \<open>Servers\<close>.  The Bare Metal API and its list of zones are parameters.
\<close>

section \<open>Servers of the Bare Metal API\<close>

datatype BaremetalStatus = ServerStatusReady | ServerStatusStarting | ServerStatusOther string

datatype IPVersion = IPVersionIPv4 | IPVersionOther string

record BaremetalIP =
  bip_Version :: IPVersion
  bip_Address :: string

record BaremetalServer =
  bm_ID :: string
  bm_Name :: string
  bm_Zone :: string
  bm_OfferID :: string
  bm_Status :: BaremetalStatus
  bm_Domain :: string
  bm_IPs :: "BaremetalIP list"

text \<open>The interface \<open>BaremetalAPI\<close>; of an offer only the name is read.\<close>

record BaremetalAPI =
  ba_Zones :: "string list"
  ba_ListServers :: "hist \<Rightarrow> call \<Rightarrow> api_error + BaremetalServer list"
  ba_GetServer :: "hist \<Rightarrow> call \<Rightarrow> api_error + BaremetalServer"
  ba_GetOffer :: "hist \<Rightarrow> call \<Rightarrow> api_error + string"

record baremetal =
  bm_sdk :: sdk
  bm_api :: BaremetalAPI

definition newBaremetal :: "sdk \<Rightarrow> BaremetalAPI \<Rightarrow> baremetal" where
  "newBaremetal L api = \<lparr>bm_sdk = L, bm_api = api\<rparr>"

section \<open>Finding a server\<close>

definition baremetal_ListServers :: "baremetal \<Rightarrow> string \<Rightarrow> string \<Rightarrow> BaremetalServer list act" where
  "baremetal_ListServers b name zone =
     invoke (ba_ListServers (bm_api b)) (Baremetal_ListServers zone name)"

definition baremetal_getServerByName :: "baremetal \<Rightarrow> string \<Rightarrow> BaremetalServer act" where
  "baremetal_getServerByName b name =
     search_by_name bm_Name (baremetal_ListServers b name) (ba_Zones (bm_api b)) name"

definition baremetal_getServerByProviderID :: "baremetal \<Rightarrow> string \<Rightarrow> BaremetalServer act" where
  "baremetal_getServerByProviderID b providerID =
     by_provider_id (\<lambda>zone id'. invoke (ba_GetServer (bm_api b)) (Baremetal_GetServer zone id')) providerID"

definition baremetal_getServer :: "baremetal \<Rightarrow> Node \<Rightarrow> BaremetalServer act" where
  "baremetal_getServer b node =
     (if node_ProviderID node = '''' then baremetal_getServerByName b (node_Name node)
      else baremetal_getServerByProviderID b (node_ProviderID node))"

text \<open>An offer that is gone has the name \<open>UNKNOWN\<close>.\<close>

definition getServerOfferName :: "baremetal \<Rightarrow> BaremetalServer \<Rightarrow> string act" where
  "getServerOfferName b server =
     catchA (invoke (ba_GetOffer (bm_api b)) (Baremetal_GetOffer (bm_Zone server) (bm_OfferID server)))
       (\<lambda>err. if is404Error err then retA ''UNKNOWN'' else failA err) retA"

section \<open>Addresses and zone\<close>

definition baremetalAddresses :: "BaremetalServer \<Rightarrow> NodeAddress list" where
  "baremetalAddresses server =
     \<lparr>addr_Type = NodeHostName, addr_Address = bm_Name server\<rparr> #
     (case find (\<lambda>ip. bip_Version ip = IPVersionIPv4) (bm_IPs server) of
        Some ip \<Rightarrow> [\<lparr>addr_Type = NodeExternalIP, addr_Address = bip_Address ip\<rparr>,
                    \<lparr>addr_Type = NodeExternalDNS, addr_Address = bm_Domain server\<rparr>]
      | None \<Rightarrow> [])"

definition baremetalZone :: "BaremetalServer \<Rightarrow> Zone act" where
  "baremetalZone server =
     retA \<lparr>zone_FailureDomain = ''unavailable'', zone_Region = bm_Zone server\<rparr>"

section \<open>The interface\<close>

definition baremetal_NodeAddresses :: "baremetal \<Rightarrow> string \<Rightarrow> NodeAddress list act" where
  "baremetal_NodeAddresses b name =
     bindA (baremetal_getServerByName b name) (\<lambda>server. retA (baremetalAddresses server))"

definition baremetal_NodeAddressesByProviderID :: "baremetal \<Rightarrow> string \<Rightarrow> NodeAddress list act" where
  "baremetal_NodeAddressesByProviderID b providerID =
     bindA (baremetal_getServerByProviderID b providerID) (\<lambda>server. retA (baremetalAddresses server))"

definition baremetal_InstanceID :: "baremetal \<Rightarrow> string \<Rightarrow> string act" where
  "baremetal_InstanceID b nodeName =
     bindA (baremetal_getServerByName b nodeName) (\<lambda>server.
       retA (BuildProviderID InstanceTypeBaremtal (bm_Zone server) (bm_ID server)))"

definition baremetal_InstanceType :: "baremetal \<Rightarrow> string \<Rightarrow> string act" where
  "baremetal_InstanceType b name = bindA (baremetal_getServerByName b name) (getServerOfferName b)"

definition baremetal_InstanceTypeByProviderID :: "baremetal \<Rightarrow> string \<Rightarrow> string act" where
  "baremetal_InstanceTypeByProviderID b providerID =
     bindA (baremetal_getServerByProviderID b providerID) (getServerOfferName b)"

definition baremetal_AddSSHKeyToAllInstances :: "baremetal \<Rightarrow> string \<Rightarrow> string \<Rightarrow> unit act" where
  "baremetal_AddSSHKeyToAllInstances b user keyData = failA NotImplemented"

definition baremetal_CurrentNodeName :: "baremetal \<Rightarrow> string \<Rightarrow> string act" where
  "baremetal_CurrentNodeName b hostname = retA hostname"

definition baremetal_InstanceExistsByProviderID :: "baremetal \<Rightarrow> string \<Rightarrow> bool act" where
  "baremetal_InstanceExistsByProviderID b providerID =
     catchA (baremetal_getServerByProviderID b providerID)
       (\<lambda>err. if err = InstanceNotFound then retA False else failA err)
       (\<lambda>_. retA True)"

definition baremetal_InstanceShutdownByProviderID :: "baremetal \<Rightarrow> string \<Rightarrow> bool act" where
  "baremetal_InstanceShutdownByProviderID b providerID =
     bindA (baremetal_getServerByProviderID b providerID) (\<lambda>server.
       retA (bm_Status server \<noteq> ServerStatusReady))"

definition baremetal_InstanceExists :: "baremetal \<Rightarrow> Node \<Rightarrow> bool act" where
  "baremetal_InstanceExists b node =
     catchA (baremetal_getServer b node)
       (\<lambda>err. if err = InstanceNotFound then retA False else failA err)
       (\<lambda>_. retA True)"

definition baremetal_InstanceShutdown :: "baremetal \<Rightarrow> Node \<Rightarrow> bool act" where
  "baremetal_InstanceShutdown b node =
     bindA (baremetal_getServer b node) (\<lambda>server.
       retA (case bm_Status server of
               ServerStatusReady \<Rightarrow> False
             | ServerStatusStarting \<Rightarrow> False
             | ServerStatusOther _ \<Rightarrow> True))"

definition baremetal_InstanceMetadata :: "baremetal \<Rightarrow> Node \<Rightarrow> InstanceMetadata act" where
  "baremetal_InstanceMetadata b node =
     bindA (baremetal_getServer b node) (\<lambda>server.
     bindA (getServerOfferName b server) (\<lambda>offerName.
     bindA (liftA (sdk_ZoneRegion (bm_sdk b) (bm_Zone server))) (\<lambda>region.
       retA \<lparr>md_ProviderID = BuildProviderID InstanceTypeBaremtal (bm_Zone server) (bm_ID server),
             md_InstanceType = offerName,
             md_NodeAddresses = baremetalAddresses server,
             md_Zone = bm_Zone server,
             md_Region = region\<rparr>)))"

definition baremetal_GetZoneByProviderID :: "baremetal \<Rightarrow> string \<Rightarrow> Zone act" where
  "baremetal_GetZoneByProviderID b providerID =
     bindA (baremetal_getServerByProviderID b providerID) baremetalZone"

definition baremetal_GetZoneByNodeName :: "baremetal \<Rightarrow> string \<Rightarrow> Zone act" where
  "baremetal_GetZoneByNodeName b nodeName =
     bindA (baremetal_getServerByName b nodeName) baremetalZone"

text \<open>The struct as a value of the interface.\<close>

definition baremetal_Servers :: "baremetal \<Rightarrow> Servers" where
  "baremetal_Servers b =
     \<lparr>s_NodeAddresses = baremetal_NodeAddresses b,
      s_NodeAddressesByProviderID = baremetal_NodeAddressesByProviderID b,
      s_InstanceID = baremetal_InstanceID b,
      s_InstanceType = baremetal_InstanceType b,
      s_InstanceTypeByProviderID = baremetal_InstanceTypeByProviderID b,
      s_AddSSHKeyToAllInstances = baremetal_AddSSHKeyToAllInstances b,
      s_CurrentNodeName = baremetal_CurrentNodeName b,
      s_InstanceExistsByProviderID = baremetal_InstanceExistsByProviderID b,
      s_InstanceShutdownByProviderID = baremetal_InstanceShutdownByProviderID b,
      s_InstanceExists = baremetal_InstanceExists b,
      s_InstanceShutdown = baremetal_InstanceShutdown b,
      s_InstanceMetadata = baremetal_InstanceMetadata b,
      s_GetZoneByProviderID = baremetal_GetZoneByProviderID b,
      s_GetZoneByNodeName = baremetal_GetZoneByNodeName b\<rparr>"

section \<open>The contract\<close>

definition baremetal_read :: "call \<Rightarrow> bool" where
  "baremetal_read c = (case c of
      Baremetal_ListServers _ _ \<Rightarrow> True
    | Baremetal_GetServer _ _ \<Rightarrow> True
    | Baremetal_GetOffer _ _ \<Rightarrow> True
    | _ \<Rightarrow> False)"

lemma baremetal_find_emits:
  "emits (all_calls baremetal_read) (baremetal_getServerByName b name)"
  "emits (all_calls baremetal_read) (baremetal_getServerByProviderID b providerID)"
  "emits (all_calls baremetal_read) (baremetal_getServer b node)"
  by (auto simp: baremetal_getServerByName_def baremetal_getServerByProviderID_def baremetal_getServer_def
      baremetal_ListServers_def baremetal_read_def
      intro!: search_emits by_provider_id_emits all_calls.emits_invoke)

lemma getServerOfferName_emits: "emits (all_calls baremetal_read) (getServerOfferName b server)"
  by (auto simp: getServerOfferName_def baremetal_read_def
      intro!: all_calls.emits_catch all_calls.emits_invoke all_calls.emits_ret all_calls.emits_fail)

interpretation metal: servers_provider "baremetal_Servers b" baremetal_read for b
  by unfold_locales
    (auto simp: baremetal_Servers_def baremetal_NodeAddresses_def baremetal_NodeAddressesByProviderID_def
      baremetal_InstanceID_def baremetal_InstanceType_def baremetal_InstanceTypeByProviderID_def
      baremetal_AddSSHKeyToAllInstances_def baremetal_CurrentNodeName_def
      baremetal_InstanceExistsByProviderID_def baremetal_InstanceShutdownByProviderID_def
      baremetal_InstanceExists_def baremetal_InstanceShutdown_def baremetal_InstanceMetadata_def
      baremetal_GetZoneByProviderID_def baremetal_GetZoneByNodeName_def baremetalZone_def
      intro!: baremetal_find_emits getServerOfferName_emits all_calls.emits_bind all_calls.emits_ret
        all_calls.emits_catch all_calls.emits_fail all_calls.emits_lift)

end
