(* ===== verification/Nodes.thy ===== *)
theory Nodes
  imports Instances Baremetal Patcher
begin

text \<open>
  The interface of the nodes as the cloud provider builds it (\<open>newServers\<close> of
  \<open>scaleway/servers.go\<close>, \<open>scaleway/zones.go\<close>, \<open>scaleway/client.go\<close>).
\<close>

section \<open>Construction\<close>

text \<open>
  The clients of the two services: the Scaleway API, of which the default region and the
  services are kept, and the Kubernetes API.
\<close>

record scaleway_client =
  scw_DefaultRegion :: "string option"
  scw_sdk :: sdk
  scw_instance :: InstanceAPI
  scw_ipam :: IPAMAPI
  scw_baremetal :: BaremetalAPI
  scw_lb :: api

record client =
  client_scaleway :: scaleway_client
  client_kubernetes :: "kube option"

definition newClient :: "scaleway_client \<Rightarrow> client" where
  "newClient scaleway = \<lparr>client_scaleway = scaleway, client_kubernetes = None\<rparr>"

definition newServers :: "client \<Rightarrow> string \<Rightarrow> Servers" where
  "newServers c pnID =
     (let scw = client_scaleway c in
      servers_Servers
        \<lparr>srv_instances = instances_Servers (newInstances (scw_sdk scw) (scw_instance scw) (scw_ipam scw) pnID),
         srv_baremetal = baremetal_Servers (newBaremetal (scw_sdk scw) (scw_baremetal scw))\<rparr>)"

record zones =
  z_region :: string
  z_servers :: Servers

definition newZones :: "client \<Rightarrow> string \<Rightarrow> zones" where
  "newZones c pnID =
     \<lparr>z_region = (case scw_DefaultRegion (client_scaleway c) of None \<Rightarrow> '''' | Some region \<Rightarrow> region),
      z_servers = newServers c pnID\<rparr>"

definition GetZone :: "zones \<Rightarrow> Zone act" where
  "GetZone z = retA \<lparr>zone_FailureDomain = '''', zone_Region = z_region z\<rparr>"

definition zones_GetZoneByProviderID :: "zones \<Rightarrow> string \<Rightarrow> Zone act" where
  "zones_GetZoneByProviderID z providerID = s_GetZoneByProviderID (z_servers z) providerID"

definition zones_GetZoneByNodeName :: "zones \<Rightarrow> string \<Rightarrow> Zone act" where
  "zones_GetZoneByNodeName z nodeName = s_GetZoneByNodeName (z_servers z) nodeName"

section \<open>The contract of the composition\<close>

text \<open>
  Whatever the services answer, the operations of the node interface only list or get servers,
  offers and addresses, and adding a key is not implemented.
\<close>

definition server_read :: "call \<Rightarrow> bool" where
  "server_read c \<longleftrightarrow> instance_read c \<or> baremetal_read c"

interpretation nodes: servers_provider "newServers c pnID" server_read for c pnID
  unfolding newServers_def Let_def
  by (rule servers_dispatch_provider)
    (auto simp: server_read_def intro: virtual.calls_mono metal.calls_mono)

end
