(* ===== verification/NodeLaws.thy ===== *)
theory NodeLaws
  imports Nodes Samples
begin

text \<open>
  The properties of the nodes that span instances, bare metal servers and the dispatch between
  them: the search by name, when a node is reported gone, and that the identifier of a node
  leads back to its server.
\<close>

section \<open>Search by name\<close>

lemma zone_calls:
  "instances_ListServers (i\<lparr>in_api := api\<lparr>ia_ListServers := \<lambda>h. reply\<rparr>\<rparr>) name zone h =
     (case reply (Instance_ListServers zone name) of
        Inl e \<Rightarrow> (Inl (ApiErr e), h @ [(Instance_ListServers zone name, Some e)])
      | Inr x \<Rightarrow> (Inr x, h @ [(Instance_ListServers zone name, None)]))"
  by (simp add: instances_ListServers_def invoke_def split: sum.split)

text \<open>
  C19: when a call always gets the same answer, a server is found by name exactly when the name
  is not empty, no zone fails with another error than 404 and the servers of that exact name in
  all the zones are one.
\<close>

theorem getServerByName_spec:
  "fst (instances_getServerByName (i\<lparr>in_api := api\<lparr>ia_ListServers := \<lambda>h. reply\<rparr>\<rparr>) name h) = Inr server
     \<longleftrightarrow> name \<noteq> '''' \<and>
       zone_matches is_Name (\<lambda>zone. reply (Instance_ListServers zone name)) name (ia_Zones api) = Some [server]"
  unfolding instances_getServerByName_def
  by (simp add: search_by_name_Inr [OF zone_calls])

section \<open>Existence\<close>

text \<open>
  A lookup is careful when it succeeds or reports \<open>InstanceNotFound\<close> only if every call that it
  made succeeded or was answered 404.
\<close>

definition ok_or_404 :: "event \<Rightarrow> bool" where
  "ok_or_404 e = (case snd e of None \<Rightarrow> True | Some x \<Rightarrow> is404Error (ApiErr x))"

definition careful :: "'a act \<Rightarrow> bool" where
  "careful m \<longleftrightarrow> (\<forall>h. post m h (\<lambda>r es. (\<exists>e. r = Inl e \<and> e \<noteq> InstanceNotFound) \<or> list_all ok_or_404 es))"

lemma careful_leaves: "careful (retA x)" "careful (failA e)" "careful (liftA r)" "careful (invoke reply c)"
  by (auto simp: careful_def post_ret post_fail post_lift post_invoke ok_or_404_def split: sum.split)

lemma careful_bind: "careful m \<Longrightarrow> (\<And>x. careful (f x)) \<Longrightarrow> careful (bindA m f)"
  unfolding careful_def [of m] careful_def [of "bindA m f"]
proof (intro allI post_bind, rule post_mono)
  fix h
  assume m: "\<forall>h. post m h (\<lambda>r es. (\<exists>e. r = Inl e \<and> e \<noteq> InstanceNotFound) \<or> list_all ok_or_404 es)"
    and f: "\<And>x. careful (f x)"
  show "post m h (\<lambda>r es. (\<exists>e. r = Inl e \<and> e \<noteq> InstanceNotFound) \<or> list_all ok_or_404 es)" using m ..
  fix r :: "err + 'a" and es :: hist
  assume "(\<exists>e. r = Inl e \<and> e \<noteq> InstanceNotFound) \<or> list_all ok_or_404 es"
  then show "case r of
      Inl e \<Rightarrow> (\<exists>e'. (Inl e :: err + 'b) = Inl e' \<and> e' \<noteq> InstanceNotFound) \<or> list_all ok_or_404 es
    | Inr x \<Rightarrow> post (f x) (h @ es)
        (\<lambda>r' es'. (\<exists>e. r' = Inl e \<and> e \<noteq> InstanceNotFound) \<or> list_all ok_or_404 (es @ es'))"
    using f unfolding careful_def by (auto split: sum.split intro: post_mono)
qed

lemma careful_fold: "(\<And>x s. careful (f x s)) \<Longrightarrow> careful (foldA f xs s)"
  by (induction xs arbitrary: s) (auto intro: careful_leaves careful_bind)

lemma careful_scan_zone: "careful (scan_zone nameOf (\<lambda>zone. invoke reply (c zone)) name zone found)"
  unfolding careful_def scan_zone_def
  by (intro allI post_catch)
    (auto simp: post_invoke post_ret post_fail post_lift ok_or_404_def split: sum.split)

lemma careful_search: "careful (search_by_name nameOf (\<lambda>zone. invoke reply (c zone)) zones name)"
  by (auto simp: search_by_name_def split: option.split
      intro!: careful_leaves careful_bind careful_fold careful_scan_zone)

lemma careful_by_provider_id: "careful (by_provider_id (\<lambda>zone id'. invoke reply (c zone id')) providerID)"
  unfolding by_provider_id_def
proof (rule careful_bind [OF careful_leaves(3)])
  fix x :: "string \<times> string \<times> string"
  show "careful (case x of (_, zone, id') \<Rightarrow>
      wrapA (\<lambda>err. if is404Error err then InstanceNotFound else err) (invoke reply (c zone id')))"
    unfolding careful_def
    by (cases x) (auto simp: post_invoke ok_or_404_def intro!: post_wrap split: sum.split)
qed

lemma careful_lookups:
  "careful (instances_getServer i node)" "careful (baremetal_getServer b node)"
  "careful (instances_getServerByProviderID i providerID)" "careful (baremetal_getServerByProviderID b providerID)"
  by (auto simp: instances_getServer_def instances_getServerByName_def instances_ListServers_def [abs_def]
      instances_getServerByProviderID_def baremetal_getServer_def baremetal_getServerByName_def
      baremetal_ListServers_def [abs_def] baremetal_getServerByProviderID_def
      intro!: careful_search careful_by_provider_id)

text \<open>What a lookup by identifier does: one call, to the zone and identifier it reads.\<close>

lemma ServerInfo_Inl: "ServerInfoFromProviderID providerID = Inl e \<Longrightarrow> e = BadProviderID"
  by (auto simp: ServerInfoFromProviderID_def split: option.splits)

lemma by_provider_id_post:
  "post (by_provider_id (\<lambda>zone id'. invoke reply (c zone id')) providerID) h (\<lambda>r es.
     (ServerInfoFromProviderID providerID = Inl BadProviderID \<and> r = Inl BadProviderID \<and> es = []) \<or>
     (\<exists>product zone id'. ServerInfoFromProviderID providerID = Inr (product, zone, id') \<and>
       ((\<exists>x. r = Inr x \<and> es = [(c zone id', None)]) \<or>
        (\<exists>a. is404Error (ApiErr a) \<and> r = Inl InstanceNotFound \<and> es = [(c zone id', Some a)]) \<or>
        (\<exists>a. \<not> is404Error (ApiErr a) \<and> r = Inl (ApiErr a) \<and> es = [(c zone id', Some a)]))))"
  by (auto simp: by_provider_id_def post_lift post_invoke dest: ServerInfo_Inl
      intro!: post_bind post_wrap split: sum.split prod.split)

text \<open>Existence as both implementations decide it from a lookup.\<close>

definition exists_of :: "'s act \<Rightarrow> bool act" where
  "exists_of m = catchA m (\<lambda>err. if err = InstanceNotFound then retA False else failA err) (\<lambda>_. retA True)"

lemma exists_of_careful:
  assumes "careful m"
  shows "post (exists_of m) h (\<lambda>r es. isl r \<or> list_all ok_or_404 es)"
  unfolding exists_of_def
  by (rule post_catch, rule post_mono [OF assms [unfolded careful_def, rule_format]])
    (auto simp: post_ret post_fail split: sum.split)

lemma exists_of_provider_id:
  "post (exists_of (by_provider_id (\<lambda>zone id'. invoke reply (c zone id')) providerID)) h (\<lambda>r es.
     case r of
       Inl _ \<Rightarrow> True
     | Inr b \<Rightarrow> (\<exists>product zone id' out. ServerInfoFromProviderID providerID = Inr (product, zone, id')
         \<and> es = [(c zone id', out)] \<and> ok_or_404 (c zone id', out) \<and> b = (out = None)))"
  unfolding exists_of_def
  by (rule post_catch, rule post_mono [OF by_provider_id_post])
    (auto simp: post_ret post_fail ok_or_404_def)

lemma instances_exists:
  "instances_InstanceExists i node = exists_of (instances_getServer i node)"
  "instances_InstanceExistsByProviderID i providerID = exists_of (instances_getServerByProviderID i providerID)"
proof -
  show "instances_InstanceExists i node = exists_of (instances_getServer i node)"
    by (simp add: instances_InstanceExists_def exists_of_def)
  have "errors_Is err InstanceNotFound = (err = InstanceNotFound)"
    if "instances_getServerByProviderID i providerID h = (Inl err, h')" for h err h'
    using that by_provider_id_post [of "ia_GetServer (in_api i)" Instance_GetServer providerID h]
    by (auto simp: instances_getServerByProviderID_def post_def)
  then show "instances_InstanceExistsByProviderID i providerID =
      exists_of (instances_getServerByProviderID i providerID)"
    by (fastforce simp: instances_InstanceExistsByProviderID_def exists_of_def catchA_def
        split: prod.split sum.split)
qed

lemma baremetal_exists:
  "baremetal_InstanceExists b node = exists_of (baremetal_getServer b node)"
  "baremetal_InstanceExistsByProviderID b providerID = exists_of (baremetal_getServerByProviderID b providerID)"
  by (simp_all add: baremetal_InstanceExists_def baremetal_InstanceExistsByProviderID_def exists_of_def)

lemmas Servers_selects = newServers_def Let_def servers_Servers_def instances_Servers_def baremetal_Servers_def

lemma servers_exists_careful:
  "post (servers_InstanceExists \<lparr>srv_instances = instances_Servers i, srv_baremetal = baremetal_Servers b\<rparr> node) h
     (\<lambda>r es. isl r \<or> list_all ok_or_404 es)"
  unfolding servers_InstanceExists_def getImplementationByProviderID_def
  by (auto simp: instances_Servers_def baremetal_Servers_def instances_exists baremetal_exists post_ret
      intro!: exists_of_careful careful_lookups post_bind
        post_mono [OF exists_of_careful [OF careful_lookups(1)]]
        post_mono [OF exists_of_careful [OF careful_lookups(2)]] split: sum.split)

text \<open>
  C5: no failure of a service makes a node look deleted.  The existence of a node is only
  answered when every call either succeeded or was answered 404, and "no" is never the answer
  for a node with the label that disables its life cycle.  By provider identifier, the answer
  comes from exactly one call, for the zone and the identifier that were read, and it is "no"
  exactly when that call was answered 404.
\<close>

theorem InstanceExists_sound:
  "post (s_InstanceExists (newServers c pnID) node) h (\<lambda>r es.
      case r of
        Inl _ \<Rightarrow> True
      | Inr b \<Rightarrow> list_all ok_or_404 es \<and> (b \<or> map_of (node_Labels node) nodeLabelDisableLifeCycle = None))
   \<and> post (s_InstanceExistsByProviderID (newServers c pnID) providerID) h (\<lambda>r es.
      case r of
        Inl _ \<Rightarrow> True
      | Inr b \<Rightarrow> (\<exists>product zone id' out. ServerInfoFromProviderID providerID = Inr (product, zone, id')
          \<and> (es = [(Instance_GetServer zone id', out)] \<or> es = [(Baremetal_GetServer zone id', out)])
          \<and> list_all ok_or_404 es \<and> b = (out = None)))"
    (is "?node \<and> ?pid")
proof
  let ?S = "\<lparr>srv_instances = instances_Servers (newInstances (scw_sdk (client_scaleway c))
        (scw_instance (client_scaleway c)) (scw_ipam (client_scaleway c)) pnID),
      srv_baremetal = baremetal_Servers (newBaremetal (scw_sdk (client_scaleway c)) (scw_baremetal (client_scaleway c)))\<rparr>"
  have sel: "s_InstanceExists (newServers c pnID) node = servers_InstanceExists ?S node"
    by (simp add: newServers_def Let_def servers_Servers_def)
  show ?node
  proof (cases "map_of (node_Labels node) nodeLabelDisableLifeCycle")
    case None
    then show ?thesis
      unfolding sel by (intro post_mono [OF servers_exists_careful]) (auto split: sum.split)
  next
    case (Some a)
    then show ?thesis
      unfolding sel by (simp add: servers_InstanceExists_def post_ret)
  qed
  show ?pid
    by (auto simp: newServers_def Let_def servers_Servers_def servers_InstanceExistsByProviderID_def
        getImplementationByProviderID_def instances_Servers_def baremetal_Servers_def instances_exists
        baremetal_exists instances_getServerByProviderID_def baremetal_getServerByProviderID_def
        intro!: post_mono [OF exists_of_provider_id] split: sum.splits)
qed

section \<open>Identification\<close>

text \<open>
  What it means that a server was found for a node: without a provider identifier, some zone
  listed it under the name of the node; otherwise it was got by the zone and the identifier read
  from the provider identifier.
\<close>

definition instance_found :: "InstanceAPI \<Rightarrow> Node \<Rightarrow> InstanceServer \<Rightarrow> bool" where
  "instance_found A node server \<longleftrightarrow>
     (if node_ProviderID node = '''' then
        \<exists>h zone srvs. ia_ListServers A h (Instance_ListServers zone (node_Name node)) = Inr srvs
          \<and> server \<in> set srvs \<and> is_Name server = node_Name node
      else
        \<exists>h product zone id'. ServerInfoFromProviderID (node_ProviderID node) = Inr (product, zone, id')
          \<and> ia_GetServer A h (Instance_GetServer zone id') = Inr server)"

definition baremetal_found :: "BaremetalAPI \<Rightarrow> Node \<Rightarrow> BaremetalServer \<Rightarrow> bool" where
  "baremetal_found A node server \<longleftrightarrow>
     (if node_ProviderID node = '''' then
        \<exists>h zone srvs. ba_ListServers A h (Baremetal_ListServers zone (node_Name node)) = Inr srvs
          \<and> server \<in> set srvs \<and> bm_Name server = node_Name node
      else
        \<exists>h product zone id'. ServerInfoFromProviderID (node_ProviderID node) = Inr (product, zone, id')
          \<and> ba_GetServer A h (Baremetal_GetServer zone id') = Inr server)"

abbreviation any_call :: "hist \<Rightarrow> bool" where
  "any_call \<equiv> all_calls (\<lambda>_. True)"

lemma scan_servers_found:
  assumes "scan_servers nameOf name srvs found = Inr (Some s)"
  shows "found = Some s \<or> s \<in> set srvs \<and> nameOf s = name"
proof -
  have "found_list found @ filter (\<lambda>s. nameOf s = name) srvs = [s]"
    using assms by (simp add: scan_servers_Inr)
  then show ?thesis by (cases found) (auto simp: filter_eq_Cons_iff)
qed

lemma search_runs:
  assumes "\<And>zone. runs (\<lambda>srvs. \<forall>s\<in>set srvs. nameOf s = name \<longrightarrow> P s) any_call (listServers zone)"
  shows "runs P any_call (search_by_name nameOf listServers zones name)"
proof -
  let ?I = "\<lambda>found. \<forall>s. found = Some s \<longrightarrow> P s"
  have scan: "runs ?I any_call (scan_zone nameOf listServers name zone found)" if "?I found" for zone found
    unfolding scan_zone_def
    by (rule all_calls.runs_catch [OF assms])
      (use that in \<open>auto intro!: all_calls.runs_ret all_calls.runs_fail all_calls.runs_lift dest!: scan_servers_found\<close>)
  have "runs ?I any_call (foldA (scan_zone nameOf listServers name) zones None)"
    by (rule all_calls.runs_fold) (auto intro: scan)
  then show ?thesis
    unfolding search_by_name_def
    by (auto intro!: all_calls.runs_fail all_calls.runs_bind [where J = ?I] all_calls.runs_ret split: option.split)
qed

lemma by_provider_id_runs:
  assumes "\<And>product zone id'. ServerInfoFromProviderID providerID = Inr (product, zone, id') \<Longrightarrow>
    runs P any_call (getServer zone id')"
  shows "runs P any_call (by_provider_id getServer providerID)"
  unfolding by_provider_id_def
  by (rule all_calls.runs_bind [where J = "\<lambda>r. ServerInfoFromProviderID providerID = Inr r"])
    (auto intro!: all_calls.runs_lift all_calls.runs_wrap assms)

lemma getServer_found:
  "runs (instance_found (in_api i) node) any_call (instances_getServer i node)"
  "runs (baremetal_found (bm_api b) node) any_call (baremetal_getServer b node)"
  unfolding instances_getServer_def instances_getServerByName_def instances_ListServers_def [abs_def]
    instances_getServerByProviderID_def baremetal_getServer_def baremetal_getServerByName_def
    baremetal_ListServers_def [abs_def] baremetal_getServerByProviderID_def
  by (auto simp: instance_found_def baremetal_found_def
      intro!: search_runs by_provider_id_runs all_calls.runs_invoke) blast+

text \<open>The metadata name the server that was found.\<close>

definition instance_md :: "InstanceAPI \<Rightarrow> Node \<Rightarrow> InstanceMetadata \<Rightarrow> bool" where
  "instance_md A node md \<longleftrightarrow> (\<exists>server. instance_found A node server \<and> md_Zone md = is_Zone server
     \<and> md_ProviderID md = BuildProviderID InstanceTypeInstance (is_Zone server) (is_ID server))"

definition baremetal_md :: "BaremetalAPI \<Rightarrow> Node \<Rightarrow> InstanceMetadata \<Rightarrow> bool" where
  "baremetal_md A node md \<longleftrightarrow> (\<exists>server. baremetal_found A node server \<and> md_Zone md = bm_Zone server
     \<and> md_ProviderID md = BuildProviderID InstanceTypeBaremtal (bm_Zone server) (bm_ID server))"

lemma InstanceMetadata_found:
  "runs (instance_md (in_api i) node) any_call (instances_InstanceMetadata i node)"
  "runs (baremetal_md (bm_api b) node) any_call (baremetal_InstanceMetadata b node)"
proof -
  have any: "runs (\<lambda>_. True) any_call m" if "emits (all_calls P) m" for P and m :: "'x act"
    unfolding emits_iff_runs [symmetric] by (rule emits_calls_mono [OF that]) simp
  show "runs (instance_md (in_api i) node) any_call (instances_InstanceMetadata i node)"
    unfolding instances_InstanceMetadata_def instance_md_def
    by (rule all_calls.runs_bind [OF getServer_found(1)], rule all_calls.runs_bind [of "\<lambda>_. True"],
        rule all_calls.runs_lift, rule TrueI, rule all_calls.runs_bind [OF any [OF instanceAddresses_emits]],
        rule all_calls.runs_ret) auto
  show "runs (baremetal_md (bm_api b) node) any_call (baremetal_InstanceMetadata b node)"
    unfolding baremetal_InstanceMetadata_def baremetal_md_def
    by (rule all_calls.runs_bind [OF getServer_found(2)],
        rule all_calls.runs_bind [OF any [OF getServerOfferName_emits]],
        rule all_calls.runs_bind [of "\<lambda>_. True"], rule all_calls.runs_lift, rule TrueI,
        rule all_calls.runs_ret) auto
qed

lemma servers_metadata_found:
  assumes "map_of (node_Labels node) nodeLabelNodePublicIP = None"
    and "servers_InstanceMetadata \<lparr>srv_instances = instances_Servers i, srv_baremetal = baremetal_Servers b\<rparr> node h
      = (Inr md, h')"
  shows "instance_md (in_api i) node md \<or> baremetal_md (bm_api b) node md"
proof -
  let ?I = "\<lambda>md. instance_md (in_api i) node md \<or> baremetal_md (bm_api b) node md"
  have I: "runs ?I any_call (instances_InstanceMetadata i node)"
    and B: "runs ?I any_call (baremetal_InstanceMetadata b node)"
    by (rule runs_mono [OF InstanceMetadata_found(1)], simp_all)
      (rule runs_mono [OF InstanceMetadata_found(2)], simp_all)
  have "runs ?I any_call
      (servers_InstanceMetadata \<lparr>srv_instances = instances_Servers i, srv_baremetal = baremetal_Servers b\<rparr> node)"
    using I B
    by (auto simp: servers_InstanceMetadata_def assms(1) or_baremetal_def getImplementationByProviderID_def
        instances_Servers_def baremetal_Servers_def
        intro!: all_calls.runs_catch [OF I] all_calls.runs_fail all_calls.runs_ret)
  from runs_post [OF this, of h] show ?thesis
    by (auto simp: post_def assms(2))
qed

lemma dispatch_Build:
  "getImplementationByProviderID s (BuildProviderID InstanceTypeInstance zone id') = srv_instances s"
  "getImplementationByProviderID s (BuildProviderID InstanceTypeBaremtal zone id') = srv_baremetal s"
  by (simp_all add: getImplementationByProviderID_def BuildProviderID_def strings_HasPrefix_def
      ProviderName_def InstanceTypeInstance_def InstanceTypeBaremtal_def)

text \<open>An identifier that was built is looked up by one call, in the service it names.\<close>

lemma exists_one_call:
  assumes "ServerInfoFromProviderID p = Inr (product, zone, id')"
  shows "post (exists_of (by_provider_id (\<lambda>zone id'. invoke reply (get zone id')) p)) h
      (\<lambda>r es. \<exists>out. es = [(get zone id', out)])"
  unfolding exists_of_def
  by (rule post_catch, rule post_mono [OF by_provider_id_post]) (auto simp: assms post_ret post_fail)

lemma built_lookup:
  fixes i b zone id'
  defines "S \<equiv> \<lparr>srv_instances = instances_Servers i, srv_baremetal = baremetal_Servers b\<rparr>"
  assumes "CHR ''/'' \<notin> set zone" "CHR 0x0A \<notin> set zone" "CHR 0x0A \<notin> set id'"
  shows "post (servers_InstanceExistsByProviderID S (BuildProviderID InstanceTypeInstance zone id')) h
      (\<lambda>r es. \<exists>out. es = [(Instance_GetServer zone id', out)])"
    and "post (servers_InstanceExistsByProviderID S (BuildProviderID InstanceTypeBaremtal zone id')) h
      (\<lambda>r es. \<exists>out. es = [(Baremetal_GetServer zone id', out)])"
proof -
  have read: "ServerInfoFromProviderID (BuildProviderID InstanceTypeInstance zone id') = Inr (InstanceTypeInstance, zone, id')"
    "ServerInfoFromProviderID (BuildProviderID InstanceTypeBaremtal zone id') = Inr (InstanceTypeBaremtal, zone, id')"
    using assms by (simp_all add: InstanceTypeInstance_def InstanceTypeBaremtal_def ServerInfo_Build)
  show "post (servers_InstanceExistsByProviderID S (BuildProviderID InstanceTypeInstance zone id')) h
      (\<lambda>r es. \<exists>out. es = [(Instance_GetServer zone id', out)])"
    unfolding servers_InstanceExistsByProviderID_def dispatch_Build
    by (simp add: S_def instances_Servers_def instances_exists instances_getServerByProviderID_def
        exists_one_call [OF read(1)])
  show "post (servers_InstanceExistsByProviderID S (BuildProviderID InstanceTypeBaremtal zone id')) h
      (\<lambda>r es. \<exists>out. es = [(Baremetal_GetServer zone id', out)])"
    unfolding servers_InstanceExistsByProviderID_def dispatch_Build
    by (simp add: S_def baremetal_Servers_def baremetal_exists baremetal_getServerByProviderID_def
        exists_one_call [OF read(2)])
qed

text \<open>
  C18: the metadata of a node without the label for its public address are those of a server that
  was found for it, an instance or a bare metal server: its provider identifier is built from the
  product, the zone and the identifier of that server, and leads back to it, since asking whether
  the instance exists makes exactly one call, which gets the server of that zone and identifier
  from the service it was found in.  Zones contain no slash and identifiers no newline.
\<close>

theorem InstanceMetadata_identifies:
  assumes "s_InstanceMetadata (newServers c pnID) node h = (Inr md, h')"
    and "map_of (node_Labels node) nodeLabelNodePublicIP = None"
    and "CHR ''/'' \<notin> set (md_Zone md)" and "CHR 0x0A \<notin> set (md_ProviderID md)"
  shows "(\<exists>server. instance_found (scw_instance (client_scaleway c)) node server \<and> md_Zone md = is_Zone server
      \<and> md_ProviderID md = BuildProviderID InstanceTypeInstance (is_Zone server) (is_ID server)
      \<and> (\<forall>h. post (s_InstanceExistsByProviderID (newServers c pnID) (md_ProviderID md)) h
            (\<lambda>r es. \<exists>out. es = [(Instance_GetServer (is_Zone server) (is_ID server), out)])))
    \<or> (\<exists>server. baremetal_found (scw_baremetal (client_scaleway c)) node server \<and> md_Zone md = bm_Zone server
      \<and> md_ProviderID md = BuildProviderID InstanceTypeBaremtal (bm_Zone server) (bm_ID server)
      \<and> (\<forall>h. post (s_InstanceExistsByProviderID (newServers c pnID) (md_ProviderID md)) h
            (\<lambda>r es. \<exists>out. es = [(Baremetal_GetServer (bm_Zone server) (bm_ID server), out)])))"
proof -
  let ?i = "newInstances (scw_sdk (client_scaleway c)) (scw_instance (client_scaleway c))
    (scw_ipam (client_scaleway c)) pnID"
  let ?b = "newBaremetal (scw_sdk (client_scaleway c)) (scw_baremetal (client_scaleway c))"
  let ?S = "\<lparr>srv_instances = instances_Servers ?i, srv_baremetal = baremetal_Servers ?b\<rparr>"
  have meta: "servers_InstanceMetadata ?S node h = (Inr md, h')"
    using assms(1) by (simp add: newServers_def Let_def servers_Servers_def)
  have sel: "s_InstanceExistsByProviderID (newServers c pnID) p = servers_InstanceExistsByProviderID ?S p" for p
    by (simp add: newServers_def Let_def servers_Servers_def)
  have apis: "in_api ?i = scw_instance (client_scaleway c)" "bm_api ?b = scw_baremetal (client_scaleway c)"
    by (simp_all add: newInstances_def newBaremetal_def)
  have clean: "CHR ''/'' \<notin> set zone" "CHR 0x0A \<notin> set zone" "CHR 0x0A \<notin> set id'"
    if "md_Zone md = zone" "md_ProviderID md = BuildProviderID product zone id'" for product zone id'
    using assms(3,4) that by (auto simp: BuildProviderID_def)
  note lookup = built_lookup [where i = ?i and b = ?b, OF clean]
  from servers_metadata_found [OF assms(2) meta] show ?thesis
    unfolding apis instance_md_def baremetal_md_def
  proof (elim disjE exE conjE)
    fix server
    assume "instance_found (scw_instance (client_scaleway c)) node server" "md_Zone md = is_Zone server"
      "md_ProviderID md = BuildProviderID InstanceTypeInstance (is_Zone server) (is_ID server)"
    with lookup(1) show ?thesis unfolding sel by metis
  next
    fix server
    assume "baremetal_found (scw_baremetal (client_scaleway c)) node server" "md_Zone md = bm_Zone server"
      "md_ProviderID md = BuildProviderID InstanceTypeBaremtal (bm_Zone server) (bm_ID server)"
    with lookup(2) show ?thesis unfolding sel by metis
  qed
qed

section \<open>A concrete client\<close>

definition sample_instance :: InstanceServer where
  "sample_instance = \<lparr>is_ID = ''11'', is_Name = ''n1'', is_Hostname = ''n1'', is_Project = ''p'',
     is_Zone = ''fr-par-1'', is_CommercialType = ''DEV1-M'', is_State = ServerStateRunning,
     is_Tags = [], is_PublicIPs = [], is_PrivateIP = Some ''10.0.0.1'', is_PrivateNics = []\<rparr>"

definition sample_client :: client where
  "sample_client = newClient \<lparr>scw_DefaultRegion = Some ''fr-par'', scw_sdk = sample_sdk,
     scw_instance = \<lparr>ia_Zones = [''fr-par-1'', ''nl-ams-1''],
       ia_ListServers = (\<lambda>h c. case c of
           Instance_ListServers z n \<Rightarrow> if z = ''fr-par-1'' then Inr [sample_instance] else Inl (ResponseError 404)
         | _ \<Rightarrow> Inl (OtherApiError ''call'')),
       ia_GetServer = (\<lambda>h c. Inr sample_instance)\<rparr>,
     scw_ipam = \<lparr>ipa_ListIPs = (\<lambda>h c. Inr [])\<rparr>,
     scw_baremetal = \<lparr>ba_Zones = [''fr-par-2''], ba_ListServers = (\<lambda>h c. Inr []),
       ba_GetServer = (\<lambda>h c. Inl ResourceNotFoundError), ba_GetOffer = (\<lambda>h c. Inl ResourceNotFoundError)\<rparr>,
     scw_lb = sample_api\<rparr>"

definition sample_node :: Node where
  "sample_node = \<lparr>node_Name = ''n1'', node_Labels = [], node_CreationTimestamp = 0,
     node_ProviderID = '''', node_Taints = [], node_Addresses = []\<rparr>"

definition sample_metadata :: InstanceMetadata where
  "sample_metadata = \<lparr>md_ProviderID = BuildProviderID InstanceTypeInstance ''fr-par-1'' ''11'',
     md_InstanceType = ''DEV1-M'',
     md_NodeAddresses = [\<lparr>addr_Type = NodeHostName, addr_Address = ''n1''\<rparr>,
       \<lparr>addr_Type = NodeInternalIP, addr_Address = ''10.0.0.1''\<rparr>,
       \<lparr>addr_Type = NodeInternalDNS, addr_Address = ''11.priv.instances.scw.cloud''\<rparr>],
     md_Zone = ''fr-par-1'', md_Region = ''fr-par''\<rparr>"

definition sample_instances :: instances where
  "sample_instances = newInstances (scw_sdk (client_scaleway sample_client))
     (scw_instance (client_scaleway sample_client)) (scw_ipam (client_scaleway sample_client)) []"

abbreviation sample_hist :: hist where
  "sample_hist \<equiv> [(Instance_ListServers ''fr-par-1'' ''n1'', None),
     (Instance_ListServers ''nl-ams-1'' ''n1'', Some (ResponseError 404))]"

lemma sample_lookup: "instances_getServer sample_instances sample_node [] = (Inr sample_instance, sample_hist)"
  by (simp add: instances_getServer_def instances_getServerByName_def search_by_name_def scan_zone_def
      instances_ListServers_def invoke_def sample_instances_def newInstances_def sample_client_def
      newClient_def sample_node_def sample_instance_def bindA_def retA_def catchA_def)

lemma sample_addresses:
  "instanceAddresses sample_instances sample_instance h = (Inr (md_NodeAddresses sample_metadata), h)"
  by (simp add: instanceAddresses_def getPrivateNetworkAddresses_def sample_instance_def
      sample_metadata_def Let_def) (simp add: retA_def)

lemma sample_region: "liftA (sdk_ZoneRegion (in_sdk sample_instances) (is_Zone sample_instance)) h = (Inr ''fr-par'', h)"
  by (simp add: sample_instances_def newInstances_def sample_client_def newClient_def sample_sdk_def
      sample_instance_def liftA_def)

lemma sample_client_metadata:
  "s_InstanceMetadata (newServers sample_client []) sample_node [] = (Inr sample_metadata, sample_hist)"
proof -
  have "instances_InstanceMetadata sample_instances sample_node [] = (Inr sample_metadata, sample_hist)"
    by (simp add: instances_InstanceMetadata_def bindA_apply sample_lookup sample_addresses sample_region)
      (simp add: retA_def sample_instance_def sample_metadata_def)
  moreover have "node_Labels sample_node = []" "node_ProviderID sample_node = []"
    by (simp_all add: sample_node_def)
  ultimately show ?thesis
    by (simp add: newServers_def Let_def servers_Servers_def servers_InstanceMetadata_def or_baremetal_def retA_def catchA_def instances_Servers_def flip: sample_instances_def)
qed

theorem InstanceMetadata_identifies_witness:
  "(\<exists>server. instance_found (scw_instance (client_scaleway sample_client)) sample_node server
      \<and> md_Zone sample_metadata = is_Zone server
      \<and> md_ProviderID sample_metadata = BuildProviderID InstanceTypeInstance (is_Zone server) (is_ID server)
      \<and> (\<forall>h. post (s_InstanceExistsByProviderID (newServers sample_client []) (md_ProviderID sample_metadata)) h
            (\<lambda>r es. \<exists>out. es = [(Instance_GetServer (is_Zone server) (is_ID server), out)])))
    \<or> (\<exists>server. baremetal_found (scw_baremetal (client_scaleway sample_client)) sample_node server
      \<and> md_Zone sample_metadata = bm_Zone server
      \<and> md_ProviderID sample_metadata = BuildProviderID InstanceTypeBaremtal (bm_Zone server) (bm_ID server)
      \<and> (\<forall>h. post (s_InstanceExistsByProviderID (newServers sample_client []) (md_ProviderID sample_metadata)) h
            (\<lambda>r es. \<exists>out. es = [(Baremetal_GetServer (bm_Zone server) (bm_ID server), out)])))"
  by (rule InstanceMetadata_identifies [OF sample_client_metadata])
    (auto simp: sample_node_def sample_metadata_def BuildProviderID_def ProviderName_def InstanceTypeInstance_def)

end
