(* ===== verification/Tags.thy ===== *)
theory Tags
  imports Types
begin

text \<open>
  The tags of servers and load balancers (\<open>scaleway/sync.go\<close>): \<open>tagLabelParser\<close> and
  \<open>tagTaintParser\<close>.  The validators of apimachinery are the parameters
  \<open>sdk_IsDNS1123Subdomain\<close> and \<open>sdk_IsValidLabelValue\<close>.
\<close>

section \<open>Constants\<close>

definition labelsPrefix :: string where
  "labelsPrefix = ''k8s.scaleway.com/''"

definition taintsPrefix :: string where
  "taintsPrefix = ''k8s.scaleway.com/''"

definition labelTaintPrefix :: string where
  "labelTaintPrefix = ''taint=''"

definition labelNoPrefix :: string where
  "labelNoPrefix = ''noprefix=''"

definition labelNodeRoleExcludeBalancer :: string where
  "labelNodeRoleExcludeBalancer = ''node.kubernetes.io/exclude-from-external-load-balancers''"

definition labelNodeRoleExcludeBalancerValue :: string where
  "labelNodeRoleExcludeBalancerValue = ''managed-by-scaleway-ccm''"

definition qualifiedNameMaxLength :: nat where
  "qualifiedNameMaxLength = 63"

section \<open>Regular expressions\<close>

text \<open>
  \<open>splitRegexp.Split(s, -1)\<close> with \<open>[:= ]+\<close>: the pieces between the longest runs of separators,
  the first and the last possibly empty.
\<close>

definition is_sep :: "char \<Rightarrow> bool" where
  "is_sep c = (c = CHR '':'' \<or> c = CHR ''='' \<or> c = CHR '' '')"

function splitRegexp :: "string \<Rightarrow> string list" where
  "splitRegexp s =
     (case dropWhile (\<lambda>c. \<not> is_sep c) s of
        [] \<Rightarrow> [s]
      | c # cs \<Rightarrow> takeWhile (\<lambda>c. \<not> is_sep c) s # splitRegexp (dropWhile is_sep cs))"
  by pat_completeness auto

termination
proof (relation "measure length")
  fix s c cs
  assume "dropWhile (\<lambda>c. \<not> is_sep c) s = c # cs"
  then have "length (c # cs) \<le> length s" by (metis length_dropWhile_le)
  then show "(dropWhile is_sep cs, s) \<in> measure length"
    using length_dropWhile_le [of is_sep cs] by simp
qed simp

declare splitRegexp.simps [simp del]

text \<open>\<open>qualifiedNameRegexp\<close>: \<open>^([A-Za-z0-9][-A-Za-z0-9_.]*)?[A-Za-z0-9]$\<close>.\<close>

definition qnameChar :: "char \<Rightarrow> bool" where
  "qnameChar c = (is_digit c \<or> is_upper c \<or> is_lower c)"

definition qnameExtChar :: "char \<Rightarrow> bool" where
  "qnameExtChar c = (qnameChar c \<or> c = CHR ''-'' \<or> c = CHR ''_'' \<or> c = CHR ''.'')"

definition qualifiedName :: "string \<Rightarrow> bool" where
  "qualifiedName s = (s \<noteq> [] \<and> qnameChar (hd s) \<and> qnameChar (last s) \<and> list_all qnameExtChar s)"

section \<open>Labels\<close>

text \<open>The prefix of the key and the rest of the tag; \<open>None\<close> when the tag is not valid.\<close>

definition tag_prefix :: "sdk \<Rightarrow> string \<Rightarrow> (string \<times> string) option" where
  "tag_prefix L tag =
     (if strings_HasPrefix tag labelNoPrefix then
        let tagValue = strings_TrimPrefix tag labelNoPrefix;
            tagSplit = strings_Split tagValue ''/'' in
        (if 2 < length tagSplit then None
         else if length tagSplit = 2 then
           (if tagSplit ! 0 = '''' then None
            else if \<not> sdk_IsDNS1123Subdomain L (tagSplit ! 0) then None
            else Some (tagSplit ! 0 @ ''/'', tagSplit ! 1))
         else Some ('''', tagValue))
      else Some (labelsPrefix, tag))"

definition tagLabelParser :: "sdk \<Rightarrow> string \<Rightarrow> string \<times> string" where
  "tagLabelParser L tag =
     (case tag_prefix L tag of
        None \<Rightarrow> ('''', '''')
      | Some (prefix', tagValue) \<Rightarrow>
          let split = splitRegexp tagValue in
          (if length (hd split) = 0 then ('''', '''')
           else if qualifiedNameMaxLength < length (hd split) then ('''', '''')
           else if \<not> qualifiedName (hd split) then ('''', '''')
           else if 1 < length split then
             (if \<not> sdk_IsValidLabelValue L (split ! 1) then ('''', '''')
              else (prefix' @ hd split, split ! 1))
           else (prefix' @ hd split, '''')))"

section \<open>Taints\<close>

definition tagTaintParser :: "sdk \<Rightarrow> string \<Rightarrow> string \<times> string \<times> string" where
  "tagTaintParser L tag =
     (let taint = strings_TrimPrefix tag labelTaintPrefix;
          taintParts = strings_Split taint '':'';
          effect = last taintParts in
      (if effect = v1_TaintEffectNoExecute \<or> effect = v1_TaintEffectNoSchedule
          \<or> effect = v1_TaintEffectPreferNoSchedule
       then case tagLabelParser L (strings_Join (butlast taintParts) '''') of
              (key, value) \<Rightarrow> (key, value, effect)
       else ('''', '''', '''')))"

section \<open>Splitting\<close>

lemma splitRegexp_no_sep: "list_all (\<lambda>c. \<not> is_sep c) s \<Longrightarrow> splitRegexp s = [s]"
  by (subst splitRegexp.simps) (auto simp: list_all_iff split: list.split dest: dropWhile_eq_Nil_conv [THEN iffD2])

lemma splitRegexp_sep:
  assumes "list_all (\<lambda>c. \<not> is_sep c) a" "is_sep c"
  shows "splitRegexp (a @ c # s) = a # splitRegexp (dropWhile is_sep s)"
proof -
  have "dropWhile (\<lambda>c. \<not> is_sep c) (a @ c # s) = c # s" "takeWhile (\<lambda>c. \<not> is_sep c) (a @ c # s) = a"
    using assms by (induction a) auto
  then show ?thesis by (subst splitRegexp.simps) simp
qed

lemma splitRegexp_not_Nil [simp]: "splitRegexp s \<noteq> []"
  by (subst splitRegexp.simps) (simp split: list.split)

lemma qnameExtChar_not_sep: "qnameExtChar c \<Longrightarrow> \<not> is_sep c"
  by (auto simp: qnameExtChar_def qnameChar_def is_digit_def is_upper_def is_lower_def is_sep_def)

lemma qualifiedName_no_sep: "qualifiedName s \<Longrightarrow> list_all (\<lambda>c. \<not> is_sep c) s"
  by (auto simp: qualifiedName_def list_all_iff qnameExtChar_not_sep)

section \<open>Properties\<close>

text \<open>
  C33: whatever the tag, the key is empty, or it is a qualified name of at most 63 characters
  after the prefix of the controller, after no prefix, or after a valid DNS subdomain and a
  slash; and the value is empty or valid.
\<close>

theorem tagLabelParser_valid:
  "case tagLabelParser L tag of (key, value) \<Rightarrow>
     key = '''' \<or>
     (\<exists>pre name. key = pre @ name \<and> qualifiedName name \<and> length name \<le> 63
        \<and> (pre = labelsPrefix \<or> pre = '''' \<or> (\<exists>domain. pre = domain @ ''/'' \<and> domain \<noteq> '''' \<and> sdk_IsDNS1123Subdomain L domain))
        \<and> (value = '''' \<or> sdk_IsValidLabelValue L value))"
proof (cases "tag_prefix L tag")
  case None
  then show ?thesis by (simp add: tagLabelParser_def)
next
  case (Some p)
  obtain pre rest where p: "p = (pre, rest)" by (cases p)
  have pre: "pre = labelsPrefix \<or> pre = '''' \<or>
      (\<exists>domain. pre = domain @ ''/'' \<and> domain \<noteq> '''' \<and> sdk_IsDNS1123Subdomain L domain)"
    using Some p by (auto simp: tag_prefix_def Let_def split: if_splits)
  then show ?thesis
    using Some p
    by (auto simp: tagLabelParser_def Let_def qualifiedNameMaxLength_def not_less)
qed

text \<open>
  The pieces of a name, a value and an effect, for the parsers: none of them contains what
  separates them.
\<close>

lemma qualifiedName_chars:
  "qualifiedName name \<Longrightarrow> CHR ''='' \<notin> set name \<and> CHR '':'' \<notin> set name \<and> CHR ''/'' \<notin> set name"
  by (auto simp: qualifiedName_def list_all_iff qnameExtChar_def qnameChar_def
      is_digit_def is_upper_def is_lower_def)

lemma splitRegexp_pair:
  assumes "qualifiedName name" "list_all (\<lambda>c. \<not> is_sep c) value"
  shows "splitRegexp (name @ ''='' @ value) = [name, value]"
proof -
  have "dropWhile is_sep value = value"
    using assms(2) by (auto simp: list_all_iff dropWhile_eq_self_iff)
  then show ?thesis
    using splitRegexp_sep [where a = name and c = "CHR ''=''" and s = "value"] splitRegexp_no_sep [of "value"]
      qualifiedName_no_sep [OF assms(1)] assms(2)
    by (simp add: is_sep_def)
qed

lemma tagLabelParser_pair:
  assumes "qualifiedName name" "length name \<le> 63" "sdk_IsValidLabelValue L value" "list_all (\<lambda>c. \<not> is_sep c) value"
    and "tag_prefix L tag = Some (pre, name @ ''='' @ value)"
  shows "tagLabelParser L tag = (pre @ name, value)"
  using assms(1-3,5) splitRegexp_pair [OF assms(1,4)]
  by (simp add: tagLabelParser_def Let_def qualifiedNameMaxLength_def qualifiedName_def)

lemma tag_prefix_plain:
  assumes "CHR ''='' \<notin> set name" "name \<noteq> ''noprefix''"
  shows "tag_prefix L (name @ ''='' @ value) = Some (labelsPrefix, name @ ''='' @ value)"
proof -
  have "name = ''noprefix''" if "prefix labelNoPrefix (name @ ''='' @ value)"
  proof -
    have "takeWhile (\<lambda>c. c \<noteq> CHR ''='') (name @ ''='' @ value) = name"
      using assms(1) by (induction name) auto
    moreover from that obtain zs where "name @ ''='' @ value = labelNoPrefix @ zs" by (auto elim: prefixE)
    ultimately show ?thesis by (simp add: labelNoPrefix_def)
  qed
  with assms(2) show ?thesis
    by (auto simp: tag_prefix_def strings_HasPrefix_def)
qed

lemma tag_prefix_noprefix:
  assumes "CHR ''/'' \<notin> set rest"
  shows "tag_prefix L (labelNoPrefix @ rest) = Some ('''', rest)"
  using assms
  by (simp add: tag_prefix_def strings_HasPrefix_def strings_TrimPrefix_def strings_Split_char splitc_no_sep)

lemma tag_prefix_domain:
  assumes "CHR ''/'' \<notin> set rest" "CHR ''/'' \<notin> set domain" "domain \<noteq> ''''" "sdk_IsDNS1123Subdomain L domain"
  shows "tag_prefix L (labelNoPrefix @ domain @ ''/'' @ rest) = Some (domain @ ''/'', rest)"
proof -
  have "splitc CHR ''/'' (domain @ ''/'' @ rest) = [domain, rest]"
    using assms(1,2) splitc_append_sep [of "CHR ''/''" domain rest] by (simp add: splitc_no_sep)
  then have "strings_Split (domain @ ''/'' @ rest) ''/'' = [domain, rest]"
    by (simp only: strings_Split_char)
  with assms(3,4) show ?thesis
    by (simp add: tag_prefix_def strings_HasPrefix_def strings_TrimPrefix_def)
qed

text \<open>A taint is a label between its prefix and its effect.\<close>

lemma tagTaintParser_effect:
  assumes effect: "effect = v1_TaintEffectNoExecute \<or> effect = v1_TaintEffectNoSchedule \<or> effect = v1_TaintEffectPreferNoSchedule"
    and "CHR '':'' \<notin> set label"
  shows "tagTaintParser L (labelTaintPrefix @ label @ '':'' @ effect) =
    (case tagLabelParser L label of (key, value) \<Rightarrow> (key, value, effect))"
proof -
  have "CHR '':'' \<notin> set effect"
    using effect by (auto simp: v1_TaintEffectNoExecute_def v1_TaintEffectNoSchedule_def
        v1_TaintEffectPreferNoSchedule_def)
  then have "splitc CHR '':'' (label @ '':'' @ effect) = [label, effect]"
    using splitc_append_sep [of "CHR '':''" label effect] assms(2) by (simp add: splitc_no_sep)
  then have "strings_Split (label @ '':'' @ effect) '':'' = [label, effect]"
    by (simp only: strings_Split_char)
  then show ?thesis
    using effect by (auto simp: tagTaintParser_def Let_def strings_HasPrefix_def strings_TrimPrefix_def)
qed

text \<open>
  C32: the forms of tags that the documentation gives for labels and taints are read as it says.
  \<open>name=value\<close> gives the label \<open>k8s.scaleway.com/name\<close> with that value, \<open>noprefix=name=value\<close> the
  label \<open>name\<close> and \<open>noprefix=domain/name=value\<close> the label \<open>domain/name\<close>; each of them between
  \<open>taint=\<close> and a known effect gives the taint with the same key and value and that effect.  The
  name is qualified, at most 63 characters long and not \<open>noprefix\<close> itself;
  the value is valid and has no separator or slash; the domain is a valid DNS subdomain without
  slash or colon.
\<close>

theorem tag_round_trip:
  assumes "qualifiedName name" "length name \<le> 63" "name \<noteq> ''noprefix''"
    and "sdk_IsValidLabelValue L value" "list_all (\<lambda>c. \<not> is_sep c \<and> c \<noteq> CHR ''/'') value"
    and "domain \<noteq> ''''" "sdk_IsDNS1123Subdomain L domain" "list_all (\<lambda>c. c \<noteq> CHR ''/'' \<and> c \<noteq> CHR '':'') domain"
    and "effect = v1_TaintEffectNoExecute \<or> effect = v1_TaintEffectNoSchedule \<or> effect = v1_TaintEffectPreferNoSchedule"
  shows "tagLabelParser L (name @ ''='' @ value) = (''k8s.scaleway.com/'' @ name, value)
    \<and> tagLabelParser L (''noprefix='' @ name @ ''='' @ value) = (name, value)
    \<and> tagLabelParser L (''noprefix='' @ domain @ ''/'' @ name @ ''='' @ value) = (domain @ ''/'' @ name, value)
    \<and> tagTaintParser L (''taint='' @ name @ ''='' @ value @ '':'' @ effect) = (''k8s.scaleway.com/'' @ name, value, effect)
    \<and> tagTaintParser L (''taint=noprefix='' @ name @ ''='' @ value @ '':'' @ effect) = (name, value, effect)
    \<and> tagTaintParser L (''taint=noprefix='' @ domain @ ''/'' @ name @ ''='' @ value @ '':'' @ effect)
        = (domain @ ''/'' @ name, value, effect)"
proof -
  let ?nv = "name @ ''='' @ value" and ?dnv = "domain @ ''/'' @ name @ ''='' @ value"
  note chars = qualifiedName_chars [OF assms(1)]
  have seps: "list_all (\<lambda>c. \<not> is_sep c) value" "CHR '':'' \<notin> set value" "CHR ''/'' \<notin> set value"
      "CHR '':'' \<notin> set domain" "CHR ''/'' \<notin> set domain"
    using assms(5,8) by (auto simp: list_all_iff is_sep_def)
  have slash: "CHR ''/'' \<notin> set ?nv" using chars seps by simp
  note parse = tagLabelParser_pair [OF assms(1,2,4) seps(1)]
  note A = parse [OF tag_prefix_plain [OF _ assms(3)]]
    and B = parse [OF tag_prefix_noprefix [OF slash]]
    and C = parse [OF tag_prefix_domain [OF slash seps(5) assms(6,7)]]
  have labels: "tagLabelParser L ?nv = (''k8s.scaleway.com/'' @ name, value)"
    "tagLabelParser L (''noprefix='' @ ?nv) = (name, value)"
    "tagLabelParser L (''noprefix='' @ ?dnv) = (domain @ ''/'' @ name, value)"
    using A B C chars by (simp_all add: labelsPrefix_def labelNoPrefix_def)
  have "tagTaintParser L (''taint='' @ label @ '':'' @ effect) =
      (case tagLabelParser L label of (key, value) \<Rightarrow> (key, value, effect))" if "CHR '':'' \<notin> set label" for label
    using tagTaintParser_effect [OF assms(9) that] by (simp add: labelTaintPrefix_def)
  from this [of ?nv] this [of "''noprefix='' @ ?nv"] this [of "''noprefix='' @ ?dnv"]
  have "tagTaintParser L (''taint='' @ ?nv @ '':'' @ effect) = (''k8s.scaleway.com/'' @ name, value, effect)"
    "tagTaintParser L (''taint=noprefix='' @ ?nv @ '':'' @ effect) = (name, value, effect)"
    "tagTaintParser L (''taint=noprefix='' @ ?dnv @ '':'' @ effect) = (domain @ ''/'' @ name, value, effect)"
    unfolding labels using chars seps by simp_all
  with labels show ?thesis by simp
qed

theorem tag_round_trip_witness:
  "tagLabelParser sample_sdk (''a.b'' @ ''='' @ ''v'') = (''k8s.scaleway.com/'' @ ''a.b'', ''v'')
    \<and> tagLabelParser sample_sdk (''noprefix='' @ ''a.b'' @ ''='' @ ''v'') = (''a.b'', ''v'')
    \<and> tagLabelParser sample_sdk (''noprefix='' @ ''node.kubernetes.io'' @ ''/'' @ ''a.b'' @ ''='' @ ''v'')
        = (''node.kubernetes.io'' @ ''/'' @ ''a.b'', ''v'')
    \<and> tagTaintParser sample_sdk (''taint='' @ ''a.b'' @ ''='' @ ''v'' @ '':'' @ v1_TaintEffectNoSchedule)
        = (''k8s.scaleway.com/'' @ ''a.b'', ''v'', v1_TaintEffectNoSchedule)
    \<and> tagTaintParser sample_sdk (''taint=noprefix='' @ ''a.b'' @ ''='' @ ''v'' @ '':'' @ v1_TaintEffectNoSchedule)
        = (''a.b'', ''v'', v1_TaintEffectNoSchedule)
    \<and> tagTaintParser sample_sdk (''taint=noprefix='' @ ''node.kubernetes.io'' @ ''/'' @ ''a.b'' @ ''='' @ ''v'' @ '':'' @ v1_TaintEffectNoSchedule)
        = (''node.kubernetes.io'' @ ''/'' @ ''a.b'', ''v'', v1_TaintEffectNoSchedule)"
  by (rule tag_round_trip)
    (simp_all add: qualifiedName_def qnameExtChar_def qnameChar_def is_digit_def is_lower_def
      is_sep_def sample_sdk_def)

text \<open>
  The pieces of a taint between colons are joined without the colon, so a colon is lost: a
  key and a value that the label parser separates at a colon are merged into one key, and the
  taint \<open>taint=key:value:Effect\<close> gets the key \<open>keyvalue\<close> and no value.
\<close>

lemma taint_loses_colon:
  "tagLabelParser L (strings_Join [''key'', ''value''] '':'') = 
     (if sdk_IsValidLabelValue L ''value'' then (labelsPrefix @ ''key'', ''value'') else ('''', ''''))
   \<and> tagTaintParser L ''taint=key:value:NoSchedule'' = (labelsPrefix @ ''keyvalue'', '''', v1_TaintEffectNoSchedule)"
  by (simp add: tagTaintParser_def tagLabelParser_def tag_prefix_def splitRegexp.simps Let_def strings_HasPrefix_def
      strings_TrimPrefix_def labelTaintPrefix_def labelNoPrefix_def strings_Split_char is_sep_def qualifiedName_def
      qnameExtChar_def qnameChar_def is_digit_def is_lower_def qualifiedNameMaxLength_def
      v1_TaintEffectNoExecute_def v1_TaintEffectNoSchedule_def)

end
