(* ===== verification/Sync.thy ===== *)
theory Sync
  imports Tags Patcher Instances Annotations
begin

text \<open>
  \<open>scaleway/sync.go\<close>: the tags of instances and load balancers become labels and taints of nodes
  and labels of services.  The caches of the informers are the parameters \<open>indexer\<close>; a cached
  item is any object, which the code casts.  The rate limited work queue is a parameter too,
  with its own state type.
\<close>

section \<open>State\<close>

record indexer =
  ix_GetByKey :: "string \<Rightarrow> err + kube_object option"
  ix_List :: "kube_object list"

text \<open>
  \<open>sc_api\<close> holds the answers of the load balancer and Kubernetes services, \<open>sc_taint_order\<close> the
  order in which \<open>maps.Values\<close> visits the keys of a map, which Go leaves open and which may be
  another one at each call: it depends on the moment of the call.
\<close>

record syncController =
  sc_sdk :: sdk
  sc_api :: api
  sc_instanceAPI :: InstanceAPI
  sc_clientSet :: kube
  sc_nodeIndexer :: indexer
  sc_serviceIndexer :: indexer
  sc_taint_order :: "hist \<Rightarrow> string list \<Rightarrow> string list"

section \<open>Labels\<close>

text \<open>
  The labels of the tags: each is set in the labels of the copied object and remembered.
  The state is the pair of both maps.
\<close>

definition add_label ::
    "string \<times> string \<Rightarrow> (string, string) gomap \<times> (string, string) gomap \<Rightarrow>
     (string, string) gomap \<times> (string, string) gomap" where
  "add_label kv m =
     (case (kv, m) of ((key, value), (labels, seen)) \<Rightarrow>
        if key = '''' then (labels, seen)
        else (AList.update key value labels, AList.update key value seen))"

text \<open>
  The loop over the labels of the original object that deletes those that the controller manages
  and that no tag gives.
\<close>

fun drop_labels ::
    "(string \<Rightarrow> string \<Rightarrow> bool) \<Rightarrow> (string, string) gomap \<Rightarrow> (string, string) gomap \<Rightarrow>
     (string, string) gomap \<Rightarrow> (string, string) gomap" where
  "drop_labels managed seen [] labels = labels"
| "drop_labels managed seen ((key, value) # original) labels =
     (if managed key value \<and> map_of seen key = None
      then drop_labels managed seen original (AList.delete key labels)
      else drop_labels managed seen original labels)"

definition managed_node_label :: "string \<Rightarrow> string \<Rightarrow> bool" where
  "managed_node_label key value =
     (if key = labelNodeRoleExcludeBalancer then value = labelNodeRoleExcludeBalancerValue
      else strings_HasPrefix key labelsPrefix)"

definition managed_service_label :: "string \<Rightarrow> string \<Rightarrow> bool" where
  "managed_service_label key value = strings_HasPrefix key labelsPrefix"

section \<open>Nodes\<close>

definition taint_key :: "string \<Rightarrow> string \<Rightarrow> string" where
  "taint_key key effect = key @ '':'' @ effect"

text \<open>One tag of a server: a taint, or a label.\<close>

definition node_label_of_tag :: "sdk \<Rightarrow> string \<Rightarrow> string \<times> string" where
  "node_label_of_tag L tag =
     (if tag = labelNodeRoleExcludeBalancer
      then (labelNodeRoleExcludeBalancer, labelNodeRoleExcludeBalancerValue)
      else tagLabelParser L tag)"

definition add_taint :: "sdk \<Rightarrow> string \<Rightarrow> (string, Taint) gomap \<Rightarrow> (string, Taint) gomap" where
  "add_taint L tag nodeTaints =
     (case tagTaintParser L tag of (key, value, effect) \<Rightarrow>
        if key = '''' then nodeTaints
        else AList.update (taint_key key effect)
          \<lparr>taint_Key = key, taint_Value = value, taint_Effect = effect, taint_TimeAdded = None\<rparr> nodeTaints)"

fun node_tags ::
    "sdk \<Rightarrow> string list \<Rightarrow> (string, string) gomap \<times> (string, string) gomap \<Rightarrow> (string, Taint) gomap \<Rightarrow>
     ((string, string) gomap \<times> (string, string) gomap) \<times> (string, Taint) gomap" where
  "node_tags L [] m nodeTaints = (m, nodeTaints)"
| "node_tags L (tag # tags) m nodeTaints =
     (if strings_HasPrefix tag labelTaintPrefix
      then node_tags L tags m (add_taint L tag nodeTaints)
      else node_tags L tags (add_label (node_label_of_tag L tag) m) nodeTaints)"

fun keep_taints :: "Taint list \<Rightarrow> (string, Taint) gomap \<Rightarrow> (string, Taint) gomap" where
  "keep_taints [] nodeTaints = nodeTaints"
| "keep_taints (taint # taints) nodeTaints =
     (let taintUniqueKey = taint_key (taint_Key taint) (taint_Effect taint) in
      keep_taints taints
        (if map_of nodeTaints taintUniqueKey = None \<and> \<not> strings_HasPrefix (taint_Key taint) taintsPrefix
         then AList.update taintUniqueKey taint nodeTaints else nodeTaints))"

text \<open>The copy of the node after its labels and taints are set.\<close>

definition synced_node :: "sdk \<Rightarrow> (string list \<Rightarrow> string list) \<Rightarrow> string list \<Rightarrow> Node \<Rightarrow> Node" where
  "synced_node L ord tags node =
     (case node_tags L tags (node_Labels node, []) [] of
        ((labels, nodeLabels), nodeTaints) \<Rightarrow>
          let labels' = drop_labels managed_node_label nodeLabels (node_Labels node) labels;
              taints = keep_taints (node_Taints node) nodeTaints in
          node\<lparr>node_Labels := labels',
               node_Taints := List.map_filter (map_of taints) (ord (gm_keys taints))\<rparr>)"

definition syncNodeTags :: "syncController \<Rightarrow> Node \<Rightarrow> unit act" where
  "syncNodeTags S node =
     (if node_ProviderID node = '''' then retA ()
      else bindA (liftA (rwrap (\<lambda>e. Errorf ''error getting server info from provider ID %s on node %s: %v'' None)
                    (ServerInfoFromProviderID (node_ProviderID node)))) (\<lambda>(serverType, serverZone, serverID).
        if serverType \<noteq> InstanceTypeInstance then retA ()
        else bindA (liftA (rwrap (\<lambda>e. Errorf ''error parsing provider ID zone %s for node %s: %v'' None)
                      (sdk_ParseZone (sc_sdk S) serverZone))) (\<lambda>scwZone.
        bindA (invoke (ia_GetServer (sc_instanceAPI S)) (Instance_GetServer scwZone serverID)) (\<lambda>server. momentA (\<lambda>now.
          let patcher = NewNodePatcher node;
              nodeCopied = synced_node (sc_sdk S) (sc_taint_order S now) (is_Tags server) node in
          Patch (sc_clientSet S) (sc_api S) (patcher\<lparr>kp_final := NodeObject nodeCopied\<rparr>))))))"

definition SyncNodesTags :: "syncController \<Rightarrow> unit act" where
  "SyncNodesTags S =
     forA (\<lambda>n. case n of
         NodeObject node \<Rightarrow> catchA (syncNodeTags S node) (\<lambda>_. retA ()) retA
       | ServiceObject _ \<Rightarrow> retA ())
       (ix_List (sc_nodeIndexer S))"

section \<open>Services\<close>

definition synced_service :: "sdk \<Rightarrow> string list \<Rightarrow> Service \<Rightarrow> Service" where
  "synced_service L tags svc =
     (case fold add_label (map (tagLabelParser L) tags) (svc_Labels svc, []) of
        (labels, lbLabels) \<Rightarrow>
          svc\<lparr>svc_Labels := drop_labels managed_service_label lbLabels (svc_Labels svc) labels\<rparr>)"

definition syncServiceTags :: "syncController \<Rightarrow> Service \<Rightarrow> unit act" where
  "syncServiceTags S svc =
     (if svc_StatusIngress svc = [] then retA ()
      else case getLoadBalancerID (sc_sdk S) svc of
          Inl _ \<Rightarrow> retA ()
        | Inr (zone, loadBalancerID) \<Rightarrow>
            if loadBalancerID = '''' then retA ()
            else catchA (invoke (api_GetLB (sc_api S)) (GetLB zone loadBalancerID)) (\<lambda>_. retA ()) (\<lambda>loadbalancer.
              let patcher = NewServicePatcher svc;
                  svcCopied = synced_service (sc_sdk S) (lb_Tags loadbalancer) svc in
              catchA (Patch (sc_clientSet S) (sc_api S) (patcher\<lparr>kp_final := ServiceObject svcCopied\<rparr>))
                (\<lambda>_. retA ()) retA))"

definition SyncLBTags :: "syncController \<Rightarrow> unit act" where
  "SyncLBTags S =
     forA (\<lambda>svcitem. case svcitem of
         ServiceObject svc \<Rightarrow> syncServiceTags S svc
       | NodeObject _ \<Rightarrow> retA ())
       (ix_List (sc_serviceIndexer S))"

section \<open>The queue of nodes\<close>

definition exponentialMaxRetries :: nat where
  "exponentialMaxRetries = 30"

text \<open>
  A node that is not in the cache needs nothing.  An object of another type is only noticed: the
  error is not returned, and \<open>syncNodeTags\<close> is called on a nil node, whose first field it reads.
\<close>

definition handleAction :: "syncController \<Rightarrow> string \<Rightarrow> unit act" where
  "handleAction S nodeName =
     bindA (liftA (ix_GetByKey (sc_nodeIndexer S) nodeName)) (\<lambda>obj.
       case obj of
         None \<Rightarrow> retA ()
       | Some (NodeObject node) \<Rightarrow> syncNodeTags S node
       | Some (ServiceObject _) \<Rightarrow> failA (GoPanic ''nil pointer dereference''))"

text \<open>
  The rate limited queue: \<open>wq_Get\<close> gives the next key, or \<open>None\<close> when the queue is shut down.
\<close>

record 'q workqueue =
  wq_Get :: "'q \<Rightarrow> string option \<times> 'q"
  wq_Add :: "string \<Rightarrow> 'q \<Rightarrow> 'q"
  wq_Done :: "string \<Rightarrow> 'q \<Rightarrow> 'q"
  wq_NumRequeues :: "'q \<Rightarrow> string \<Rightarrow> nat"
  wq_AddRateLimited :: "string \<Rightarrow> 'q \<Rightarrow> 'q"
  wq_Forget :: "string \<Rightarrow> 'q \<Rightarrow> 'q"

text \<open>The handler of the informer, which adds the name of every new node.\<close>

definition AddFunc :: "'q workqueue \<Rightarrow> kube_object \<Rightarrow> 'q \<Rightarrow> 'q" where
  "AddFunc Q obj q = (case obj of NodeObject node \<Rightarrow> wq_Add Q (node_Name node) q | ServiceObject _ \<Rightarrow> q)"

text \<open>
  One round: \<open>false\<close> when the queue is shut down.  The deferred \<open>Done\<close> runs last, also when the
  handler panics, which the round does not survive.
\<close>

definition processNextActionItem ::
    "syncController \<Rightarrow> 'q workqueue \<Rightarrow> hist \<times> 'q \<Rightarrow> (err + bool) \<times> hist \<times> 'q" where
  "processNextActionItem S Q st =
     (case st of (h, q) \<Rightarrow>
        case wq_Get Q q of
          (None, q) \<Rightarrow> (Inr False, h, q)
        | (Some key, q) \<Rightarrow>
            (case handleAction S key h of
               (Inl (GoPanic m), h) \<Rightarrow> (Inl (GoPanic m), h, wq_Done Q key q)
             | (Inl err, h) \<Rightarrow>
                 (if wq_NumRequeues Q q key < exponentialMaxRetries
                  then (Inr True, h, wq_Done Q key (wq_AddRateLimited Q key q))
                  else (Inr True, h, wq_Done Q key (wq_Forget Q key q)))
             | (Inr _, h) \<Rightarrow> (Inr True, h, wq_Done Q key (wq_Forget Q key q))))"

text \<open>The loop, which ends when the queue is shut down; \<open>None\<close> when it never ends.\<close>

partial_function (option) runSyncQueue ::
    "syncController \<Rightarrow> 'q workqueue \<Rightarrow> hist \<times> 'q \<Rightarrow> ((err + unit) \<times> hist \<times> 'q) option" where
  "runSyncQueue S Q st =
     (case processNextActionItem S Q st of
        (Inl e, st') \<Rightarrow> Some (Inl e, st')
      | (Inr next', st') \<Rightarrow> if next' then runSyncQueue S Q st' else Some (Inr (), st'))"

section \<open>The start of the controller\<close>

text \<open>
  \<open>Run\<close> starts the two informers, waits for their caches, and then starts the three loops, each
  repeated with its period; the results of \<open>cache.WaitForCacheSync\<close> are arguments.  What is
  started is listed in order; an error is handed to the handler of \<open>runtime\<close>.  The queue is shut
  down when \<open>Run\<close> returns.
\<close>

datatype sync_task = NodeInformer | ServiceInformer | QueueLoop | NodesTagsLoop | LBTagsLoop

definition syncController_Run :: "bool \<Rightarrow> bool \<Rightarrow> err option \<times> (sync_task \<times> duration option) list" where
  "syncController_Run nodesSynced servicesSynced =
     (let informers = [(NodeInformer, None), (ServiceInformer, None)] in
      if \<not> nodesSynced
      then (Some (Errorf ''timed out waiting for node cache to sync'' None), informers)
      else if \<not> servicesSynced
      then (Some (Errorf ''timed out waiting for service cache to sync'' None), informers)
      else (None, informers @
        [(QueueLoop, Some 1000000000), (NodesTagsLoop, Some 300000000000), (LBTagsLoop, Some 300000000000)]))"

end
