(* ===== verification/SyncLaws.thy ===== *)
theory SyncLaws
  imports Sync NodeLaws
begin

text \<open>
  What the synchronisation of tags does: the labels and taints it leaves on an object, that it
  settles, which calls it makes, and how often the queue tries again.
\<close>

section \<open>Labels\<close>

lemma add_label_simp [simp]:
  "add_label (k, v) (labels, seen) =
     (if k = '''' then (labels, seen) else (AList.update k v labels, AList.update k v seen))"
  by (simp add: add_label_def)

text \<open>The labels that the tags give: the last tag of a key counts.\<close>

definition tag_labels :: "(string \<times> string) list \<Rightarrow> (string, string) gomap" where
  "tag_labels kvs = rev (filter (\<lambda>kv. fst kv \<noteq> '''') kvs)"

lemma add_label_fold:
  "map_of (fst (fold add_label kvs (labels, seen))) = map_of labels ++ map_of (tag_labels kvs)
   \<and> map_of (snd (fold add_label kvs (labels, seen))) = map_of seen ++ map_of (tag_labels kvs)"
proof (induction kvs arbitrary: labels seen)
  case (Cons kv kvs)
  obtain k v where "kv = (k, v)" by (cases kv)
  then show ?case
    using Cons.IH [of "AList.update k v labels" "AList.update k v seen"] Cons.IH [of labels seen]
    by (auto simp: tag_labels_def map_add_def fun_eq_iff split: option.split)
qed (simp add: tag_labels_def)

lemma drop_labels_map:
  assumes "distinct (gm_keys original)"
  shows "map_of (drop_labels managed seen original labels) k =
    (case map_of original k of
       None \<Rightarrow> map_of labels k
     | Some v \<Rightarrow> if managed k v \<and> map_of seen k = None then None else map_of labels k)"
  using assms
proof (induction original arbitrary: labels)
  case (Cons kv original)
  obtain k' v where "kv = (k', v)" by (cases kv)
  with Cons show ?case by (auto split: option.split dest: map_of_SomeD) (force dest: map_of_SomeD)+
qed simp

text \<open>The labels after a synchronisation, from the labels before and the labels of the tags.\<close>

definition sync_labels ::
    "(string \<Rightarrow> string \<Rightarrow> bool) \<Rightarrow> (string \<times> string) list \<Rightarrow> (string, string) gomap \<Rightarrow> (string, string) gomap" where
  "sync_labels managed kvs original =
     (case fold add_label kvs (original, []) of
        (labels, seen) \<Rightarrow> drop_labels managed seen original labels)"

lemma sync_labels_map:
  assumes "distinct (gm_keys original)"
  shows "map_of (sync_labels managed kvs original) k =
    (case map_of (tag_labels kvs) k of
       Some v \<Rightarrow> Some v
     | None \<Rightarrow> (case map_of original k of
          None \<Rightarrow> None
        | Some v \<Rightarrow> if managed k v then None else Some v))"
proof (cases "fold add_label kvs (original, [])")
  case (Pair labels seen)
  with add_label_fold [of kvs original "[]"]
  have "map_of labels = map_of original ++ map_of (tag_labels kvs)" "map_of seen = map_of (tag_labels kvs)"
    by simp_all
  then show ?thesis
    using Pair drop_labels_map [OF assms, of managed seen labels k]
    by (auto simp: sync_labels_def map_add_def split: option.split)
qed

lemma node_tags_split:
  "node_tags L tags m taints =
     (fold add_label (map (node_label_of_tag L) (filter (\<lambda>t. \<not> strings_HasPrefix t labelTaintPrefix) tags)) m,
      fold (add_taint L) (filter (\<lambda>t. strings_HasPrefix t labelTaintPrefix) tags) taints)"
  by (induction tags arbitrary: m taints) auto

text \<open>The pairs of the tags of a server that are not taints.\<close>

definition node_tag_pairs :: "sdk \<Rightarrow> string list \<Rightarrow> (string \<times> string) list" where
  "node_tag_pairs L tags =
     map (node_label_of_tag L) (filter (\<lambda>t. \<not> strings_HasPrefix t labelTaintPrefix) tags)"

lemma synced_node_Labels:
  "node_Labels (synced_node L ord tags node) =
     sync_labels managed_node_label (node_tag_pairs L tags) (node_Labels node)"
  by (simp add: synced_node_def node_tags_split sync_labels_def node_tag_pairs_def Let_def split: prod.split)

lemma synced_service_Labels:
  "svc_Labels (synced_service L tags svc) =
     sync_labels managed_service_label (map (tagLabelParser L) tags) (svc_Labels svc)"
  by (simp add: synced_service_def sync_labels_def split: prod.split)

text \<open>
  C15: after a synchronisation, the value of every label of a node or service is the one of the
  last tag that gives it; a label that no tag gives is gone if the controller manages it, and is
  kept with its value otherwise.
\<close>

theorem synced_labels_spec:
  assumes "distinct (gm_keys (node_Labels node))" "distinct (gm_keys (svc_Labels svc))"
  shows "map_of (node_Labels (synced_node L ord tags node)) k =
      (case map_of (tag_labels (node_tag_pairs L tags)) k of
         Some v \<Rightarrow> Some v
       | None \<Rightarrow> (case map_of (node_Labels node) k of
            None \<Rightarrow> None
          | Some v \<Rightarrow> if managed_node_label k v then None else Some v))
    \<and> map_of (svc_Labels (synced_service L tags svc)) k =
      (case map_of (tag_labels (map (tagLabelParser L) tags)) k of
         Some v \<Rightarrow> Some v
       | None \<Rightarrow> (case map_of (svc_Labels svc) k of
            None \<Rightarrow> None
          | Some v \<Rightarrow> if managed_service_label k v then None else Some v))"
  unfolding synced_node_Labels synced_service_Labels
  using assms by (simp add: sync_labels_map)

theorem synced_labels_spec_witness:
  "map_of (node_Labels (synced_node sample_sdk sort [''a=b''] sample_node)) (labelsPrefix @ ''a'') =
      (case map_of (tag_labels (node_tag_pairs sample_sdk [''a=b''])) (labelsPrefix @ ''a'') of
         Some v \<Rightarrow> Some v
       | None \<Rightarrow> (case map_of (node_Labels sample_node) (labelsPrefix @ ''a'') of
            None \<Rightarrow> None
          | Some v \<Rightarrow> if managed_node_label (labelsPrefix @ ''a'') v then None else Some v))
    \<and> map_of (svc_Labels (synced_service sample_sdk [''a=b''] udp_service)) (labelsPrefix @ ''a'') =
      (case map_of (tag_labels (map (tagLabelParser sample_sdk) [''a=b''])) (labelsPrefix @ ''a'') of
         Some v \<Rightarrow> Some v
       | None \<Rightarrow> (case map_of (svc_Labels udp_service) (labelsPrefix @ ''a'') of
            None \<Rightarrow> None
          | Some v \<Rightarrow> if managed_service_label (labelsPrefix @ ''a'') v then None else Some v))"
  by (rule synced_labels_spec) (simp_all add: sample_node_def udp_service_def sample_service_def)

section \<open>Settling\<close>

lemma gm_eqI:
  "gm_keys xs = gm_keys ys \<Longrightarrow> distinct (gm_keys xs) \<Longrightarrow> map_of xs = map_of ys \<Longrightarrow> xs = ys"
proof (induction xs arbitrary: ys)
  case (Cons x xs)
  then obtain y ys' where ys: "ys = y # ys'" "fst y = fst x" "gm_keys xs = gm_keys ys'" by (cases ys) auto
  obtain k v w where x: "x = (k, v)" "y = (k, w)" using ys(2) by (cases x; cases y) auto
  have v: "v = w" using Cons.prems(3) ys(1) x by (metis map_of_Cons_code(2) option.inject)
  have "map_of xs k' = map_of ys' k'" for k'
  proof (cases "k' = k")
    case True
    then have "k' \<notin> set (gm_keys xs)" using Cons.prems(2) x by simp
    then show ?thesis using ys(3) by (metis map_of_eq_None_iff set_map)
  next
    case False
    then show ?thesis using fun_cong [OF Cons.prems(3), of k'] ys(1) x by simp
  qed
  with Cons.IH [OF ys(3)] Cons.prems(2) have "xs = ys'" by (simp add: fun_eq_iff)
  with ys(1) x v show ?case by simp
qed simp

lemma update_keys_present: "k \<in> set (gm_keys m) \<Longrightarrow> gm_keys (AList.update k v m) = gm_keys m"
  by (simp add: update_keys)

lemma add_label_keys:
  "\<forall>kv\<in>set kvs. fst kv = '''' \<or> fst kv \<in> set (gm_keys labels) \<Longrightarrow>
    gm_keys (fst (fold add_label kvs (labels, seen))) = gm_keys labels"
proof (induction kvs arbitrary: labels seen)
  case (Cons kv kvs)
  obtain k v where kv: "kv = (k, v)" by (cases kv)
  show ?case
  proof (cases "k = ''''")
    case True
    with kv Cons show ?thesis by simp
  next
    case False
    with kv Cons.prems have "gm_keys (AList.update k v labels) = gm_keys labels"
      by (intro update_keys_present) auto
    moreover from Cons.prems have
      "\<forall>kv\<in>set kvs. fst kv = '''' \<or> fst kv \<in> set (gm_keys (AList.update k v labels))"
      unfolding set_gm_keys_update by auto
    ultimately show ?thesis
      using kv False Cons.IH [of "AList.update k v labels" "AList.update k v seen"] by simp
  qed
qed simp

lemma add_label_distinct:
  "distinct (gm_keys labels) \<Longrightarrow> distinct (gm_keys (fst (fold add_label kvs (labels, seen))))"
proof (induction kvs arbitrary: labels seen)
  case (Cons kv kvs)
  obtain k v where "kv = (k, v)" by (cases kv)
  with Cons show ?case by simp
qed simp

lemma drop_labels_distinct:
  "distinct (gm_keys labels) \<Longrightarrow> distinct (gm_keys (drop_labels managed seen original labels))"
  by (induction managed seen original labels rule: drop_labels.induct) auto

lemma sync_labels_distinct:
  "distinct (gm_keys original) \<Longrightarrow> distinct (gm_keys (sync_labels managed kvs original))"
  using add_label_distinct [of original kvs "[]"]
  by (auto simp: sync_labels_def intro: drop_labels_distinct split: prod.split)

lemma drop_labels_none:
  "\<forall>(k, v)\<in>set original. managed k v \<longrightarrow> map_of seen k \<noteq> None \<Longrightarrow>
    drop_labels managed seen original labels = labels"
  by (induction managed seen original labels rule: drop_labels.induct) auto

lemma tag_labels_keys: "fst ` set (tag_labels kvs) = {k \<in> fst ` set kvs. k \<noteq> ''''}"
  by (auto simp: tag_labels_def)

lemma sync_labels_settled:
  assumes "distinct (gm_keys original)"
  shows "sync_labels managed kvs (sync_labels managed kvs original) = sync_labels managed kvs original"
    (is "_ = ?once")
proof (cases "fold add_label kvs (?once, [])")
  case (Pair labels seen)
  have once: "distinct (gm_keys ?once)" using assms by (rule sync_labels_distinct)
  note m = sync_labels_map [OF assms, of managed kvs]
  from add_label_fold [of kvs ?once "[]"] Pair
  have maps: "map_of labels = map_of ?once ++ map_of (tag_labels kvs)" "map_of seen = map_of (tag_labels kvs)"
    by simp_all
  have keys: "gm_keys labels = gm_keys ?once"
  proof -
    have "fst kv = '''' \<or> fst kv \<in> set (gm_keys ?once)" if "kv \<in> set kvs" for kv
    proof (cases "fst kv = ''''")
      case False
      with that have "map_of (tag_labels kvs) (fst kv) \<noteq> None"
        by (auto simp: map_of_eq_None_iff tag_labels_keys)
      then obtain v where "map_of (tag_labels kvs) (fst kv) = Some v" by blast
      then have "map_of ?once (fst kv) = Some v" unfolding m by simp
      then show ?thesis by (auto dest: map_of_SomeD intro: rev_image_eqI)
    qed simp
    then show ?thesis using add_label_keys [of kvs ?once "[]"] Pair by simp
  qed
  have "map_of labels = map_of ?once"
    unfolding maps by (rule ext) (auto simp: map_add_def m split: option.split)
  then have "labels = ?once" using gm_eqI [OF keys] once keys by simp
  moreover have seen: "map_of seen k \<noteq> None" if "(k, v) \<in> set ?once" "managed k v" for k v
  proof
    assume "map_of seen k = None"
    moreover have "map_of ?once k = Some v" using once that(1) by simp
    ultimately show False
      using that(2) unfolding m maps by (auto split: option.splits if_splits)
  qed
  then have "\<forall>(k, v)\<in>set ?once. managed k v \<longrightarrow> map_of seen k \<noteq> None" by blast
  ultimately show ?thesis
    using Pair by (simp add: sync_labels_def [of managed kvs ?once] drop_labels_none)
qed

section \<open>Taints\<close>

abbreviation taint_unique_key :: "Taint \<Rightarrow> string" where
  "taint_unique_key t \<equiv> taint_key (taint_Key t) (taint_Effect t)"

text \<open>The taints of the tags, by their unique key: the last tag counts.\<close>

definition taint_of_tag :: "sdk \<Rightarrow> string \<Rightarrow> (string \<times> Taint) option" where
  "taint_of_tag L tag =
     (case tagTaintParser L tag of (key, value, effect) \<Rightarrow>
        if key = '''' then None
        else Some (taint_key key effect,
          \<lparr>taint_Key = key, taint_Value = value, taint_Effect = effect, taint_TimeAdded = None\<rparr>))"

definition tag_taints :: "sdk \<Rightarrow> string list \<Rightarrow> (string, Taint) gomap" where
  "tag_taints L tags =
     rev (List.map_filter (taint_of_tag L) (filter (\<lambda>t. strings_HasPrefix t labelTaintPrefix) tags))"

lemma add_taint_alt:
  "add_taint L tag m = (case taint_of_tag L tag of None \<Rightarrow> m | Some (u, t) \<Rightarrow> AList.update u t m)"
  by (simp add: add_taint_def taint_of_tag_def split: prod.split)

lemma add_taint_fold:
  "map_of (fold (add_taint L) tags m) = map_of m ++ map_of (rev (List.map_filter (taint_of_tag L) tags))"
proof (induction tags arbitrary: m)
  case (Cons tag tags)
  then show ?case
    by (auto simp: add_taint_alt List.map_filter_def map_add_def fun_eq_iff split: option.split)
qed (simp add: List.map_filter_def)

text \<open>The first taint of the node with that key which the controller does not manage.\<close>

definition kept_taint :: "Taint list \<Rightarrow> string \<Rightarrow> Taint option" where
  "kept_taint taints u =
     find (\<lambda>t. taint_unique_key t = u \<and> \<not> strings_HasPrefix (taint_Key t) taintsPrefix) taints"

lemma keep_taints_map:
  "map_of (keep_taints taints m) u =
     (case map_of m u of Some t \<Rightarrow> Some t | None \<Rightarrow> kept_taint taints u)"
  by (induction taints arbitrary: m) (auto simp: kept_taint_def Let_def split: option.split)

text \<open>Every taint of a map is under its own unique key.\<close>

definition keyed :: "(string, Taint) gomap \<Rightarrow> bool" where
  "keyed m \<longleftrightarrow> distinct (gm_keys m) \<and> (\<forall>u t. map_of m u = Some t \<longrightarrow> taint_unique_key t = u)"

lemma keyed_update: "keyed m \<Longrightarrow> keyed (AList.update (taint_unique_key t) t m)"
  by (auto simp: keyed_def)

lemma keyed_add_taint: "keyed m \<Longrightarrow> keyed (add_taint L tag m)"
  using keyed_update [of m] by (auto simp: add_taint_def split: prod.split) (metis Taint.select_convs(1,3))

lemma keyed_fold: "keyed m \<Longrightarrow> keyed (fold (add_taint L) tags m)"
  by (induction tags arbitrary: m) (auto intro: keyed_add_taint)

lemma keyed_keep: "keyed m \<Longrightarrow> keyed (keep_taints taints m)"
  by (induction taints arbitrary: m) (auto simp: Let_def intro: keyed_update)

lemma set_map_filter: "x \<in> set (List.map_filter f xs) \<longleftrightarrow> (\<exists>k\<in>set xs. f k = Some x)"
  by (induction xs) (auto simp: List.map_filter_def)

lemma map_of_keys_ex: "(\<exists>k\<in>set (gm_keys m). map_of m k = Some t) \<longleftrightarrow> (\<exists>k. map_of m k = Some t)"
  by (metis map_of_eq_None_iff option.distinct(1) set_map)

lemma keyed_values:
  "keyed m \<Longrightarrow> set ks \<subseteq> set (gm_keys m) \<Longrightarrow> map taint_unique_key (List.map_filter (map_of m) ks) = ks"
proof (induction ks)
  case (Cons k ks)
  then obtain t where "map_of m k = Some t" by (force simp: map_of_eq_None_iff dest: not_None_eq [THEN iffD1])
  with Cons show ?case by (auto simp: List.map_filter_def keyed_def)
qed (simp add: List.map_filter_def)

text \<open>The map of the taints that a synchronisation collects.\<close>

definition synced_taints :: "sdk \<Rightarrow> string list \<Rightarrow> Taint list \<Rightarrow> (string, Taint) gomap" where
  "synced_taints L tags taints =
     keep_taints taints (fold (add_taint L) (filter (\<lambda>t. strings_HasPrefix t labelTaintPrefix) tags) [])"

lemma synced_node_Taints:
  "node_Taints (synced_node L ord tags node) =
     (let m = synced_taints L tags (node_Taints node) in List.map_filter (map_of m) (ord (gm_keys m)))"
  by (simp add: synced_node_def node_tags_split synced_taints_def Let_def split: prod.split)

lemma keyed_synced: "keyed (synced_taints L tags taints)"
  by (auto simp: synced_taints_def keyed_def [of "[]"] intro!: keyed_keep keyed_fold)

lemma synced_taints_map:
  "map_of (synced_taints L tags taints) u =
     (case map_of (tag_taints L tags) u of Some t \<Rightarrow> Some t | None \<Rightarrow> kept_taint taints u)"
  by (simp add: synced_taints_def keep_taints_map add_taint_fold tag_taints_def)

text \<open>
  C16: whatever the order in which the map of taints is visited, no two taints of a synchronised
  node have the same key and effect, and its taints are those of the tags, the last tag of a key
  and effect counting, and, for the other keys and effects, the first taint that the node had and
  that is not the controller's.
\<close>

theorem synced_taints_spec:
  assumes "\<And>ks. mset (ord ks) = mset ks"
  shows "distinct (map (\<lambda>t. taint_key (taint_Key t) (taint_Effect t)) (node_Taints (synced_node L ord tags node)))
    \<and> (t \<in> set (node_Taints (synced_node L ord tags node)) \<longleftrightarrow>
        (\<exists>u. (case map_of (tag_taints L tags) u of Some t' \<Rightarrow> Some t' | None \<Rightarrow> kept_taint (node_Taints node) u) = Some t))"
proof -
  let ?m = "synced_taints L tags (node_Taints node)"
  have ord: "set (ord ks) = set ks" "distinct (ord ks) = distinct ks" for ks
    using assms [of ks] by (metis set_mset_mset, metis mset_eq_imp_distinct_iff)
  have "map taint_unique_key (node_Taints (synced_node L ord tags node)) = ord (gm_keys ?m)"
    unfolding synced_node_Taints Let_def by (rule keyed_values [OF keyed_synced]) (simp add: ord)
  then have "distinct (map taint_unique_key (node_Taints (synced_node L ord tags node)))"
    using keyed_synced [of L tags "node_Taints node"] by (simp add: ord keyed_def)
  moreover have "t \<in> set (node_Taints (synced_node L ord tags node)) \<longleftrightarrow> (\<exists>u. map_of ?m u = Some t)"
    unfolding synced_node_Taints Let_def set_map_filter ord map_of_keys_ex ..
  ultimately show ?thesis
    by (simp add: synced_taints_map)
qed

theorem synced_taints_spec_witness:
  "distinct (map (\<lambda>t. taint_key (taint_Key t) (taint_Effect t))
      (node_Taints (synced_node sample_sdk rev [''taint=a=b:NoExecute''] sample_node)))
    \<and> (\<lparr>taint_Key = labelsPrefix @ ''a'', taint_Value = ''b'', taint_Effect = ''NoExecute'', taint_TimeAdded = None\<rparr>
        \<in> set (node_Taints (synced_node sample_sdk rev [''taint=a=b:NoExecute''] sample_node)) \<longleftrightarrow>
      (\<exists>u. (case map_of (tag_taints sample_sdk [''taint=a=b:NoExecute'']) u of
              Some t' \<Rightarrow> Some t' | None \<Rightarrow> kept_taint (node_Taints sample_node) u) =
        Some \<lparr>taint_Key = labelsPrefix @ ''a'', taint_Value = ''b'', taint_Effect = ''NoExecute'', taint_TimeAdded = None\<rparr>))"
  by (rule synced_taints_spec) simp

lemma kept_taint_values:
  assumes "keyed m" "set ks = set (gm_keys m)"
  shows "kept_taint (List.map_filter (map_of m) ks) u =
    (case map_of m u of
       None \<Rightarrow> None
     | Some t \<Rightarrow> if strings_HasPrefix (taint_Key t) taintsPrefix then None else Some t)"
proof -
  have vals: "t \<in> set (List.map_filter (map_of m) ks) \<longleftrightarrow> map_of m (taint_unique_key t) = Some t" for t
    using assms(1) unfolding set_map_filter assms(2) map_of_keys_ex by (auto simp: keyed_def)
  show ?thesis
  proof (cases "kept_taint (List.map_filter (map_of m) ks) u")
    case None
    then show ?thesis
      using assms(1) by (auto simp: kept_taint_def find_None_iff vals keyed_def split: option.split)
  next
    case (Some t)
    then have "t \<in> set (List.map_filter (map_of m) ks)" "taint_unique_key t = u"
        "\<not> strings_HasPrefix (taint_Key t) taintsPrefix"
      by (auto simp: kept_taint_def find_Some_iff)
    with Some show ?thesis by (auto simp: vals)
  qed
qed

lemma kept_taint_kept: "kept_taint taints u = Some t \<Longrightarrow> \<not> strings_HasPrefix (taint_Key t) taintsPrefix"
  by (auto simp: kept_taint_def find_Some_iff)

lemma synced_taints_again:
  assumes "\<And>ks. mset (ord ks) = mset ks"
  shows "map_of (synced_taints L tags (node_Taints (synced_node L ord tags node))) =
    map_of (synced_taints L tags (node_Taints node))"
proof
  fix u
  let ?m = "synced_taints L tags (node_Taints node)"
  have "set (ord (gm_keys ?m)) = set (gm_keys ?m)" using assms by (metis set_mset_mset)
  note k = kept_taint_values [OF keyed_synced this, of u]
  show "map_of (synced_taints L tags (node_Taints (synced_node L ord tags node))) u = map_of ?m u"
    unfolding synced_taints_map [of L tags "node_Taints (synced_node L ord tags node)"]
    unfolding synced_node_Taints Let_def k
    by (auto simp: synced_taints_map dest: kept_taint_kept split: option.split)
qed

lemma mset_map_filter: "mset (List.map_filter f xs) = image_mset (the \<circ> f) {#x \<in># mset xs. f x \<noteq> None#}"
  by (simp add: List.map_filter_def comp_def)

text \<open>
  Synchronising a second time with the same tags, the map of taints being visited in any other
  order, at most reorders the taints.
\<close>

lemma synced_node_again:
  fixes L tags
  assumes "distinct (gm_keys (node_Labels node))"
    and perm: "\<And>ks. mset (ord ks) = mset ks" "\<And>ks. mset (ord' ks) = mset ks"
  defines "once \<equiv> synced_node L ord tags node"
  shows "\<exists>ts. mset ts = mset (node_Taints once) \<and> synced_node L ord' tags once = once\<lparr>node_Taints := ts\<rparr>"
proof -
  let ?twice = "synced_node L ord' tags once"
  let ?m = "synced_taints L tags (node_Taints node)" and ?m' = "synced_taints L tags (node_Taints once)"
  have labels: "node_Labels ?twice = node_Labels once"
    unfolding once_def synced_node_Labels by (rule sync_labels_settled [OF assms(1)])
  have maps: "map_of ?m' = map_of ?m" unfolding once_def by (rule synced_taints_again [OF perm(1)])
  have "set (gm_keys ?m') = set (gm_keys ?m)"
    using arg_cong [OF maps, of dom] by (simp add: dom_map_of_conv_image_fst)
  then have "mset (gm_keys ?m') = mset (gm_keys ?m)"
    using keyed_synced [of L tags] by (metis keyed_def set_eq_iff_mset_eq_distinct)
  then have taints: "mset (node_Taints ?twice) = mset (node_Taints once)"
    unfolding synced_node_Taints [of L ord' tags once] Let_def mset_map_filter maps
    unfolding once_def synced_node_Taints Let_def mset_map_filter by (simp add: perm)
  have rest: "synced_node L ord' tags n = n\<lparr>node_Labels := node_Labels (synced_node L ord' tags n),
      node_Taints := node_Taints (synced_node L ord' tags n)\<rparr>" for n
    by (simp add: synced_node_def Let_def split: prod.split)
  have "?twice = once\<lparr>node_Taints := node_Taints ?twice\<rparr>"
    using labels rest [of once] by simp
  with taints show ?thesis by blast
qed

lemma synced_service_again:
  assumes "distinct (gm_keys (svc_Labels svc))"
  shows "synced_service L tags (synced_service L tags svc) = synced_service L tags svc" (is "?twice = ?once")
proof -
  have labels: "svc_Labels ?twice = svc_Labels ?once"
    unfolding synced_service_Labels by (rule sync_labels_settled [OF assms])
  have rest: "synced_service L tags s = s\<lparr>svc_Labels := svc_Labels (synced_service L tags s)\<rparr>" for s
    by (simp add: synced_service_def split: prod.split)
  show ?thesis using labels rest [of ?once] by simp
qed

lemma reordered_length: "mset xs = mset ys \<Longrightarrow> xs \<noteq> ys \<Longrightarrow> 2 \<le> length ys"
proof (rule ccontr)
  assume eq: "mset xs = mset ys" "xs \<noteq> ys" and "\<not> 2 \<le> length ys"
  then have "length xs = length ys" "length ys \<le> 1" by (auto dest: mset_eq_length)
  with eq show False by (cases xs; cases ys) auto
qed

section \<open>Calls\<close>

text \<open>
  C30: synchronising a node makes at most two calls: it gets the server of the zone and
  identifier of the node, which must be an instance, and patches this very node; it reports an
  error if the patch failed.
\<close>

theorem syncNodeTags_calls:
  "post (syncNodeTags S node) h (\<lambda>r es.
     es = [] \<or>
     (\<exists>zone z id'. ServerInfoFromProviderID (node_ProviderID node) = Inr (InstanceTypeInstance, zone, id')
        \<and> sdk_ParseZone (sc_sdk S) zone = Inr z
        \<and> ((\<exists>out. es = [(Instance_GetServer z id', out)])
          \<or> (\<exists>p out. es = [(Instance_GetServer z id', None), (PatchNode (node_Name node) p, out)]
               \<and> isl r = (out \<noteq> None)))))"
  unfolding syncNodeTags_def
  by (auto simp: post_ret post_lift post_invoke is_patch_of_def NewNodePatcher_def Let_def
      intro!: post_bind post_moment post_mono [OF Patch_post] split: sum.split prod.split)

lemma syncNodeTags_again:
  assumes "distinct (gm_keys (node_Labels node))"
    and perm: "\<And>ks. mset (ord ks) = mset ks" "\<And>now ks. mset (sc_taint_order S now ks) = mset ks"
    and empty: "\<And>s p. kube_MergePatchNode (sc_clientSet S) s s = Inr p \<Longrightarrow> p = ''{}''"
    and tags: "\<And>h c server. ia_GetServer (sc_instanceAPI S) h c = Inr server \<Longrightarrow> is_Tags server = tags"
  defines "once \<equiv> synced_node (sc_sdk S) ord tags node"
  shows "post (syncNodeTags S once) h (\<lambda>r es. \<forall>name p out. (PatchNode name p, out) \<in> set es \<longrightarrow>
      name = node_Name node \<and> 2 \<le> length (node_Taints once)
      \<and> (\<exists>ts s s'. mset ts = mset (node_Taints once)
          \<and> kube_Marshal (sc_clientSet S) (NodeObject once) = Inr s
          \<and> kube_Marshal (sc_clientSet S) (NodeObject (once\<lparr>node_Taints := ts\<rparr>)) = Inr s'
          \<and> kube_MergePatchNode (sc_clientSet S) s s' = Inr p))"
proof -
  let ?K = "sc_clientSet S"
  let ?Q = "\<lambda>es :: hist. \<forall>name p out. (PatchNode name p, out) \<in> set es \<longrightarrow>
      name = node_Name node \<and> 2 \<le> length (node_Taints once)
      \<and> (\<exists>ts s s'. mset ts = mset (node_Taints once)
          \<and> kube_Marshal ?K (NodeObject once) = Inr s
          \<and> kube_Marshal ?K (NodeObject (once\<lparr>node_Taints := ts\<rparr>)) = Inr s'
          \<and> kube_MergePatchNode ?K s s' = Inr p)"
  have name: "node_Name once = node_Name node"
    by (simp add: once_def synced_node_def Let_def split: prod.split)
  have patch: "post (Patch ?K (sc_api S) \<lparr>kp_origin = NodeObject once, kp_final = NodeObject
        (synced_node (sc_sdk S) (sc_taint_order S now) tags once)\<rparr>) h' (\<lambda>r es. ?Q es)" for now h'
  proof (rule post_mono [OF Patch_node_post])
    obtain ts where ts: "mset ts = mset (node_Taints once)"
        "synced_node (sc_sdk S) (sc_taint_order S now) tags once = once\<lparr>node_Taints := ts\<rparr>"
      using synced_node_again [OF assms(1) perm(1), of "sc_taint_order S now" "sc_sdk S" tags] perm(2)
      unfolding once_def by blast
    have moved: "ts \<noteq> node_Taints once" if "kube_MergePatchNode ?K s s' = Inr p" "p \<noteq> ''{}''"
      "kube_Marshal ?K (NodeObject once) = Inr s" "kube_Marshal ?K (NodeObject (once\<lparr>node_Taints := ts\<rparr>)) = Inr s'" for s s' p
      using that empty [of s p] by auto
    fix r :: "err + unit" and es :: hist
    assume "es = [] \<or> (\<exists>s s' p out. kube_Marshal ?K (NodeObject once) = Inr s
       \<and> kube_Marshal ?K (NodeObject (synced_node (sc_sdk S) (sc_taint_order S now) tags once)) = Inr s'
       \<and> kube_MergePatchNode ?K s s' = Inr p \<and> p \<noteq> '''' \<and> p \<noteq> ''{}''
       \<and> es = [(PatchNode (node_Name once) p, out)] \<and> isl r = (out \<noteq> None))"
    then show "?Q es"
      unfolding ts(2) using ts(1) moved reordered_length [OF ts(1)] name by fastforce
  qed
  show ?thesis
    unfolding syncNodeTags_def NewNodePatcher_def Let_def
    by (auto simp: post_ret post_lift post_invoke tags
        intro!: post_bind post_moment post_mono [OF patch] split: sum.split prod.split) blast+
qed

lemma syncServiceTags_again:
  assumes "distinct (gm_keys (svc_Labels svc))"
    and empty: "\<And>s p. kube_MergePatchNode (sc_clientSet S) s s = Inr p \<Longrightarrow> p = ''{}''"
      "\<And>s p. kube_MergePatchService (sc_clientSet S) s s = Inr p \<Longrightarrow> p = ''{}''"
    and tags: "\<And>h c lb. api_GetLB (sc_api S) h c = Inr lb \<Longrightarrow> lb_Tags lb = tags"
  shows "post (syncServiceTags S (synced_service (sc_sdk S) tags svc)) h
    (\<lambda>r es. \<forall>ns name p out. (PatchService ns name p, out) \<notin> set es)"
  unfolding syncServiceTags_def NewServicePatcher_def Let_def
  by (auto simp: post_ret post_lift post_invoke tags synced_service_again [OF assms(1)] empty
      intro!: post_catch post_mono [OF Patch_unchanged] split: sum.split prod.split)

text \<open>
  C17: a synchronised object is settled up to the order of its taints, in whatever order the map
  of taints is visited each time.  Synchronising a node again with the same tags patches it only
  if it has at least two taints, and the patch is then the one that reorders its taints and
  changes nothing else; synchronising a service again with the same tags does not patch it.  The
  patch between equal objects is empty.
\<close>

theorem sync_settles:
  assumes "distinct (gm_keys (node_Labels node))" "distinct (gm_keys (svc_Labels svc))"
    and "\<And>ks. mset (ord ks) = mset ks" "\<And>now ks. mset (sc_taint_order S now ks) = mset ks"
    and "\<And>s p. kube_MergePatchNode (sc_clientSet S) s s = Inr p \<Longrightarrow> p = ''{}''"
      "\<And>s p. kube_MergePatchService (sc_clientSet S) s s = Inr p \<Longrightarrow> p = ''{}''"
    and "\<And>h c server. ia_GetServer (sc_instanceAPI S) h c = Inr server \<Longrightarrow> is_Tags server = tags"
    and "\<And>h c lb. api_GetLB (sc_api S) h c = Inr lb \<Longrightarrow> lb_Tags lb = lbtags"
  shows "post (syncNodeTags S (synced_node (sc_sdk S) ord tags node)) h (\<lambda>r es.
      \<forall>name p out. (PatchNode name p, out) \<in> set es \<longrightarrow>
        name = node_Name node \<and> 2 \<le> length (node_Taints (synced_node (sc_sdk S) ord tags node))
        \<and> (\<exists>ts s s'. mset ts = mset (node_Taints (synced_node (sc_sdk S) ord tags node))
            \<and> kube_Marshal (sc_clientSet S) (NodeObject (synced_node (sc_sdk S) ord tags node)) = Inr s
            \<and> kube_Marshal (sc_clientSet S)
                (NodeObject (synced_node (sc_sdk S) ord tags node\<lparr>node_Taints := ts\<rparr>)) = Inr s'
            \<and> kube_MergePatchNode (sc_clientSet S) s s' = Inr p))
    \<and> post (syncServiceTags S (synced_service (sc_sdk S) lbtags svc)) h
      (\<lambda>r es. \<forall>ns name p out. (PatchService ns name p, out) \<notin> set es)"
  by (intro conjI syncNodeTags_again syncServiceTags_again) (fact assms)+

definition sample_tags :: "string list" where
  "sample_tags = [''a=b'', ''taint=a:NoSchedule'', ''taint=b:NoSchedule'']"

definition sample_indexer :: indexer where
  "sample_indexer = \<lparr>ix_GetByKey = (\<lambda>k. Inr (Some (NodeObject sample_node))), ix_List = [NodeObject sample_node]\<rparr>"

definition sample_sync :: syncController where
  "sample_sync = \<lparr>sc_sdk = sample_sdk, sc_api = sample_api,
     sc_instanceAPI = \<lparr>ia_Zones = [''fr-par-1''], ia_ListServers = (\<lambda>h c. Inr []),
       ia_GetServer = (\<lambda>h c. Inr (sample_instance\<lparr>is_Tags := sample_tags\<rparr>))\<rparr>,
     sc_clientSet = sample_kube, sc_nodeIndexer = sample_indexer, sc_serviceIndexer = sample_indexer,
     sc_taint_order = (\<lambda>now. if length now mod 2 = 0 then sort else rev)\<rparr>"

theorem sync_settles_witness:
  "post (syncNodeTags sample_sync (synced_node (sc_sdk sample_sync) rev sample_tags sample_node)) [] (\<lambda>r es.
      \<forall>name p out. (PatchNode name p, out) \<in> set es \<longrightarrow>
        name = node_Name sample_node \<and> 2 \<le> length (node_Taints (synced_node (sc_sdk sample_sync) rev sample_tags sample_node))
        \<and> (\<exists>ts s s'. mset ts = mset (node_Taints (synced_node (sc_sdk sample_sync) rev sample_tags sample_node))
            \<and> kube_Marshal (sc_clientSet sample_sync) (NodeObject (synced_node (sc_sdk sample_sync) rev sample_tags sample_node)) = Inr s
            \<and> kube_Marshal (sc_clientSet sample_sync)
                (NodeObject (synced_node (sc_sdk sample_sync) rev sample_tags sample_node\<lparr>node_Taints := ts\<rparr>)) = Inr s'
            \<and> kube_MergePatchNode (sc_clientSet sample_sync) s s' = Inr p))
    \<and> post (syncServiceTags sample_sync (synced_service (sc_sdk sample_sync) (lb_Tags sample_lb) sample_service)) []
      (\<lambda>r es. \<forall>ns name p out. (PatchService ns name p, out) \<notin> set es)"
  by (rule sync_settles)
    (auto simp: sample_sync_def sample_node_def sample_service_def sample_kube_def sample_api_def)

text \<open>
  The order of a Go map is not fixed, and the list of taints is written in it: after a change
  of order the same tags give the same taints in another order, and the settled node differs
  from the wanted one.
\<close>

lemma sync_order_matters:
  "\<exists>tags ord ord'. (\<forall>ks. mset (ord ks) = mset ks) \<and> (\<forall>ks. mset (ord' ks) = mset ks)
     \<and> (let once = synced_node sample_sdk ord tags sample_node;
            twice = synced_node sample_sdk ord' tags once in
        set (node_Taints twice) = set (node_Taints once) \<and> node_Taints twice \<noteq> node_Taints once)"
proof -
  let ?tags = "[''taint=a:NoSchedule'', ''taint=b:NoSchedule'']"
  let ?A = "\<lparr>taint_Key = labelsPrefix @ ''a'', taint_Value = '''', taint_Effect = ''NoSchedule'', taint_TimeAdded = None\<rparr>"
  let ?B = "\<lparr>taint_Key = labelsPrefix @ ''b'', taint_Value = '''', taint_Effect = ''NoSchedule'', taint_TimeAdded = None\<rparr>"
  let ?m = "[(labelsPrefix @ ''a:NoSchedule'', ?A), (labelsPrefix @ ''b:NoSchedule'', ?B)]"
  have parse: "tagTaintParser sample_sdk ''taint=a:NoSchedule'' = (labelsPrefix @ ''a'', '''', ''NoSchedule'')"
      "tagTaintParser sample_sdk ''taint=b:NoSchedule'' = (labelsPrefix @ ''b'', '''', ''NoSchedule'')"
    by (simp_all add: tagTaintParser_def tagLabelParser_def tag_prefix_def splitRegexp.simps Let_def
        strings_HasPrefix_def strings_TrimPrefix_def labelTaintPrefix_def labelNoPrefix_def
        strings_Split_char is_sep_def qualifiedName_def qnameExtChar_def qnameChar_def is_digit_def
        is_lower_def qualifiedNameMaxLength_def v1_TaintEffectNoExecute_def v1_TaintEffectNoSchedule_def)
  have m: "synced_taints sample_sdk ?tags taints = ?m" if "taints = [] \<or> taints = [?A, ?B]" for taints
    using that by (auto simp: synced_taints_def add_taint_def parse strings_HasPrefix_def labelTaintPrefix_def
        taint_key_def labelsPrefix_def)
  have once: "node_Taints (synced_node sample_sdk id ?tags sample_node) = [?A, ?B]"
    by (simp add: synced_node_Taints sample_node_def m List.map_filter_def)
  have "node_Taints (synced_node sample_sdk rev ?tags (synced_node sample_sdk id ?tags sample_node)) = [?B, ?A]"
    by (simp add: synced_node_Taints [of sample_sdk rev] once m List.map_filter_def)
  with once have "let once = synced_node sample_sdk id ?tags sample_node;
      twice = synced_node sample_sdk rev ?tags once in
    set (node_Taints twice) = set (node_Taints once) \<and> node_Taints twice \<noteq> node_Taints once"
    by (simp add: Let_def insert_commute)
  then show ?thesis
    by (intro exI [of _ ?tags] exI [of _ id] exI [of _ rev]) simp
qed

end
