(* ===== verification/Queue.thy ===== *)
theory Queue
  imports SyncLaws
begin

text \<open>
  The queue of \<open>scaleway/sync.go\<close> as a state machine: its steps are the rounds of the loop, the
  additions by the informer and the passing of time for the other components, which make calls
  of their own.  The work queue is a parameter with the documented behaviour of its counters.
\<close>

section \<open>The counters of a rate limited queue\<close>

text \<open>
  \<open>NumRequeues\<close> counts the uses of \<open>AddRateLimited\<close> since the last \<open>Forget\<close> of a key; the other
  operations do not change it.
\<close>

definition rate_limited :: "'q workqueue \<Rightarrow> bool" where
  "rate_limited Q \<longleftrightarrow> (\<forall>q key k.
     wq_NumRequeues Q (snd (wq_Get Q q)) k = wq_NumRequeues Q q k
   \<and> wq_NumRequeues Q (wq_Add Q key q) k = wq_NumRequeues Q q k
   \<and> wq_NumRequeues Q (wq_Done Q key q) k = wq_NumRequeues Q q k
   \<and> wq_NumRequeues Q (wq_AddRateLimited Q key q) k =
       (if k = key then Suc (wq_NumRequeues Q q k) else wq_NumRequeues Q q k)
   \<and> wq_NumRequeues Q (wq_Forget Q key q) k = (if k = key then 0 else wq_NumRequeues Q q k))"

lemma rate_limitedD:
  assumes "rate_limited Q"
  shows "wq_Get Q q = (r, q') \<Longrightarrow> wq_NumRequeues Q q' k = wq_NumRequeues Q q k"
    "wq_NumRequeues Q (wq_Add Q key q) k = wq_NumRequeues Q q k"
    "wq_NumRequeues Q (wq_Done Q key q) k = wq_NumRequeues Q q k"
    "wq_NumRequeues Q (wq_AddRateLimited Q key q) k =
       (if k = key then Suc (wq_NumRequeues Q q k) else wq_NumRequeues Q q k)"
    "wq_NumRequeues Q (wq_Forget Q key q) k = (if k = key then 0 else wq_NumRequeues Q q k)"
  using assms unfolding rate_limited_def by (metis snd_conv)+

section \<open>Steps\<close>

inductive queue_step :: "syncController \<Rightarrow> 'q workqueue \<Rightarrow> hist \<times> 'q \<Rightarrow> hist \<times> 'q \<Rightarrow> bool"
  for S :: syncController and Q :: "'q workqueue" where
  round: "processNextActionItem S Q st = (Inr next', st') \<Longrightarrow> queue_step S Q st st'"
| informer: "queue_step S Q (h, q) (h, AddFunc Q obj q)"
| elsewhere: "queue_step S Q (h, q) (h @ es, q)"

inductive queue_reach :: "syncController \<Rightarrow> 'q workqueue \<Rightarrow> hist \<times> 'q \<Rightarrow> hist \<times> 'q \<Rightarrow> bool"
  for S :: syncController and Q :: "'q workqueue" and st0 :: "hist \<times> 'q" where
  start: "queue_reach S Q st0 st0"
| step: "queue_reach S Q st0 st \<Longrightarrow> queue_step S Q st st' \<Longrightarrow> queue_reach S Q st0 st'"

inductive_simps queue_step_simps: "queue_step S Q (h, q) (h', q')"

text \<open>What a round does to the counters, by the outcome of handling the key.\<close>

lemma round_counters:
  assumes Q: "rate_limited Q" and round: "processNextActionItem S Q (h, q) = (r, h', q')"
  shows "case wq_Get Q q of
      (None, _) \<Rightarrow> r = Inr False \<and> h' = h \<and> (\<forall>k. wq_NumRequeues Q q' k = wq_NumRequeues Q q k)
    | (Some key, _) \<Rightarrow> h' = snd (handleAction S key h)
        \<and> (\<forall>k. k \<noteq> key \<longrightarrow> wq_NumRequeues Q q' k = wq_NumRequeues Q q k)
        \<and> (case fst (handleAction S key h) of
             Inl (GoPanic m) \<Rightarrow> r = Inl (GoPanic m) \<and> wq_NumRequeues Q q' key = wq_NumRequeues Q q key
           | Inl _ \<Rightarrow> r = Inr True \<and> wq_NumRequeues Q q' key =
               (if wq_NumRequeues Q q key < 30 then Suc (wq_NumRequeues Q q key) else 0)
           | Inr _ \<Rightarrow> r = Inr True \<and> wq_NumRequeues Q q' key = 0)"
proof (cases "wq_Get Q q")
  case (Pair got q1)
  note get = rate_limitedD(1) [OF Q Pair]
  note counters = rate_limitedD(2-5) [OF Q]
  show ?thesis
  proof (cases got)
    case None
    then show ?thesis
      using round Pair get by (auto simp: processNextActionItem_def)
  next
    case (Some key)
    obtain res h1 where handle: "handleAction S key h = (res, h1)" by (cases "handleAction S key h")
    show ?thesis
    proof (cases res)
      case (Inr u)
      then show ?thesis
        using round Pair Some handle get by (auto simp: processNextActionItem_def counters)
    next
      case (Inl e)
      then show ?thesis
        using round Pair Some handle get
        by (cases e) (auto simp: processNextActionItem_def counters exponentialMaxRetries_def split: if_splits)
    qed
  qed
qed

lemma round_bounded:
  assumes "rate_limited Q" "processNextActionItem S Q (h, q) = (r, h', q')" "wq_NumRequeues Q q k \<le> 30"
  shows "wq_NumRequeues Q q' k \<le> 30"
proof (cases "wq_Get Q q")
  case (Pair got q1)
  then show ?thesis
    using round_counters [OF assms(1,2)] assms(3)
    by (cases got; cases "fst (handleAction S (the got) h)"; cases "k = the got")
      (auto split: err.splits if_splits)
qed

text \<open>
  C12: in every state that the queue reaches from one where nothing was retried, whatever the
  services answer and whatever is added, no key has been retried more than 30 times.
\<close>

theorem retries_bounded:
  assumes "rate_limited Q" and "queue_reach S Q (h0, q0) (h, q)"
    and "\<And>k. wq_NumRequeues Q q0 k = 0"
  shows "wq_NumRequeues Q q key \<le> 30"
  using assms(2)
proof (induction "(h, q)" arbitrary: h q rule: queue_reach.induct)
  case start
  then show ?case using assms(3) by simp
next
  case (step st)
  obtain h1 q1 where st: "st = (h1, q1)" by (cases st)
  have IH: "wq_NumRequeues Q q1 key \<le> 30" using step st by simp
  from step(3) show ?case
    unfolding st queue_step_simps
    using IH round_bounded [OF assms(1)] rate_limitedD(2) [OF assms(1)]
    by (auto simp: AddFunc_def split: kube_object.split)
qed

section \<open>What the loop is meant to do\<close>

text \<open>
  One round, written from the queue and the handler: the next key is handled; it is forgotten when
  that succeeds, or fails for the last time, and put back to be retried while it has retries left;
  and it is marked as done.
\<close>

inductive queue_round :: "syncController \<Rightarrow> 'q workqueue \<Rightarrow> hist \<times> 'q \<Rightarrow> hist \<times> 'q \<Rightarrow> bool"
  for S :: syncController and Q :: "'q workqueue" where
  handled: "wq_Get Q q = (Some key, q') \<Longrightarrow> handleAction S key h = (Inr (), h') \<Longrightarrow>
    queue_round S Q (h, q) (h', wq_Done Q key (wq_Forget Q key q'))"
| retried: "wq_Get Q q = (Some key, q') \<Longrightarrow> handleAction S key h = (Inl e, h') \<Longrightarrow> \<forall>m. e \<noteq> GoPanic m \<Longrightarrow>
    wq_NumRequeues Q q' key < 30 \<Longrightarrow>
    queue_round S Q (h, q) (h', wq_Done Q key (wq_AddRateLimited Q key q'))"
| given_up: "wq_Get Q q = (Some key, q') \<Longrightarrow> handleAction S key h = (Inl e, h') \<Longrightarrow> \<forall>m. e \<noteq> GoPanic m \<Longrightarrow>
    30 \<le> wq_NumRequeues Q q' key \<Longrightarrow>
    queue_round S Q (h, q) (h', wq_Done Q key (wq_Forget Q key q'))"

inductive_cases queue_roundE: "queue_round S Q (h, q) st'"

text \<open>The end of the loop: the queue is shut down, or the handler panics.\<close>

inductive queue_end ::
    "syncController \<Rightarrow> 'q workqueue \<Rightarrow> hist \<times> 'q \<Rightarrow> (err + unit) \<times> hist \<times> 'q \<Rightarrow> bool"
  for S :: syncController and Q :: "'q workqueue" where
  shut_down: "wq_Get Q q = (None, q') \<Longrightarrow> queue_end S Q (h, q) (Inr (), h, q')"
| panics: "wq_Get Q q = (Some key, q') \<Longrightarrow> handleAction S key h = (Inl (GoPanic m), h') \<Longrightarrow>
    queue_end S Q (h, q) (Inl (GoPanic m), h', wq_Done Q key q')"

inductive_cases queue_endE: "queue_end S Q (h, q) r"

text \<open>The program of a round takes exactly these steps.\<close>

lemma process_round: "processNextActionItem S Q st = (Inr True, st') \<longleftrightarrow> queue_round S Q st st'"
proof (cases st)
  case (Pair h q)
  show ?thesis
  proof
    assume "processNextActionItem S Q st = (Inr True, st')"
    then show "queue_round S Q st st'"
      by (auto simp: Pair processNextActionItem_def exponentialMaxRetries_def
          split: prod.splits option.splits sum.splits err.splits if_splits
          intro: handled retried given_up)
  next
    assume "queue_round S Q st st'"
    then show "processNextActionItem S Q st = (Inr True, st')"
      unfolding Pair
      by (elim queue_roundE; auto simp: processNextActionItem_def exponentialMaxRetries_def split: err.split)
  qed
qed

lemma process_end:
  "queue_end S Q st (Inr (), st') \<longleftrightarrow> processNextActionItem S Q st = (Inr False, st')"
  "queue_end S Q st (Inl e, st') \<longleftrightarrow> processNextActionItem S Q st = (Inl e, st')"
proof -
  obtain h q where st: "st = (h, q)" by (cases st)
  show "queue_end S Q st (Inr (), st') \<longleftrightarrow> processNextActionItem S Q st = (Inr False, st')"
    unfolding st
    by (auto simp: processNextActionItem_def elim!: queue_endE
        split: prod.splits option.splits sum.splits err.splits if_splits intro: shut_down)
  show "queue_end S Q st (Inl e, st') \<longleftrightarrow> processNextActionItem S Q st = (Inl e, st')"
    unfolding st
    by (auto simp: processNextActionItem_def elim!: queue_endE
        split: prod.splits option.splits sum.splits err.splits if_splits intro: panics)
qed

lemma loop_step: "queue_round S Q st st1 \<Longrightarrow> runSyncQueue S Q st = runSyncQueue S Q st1"
  by (subst runSyncQueue.simps) (simp add: process_round [symmetric])

lemma loop_end: "queue_end S Q st r \<Longrightarrow> runSyncQueue S Q st = Some r"
  by (subst runSyncQueue.simps) (cases r; cases "fst r"; auto simp: process_end)

lemma loop_rounds: "(queue_round S Q)\<^sup>*\<^sup>* st st1 \<Longrightarrow> runSyncQueue S Q st = runSyncQueue S Q st1"
  by (induction rule: rtranclp_induct) (simp_all add: loop_step)

lemma loop_returns:
  assumes ret: "runSyncQueue S Q st = Some r"
  shows "\<exists>st1. (queue_round S Q)\<^sup>*\<^sup>* st st1 \<and> queue_end S Q st1 r"
proof (rule runSyncQueue.raw_induct [where P = "\<lambda>S Q st r.
      \<exists>st1. (queue_round S Q)\<^sup>*\<^sup>* st st1 \<and> queue_end S Q st1 r", OF _ ret])
  fix f :: "syncController \<Rightarrow> 'a workqueue \<Rightarrow> hist \<times> 'a \<Rightarrow> ((err + unit) \<times> hist \<times> 'a) option" and S Q st r
  assume IH: "\<And>S Q st r. f S Q st = Some r \<Longrightarrow> \<exists>st1. (queue_round S Q)\<^sup>*\<^sup>* st st1 \<and> queue_end S Q st1 r"
    and eq: "(case processNextActionItem S Q st of (Inl e, st') \<Rightarrow> Some (Inl e, st')
      | (Inr next', st') \<Rightarrow> if next' then f S Q st' else Some (Inr (), st')) = Some r"
  show "\<exists>st1. (queue_round S Q)\<^sup>*\<^sup>* st st1 \<and> queue_end S Q st1 r"
  proof (cases "\<exists>st'. processNextActionItem S Q st = (Inr True, st')")
    case True
    then obtain st' where st': "processNextActionItem S Q st = (Inr True, st')" by blast
    with eq have "f S Q st' = Some r" by simp
    from IH [OF this] st' show ?thesis
      unfolding process_round by (blast intro: converse_rtranclp_into_rtranclp)
  next
    case False
    with eq have "queue_end S Q st r"
      by (auto simp: process_end split: prod.splits sum.splits if_splits)
    then show ?thesis by blast
  qed
qed

text \<open>
  C29: the loop of the queue returns a result exactly when, after some rounds, each of which gets
  a key, handles it and retries or forgets it, the queue is shut down or the handler panics: in
  the first case it returns without an error, in the second with the panic, and in the state
  reached.  An error of the handler that is not a panic never ends it.
\<close>

theorem runSyncQueue_ends:
  "runSyncQueue S Q st = Some r \<longleftrightarrow> (\<exists>st1. (queue_round S Q)\<^sup>*\<^sup>* st st1 \<and> queue_end S Q st1 r)"
  using loop_returns loop_rounds loop_end by metis

section \<open>Runs of the loop\<close>

text \<open>The state after that many rounds that all ask for another one.\<close>

fun rounds :: "syncController \<Rightarrow> 'q workqueue \<Rightarrow> nat \<Rightarrow> hist \<times> 'q \<Rightarrow> (hist \<times> 'q) option" where
  "rounds S Q 0 st = Some st"
| "rounds S Q (Suc n) st =
     (case processNextActionItem S Q st of
        (Inr next', st') \<Rightarrow> if next' then rounds S Q n st' else None
      | (Inl _, _) \<Rightarrow> None)"

text \<open>A handler that always fails, without a panic.\<close>

definition always_fails :: "syncController \<Rightarrow> string \<Rightarrow> bool" where
  "always_fails S key \<longleftrightarrow> (\<forall>h. \<exists>e h'. handleAction S key h = (Inl e, h') \<and> (\<forall>m. e \<noteq> GoPanic m))"

lemma failing_round:
  assumes "rate_limited Q" "always_fails S key" "wq_Get Q q = (Some key, q1)"
  shows "\<exists>h' q'. processNextActionItem S Q (h, q) = (Inr True, h', q')
    \<and> wq_NumRequeues Q q' key = (if wq_NumRequeues Q q key < 30 then Suc (wq_NumRequeues Q q key) else 0)"
proof -
  obtain e h1 where h: "handleAction S key h = (Inl e, h1)" "\<And>m. e \<noteq> GoPanic m"
    using assms(2) unfolding always_fails_def by blast
  obtain r h' q' where p: "processNextActionItem S Q (h, q) = (r, h', q')" by (metis surj_pair)
  show ?thesis
    using round_counters [OF assms(1) p] h p by (cases e) (auto simp: assms(3))
qed

text \<open>
  C28: a node that cannot be synchronised is given up: when the queue keeps giving its key and
  handling it always fails, it is handled once and retried until the 30 retries are used up, and
  then forgotten, so that the next time it is added it starts again from zero.
\<close>

theorem gives_up:
  assumes "rate_limited Q" "always_fails S key"
    and get: "\<And>q. fst (wq_Get Q q) = Some key"
    and "wq_NumRequeues Q q key \<le> 30"
  shows "\<exists>h' q'. rounds S Q (31 - wq_NumRequeues Q q key) (h, q) = Some (h', q') \<and> wq_NumRequeues Q q' key = 0"
proof -
  have "\<exists>h' q'. rounds S Q (Suc n) (h, q) = Some (h', q') \<and> wq_NumRequeues Q q' key = 0"
    if "wq_NumRequeues Q q key = 30 - n" "n \<le> 30" for n h q
    using that
  proof (induction n arbitrary: h q)
    case 0
    have "wq_Get Q q = (Some key, snd (wq_Get Q q))" using get [of q] by (simp add: prod_eq_iff)
    from failing_round [OF assms(1,2) this, of h] 0 show ?case by auto
  next
    case (Suc n)
    have got: "wq_Get Q q = (Some key, snd (wq_Get Q q))" using get [of q] by (simp add: prod_eq_iff)
    from failing_round [OF assms(1,2) got, of h] Suc.prems obtain h1 q1 where
      r: "processNextActionItem S Q (h, q) = (Inr True, h1, q1)"
        "wq_NumRequeues Q q1 key = (if wq_NumRequeues Q q key < 30 then Suc (wq_NumRequeues Q q key) else 0)"
      by blast
    have "wq_NumRequeues Q q1 key = 30 - n" using r(2) Suc.prems by simp linarith
    note r = r(1) this
    from Suc.IH [OF r(2)] Suc.prems(2) have
      "\<exists>h' q'. rounds S Q (Suc n) (h1, q1) = Some (h', q') \<and> wq_NumRequeues Q q' key = 0" by simp
    with r(1) show ?case by simp
  qed
  moreover have "31 - wq_NumRequeues Q q key = Suc (30 - wq_NumRequeues Q q key)" using assms(4) by simp
  ultimately show ?thesis using assms(4) by (metis diff_diff_cancel diff_le_self)
qed

section \<open>A concrete queue\<close>

text \<open>A queue that always gives the node \<open>n\<close> and counts its retries, and a cache that fails.\<close>

definition sample_queue :: "(string \<Rightarrow> nat) workqueue" where
  "sample_queue = \<lparr>wq_Get = (\<lambda>q. (Some ''n'', q)), wq_Add = (\<lambda>k q. q), wq_Done = (\<lambda>k q. q),
     wq_NumRequeues = (\<lambda>q k. q k),
     wq_AddRateLimited = (\<lambda>k q. q(k := Suc (q k))),
     wq_Forget = (\<lambda>k q. q(k := 0))\<rparr>"

lemma sample_queue_limited: "rate_limited sample_queue"
  by (simp add: rate_limited_def sample_queue_def)

lemma broken_sync_fails: "always_fails (sample_sync\<lparr>sc_nodeIndexer := \<lparr>ix_GetByKey = (\<lambda>k. Inl (LibErr ''cache'')), ix_List = []\<rparr>\<rparr>) key"
  unfolding always_fails_def handleAction_def by simp (simp add: failA_def)

lemma sample_queue_reach:
  "queue_reach sample_sync sample_queue ([], \<lambda>_. 0)
     ([], AddFunc sample_queue (NodeObject sample_node) (\<lambda>_. 0))"
  by (rule queue_reach.step [OF queue_reach.start queue_step.informer])

theorem retries_bounded_witness:
  "wq_NumRequeues sample_queue (AddFunc sample_queue (NodeObject sample_node) (\<lambda>_. 0)) ''n'' \<le> 30"
  by (rule retries_bounded [OF sample_queue_limited sample_queue_reach]) (simp add: sample_queue_def)

theorem gives_up_witness:
  "\<exists>h' q'. rounds (sample_sync\<lparr>sc_nodeIndexer := \<lparr>ix_GetByKey = (\<lambda>k. Inl (LibErr ''cache'')), ix_List = []\<rparr>\<rparr>)
      sample_queue (31 - wq_NumRequeues sample_queue (\<lambda>_. 2) ''n'') ([], \<lambda>_. 2) = Some (h', q')
    \<and> wq_NumRequeues sample_queue q' ''n'' = 0"
  by (rule gives_up [OF sample_queue_limited broken_sync_fails]) (simp_all add: sample_queue_def)

end
