(* ===== verification/Cloud.thy ===== *)
theory Cloud
  imports Nodes Lifecycle Sync
begin

text \<open>
  \<open>scaleway/cloud.go\<close>, \<open>scaleway/logger.go\<close> and the initialiser of
  \<open>cmd/scaleway-cloud-controller-manager/main.go\<close>: the construction of the cloud provider from
  the environment and the interfaces it offers.

  A Go interface is not only nil or a value: it may hold a nil pointer, and then it is different
  from nil.  The three cases are the constructors of \<open>iface\<close>.
\<close>

section \<open>Interfaces\<close>

datatype 'a iface = NilInterface | NilPointer | Holds 'a

definition not_nil :: "'a iface \<Rightarrow> bool" where
  "not_nil i = (case i of NilInterface \<Rightarrow> False | _ \<Rightarrow> True)"

text \<open>The conversion of a pointer, which may be nil, to an interface.\<close>

definition of_pointer :: "'a option \<Rightarrow> 'a iface" where
  "of_pointer p = (case p of None \<Rightarrow> NilPointer | Some x \<Rightarrow> Holds x)"

section \<open>Construction\<close>

definition instancesInterfaceName :: string where
  "instancesInterfaceName = ''instances''"

definition loadBalancerInterfaceName :: string where
  "loadBalancerInterfaceName = ''loadbalancer''"

definition zonesInterfaceName :: string where
  "zonesInterfaceName = ''zones''"

text \<open>The environment variables and the variables that the linker sets.\<close>

record cloud_env =
  ce_ccmVersion :: string
  ce_gitCommit :: string
  ce_EXTRA_USER_AGENT :: string
  ce_PN_ID :: string
  ce_LB_DEFAULT_TYPE :: string
  ce_DISABLE_INTERFACES :: string
  ce_DISABLE_TAGS_SYNC :: string
  ce_env :: env

record cloud =
  c_client :: client
  c_instances :: "Servers iface"
  c_instancesV2 :: "Servers iface"
  c_zones :: "zones iface"
  c_loadbalancers :: "loadbalancers iface"
  c_syncController :: "syncController option"

definition userAgent :: "cloud_env \<Rightarrow> string" where
  "userAgent E =
     (let ua = ''scaleway/ccm '' @ ce_ccmVersion E @ '' ('' @ ce_gitCommit E @ '')'' in
      if ce_EXTRA_USER_AGENT E \<noteq> '''' then ua @ '' '' @ ce_EXTRA_USER_AGENT E else ua)"

text \<open>
  The loop over the names in \<open>DISABLE_INTERFACES\<close>.  The variable of the instances is an
  interface; those of the load balancers and of the zones are pointers.
\<close>

fun disable_interfaces ::
    "string list \<Rightarrow> Servers iface \<times> loadbalancers option \<times> zones option \<Rightarrow>
     Servers iface \<times> loadbalancers option \<times> zones option" where
  "disable_interfaces [] vars = vars"
| "disable_interfaces (name # names) (instances, loadbalancers, zones) =
     disable_interfaces names
       (let low = strings_ToLower name in
        if low = instancesInterfaceName then (NilInterface, loadbalancers, zones)
        else if low = loadBalancerInterfaceName then (instances, None, zones)
        else if low = zonesInterfaceName then (instances, loadbalancers, None)
        else (instances, loadbalancers, zones))"

text \<open>
  \<open>scw_NewClient\<close> is the SDK's constructor, from the user agent; \<open>K\<close> is the Kubernetes client
  that \<open>Initialize\<close> stores in the client, which the load balancers read through their pointer to
  it.
\<close>

definition newCloud ::
    "(string \<Rightarrow> err + scaleway_client) \<Rightarrow> kube \<Rightarrow> cloud_env \<Rightarrow> err + cloud" where
  "newCloud scw_NewClient K E =
     rbind (scw_NewClient (userAgent E)) (\<lambda>scwClient.
       if scw_DefaultRegion scwClient = None then Inl (LibErr ''region is required'')
       else
         let client = newClient scwClient;
             instancesInterface = newServers client (ce_PN_ID E);
             loadbalancerInterface = newLoadbalancers (scw_sdk scwClient) (ce_env E) K (scw_lb scwClient)
               (ce_LB_DEFAULT_TYPE E) (ce_PN_ID E);
             zonesInterface = newZones client (ce_PN_ID E) in
         (case disable_interfaces (strings_Split (ce_DISABLE_INTERFACES E) '','')
                 (Holds instancesInterface, Some loadbalancerInterface, Some zonesInterface) of
            (instances, loadbalancers, zones) \<Rightarrow>
              Inr \<lparr>c_client = client, c_instances = instances, c_instancesV2 = instances,
                   c_zones = of_pointer zones, c_loadbalancers = of_pointer loadbalancers,
                   c_syncController = None\<rparr>))"

definition newSyncController ::
    "client \<Rightarrow> kube \<Rightarrow> indexer \<Rightarrow> indexer \<Rightarrow> (hist \<Rightarrow> string list \<Rightarrow> string list) \<Rightarrow> syncController" where
  "newSyncController client clientset nodeIndexer serviceIndexer ord =
     (let scw = client_scaleway client in
      \<lparr>sc_sdk = scw_sdk scw, sc_api = scw_lb scw, sc_instanceAPI = scw_instance scw,
       sc_clientSet = clientset, sc_nodeIndexer = nodeIndexer, sc_serviceIndexer = serviceIndexer,
       sc_taint_order = ord\<rparr>)"

definition Initialize ::
    "cloud_env \<Rightarrow> kube \<Rightarrow> indexer \<Rightarrow> indexer \<Rightarrow> (hist \<Rightarrow> string list \<Rightarrow> string list) \<Rightarrow> cloud \<Rightarrow> cloud" where
  "Initialize E K nodeIndexer serviceIndexer ord c =
     (let c' = c\<lparr>c_client := (c_client c)\<lparr>client_kubernetes := Some K\<rparr>\<rparr> in
      if ce_DISABLE_TAGS_SYNC E = ''''
      then c'\<lparr>c_syncController := Some (newSyncController (c_client c') K nodeIndexer serviceIndexer ord)\<rparr>
      else c')"

section \<open>The interfaces offered\<close>

definition LoadBalancer :: "cloud \<Rightarrow> loadbalancers iface \<times> bool" where
  "LoadBalancer c = (c_loadbalancers c, not_nil (c_loadbalancers c))"

definition Instances :: "cloud \<Rightarrow> Servers iface \<times> bool" where
  "Instances c = (c_instances c, not_nil (c_instances c))"

definition InstancesV2 :: "cloud \<Rightarrow> Servers iface \<times> bool" where
  "InstancesV2 c = (c_instancesV2 c, not_nil (c_instancesV2 c))"

definition Zones :: "cloud \<Rightarrow> zones iface \<times> bool" where
  "Zones c = (c_zones c, not_nil (c_zones c))"

definition Clusters :: "cloud \<Rightarrow> unit iface \<times> bool" where
  "Clusters c = (NilInterface, False)"

definition Routes :: "cloud \<Rightarrow> unit iface \<times> bool" where
  "Routes c = (NilInterface, False)"

definition cloud_ProviderName :: "cloud \<Rightarrow> string" where
  "cloud_ProviderName c = ProviderName"

definition HasClusterID :: "cloud \<Rightarrow> bool" where
  "HasClusterID c = False"

section \<open>The initialiser of the program\<close>

text \<open>
  \<open>InitCloudProvider\<close> finds and calls the registered constructor; \<open>klog.Fatalf\<close> ends the
  program, which is the left case.
\<close>

definition cloudInitializer ::
    "(string \<Rightarrow> err + cloud iface) \<Rightarrow> string \<Rightarrow> bool \<Rightarrow> string + cloud" where
  "cloudInitializer InitCloudProvider name AllowUntaggedCloud =
     (case InitCloudProvider name of
        Inl err \<Rightarrow> Inl ''Cloud provider could not be initialized: %v''
      | Inr i \<Rightarrow>
          (case i of
             NilInterface \<Rightarrow> Inl ''Cloud provider is nil''
           | NilPointer \<Rightarrow> Inl ''nil pointer dereference''
           | Holds cloud \<Rightarrow>
               (if \<not> HasClusterID cloud \<and> \<not> AllowUntaggedCloud
                then Inl ''no ClusterID found'' else Inr cloud)))"

section \<open>Logging\<close>

text \<open>
  The adapter between the loggers of the SDK and of Kubernetes: \<open>V n\<close> tells whether the verbosity
  is at least \<open>n\<close>; the value is what is logged.
\<close>

datatype LogLevel = LogLevelDebug | LogLevelInfo | LogLevelWarning | LogLevelError | LogLevelOther

definition Debugf :: "(nat \<Rightarrow> bool) \<Rightarrow> string \<Rightarrow> string option" where
  "Debugf V msg = (if V 4 then Some msg else None)"

definition Infof :: "(nat \<Rightarrow> bool) \<Rightarrow> string \<Rightarrow> string option" where
  "Infof V msg = (if V 2 then Some msg else None)"

definition Warningf :: "(nat \<Rightarrow> bool) \<Rightarrow> string \<Rightarrow> string option" where
  "Warningf V msg = Some msg"

definition Logger_Errorf :: "(nat \<Rightarrow> bool) \<Rightarrow> string \<Rightarrow> string option" where
  "Logger_Errorf V msg = Some msg"

definition ShouldLog :: "(nat \<Rightarrow> bool) \<Rightarrow> LogLevel \<Rightarrow> bool" where
  "ShouldLog V level =
     (case level of
        LogLevelError \<Rightarrow> True
      | LogLevelWarning \<Rightarrow> True
      | LogLevelInfo \<Rightarrow> V 2
      | LogLevelDebug \<Rightarrow> V 5
      | LogLevelOther \<Rightarrow> True)"

section \<open>Properties\<close>

lemma disable_interfaces_eq:
  "disable_interfaces names (instances, loadbalancers, zones) =
     (if instancesInterfaceName \<in> strings_ToLower ` set names then NilInterface else instances,
      if loadBalancerInterfaceName \<in> strings_ToLower ` set names then None else loadbalancers,
      if zonesInterfaceName \<in> strings_ToLower ` set names then None else zones)"
  by (induction names arbitrary: instances loadbalancers zones)
    (auto simp: Let_def instancesInterfaceName_def loadBalancerInterfaceName_def zonesInterfaceName_def)

text \<open>
  C24: the provider is built exactly when the client is and has a region, and then offers the
  instances unless they are named in \<open>DISABLE_INTERFACES\<close>, in whatever case.  The load balancers
  and the zones are always offered: naming them there makes the interface hold a nil pointer,
  which is not nil.
\<close>

theorem newCloud_interfaces:
  "case newCloud scw_NewClient K E of
     Inl e \<Rightarrow> scw_NewClient (userAgent E) = Inl e \<or>
       (\<exists>cl. scw_NewClient (userAgent E) = Inr cl \<and> scw_DefaultRegion cl = None)
   | Inr c \<Rightarrow>
       (\<exists>cl. scw_NewClient (userAgent E) = Inr cl \<and> scw_DefaultRegion cl \<noteq> None)
       \<and> snd (Instances c) = (''instances'' \<notin> strings_ToLower ` set (splitc CHR '','' (ce_DISABLE_INTERFACES E)))
       \<and> snd (InstancesV2 c) = snd (Instances c)
       \<and> snd (LoadBalancer c) \<and> snd (Zones c)
       \<and> (fst (LoadBalancer c) = NilPointer) =
           (''loadbalancer'' \<in> strings_ToLower ` set (splitc CHR '','' (ce_DISABLE_INTERFACES E)))
       \<and> (fst (Zones c) = NilPointer) =
           (''zones'' \<in> strings_ToLower ` set (splitc CHR '','' (ce_DISABLE_INTERFACES E)))"
  by (cases "scw_NewClient (userAgent E)")
    (auto simp: newCloud_def disable_interfaces_eq Let_def Instances_def InstancesV2_def LoadBalancer_def
      Zones_def not_nil_def of_pointer_def strings_Split_char instancesInterfaceName_def
      loadBalancerInterfaceName_def zonesInterfaceName_def)

text \<open>
  The program starts exactly when the provider is built and clusters without an identifier
  are allowed, since the provider never has one.
\<close>

lemma cloudInitializer_starts:
  "cloudInitializer InitCloudProvider name allow = Inr c \<longleftrightarrow> InitCloudProvider name = Inr (Holds c) \<and> allow"
  by (auto simp: cloudInitializer_def HasClusterID_def split: sum.splits iface.splits)

text \<open>
  What the adapter logs is what it says it would log, except for debug messages at
  verbosity 4, which it logs although \<open>ShouldLog\<close> denies it.
\<close>

lemma logger_agrees:
  "(Infof V msg \<noteq> None) = ShouldLog V LogLevelInfo
   \<and> (Warningf V msg \<noteq> None) = ShouldLog V LogLevelWarning
   \<and> (Logger_Errorf V msg \<noteq> None) = ShouldLog V LogLevelError
   \<and> ((Debugf V msg \<noteq> None) = ShouldLog V LogLevelDebug) = (V 4 = V 5)"
  by (auto simp: Infof_def Warningf_def Logger_Errorf_def Debugf_def ShouldLog_def)

end
