(* ===== verification/Spec2Isabelle.thy ===== *)
theory Spec2Isabelle
  imports LifecycleLaws Perform NodeLaws SyncLaws Queue Cloud
begin

text \<open>
  Verification of the Scaleway cloud controller manager (Go package \<open>scaleway\<close>).

  The program is a Kubernetes cloud provider.  For each service of type load balancer it finds,
  creates, updates and deletes a load balancer of the Scaleway API; for each node it reports
  identity, addresses, zone, existence and shutdown from the Instance and Bare Metal APIs; and it
  copies the tags of instances and load balancers to labels and taints.  It keeps no state of its
  own besides caches and a work queue: each operation reads the services, compares with what is
  wanted and makes calls.  The properties are therefore about what is computed from what was
  read, which calls may follow, in which order, and what is reported.

  \<^bold>\<open>How the program is modelled.\<close>  A function without effects is a HOL function.  A function
  that calls a service is an \<open>'a act\<close> (theory \<open>Effects\<close>): from the history of calls made so far to
  a result, which is an error or a value, and the extended history.  What a service answers is an
  arbitrary function of the history and the call (record \<open>api\<close> and its like), so every behaviour
  of the services, with every failure of every call, is covered.  Errors are values of \<open>err\<close>
  (\<open>errors.go\<close>); a nil dereference is the error \<open>GoPanic\<close>.  32-bit integers are words, Go maps are
  association lists, slices whose nil value can be observed are options.  Where Go leaves the
  order of a map open, the order is a parameter (\<open>map_order\<close>, \<open>sc_taint_order\<close>), which need not be
  the same at two calls.  The current time is a parameter of the operations that read it, one
  instant for all the nodes of a call.

  \<^bold>\<open>Theories.\<close>
  \<^item> \<open>Prelude\<close>: maps, slices, results of fallible functions, the lemma collections.
  \<^item> \<open>GoStrings\<close>, \<open>GoStrconv\<close>, \<open>GoTime\<close>, \<open>GoNet\<close>: what the code uses of Go's standard library
    (\<open>strings\<close>, \<open>strconv\<close>, \<open>time.Duration\<close>, \<open>net.ParseCIDR\<close>), from its documented algorithms.
  \<^item> \<open>Errors\<close>, \<open>Types\<close>: \<open>errors.go\<close>, \<open>utils.go\<close>, the structs of the Kubernetes and Scaleway APIs, and
    the record \<open>sdk\<close> of third-party functions.
  \<^item> \<open>Annotations\<close>, \<open>PortAnnotations\<close>: \<open>loadbalancers_annotations.go\<close>, the getters of one value and
    those with a value per port; \<open>AnnotationLaws\<close>: which annotations and fields each getter reads,
    by interpretation of the locales \<open>annotation_frame\<close> and \<open>annotation_getter\<close>.
  \<^item> \<open>Equality\<close>, \<open>Compare\<close>: the comparison of frontends and backends and the plans of changes; the
    two loops are interpretations of the locale \<open>resource_diff\<close>.  \<open>Converge\<close> extends it to
    \<open>resource_plan\<close>: carrying out a plan gives what was wanted and leaves nothing to do.
    \<open>Settled\<close>: on a load balancer that is as wanted, an update only reads.  \<open>Perform\<close>: a successful
    update has made exactly the changes of its plans, and every port is served by the target
    addresses.
  \<^item> \<open>Convert\<close>: from a service to the wanted frontends and backends (\<open>serviceToLB\<close>), the choice
    and readiness of nodes, static addresses.  \<open>Acl\<close>: \<open>acl.go\<close>.
  \<^item> \<open>Effects\<close>: calls, histories, programs, the judgements \<open>post\<close>, \<open>runs\<close>, \<open>emits\<close>, \<open>strict\<close> and the
    locale \<open>trace_language\<close>, whose rules follow the structure of programs.
  \<^item> \<open>Patcher\<close>: \<open>patcher.go\<close>.  \<open>PrivateNetworks\<close>, \<open>Reconcile\<close>, \<open>Lifecycle\<close>: \<open>loadbalancers.go\<close>, from
    the attachment of private networks and \<open>updateLoadBalancer\<close> to the operations of the
    \<open>LoadBalancer\<close> interface.  \<open>ReconcileLaws\<close>, \<open>LifecycleLaws\<close>: their properties.
  \<^item> \<open>Servers\<close>: \<open>servers.go\<close>, provider identifiers, the interface \<open>Servers\<close> as a record of methods
    with its contract as the locale \<open>servers_provider\<close>, and the dispatch.  \<open>Instances\<close>,
    \<open>Baremetal\<close>: \<open>instances.go\<close> and \<open>baremetal.go\<close>, the two implementations, which interpret the
    contract.  \<open>Nodes\<close>: their composition, \<open>zones.go\<close>, \<open>client.go\<close>.  \<open>NodeLaws\<close>: the properties that
    span them.
  \<^item> \<open>Tags\<close>, \<open>Sync\<close>: \<open>sync.go\<close>, the parsers of tags, the synchronisation of labels and taints, the
    queue.  \<open>SyncLaws\<close>: what a synchronisation leaves and that it settles.  \<open>Queue\<close>: the queue as a
    state machine.
  \<^item> \<open>Cloud\<close>: \<open>cloud.go\<close>, \<open>logger.go\<close> and the initialiser in \<open>main.go\<close>.
  \<^item> \<open>Samples\<close>: concrete services and controllers on which the properties are instantiated.

  \<^bold>\<open>What the properties show.\<close>  The properties of \<open>ReconcileLaws\<close> and \<open>LifecycleLaws\<close> bound what
  the operations on load balancers may call: every call that changes something is about a load
  balancer that was found for the service or created by it, and about the frontends and backends
  of the service on it, in an order in which no backend is deleted while a frontend still uses it,
  with success reported only when every call succeeded.  Those of \<open>Compare\<close> and \<open>Converge\<close> specify the plans of changes and that
  they converge, those of \<open>Perform\<close> that a successful update carries them out and sets the servers, and that of \<open>Settled\<close>
  that the whole update has such a fixed point; those of \<open>Convert\<close> and \<open>Acl\<close> the conversion of
  a service and its access control lists.  Those of \<open>Servers\<close> and \<open>NodeLaws\<close> are about nodes: no
  failure makes a node look deleted, and the identifier of a node is that of a server found for it
  and leads back to it.  Those of \<open>Tags\<close> and
  \<open>SyncLaws\<close> say which labels and taints result from tags, which objects are patched, and that a
  synchronised object stays as it is up to the order of its taints.  Those of \<open>Queue\<close> bound the
  retries and say how rounds follow each other and when and how the loop ends,
  and that of \<open>Cloud\<close> which interfaces are offered.

  \<^bold>\<open>Loops and bounds.\<close>  Loops over slices are structural recursion.  \<open>chunkArray\<close> and
  \<open>runSyncQueue\<close> are partial functions whose value \<open>None\<close> is a run that does not end: the first is
  shown to end for a positive chunk size, and for the second it is shown exactly when it does.
  The only fuel is in \<open>GoNet\<close>: an IPv6 address has at most eight groups.

  \<^bold>\<open>Parameters.\<close>  The Scaleway SDK, apimachinery, the JSON and patch libraries, URL parsing, the
  caches of the informers and the work queue are arguments of the definitions.  What a property
  needs of them is a hypothesis that states documented behaviour (for instance \<open>rate_limited\<close>, or
  that the patch between equal objects is empty), and its witness instantiates them.

  \<^bold>\<open>Not modelled.\<close>  The text of formatted errors beyond the format, and log messages; request
  contexts and their cancellation; the scheduling of the goroutines that \<open>Run\<close> starts and the
  informers, which belong to client-go (each operation is modelled, and the queue as steps
  interleaved with the others); \<open>main\<close>, which only calls the command line library; the block merge that
  \<open>slices.SortStableFunc\<close> uses above 20 elements; nil elements in slices of pointers that the SDK
  returns.
\<close>

end
